(* ===== verification/Operator_Prelude.thy ===== *)
theory Operator_Prelude
  imports Main "HOL-Library.State_Monad"
begin

text \<open>
  What every component shares: Go error values, the effect monad in which the stateful code is
  written, and the rules that carry proofs about it.

  An effectful Go function becomes a value of type \<open>('ev, 'a) io\<close>, a state monad whose state is
  the list of the interactions made so far, oldest first. An interaction with the outside (a call
  of the API server, a file read, a clone) is \<open>call answer mk\<close>: the outside is a function
  \<open>answer\<close> of the whole history, so nothing is assumed about it, and \<open>mk\<close> records the
  interaction together with its answer. Histories only grow, so every run the code can make
  against any server, with any other actor in between, is a run against some such function.
\<close>

section \<open>Error values\<close>

text \<open>
  A Go \<open>error\<close> of the Kubernetes client carries a reason that \<open>IsNotFound\<close>,
  \<open>IsAlreadyExists\<close> and \<open>IsConflict\<close> look up through any chain of \<open>%w\<close> wrappers, and a
  message. \<open>Panicked\<close> is a nil dereference: controller-runtime recovers it into an error, and
  every caller on the way up propagates an error as it would the panic.
\<close>

datatype api_reason = NotFound | AlreadyExists | Conflict | Panicked | OtherReason

datatype go_error = GoError (reason_of: api_reason) (message_of: string)

definition IsNotFound :: "go_error \<Rightarrow> bool" where
  "IsNotFound e \<longleftrightarrow> reason_of e = NotFound"

definition IsAlreadyExists :: "go_error \<Rightarrow> bool" where
  "IsAlreadyExists e \<longleftrightarrow> reason_of e = AlreadyExists"

definition IsConflict :: "go_error \<Rightarrow> bool" where
  "IsConflict e \<longleftrightarrow> reason_of e = Conflict"

definition Errorf :: "string \<Rightarrow> go_error" where
  "Errorf msg = GoError OtherReason msg"

text \<open>\<open>fmt.Errorf("...: %w", err)\<close>: a new message, the reason still visible underneath.\<close>

definition wrapf :: "string \<Rightarrow> go_error \<Rightarrow> go_error" where
  "wrapf msg e = GoError (reason_of e) (msg @ message_of e)"

definition nil_deref :: go_error where
  "nil_deref = GoError Panicked ''invalid memory address or nil pointer dereference''"

lemma reason_of_wrapf [simp]: "reason_of (wrapf msg e) = reason_of e"
  by (simp add: wrapf_def)

lemma IsNotFound_wrapf [simp]: "IsNotFound (wrapf msg e) = IsNotFound e"
  by (simp add: IsNotFound_def)

section \<open>The effect monad\<close>

type_synonym ('ev, 'a) io = "('ev list, 'a) state"

definition ret :: "'a \<Rightarrow> ('ev, 'a) io" where
  "ret a = State_Monad.return a"

definition call :: "('ev list \<Rightarrow> 'r) \<Rightarrow> ('r \<Rightarrow> 'ev) \<Rightarrow> ('ev, 'r) io" where
  "call answer mk = State (\<lambda>tr. let r = answer tr in (r, tr @ [mk r]))"

text \<open>An interaction that answers nothing, or whose answer the code ignores.\<close>

definition emit :: "'ev \<Rightarrow> ('ev, unit) io" where
  "emit e = call (\<lambda>_. ()) (\<lambda>_. e)"

text \<open>A reading of the clock: depends on the moment, leaves no trace.\<close>

definition asks :: "('ev list \<Rightarrow> 'r) \<Rightarrow> ('ev, 'r) io" where
  "asks answer = State (\<lambda>tr. (answer tr, tr))"

definition result :: "('ev, 'a) io \<Rightarrow> 'ev list \<Rightarrow> 'a" where
  "result m tr = fst (run_state m tr)"

text \<open>The interactions a run adds to the history.\<close>

definition events :: "('ev, 'a) io \<Rightarrow> 'ev list \<Rightarrow> 'ev list" where
  "events m tr = drop (length tr) (snd (run_state m tr))"

named_theorems io_simps \<open>running the primitives\<close>

lemma run_ret [io_simps, simp]: "run_state (ret a) tr = (a, tr)"
  by (simp add: ret_def)

lemma run_call [io_simps, simp]: "run_state (call f mk) tr = (f tr, tr @ [mk (f tr)])"
  by (simp add: call_def Let_def)

lemma run_emit [io_simps, simp]: "run_state (emit e) tr = ((), tr @ [e])"
  by (simp add: emit_def)

lemma run_asks [io_simps, simp]: "run_state (asks f) tr = (f tr, tr)"
  by (simp add: asks_def)

lemma result_ret [simp]: "result (ret a) tr = a"
  by (simp add: result_def)

lemma events_ret [simp]: "events (ret a) tr = []"
  by (simp add: events_def)

section \<open>Specifications of actions\<close>

text \<open>
  \<open>emits m \<Phi>\<close>: every run of \<open>m\<close> only appends to the history, and its result and the
  interactions it appends satisfy \<open>\<Phi>\<close>. The rules below are read backwards over the program
  text; \<open>only P m\<close> is the special case of a property of each single interaction.
\<close>

definition emits :: "('ev, 'a) io \<Rightarrow> ('a \<Rightarrow> 'ev list \<Rightarrow> bool) \<Rightarrow> bool" where
  "emits m \<Phi> \<longleftrightarrow> (\<forall>tr. snd (run_state m tr) = tr @ events m tr \<and> \<Phi> (result m tr) (events m tr))"

definition only :: "('ev \<Rightarrow> bool) \<Rightarrow> ('ev, 'a) io \<Rightarrow> bool" where
  "only P m \<longleftrightarrow> emits m (\<lambda>_ es. \<forall>e \<in> set es. P e)"

named_theorems emit_rules \<open>backward rules for specifications of actions\<close>
named_theorems only_rules \<open>backward rules for properties of single interactions\<close>

lemma emitsI:
  assumes "\<And>tr. \<exists>es. run_state m tr = (r tr, tr @ es) \<and> \<Phi> (r tr) es"
  shows "emits m \<Phi>"
  unfolding emits_def
proof
  fix tr
  from assms obtain es where es: "run_state m tr = (r tr, tr @ es)" "\<Phi> (r tr) es"
    by blast
  then have "events m tr = es" "result m tr = r tr"
    by (simp_all add: events_def result_def)
  with es show "snd (run_state m tr) = tr @ events m tr \<and> \<Phi> (result m tr) (events m tr)"
    by simp
qed

lemma emitsD: "emits m \<Phi> \<Longrightarrow> \<Phi> (result m tr) (events m tr)"
  by (simp add: emits_def)

lemma emits_run: "emits m \<Phi> \<Longrightarrow> run_state m tr = (result m tr, tr @ events m tr)"
  by (simp add: emits_def result_def prod_eq_iff)

lemma emits_mono: "emits m \<Phi> \<Longrightarrow> (\<And>a es. \<Phi> a es \<Longrightarrow> \<Psi> a es) \<Longrightarrow> emits m \<Psi>"
  by (simp add: emits_def)

lemma emits_conj: "emits m \<Phi> \<Longrightarrow> emits m \<Psi> \<Longrightarrow> emits m (\<lambda>a es. \<Phi> a es \<and> \<Psi> a es)"
  by (simp add: emits_def)

lemma emits_ret [emit_rules]: "\<Phi> a [] \<Longrightarrow> emits (ret a) \<Phi>"
  by (rule emitsI) auto

lemma emits_call [emit_rules]: "(\<And>r. \<Phi> r [mk r]) \<Longrightarrow> emits (call f mk) \<Phi>"
  by (rule emitsI) auto

text \<open>When something is known of the answers.\<close>

lemma emits_call_at: "(\<And>tr. \<Phi> (f tr) [mk (f tr)]) \<Longrightarrow> emits (call f mk) \<Phi>"
  by (rule emitsI) auto

lemma emits_emit [emit_rules]: "\<Phi> () [e] \<Longrightarrow> emits (emit e) \<Phi>"
  by (rule emitsI) auto

lemma emits_asks_at: "(\<And>tr. \<Phi> (f tr) []) \<Longrightarrow> emits (asks f) \<Phi>"
  by (rule emitsI) auto

lemma emits_asks [emit_rules]: "(\<And>r. \<Phi> r []) \<Longrightarrow> emits (asks f) \<Phi>"
  by (rule emits_asks_at)

lemma emits_bind:
  assumes m: "emits m \<Psi>"
    and f: "\<And>a es. \<Psi> a es \<Longrightarrow> emits (f a) (\<lambda>b es'. \<Phi> b (es @ es'))"
  shows "emits (State_Monad.bind m f) \<Phi>"
proof (rule emitsI)
  fix tr
  let ?a = "result m tr" and ?es = "events m tr"
  let ?n = "f ?a" and ?tr' = "tr @ ?es"
  have fa: "emits ?n (\<lambda>b es'. \<Phi> b (?es @ es'))"
    using f m by (blast dest: emitsD)
  have "run_state (State_Monad.bind m f) tr = (result ?n ?tr', tr @ ?es @ events ?n ?tr')"
    using emits_run [OF m, of tr] emits_run [OF fa, of ?tr'] by simp
  then show "\<exists>es. run_state (State_Monad.bind m f) tr
        = (result (f (result m tr)) (tr @ events m tr), tr @ es)
      \<and> \<Phi> (result (f (result m tr)) (tr @ events m tr)) es"
    using emitsD [OF fa] by blast
qed

text \<open>A run of a sequence, piece by piece.\<close>

lemma run_bind:
  assumes a: "result m tr = a" and m: "emits m \<Phi>" and f: "emits (f a) \<Psi>"
  shows "result (State_Monad.bind m f) tr = result (f a) (tr @ events m tr)"
    and "events (State_Monad.bind m f) tr = events m tr @ events (f a) (tr @ events m tr)"
proof -
  have "run_state (State_Monad.bind m f) tr = run_state (f a) (tr @ events m tr)"
    using emits_run [OF m, of tr] a by simp
  also have "\<dots> = (result (f a) (tr @ events m tr), tr @ events m tr @ events (f a) (tr @ events m tr))"
    using emits_run [OF f, of "tr @ events m tr"] by simp
  finally have run: "run_state (State_Monad.bind m f) tr =
      (result (f a) (tr @ events m tr), tr @ events m tr @ events (f a) (tr @ events m tr))" .
  show "result (State_Monad.bind m f) tr = result (f a) (tr @ events m tr)"
    unfolding result_def [of "State_Monad.bind m f"] run by simp
  show "events (State_Monad.bind m f) tr = events m tr @ events (f a) (tr @ events m tr)"
    unfolding events_def [of "State_Monad.bind m f"] run by simp
qed

lemma emits_bind_ret [emit_rules]:
  "emits (f a) \<Phi> \<Longrightarrow> emits (State_Monad.bind (ret a) f) \<Phi>"
  by (simp add: ret_def)

lemma emits_bind_call [emit_rules]:
  assumes "\<And>r. emits (g r) (\<lambda>b es. \<Phi> b (mk r # es))"
  shows "emits (State_Monad.bind (call f mk) g) \<Phi>"
  by (rule emits_bind [where \<Psi> = "\<lambda>r es. es = [mk r]"]) (auto intro: emit_rules assms)

lemma emits_bind_emit [emit_rules]:
  assumes "emits (g ()) (\<lambda>b es. \<Phi> b (e # es))"
  shows "emits (State_Monad.bind (emit e) g) \<Phi>"
  by (rule emits_bind [where \<Psi> = "\<lambda>r es. es = [e]"]) (auto intro: emit_rules assms)

lemma emits_bind_asks [emit_rules]:
  assumes "\<And>r. emits (g r) \<Phi>"
  shows "emits (State_Monad.bind (asks f) g) \<Phi>"
  by (rule emits_bind [where \<Psi> = "\<lambda>r es. es = []"]) (auto intro: emit_rules assms)

lemma emits_if [emit_rules]:
  "(b \<Longrightarrow> emits m \<Phi>) \<Longrightarrow> (\<not> b \<Longrightarrow> emits n \<Phi>) \<Longrightarrow> emits (if b then m else n) \<Phi>"
  by simp

lemma emits_sum [emit_rules]:
  "(\<And>e. r = Inl e \<Longrightarrow> emits (m e) \<Phi>) \<Longrightarrow> (\<And>v. r = Inr v \<Longrightarrow> emits (n v) \<Phi>) \<Longrightarrow>
   emits (case r of Inl e \<Rightarrow> m e | Inr v \<Rightarrow> n v) \<Phi>"
  by (cases r) simp_all

lemma emits_option [emit_rules]:
  "(x = None \<Longrightarrow> emits m \<Phi>) \<Longrightarrow> (\<And>v. x = Some v \<Longrightarrow> emits (n v) \<Phi>) \<Longrightarrow>
   emits (case x of None \<Rightarrow> m | Some v \<Rightarrow> n v) \<Phi>"
  by (cases x) simp_all

lemma emits_prod [emit_rules]:
  "(\<And>a b. p = (a, b) \<Longrightarrow> emits (m a b) \<Phi>) \<Longrightarrow> emits (case p of (a, b) \<Rightarrow> m a b) \<Phi>"
  by (cases p) simp

lemma emits_Let [emit_rules]: "emits (f x) \<Phi> \<Longrightarrow> emits (let y = x in f y) \<Phi>"
  by simp

text \<open>A case distinction in front of a bind distributes over it.\<close>

lemma emits_bind_if [emit_rules]:
  "(b \<Longrightarrow> emits (State_Monad.bind m g) \<Phi>) \<Longrightarrow> (\<not> b \<Longrightarrow> emits (State_Monad.bind n g) \<Phi>) \<Longrightarrow>
   emits (State_Monad.bind (if b then m else n) g) \<Phi>"
  by simp

lemma emits_bind_sum [emit_rules]:
  "(\<And>e. r = Inl e \<Longrightarrow> emits (State_Monad.bind (m e) g) \<Phi>) \<Longrightarrow>
   (\<And>v. r = Inr v \<Longrightarrow> emits (State_Monad.bind (n v) g) \<Phi>) \<Longrightarrow>
   emits (State_Monad.bind (case r of Inl e \<Rightarrow> m e | Inr v \<Rightarrow> n v) g) \<Phi>"
  by (cases r) simp_all

lemma emits_bind_option [emit_rules]:
  "(x = None \<Longrightarrow> emits (State_Monad.bind m g) \<Phi>) \<Longrightarrow>
   (\<And>v. x = Some v \<Longrightarrow> emits (State_Monad.bind (n v) g) \<Phi>) \<Longrightarrow>
   emits (State_Monad.bind (case x of None \<Rightarrow> m | Some v \<Rightarrow> n v) g) \<Phi>"
  by (cases x) simp_all

lemma onlyI: "emits m (\<lambda>_ es. \<forall>e \<in> set es. P e) \<Longrightarrow> only P m"
  by (simp add: only_def)

lemma only_emits: "only P m \<Longrightarrow> emits m (\<lambda>_ es. \<forall>e \<in> set es. P e)"
  by (simp add: only_def)

lemma onlyD: "only P m \<Longrightarrow> e \<in> set (events m tr) \<Longrightarrow> P e"
  using emitsD [OF only_emits] by blast

lemma only_mono: "only P m \<Longrightarrow> (\<And>e. P e \<Longrightarrow> Q e) \<Longrightarrow> only Q m"
  unfolding only_def by (erule emits_mono) blast

lemma only_ret [only_rules]: "only P (ret a)"
  by (simp add: only_def emits_ret)

lemma only_call [only_rules]: "(\<And>r. P (mk r)) \<Longrightarrow> only P (call f mk)"
  by (simp add: only_def emits_call)

lemma only_call_at: "(\<And>tr. P (mk (f tr))) \<Longrightarrow> only P (call f mk)"
  by (simp add: only_def emits_call_at)

lemma only_emit [only_rules]: "P e \<Longrightarrow> only P (emit e)"
  by (simp add: only_def emits_emit)

lemma only_asks [only_rules]: "only P (asks f)"
  by (simp add: only_def emits_asks)

lemma only_bind [only_rules]:
  assumes "only P m" and "\<And>a. only P (f a)"
  shows "only P (State_Monad.bind m f)"
  unfolding only_def
  by (rule emits_bind [OF only_emits [OF assms(1)]])
    (auto intro: emits_mono [OF only_emits [OF assms(2)]])

lemma only_if [only_rules]: "(b \<Longrightarrow> only P m) \<Longrightarrow> (\<not> b \<Longrightarrow> only P n) \<Longrightarrow> only P (if b then m else n)"
  by simp

lemma only_sum [only_rules]:
  "(\<And>e. r = Inl e \<Longrightarrow> only P (m e)) \<Longrightarrow> (\<And>v. r = Inr v \<Longrightarrow> only P (n v)) \<Longrightarrow>
   only P (case r of Inl e \<Rightarrow> m e | Inr v \<Rightarrow> n v)"
  by (cases r) simp_all

lemma only_option [only_rules]:
  "(x = None \<Longrightarrow> only P m) \<Longrightarrow> (\<And>v. x = Some v \<Longrightarrow> only P (n v)) \<Longrightarrow>
   only P (case x of None \<Rightarrow> m | Some v \<Rightarrow> n v)"
  by (cases x) simp_all

lemma only_prod [only_rules]:
  "(\<And>a b. p = (a, b) \<Longrightarrow> only P (m a b)) \<Longrightarrow> only P (case p of (a, b) \<Rightarrow> m a b)"
  by (cases p) simp

lemma only_Let [only_rules]: "only P (f x) \<Longrightarrow> only P (let y = x in f y)"
  by simp

text \<open>The last part of a run, after interactions that all satisfy \<open>P\<close>.\<close>

definition later :: "('ev \<Rightarrow> bool) \<Rightarrow> ('ev list \<Rightarrow> bool) \<Rightarrow> 'ev list \<Rightarrow> bool" where
  "later P Q es \<longleftrightarrow> (\<exists>pre es'. es = pre @ es' \<and> (\<forall>e \<in> set pre. P e) \<and> Q es')"

lemma later_now: "Q es \<Longrightarrow> later P Q es"
  unfolding later_def by (rule exI [of _ "[]"]) simp

lemma later_append: "later P Q es \<Longrightarrow> \<forall>e \<in> set pre. P e \<Longrightarrow> later P Q (pre @ es)"
  unfolding later_def
proof (elim exE conjE)
  fix pre' es'
  assume "es = pre' @ es'" "\<forall>e \<in> set pre'. P e" "Q es'" "\<forall>e \<in> set pre. P e"
  then have "pre @ es = (pre @ pre') @ es' \<and> (\<forall>e \<in> set (pre @ pre'). P e) \<and> Q es'" by auto
  then show "\<exists>pre'' es'. pre @ es = pre'' @ es' \<and> (\<forall>e \<in> set pre''. P e) \<and> Q es'" by blast
qed

lemma later_Cons: "later P Q es \<Longrightarrow> P e \<Longrightarrow> later P Q (e # es)"
  using later_append [of P Q es "[e]"] by simp

lemma later_mono: "later P Q es \<Longrightarrow> (\<And>es. Q es \<Longrightarrow> Q' es) \<Longrightarrow> later P Q' es"
  unfolding later_def by blast

lemma later_set: "later P Q es \<Longrightarrow> (\<And>es. Q es \<Longrightarrow> x \<in> set es) \<Longrightarrow> x \<in> set es"
  unfolding later_def by fastforce

text \<open>The answer of a call that overwrites the caller's object: on an error it stays as it was.\<close>

definition updated :: "'a \<Rightarrow> go_error + 'a \<Rightarrow> 'a" where
  "updated old r = (case r of Inl _ \<Rightarrow> old | Inr new \<Rightarrow> new)"

definition error_of :: "go_error + 'a \<Rightarrow> go_error option" where
  "error_of r = (case r of Inl e \<Rightarrow> Some e | Inr _ \<Rightarrow> None)"

lemma updated_simps [simp]: "updated old (Inl e) = old" "updated old (Inr new) = new"
  by (simp_all add: updated_def)

lemma error_of_simps [simp]: "error_of (Inl e) = Some e" "error_of (Inr v) = None"
  by (simp_all add: error_of_def)

lemma error_of_None [simp]: "error_of r = None \<longleftrightarrow> (\<exists>v. r = Inr v)"
  by (cases r) simp_all

end
