(* ===== verification/Go_Strings.thy ===== *)
theory Go_Strings
  imports Operator_Prelude "HOL-Library.Sublist" "HOL-Library.Word"
begin

text \<open>
  The part of Go's standard library (\<open>strings\<close>, \<open>fmt\<close>, \<open>path/filepath\<close>) that the operator
  uses. A Go string is a sequence of bytes, here a list of 8-bit characters. Everything is
  executable; each function comes with its characterisation by concatenation.
\<close>

section \<open>Prefixes, suffixes, substrings\<close>

definition HasPrefix :: "string \<Rightarrow> string \<Rightarrow> bool" where
  "HasPrefix s p \<longleftrightarrow> take (length p) s = p"

definition HasSuffix :: "string \<Rightarrow> string \<Rightarrow> bool" where
  "HasSuffix s p \<longleftrightarrow> HasPrefix (rev s) (rev p)"

definition TrimPrefix :: "string \<Rightarrow> string \<Rightarrow> string" where
  "TrimPrefix s p = (if HasPrefix s p then drop (length p) s else s)"

definition TrimSuffix :: "string \<Rightarrow> string \<Rightarrow> string" where
  "TrimSuffix s p = (if HasSuffix s p then take (length s - length p) s else s)"

lemma HasPrefix_iff: "HasPrefix s p \<longleftrightarrow> (\<exists>t. s = p @ t)"
  unfolding HasPrefix_def by (metis append_take_drop_id append_eq_conv_conj)

lemma HasPrefix_Nil [simp]: "HasPrefix s []"
  by (simp add: HasPrefix_def)

lemma HasPrefix_append [simp]: "HasPrefix (p @ t) p"
  by (simp add: HasPrefix_def)

lemma HasPrefix_drop: "HasPrefix s p \<Longrightarrow> s = p @ drop (length p) s"
  by (metis HasPrefix_def append_take_drop_id)

lemma HasPrefix_singleton: "HasPrefix s [c] \<longleftrightarrow> (\<exists>t. s = c # t)"
  by (auto simp: HasPrefix_iff)

lemma HasSuffix_iff: "HasSuffix s p \<longleftrightarrow> (\<exists>t. s = t @ p)"
  unfolding HasSuffix_def HasPrefix_iff by (metis rev_append rev_rev_ident)

lemma TrimSuffix_append [simp]: "TrimSuffix (s @ p) p = s"
  by (auto simp: TrimSuffix_def HasSuffix_iff)

lemma TrimSuffix_no: "\<not> HasSuffix s p \<Longrightarrow> TrimSuffix s p = s"
  by (simp add: TrimSuffix_def)

lemma TrimPrefix_append [simp]: "TrimPrefix (p @ s) p = s"
  by (simp add: TrimPrefix_def)

fun Contains :: "string \<Rightarrow> string \<Rightarrow> bool" where
  "Contains [] sub \<longleftrightarrow> sub = []"
| "Contains (c # t) sub \<longleftrightarrow> HasPrefix (c # t) sub \<or> Contains t sub"

lemma Contains_iff: "Contains s sub \<longleftrightarrow> (\<exists>a b. s = a @ sub @ b)"
proof (induction s)
  case Nil
  then show ?case by auto
next
  case (Cons c t)
  have "(\<exists>a b. c # t = a @ sub @ b) \<longleftrightarrow> HasPrefix (c # t) sub \<or> (\<exists>a b. t = a @ sub @ b)"
    (is "?l \<longleftrightarrow> ?r")
  proof
    assume ?l
    then obtain a b where "c # t = a @ sub @ b" by blast
    then show ?r by (cases a) (auto simp: HasPrefix_iff)
  next
    assume ?r
    then show ?l by (metis HasPrefix_iff append_Cons append_Nil)
  qed
  with Cons.IH show ?case by simp
qed

lemma Contains_Cons_iff: "Contains s [c] \<longleftrightarrow> c \<in> set s"
  by (metis Contains_iff append_Cons append_Nil in_set_conv_decomp)

section \<open>Splitting and joining\<close>

text \<open>The text before and after the first occurrence of a non-empty separator.\<close>

fun cut :: "string \<Rightarrow> string \<Rightarrow> (string \<times> string) option" where
  "cut [] sep = None"
| "cut (c # t) sep =
     (if HasPrefix (c # t) sep then Some ([], drop (length sep) (c # t))
      else case cut t sep of None \<Rightarrow> None | Some (a, b) \<Rightarrow> Some (c # a, b))"

text \<open>\<open>strings.SplitN(s, sep, 2)\<close> for a non-empty \<open>sep\<close>.\<close>

definition SplitN2 :: "string \<Rightarrow> string \<Rightarrow> string list" where
  "SplitN2 s sep = (case cut s sep of None \<Rightarrow> [s] | Some (a, b) \<Rightarrow> [a, b])"

lemma cut_Some: "cut s sep = Some (a, b) \<Longrightarrow> s = a @ sep @ b"
proof (induction s arbitrary: a)
  case Nil
  then show ?case by simp
next
  case (Cons c t)
  show ?case
  proof (cases "HasPrefix (c # t) sep")
    case True
    with Cons.prems show ?thesis by (auto dest: HasPrefix_drop)
  next
    case False
    with Cons.prems obtain a' where "cut t sep = Some (a', b)" "a = c # a'"
      by (auto split: option.splits)
    with Cons.IH show ?thesis by simp
  qed
qed

lemma cut_None: "sep \<noteq> [] \<Longrightarrow> cut s sep = None \<longleftrightarrow> \<not> Contains s sep"
  by (induction s) (auto split: option.splits prod.splits)

lemma cut_first: "cut s sep = Some (a, b) \<Longrightarrow> sep \<noteq> [] \<Longrightarrow> a = a1 @ a2 \<Longrightarrow> a2 \<noteq> [] \<Longrightarrow>
    \<not> HasPrefix (a2 @ sep @ b) sep"
proof (induction s arbitrary: a a1)
  case Nil
  then show ?case by simp
next
  case (Cons c t)
  show ?case
  proof (cases "HasPrefix (c # t) sep")
    case True
    with Cons.prems show ?thesis by auto
  next
    case False
    with Cons.prems obtain a' where c: "cut t sep = Some (a', b)" "a = c # a'"
      by (auto split: option.splits)
    then have "c # t = a @ sep @ b" by (auto dest: cut_Some)
    with False c Cons.IH Cons.prems show ?thesis
      by (cases a1) auto
  qed
qed

text \<open>\<open>a\<close> and \<open>b\<close> surround the leftmost occurrence of the separator.\<close>

definition first_split :: "string \<Rightarrow> string \<Rightarrow> string \<Rightarrow> string \<Rightarrow> bool" where
  "first_split s sep a b \<longleftrightarrow> s = a @ sep @ b \<and> (\<forall>a' b'. s = a' @ sep @ b' \<longrightarrow> length a \<le> length a')"

lemma cut_first_split:
  assumes "cut s sep = Some (a, b)" "sep \<noteq> []"
  shows "first_split s sep a b"
  unfolding first_split_def
proof (intro conjI allI impI)
  show s: "s = a @ sep @ b" using assms by (simp add: cut_Some)
  fix a' b'
  assume s': "s = a' @ sep @ b'"
  show "length a \<le> length a'"
  proof (rule ccontr)
    assume shorter: "\<not> length a \<le> length a'"
    have "take (length a') (a' @ sep @ b') = take (length a') (a @ sep @ b)"
      by (simp only: s [symmetric] s' [symmetric])
    then have "a' = take (length a') a"
      using shorter by simp
    then have a: "a = a' @ drop (length a') a"
      by (metis append_take_drop_id)
    have "a' @ drop (length a') a @ sep @ b = a' @ sep @ b'"
      using a s s' by (metis append.assoc)
    then have "drop (length a') a @ sep @ b = sep @ b'" by simp
    then have "HasPrefix (drop (length a') a @ sep @ b) sep" by simp
    moreover have "drop (length a') a \<noteq> []" using shorter by simp
    ultimately show False using cut_first [OF assms a] by simp
  qed
qed

lemma SplitN2_length: "length (SplitN2 s sep) = 1 \<or> length (SplitN2 s sep) = 2"
  by (auto simp: SplitN2_def split: option.splits)

lemma SplitN2_two:
  "sep \<noteq> [] \<Longrightarrow> (\<exists>a b. SplitN2 s sep = [a, b]) \<longleftrightarrow> Contains s sep"
  using cut_None [of sep s] by (auto simp: SplitN2_def split: option.splits)

text \<open>\<open>strings.Split(s, "/")\<close>: always at least one piece.\<close>

fun split_char :: "char \<Rightarrow> string \<Rightarrow> string list" where
  "split_char c [] = [[]]"
| "split_char c (x # s) =
     (if x = c then [] # split_char c s
      else case split_char c s of [] \<Rightarrow> [[x]] | p # ps \<Rightarrow> (x # p) # ps)"

fun Join :: "string list \<Rightarrow> string \<Rightarrow> string" where
  "Join [] sep = []"
| "Join [x] sep = x"
| "Join (x # y # xs) sep = x @ sep @ Join (y # xs) sep"

lemma split_char_nonempty [simp]: "split_char c s \<noteq> []"
  by (cases s) (auto split: list.splits)

lemma Join_Cons: "xs \<noteq> [] \<Longrightarrow> Join (x # xs) sep = x @ sep @ Join xs sep"
  by (cases xs) auto

lemma Join_split_char: "Join (split_char c s) [c] = s"
proof (induction s)
  case Nil
  then show ?case by simp
next
  case (Cons x s)
  then show ?case
    by (cases "split_char c s"; cases "tl (split_char c s)") (auto simp: Join_Cons)
qed

lemma split_char_no_sep: "p \<in> set (split_char c s) \<Longrightarrow> c \<notin> set p"
  by (induction s arbitrary: p) (auto split: if_splits list.splits)

lemma split_char_append: "c \<notin> set p \<Longrightarrow> split_char c (p @ c # s) = p # split_char c s"
  by (induction p) auto

lemma split_char_plain: "c \<notin> set p \<Longrightarrow> split_char c p = [p]"
  by (induction p) auto

lemma split_char_Join:
  "xs \<noteq> [] \<Longrightarrow> (\<And>x. x \<in> set xs \<Longrightarrow> c \<notin> set x) \<Longrightarrow> split_char c (Join xs [c]) = xs"
proof (induction xs "[c]" rule: Join.induct)
  case (3 x y xs)
  then show ?case by (simp add: split_char_append)
qed (auto simp: split_char_plain)

section \<open>White space\<close>

text \<open>
  \<open>strings.TrimSpace\<close> removes leading and trailing runes with \<open>unicode.IsSpace\<close>. These are their
  UTF-8 encodings: the six of ASCII, U+0085, U+00A0, U+1680, U+2000 to U+200A, U+2028, U+2029,
  U+202F, U+205F and U+3000.
\<close>

definition space_runes :: "string list" where
  "space_runes =
     [[CHR 0x09], [CHR 0x0A], [CHR 0x0B], [CHR 0x0C], [CHR 0x0D], [CHR 0x20],
      [CHR 0xC2, CHR 0x85], [CHR 0xC2, CHR 0xA0], [CHR 0xE1, CHR 0x9A, CHR 0x80],
      [CHR 0xE2, CHR 0x80, CHR 0x80], [CHR 0xE2, CHR 0x80, CHR 0x81],
      [CHR 0xE2, CHR 0x80, CHR 0x82], [CHR 0xE2, CHR 0x80, CHR 0x83],
      [CHR 0xE2, CHR 0x80, CHR 0x84], [CHR 0xE2, CHR 0x80, CHR 0x85],
      [CHR 0xE2, CHR 0x80, CHR 0x86], [CHR 0xE2, CHR 0x80, CHR 0x87],
      [CHR 0xE2, CHR 0x80, CHR 0x88], [CHR 0xE2, CHR 0x80, CHR 0x89],
      [CHR 0xE2, CHR 0x80, CHR 0x8A], [CHR 0xE2, CHR 0x80, CHR 0xA8],
      [CHR 0xE2, CHR 0x80, CHR 0xA9], [CHR 0xE2, CHR 0x80, CHR 0xAF],
      [CHR 0xE2, CHR 0x81, CHR 0x9F], [CHR 0xE3, CHR 0x80, CHR 0x80]]"

text \<open>Removing leading members of a list of (non-empty) byte sequences.\<close>

function trim_left :: "string list \<Rightarrow> string \<Rightarrow> string" where
  "trim_left ws s =
     (case find (\<lambda>w. w \<noteq> [] \<and> HasPrefix s w) ws of
        None \<Rightarrow> s
      | Some w \<Rightarrow> trim_left ws (drop (length w) s))"
  by pat_completeness auto
termination
proof (relation "measure (\<lambda>(ws, s). length s)")
  fix ws s w
  assume "find (\<lambda>w. w \<noteq> [] \<and> HasPrefix s w) ws = Some w"
  then have "w \<noteq> []" "HasPrefix s w" by (auto simp: find_Some_iff)
  then show "((ws, drop (length w) s), (ws, s)) \<in> measure (\<lambda>(ws, s). length s)"
    by (auto simp: HasPrefix_iff)
qed simp

declare trim_left.simps [simp del]

definition TrimSpace :: "string \<Rightarrow> string" where
  "TrimSpace s = rev (trim_left (map rev space_runes) (rev (trim_left space_runes s)))"

lemma trim_left_stop: "find (\<lambda>w. w \<noteq> [] \<and> HasPrefix s w) ws = None \<Longrightarrow> trim_left ws s = s"
  by (simp add: trim_left.simps [of ws s])

lemma trim_left_idem [simp]: "trim_left ws (trim_left ws s) = trim_left ws s"
proof (induction ws s rule: trim_left.induct)
  case (1 ws s)
  then show ?case
    by (cases "find (\<lambda>w. w \<noteq> [] \<and> HasPrefix s w) ws")
      (simp_all add: trim_left.simps [of ws s] trim_left_stop)
qed

lemma trim_left_suffix: "\<exists>p. s = p @ trim_left ws s"
proof (induction ws s rule: trim_left.induct)
  case (1 ws s)
  show ?case
  proof (cases "find (\<lambda>w. w \<noteq> [] \<and> HasPrefix s w) ws")
    case None
    then show ?thesis by (simp add: trim_left_stop)
  next
    case (Some w)
    then obtain p where "drop (length w) s = p @ trim_left ws (drop (length w) s)"
      using "1.IH" by blast
    moreover from Some have "s = w @ drop (length w) s"
      by (auto simp: find_Some_iff dest: HasPrefix_drop)
    ultimately have "s = (w @ p) @ trim_left ws (drop (length w) s)" by simp
    moreover have "trim_left ws s = trim_left ws (drop (length w) s)"
      using Some by (simp add: trim_left.simps [of ws s])
    ultimately show ?thesis by metis
  qed
qed

lemma trim_left_Nil [simp]: "trim_left ws [] = []"
  using trim_left_suffix [of "[]" ws] by simp

text \<open>Nothing but white space is trimmed to nothing, and something that ends in another
  character is not.\<close>

lemma TrimSpace_Nil [simp]: "TrimSpace [] = []"
  by (simp add: TrimSpace_def)

lemma TrimSpace_empty: "s = [] \<Longrightarrow> TrimSpace s = []"
  by simp

lemma TrimSpace_nonempty: "TrimSpace s \<noteq> [] \<Longrightarrow> s \<noteq> []"
  by auto

lemma TrimSpace_infix: "\<exists>p q. s = p @ TrimSpace s @ q"
proof -
  define t where "t = trim_left space_runes s"
  define u where "u = trim_left (map rev space_runes) (rev t)"
  obtain p where p: "s = p @ t" using trim_left_suffix t_def by blast
  obtain q where q: "rev t = q @ u" using trim_left_suffix u_def by blast
  from q have "t = rev u @ rev q" by (simp add: rev_swap)
  with p have "s = p @ rev u @ rev q" by simp
  moreover have "TrimSpace s = rev u" by (simp add: TrimSpace_def t_def u_def)
  ultimately show ?thesis by metis
qed

section \<open>Formatting and case\<close>

fun nat_digits :: "nat \<Rightarrow> string" where
  "nat_digits n =
     (if n < 10 then [char_of (48 + n)] else nat_digits (n div 10) @ [char_of (48 + n mod 10)])"

declare nat_digits.simps [simp del]

text \<open>\<open>fmt.Sprintf("%d", v)\<close> for an \<open>int32\<close>.\<close>

definition fmt_d :: "32 word \<Rightarrow> string" where
  "fmt_d v = (if sint v < 0 then ''-'' @ nat_digits (nat (- sint v)) else nat_digits (nat (sint v)))"

text \<open>
  \<open>strings.ToLower\<close>, as far as a search for ASCII text can tell: the ASCII letters, and the two
  runes outside ASCII whose lower case is an ASCII letter, U+0130 (to i) and U+212A (to k).
  Other runes stay outside ASCII and are left as they are.
\<close>

fun ToLower :: "string \<Rightarrow> string" where
  "ToLower [] = []"
| "ToLower (c # s) =
     (if HasPrefix (c # s) [CHR 0xC4, CHR 0xB0] then CHR ''i'' # ToLower (drop 1 s)
      else if HasPrefix (c # s) [CHR 0xE2, CHR 0x84, CHR 0xAA] then CHR ''k'' # ToLower (drop 2 s)
      else
        (if 65 \<le> (of_char c :: nat) \<and> (of_char c :: nat) \<le> 90
         then char_of (of_char c + 32 :: nat) else c) # ToLower s)"

text \<open>Text between single quotes.\<close>

definition squoted :: "string \<Rightarrow> string" where
  "squoted s = [CHR 0x27] @ s @ [CHR 0x27]"

section \<open>File paths\<close>

text \<open>
  \<open>filepath.Join\<close> and \<open>filepath.Clean\<close> on Unix: the path is read component by component, empty
  and \<open>.\<close> components vanish, \<open>..\<close> removes the component before it (at the root, itself).
  The stack holds the components read so far, the last one first.
\<close>

fun clean_step :: "bool \<Rightarrow> string \<Rightarrow> string list \<Rightarrow> string list" where
  "clean_step rooted c st =
     (if c = [] \<or> c = ''.'' then st
      else if c = ''..'' then
        (case st of
           [] \<Rightarrow> if rooted then [] else [''..'']
         | c0 # rest \<Rightarrow> if c0 = ''..'' then ''..'' # st else rest)
      else c # st)"

definition Clean :: "string \<Rightarrow> string" where
  "Clean p =
     (if p = [] then ''.''
      else
        let rooted = HasPrefix p ''/'';
            out = Join (rev (fold (clean_step rooted) (split_char (CHR ''/'') p) [])) ''/''
        in if rooted then ''/'' @ out else if out = [] then ''.'' else out)"

definition filepath_Join :: "string \<Rightarrow> string \<Rightarrow> string" where
  "filepath_Join a b =
     (let ps = [x \<leftarrow> [a, b]. x \<noteq> []] in if ps = [] then [] else Clean (Join ps ''/''))"

lemma fold_clean_plain:
  "(\<And>c. c \<in> set cs \<Longrightarrow> c \<noteq> ''..'') \<Longrightarrow>
   fold (clean_step r) cs st = rev [c \<leftarrow> cs. c \<noteq> [] \<and> c \<noteq> ''.''] @ st"
  by (induction cs arbitrary: st) auto

lemma split_char_append_any:
  "split_char c (a @ c # b) = split_char c a @ split_char c b"
  by (induction a) (auto split: list.splits)

end
