(* ===== verification/Api_Types.thy ===== *)
theory Api_Types
  imports Go_Strings Complex_Main
begin

text \<open>
  The data: the \<open>Deployment\<close> custom resource of \<open>api/v1alpha1/deployment_types.go\<close>, field by
  field, and of the Kubernetes, Tekton, Knative and OpenShift objects the fields the operator
  reads or writes. A Go string, with its named variants, is \<open>string\<close>; an \<open>int32\<close> is a 32-bit word; a
  pointer or a slice whose nil the code tells apart is an \<open>option\<close>; a Go map is a partial map.
\<close>

section \<open>Object metadata and conditions\<close>

record OwnerReference =
  or_Kind :: string
  or_Name :: string
  or_Controller :: bool

record ObjectMeta =
  om_Name :: string
  om_Namespace :: string
  om_Labels :: "string \<rightharpoonup> string"
  om_Finalizers :: "string list"
  om_DeletionTimestamp :: "int option"
  om_CreationTimestamp :: int
  om_Generation :: int
  om_OwnerReferences :: "OwnerReference list"

text \<open>The metadata of a literal \<open>metav1.ObjectMeta{Name: n, Namespace: ns}\<close>.\<close>

definition named :: "string \<Rightarrow> string \<Rightarrow> ObjectMeta" where
  "named n ns = \<lparr>om_Name = n, om_Namespace = ns, om_Labels = Map.empty, om_Finalizers = [],
     om_DeletionTimestamp = None, om_CreationTimestamp = 0, om_Generation = 0,
     om_OwnerReferences = []\<rparr>"

lemma named_simps [simp]:
  "om_Name (named n ns) = n" "om_Namespace (named n ns) = ns" "om_Finalizers (named n ns) = []"
  "om_DeletionTimestamp (named n ns) = None" "om_Labels (named n ns) = Map.empty"
  by (simp_all add: named_def)

text \<open>\<open>metav1.ConditionStatus\<close> and \<open>corev1.ConditionStatus\<close> are strings with three named values.\<close>

abbreviation ConditionTrue :: string where "ConditionTrue \<equiv> ''True''"
abbreviation ConditionFalse :: string where "ConditionFalse \<equiv> ''False''"
abbreviation ConditionUnknown :: string where "ConditionUnknown \<equiv> ''Unknown''"

text \<open>\<open>metav1.Condition\<close>.\<close>

record Condition =
  mc_Type :: string
  mc_Status :: string
  mc_ObservedGeneration :: int
  mc_LastTransitionTime :: int
  mc_Reason :: string
  mc_Message :: string

text \<open>A literal \<open>metav1.Condition{Type, Status, Reason, Message, ObservedGeneration}\<close>.\<close>

definition condition :: "string \<Rightarrow> string \<Rightarrow> string \<Rightarrow> string \<Rightarrow> int \<Rightarrow> Condition" where
  "condition t s r m g = \<lparr>mc_Type = t, mc_Status = s, mc_ObservedGeneration = g,
     mc_LastTransitionTime = 0, mc_Reason = r, mc_Message = m\<rparr>"

lemma condition_simps [simp]:
  "mc_Type (condition t s r m g) = t" "mc_Status (condition t s r m g) = s"
  "mc_Reason (condition t s r m g) = r" "mc_Message (condition t s r m g) = m"
  "mc_ObservedGeneration (condition t s r m g) = g"
  by (simp_all add: condition_def)

definition find_condition :: "Condition list \<Rightarrow> string \<Rightarrow> Condition option" where
  "find_condition cs t = find (\<lambda>c. mc_Type c = t) cs"

text \<open>\<open>apis.Condition\<close> of Knative, on pipeline runs and task runs.\<close>

record KnativeCondition =
  kc_Type :: string
  kc_Status :: string
  kc_Reason :: string
  kc_Message :: string

abbreviation ConditionSucceeded :: string where "ConditionSucceeded \<equiv> ''Succeeded''"

section \<open>The Deployment custom resource\<close>

record Ansible =
  an_AnsiblePlaybook :: string
  an_Requirements :: string

record PostDeployment =
  pd_RepoName :: string
  pd_Release :: string
  pd_Parameters :: string
  pd_Ansible :: Ansible

record DeploymentSpec =
  ds_RepoName :: string
  ds_Release :: string
  ds_Parameters :: string
  ds_Ansible :: Ansible
  ds_PostDeployment :: PostDeployment

text \<open>\<open>FailureCategory\<close> is a string with six named values; the empty string is no category.\<close>

definition FailureCategoryCredential :: string where "FailureCategoryCredential = ''CredentialError''"
definition FailureCategoryClone :: string where "FailureCategoryClone = ''CloneError''"
definition FailureCategoryStepFailed :: string where "FailureCategoryStepFailed = ''StepFailed''"
definition FailureCategoryJobFailed :: string where "FailureCategoryJobFailed = ''JobFailed''"
definition FailureCategoryConfig :: string where "FailureCategoryConfig = ''ConfigError''"
definition FailureCategoryUnknown :: string where "FailureCategoryUnknown = ''Unknown''"

lemmas category_defs = FailureCategoryCredential_def FailureCategoryClone_def
  FailureCategoryStepFailed_def FailureCategoryJobFailed_def FailureCategoryConfig_def
  FailureCategoryUnknown_def

record DiagnosticEntry =
  de_Component :: string
  de_TaskName :: string
  de_StepName :: string
  de_ExitCode :: "32 word option"
  de_Reason :: string
  de_Message :: string
  de_LogTail :: string
  de_RemediationHint :: string

text \<open>The zero value, which every literal of the source starts from.\<close>

definition DiagnosticEntry0 :: DiagnosticEntry where
  "DiagnosticEntry0 = \<lparr>de_Component = [], de_TaskName = [], de_StepName = [], de_ExitCode = None,
     de_Reason = [], de_Message = [], de_LogTail = [], de_RemediationHint = []\<rparr>"

record DeploymentStatus =
  st_Conditions :: "Condition list"
  st_Phase :: string
  st_Message :: string
  st_PipelineRunName :: string
  st_FailureCategory :: string
  st_Diagnostics :: "DiagnosticEntry list"

definition DeploymentStatus0 :: DeploymentStatus where
  "DeploymentStatus0 = \<lparr>st_Conditions = [], st_Phase = [], st_Message = [],
     st_PipelineRunName = [], st_FailureCategory = [], st_Diagnostics = []\<rparr>"

record Deployment =
  d_Meta :: ObjectMeta
  d_Spec :: DeploymentSpec
  d_Status :: DeploymentStatus

abbreviation d_Name :: "Deployment \<Rightarrow> string" where "d_Name d \<equiv> om_Name (d_Meta d)"
abbreviation d_Namespace :: "Deployment \<Rightarrow> string" where "d_Namespace d \<equiv> om_Namespace (d_Meta d)"
abbreviation d_Phase :: "Deployment \<Rightarrow> string" where "d_Phase d \<equiv> st_Phase (d_Status d)"

text \<open>Writing a field of \<open>deployment.Status\<close>.\<close>

definition map_status :: "(DeploymentStatus \<Rightarrow> DeploymentStatus) \<Rightarrow> Deployment \<Rightarrow> Deployment" where
  "map_status f d = d\<lparr>d_Status := f (d_Status d)\<rparr>"

lemma map_status_simps [simp]:
  "d_Status (map_status f d) = f (d_Status d)" "d_Spec (map_status f d) = d_Spec d"
  "d_Meta (map_status f d) = d_Meta d" "map_status f (map_status g d) = map_status (f \<circ> g) d"
  by (simp_all add: map_status_def)

section \<open>Kubernetes Jobs and Pods\<close>

record EnvVar =
  ev_Name :: string
  ev_Value :: string
  ev_SecretKeyRef :: "(string \<times> string) option"  \<comment> \<open>secret name and key\<close>

record Container =
  co_Name :: string
  co_Image :: string
  co_Command :: "string list"
  co_Args :: "string list"
  co_WorkingDir :: string
  co_ImagePullPolicy :: string
  co_VolumeMounts :: "(string \<times> string) list"  \<comment> \<open>volume name and mount path\<close>
  co_Env :: "EnvVar list"
  co_Privileged :: bool
  co_RunAsUser :: "int option"

record PodSpec =
  ps_RestartPolicy :: string
  ps_InitContainers :: "Container list"
  ps_Containers :: "Container list"
  ps_EmptyDirVolumes :: "string list"
  ps_ServiceAccountName :: string

text \<open>\<open>batchv1.JobCondition\<close>.\<close>

record JobCondition =
  jc_Type :: string
  jc_Status :: string
  jc_Reason :: string
  jc_Message :: string

abbreviation JobComplete :: string where "JobComplete \<equiv> ''Complete''"
abbreviation JobFailed :: string where "JobFailed \<equiv> ''Failed''"

text \<open>\<open>job.Spec.Selector\<close> is a pointer, with its \<open>MatchLabels\<close>; the conditions are nil or a list.\<close>

record Job =
  jb_Meta :: ObjectMeta
  jb_BackoffLimit :: "32 word option"
  jb_Selector :: "(string \<rightharpoonup> string) option"
  jb_PodSpec :: PodSpec
  jb_Conditions :: "JobCondition list option"
  jb_Active :: "32 word"

text \<open>Of a pod, the diagnostics read its name, phase and creation time.\<close>

record Pod =
  po_Name :: string
  po_Phase :: string
  po_CreationTimestamp :: int

section \<open>Tekton\<close>

datatype ParamValue =
    ParamString string  \<comment> \<open>\<open>Type: ParamTypeString, StringVal\<close>\<close>
  | ParamArray "string list"
  | ParamObject "(string \<times> string) list"

record Param =
  pm_Name :: string
  pm_Value :: ParamValue

text \<open>The specification text beyond the fields the operator touches is carried along unread.\<close>

record Pipeline =
  pl_Meta :: ObjectMeta
  pl_Spec :: string

record ChildStatusReference =
  cr_Name :: string
  cr_DisplayName :: string

record PipelineRun =
  pr_Meta :: ObjectMeta
  pr_Spec :: string
  pr_Params :: "Param list"
  pr_Conditions :: "KnativeCondition list"
  pr_ChildReferences :: "ChildStatusReference list"

record Terminated =
  te_ExitCode :: "32 word"
  te_Reason :: string
  te_Message :: string

record StepState =
  ss_Name :: string
  ss_Terminated :: "Terminated option"

record TaskRun =
  tr_Conditions :: "KnativeCondition list"
  tr_PodName :: string
  tr_Steps :: "StepState list"

section \<open>Secrets, service accounts, role bindings\<close>

record Secret =
  sc_Meta :: ObjectMeta
  sc_Annotations :: "string \<rightharpoonup> string"
  sc_Type :: string
  sc_StringData :: "string \<rightharpoonup> string"

text \<open>The references of a service account, by the name that the code reads and sets.\<close>

record ServiceAccount =
  sa_Meta :: ObjectMeta
  sa_Secrets :: "string list"
  sa_ImagePullSecrets :: "string list"

record Subject =
  sj_Kind :: string
  sj_Name :: string
  sj_Namespace :: string

record RoleRef =
  rr_Kind :: string
  rr_Name :: string
  rr_APIGroup :: string

record ClusterRoleBinding =
  cb_Meta :: ObjectMeta
  cb_Subjects :: "Subject list"
  cb_RoleRef :: RoleRef

section \<open>Unstructured objects\<close>

text \<open>
  A Go value of type \<open>any\<close> as the JSON decoder builds it: every number is a \<open>float64\<close>, here the
  rational that it stands for. The content of an unstructured object is a map from strings, listed
  by key.
\<close>

datatype any =
    Nil_any
  | Bool_any bool
  | Number_any rat  \<comment> \<open>a \<open>float64\<close>\<close>
  | String_any string
  | Slice_any "any list"
  | Map_any "(string \<times> any) list"

type_synonym unstructured = "(string \<times> any) list"

text \<open>\<open>v, _ := x.(map[string]any)\<close> and \<open>v, _ := x.(string)\<close>: the zero value when the type differs.\<close>

fun as_map :: "any option \<Rightarrow> unstructured" where
  "as_map (Some (Map_any m)) = m"
| "as_map _ = []"

fun as_string :: "any option \<Rightarrow> string" where
  "as_string (Some (String_any s)) = s"
| "as_string _ = []"

section \<open>Console notifications, routes, config maps\<close>

text \<open>\<open>console.ConsoleNotificationSpec\<close>; the link is a pointer to an address and a text.\<close>

record NotificationSpec =
  ns_Text :: string
  ns_Location :: string
  ns_Link :: "(string \<times> string) option"
  ns_Color :: string
  ns_BackgroundColor :: string

record ConsoleNotification =
  cn_Meta :: ObjectMeta
  cn_Spec :: NotificationSpec

text \<open>What the operator sends to and receives from the API server.\<close>

datatype kind = KDeployment | KConfigMap | KJob | KPipeline | KPipelineRun | KTaskRun
  | KNotification | KRoute | KServiceAccount | KClusterRoleBinding | KApplication | KArgoCD

datatype obj =
    ODeployment Deployment
  | OConfigMap "string \<rightharpoonup> string"
  | OJob Job
  | OPipeline Pipeline
  | OPipelineRun PipelineRun
  | OTaskRun TaskRun
  | ONotification ConsoleNotification
  | ORoute string
  | OSecret Secret
  | OServiceAccount ServiceAccount
  | OClusterRoleBinding ClusterRoleBinding
  | OUnstructured unstructured

section \<open>The operator's configuration\<close>

record OperatorConfig =
  oc_SecretsManagerURL :: string
  oc_SecretsManagerSecretID :: string
  oc_GitBaseURL :: string
  oc_ArgoCDRepoURL :: string
  oc_AnsibleRunnerImage :: string

end
