(* ===== verification/Effects.thy ===== *)
theory Effects
  imports Api_Types
begin

text \<open>
  The outside of the operator. \<open>env\<close> collects what it asks of the world: the Kubernetes client,
  the file system, git, the IBM services. Every field is a function of the history, and every
  use of one is recorded as an \<open>event\<close> with its answer. \<open>lib\<close> collects the third-party functions
  that are pure: Kubernetes helper packages, the YAML decoder, \<open>%q\<close> quoting. Both are parameters
  of everything below; \<open>kube_lib\<close> states the documented behaviour of the helpers, and
  \<open>documented_lib\<close> is an executable instance of it.
\<close>

section \<open>Interactions\<close>

text \<open>An answer of the IBM Secrets Manager: an arbitrary secret with its payload pointer, or a
  secret of another type.\<close>

datatype sm_secret = ArbitrarySecret "string option" | OtherSecret

text \<open>The options that the code hands to \<open>backoff.Retry\<close>; durations are in nanoseconds.\<close>

datatype backoff = ExponentialBackOff
datatype retry_option = WithBackOff backoff | WithMaxElapsedTime int

text \<open>An HTTP response: the status code and the body, or the error of reading it.\<close>

record http_response =
  hr_StatusCode :: nat
  hr_Body :: "go_error + string"

text \<open>The channels of the \<open>select\<close> statements; a \<open>CtxDone\<close> tells the error of the context.\<close>

datatype channel = CtxDone go_error | TimeoutC | DeleteTick | CheckTick

text \<open>What \<open>main\<close> hands to the manager: the functions that adjust the TLS configuration, and the
  options. A certificate watcher is known by its two files; \<open>mo_Uncached\<close> are the kinds of which the
  cache holds no object.\<close>

datatype tls_option = DisableHTTP2 | WatchCertificate string string

record manager_options =
  mo_MetricsBindAddress :: string
  mo_MetricsSecureServing :: bool
  mo_MetricsTLSOpts :: "tls_option list"
  mo_MetricsFilterProvider :: bool
  mo_WebhookTLSOpts :: "tls_option list"
  mo_HealthProbeBindAddress :: string
  mo_LeaderElection :: bool
  mo_LeaderElectionID :: string
  mo_Uncached :: "string list"

text \<open>The steps of \<open>main\<close> that set up or start the manager.\<close>

datatype start_step = SCertWatcher string string | SNewManager manager_options | SDeploymentController
  | SWebhook | SCapacityController string | SAddCertWatcher string string | SPreClient | SHealthz | SReadyz
  | SStart

datatype event =
    EGet kind string string "go_error + obj"              \<comment> \<open>namespace, name\<close>
  | ECreate obj "go_error + obj"
  | EUpdate obj "go_error + obj"
  | EStatusUpdate Deployment "go_error + Deployment"
  | EDelete kind string string "go_error option"
  | EListPods string "string \<rightharpoonup> string" "go_error + Pod list"
  | EPodLogs string string string int                     \<comment> \<open>namespace, pod, container, lines\<close>
  | EReadFile string "go_error + string"
  | EMkdirTemp "go_error + string"
  | EPlainClone string string string "go_error option"    \<comment> \<open>directory, URL, reference\<close>
  | ERemoveAll string
  | EInClusterConfig "go_error option"
  | ENewForConfig "go_error option"
  | EGetSecret string string "go_error + (string \<rightharpoonup> string)"
  | ENewSecretsManager string string "go_error option"    \<comment> \<open>API key, URL\<close>
  | ESecretsManagerGet string "go_error + sm_secret"
  | ERetry "retry_option list" nat                        \<comment> \<open>options, attempts granted\<close>
  | EHttpGet string "go_error + http_response"
  | EPatch unstructured "go_error option"
  | ESelect int "channel list" channel                    \<comment> \<open>time, ready channels, the chosen one\<close>
  | EStart start_step "go_error option"

type_synonym trace = "event list"
type_synonym 'a op = "(event, 'a) io"

section \<open>The environment\<close>

record kube_client =
  kc_get_Deployment :: "trace \<Rightarrow> string \<Rightarrow> string \<Rightarrow> go_error + Deployment"
  kc_get_ConfigMap :: "trace \<Rightarrow> string \<Rightarrow> string \<Rightarrow> go_error + (string \<rightharpoonup> string)"
  kc_get_Job :: "trace \<Rightarrow> string \<Rightarrow> string \<Rightarrow> go_error + Job"
  kc_get_PipelineRun :: "trace \<Rightarrow> string \<Rightarrow> string \<Rightarrow> go_error + PipelineRun"
  kc_get_TaskRun :: "trace \<Rightarrow> string \<Rightarrow> string \<Rightarrow> go_error + TaskRun"
  kc_get_Notification :: "trace \<Rightarrow> string \<Rightarrow> go_error + ConsoleNotification"
  kc_get_Route :: "trace \<Rightarrow> string \<Rightarrow> string \<Rightarrow> go_error + string"
  kc_list_Pods :: "trace \<Rightarrow> string \<Rightarrow> (string \<rightharpoonup> string) \<Rightarrow> go_error + Pod list"

record kube_writer =
  kw_create_Deployment :: "trace \<Rightarrow> Deployment \<Rightarrow> go_error + Deployment"
  kw_create_Job :: "trace \<Rightarrow> Job \<Rightarrow> go_error + Job"
  kw_create_Pipeline :: "trace \<Rightarrow> Pipeline \<Rightarrow> go_error + Pipeline"
  kw_create_PipelineRun :: "trace \<Rightarrow> PipelineRun \<Rightarrow> go_error + PipelineRun"
  kw_create_Notification :: "trace \<Rightarrow> ConsoleNotification \<Rightarrow> go_error + ConsoleNotification"
  kw_update_Deployment :: "trace \<Rightarrow> Deployment \<Rightarrow> go_error + Deployment"
  kw_update_Notification :: "trace \<Rightarrow> ConsoleNotification \<Rightarrow> go_error + ConsoleNotification"
  kw_status_update :: "trace \<Rightarrow> Deployment \<Rightarrow> go_error + Deployment"
  kw_delete_Notification :: "trace \<Rightarrow> string \<Rightarrow> go_error option"

record kube_setup =
  ks_get_ServiceAccount :: "trace \<Rightarrow> string \<Rightarrow> string \<Rightarrow> go_error + ServiceAccount"
  ks_get_ClusterRoleBinding :: "trace \<Rightarrow> string \<Rightarrow> go_error + ClusterRoleBinding"
  ks_get_Unstructured :: "trace \<Rightarrow> kind \<Rightarrow> string \<Rightarrow> string \<Rightarrow> go_error + unstructured"
  ks_create_Secret :: "trace \<Rightarrow> Secret \<Rightarrow> go_error + Secret"
  ks_create_ClusterRoleBinding :: "trace \<Rightarrow> ClusterRoleBinding \<Rightarrow> go_error + ClusterRoleBinding"
  ks_create_Unstructured :: "trace \<Rightarrow> unstructured \<Rightarrow> go_error + unstructured"
  ks_update_ServiceAccount :: "trace \<Rightarrow> ServiceAccount \<Rightarrow> go_error + ServiceAccount"
  ks_update_ClusterRoleBinding :: "trace \<Rightarrow> ClusterRoleBinding \<Rightarrow> go_error + ClusterRoleBinding"
  ks_delete_Application :: "trace \<Rightarrow> string \<Rightarrow> string \<Rightarrow> go_error option"
  ks_patch :: "trace \<Rightarrow> unstructured \<Rightarrow> go_error option"

record ibm_services =
  ib_InClusterConfig :: "trace \<Rightarrow> go_error option"
  ib_NewForConfig :: "trace \<Rightarrow> go_error option"
  ib_Secret :: "trace \<Rightarrow> string \<Rightarrow> string \<Rightarrow> go_error + (string \<rightharpoonup> string)"
  ib_NewSecretsManagerV2 :: "trace \<Rightarrow> string \<Rightarrow> string \<Rightarrow> go_error option"
  ib_GetSecret :: "trace \<Rightarrow> string \<Rightarrow> string \<Rightarrow> string \<Rightarrow> go_error + sm_secret"

record host =
  ho_ReadFile :: "trace \<Rightarrow> string \<Rightarrow> go_error + string"
  ho_MkdirTemp :: "trace \<Rightarrow> go_error + string"
  ho_PlainClone :: "trace \<Rightarrow> string \<Rightarrow> string \<Rightarrow> string \<Rightarrow> string \<Rightarrow> string \<Rightarrow> go_error option"
  ho_PodLogs :: "trace \<Rightarrow> string \<Rightarrow> string \<Rightarrow> string \<Rightarrow> int \<Rightarrow> go_error + (go_error + string)"
  ho_Now :: "trace \<Rightarrow> nat \<Rightarrow> int"
  ho_map_order :: "trace \<Rightarrow> string list \<Rightarrow> string list"
  ho_Retry :: "trace \<Rightarrow> retry_option list \<Rightarrow> nat"
  ho_GaveUp :: "trace \<Rightarrow> retry_option list \<Rightarrow> go_error"
  ho_HttpGet :: "trace \<Rightarrow> string \<Rightarrow> string \<Rightarrow> go_error + http_response"
  ho_Clock :: "trace \<Rightarrow> nat \<Rightarrow> int"
  ho_CtxErr :: "trace \<Rightarrow> go_error option"
  ho_Pick :: "trace \<Rightarrow> channel list \<Rightarrow> nat"
  ho_Start :: "trace \<Rightarrow> start_step \<Rightarrow> go_error option"

record env =
  client :: kube_client
  writer :: kube_writer
  cluster :: kube_setup
  ibm :: ibm_services
  host :: host

section \<open>One operation per interaction\<close>

definition Get_Deployment :: "env \<Rightarrow> string \<Rightarrow> string \<Rightarrow> (go_error + Deployment) op" where
  "Get_Deployment E ns n =
     call (\<lambda>tr. kc_get_Deployment (client E) tr ns n) (\<lambda>r. EGet KDeployment ns n (map_sum id ODeployment r))"

definition Get_ConfigMap :: "env \<Rightarrow> string \<Rightarrow> string \<Rightarrow> (go_error + (string \<rightharpoonup> string)) op" where
  "Get_ConfigMap E ns n =
     call (\<lambda>tr. kc_get_ConfigMap (client E) tr ns n) (\<lambda>r. EGet KConfigMap ns n (map_sum id OConfigMap r))"

definition Get_Job :: "env \<Rightarrow> string \<Rightarrow> string \<Rightarrow> (go_error + Job) op" where
  "Get_Job E ns n =
     call (\<lambda>tr. kc_get_Job (client E) tr ns n) (\<lambda>r. EGet KJob ns n (map_sum id OJob r))"

definition Get_PipelineRun :: "env \<Rightarrow> string \<Rightarrow> string \<Rightarrow> (go_error + PipelineRun) op" where
  "Get_PipelineRun E ns n =
     call (\<lambda>tr. kc_get_PipelineRun (client E) tr ns n) (\<lambda>r. EGet KPipelineRun ns n (map_sum id OPipelineRun r))"

definition Get_TaskRun :: "env \<Rightarrow> string \<Rightarrow> string \<Rightarrow> (go_error + TaskRun) op" where
  "Get_TaskRun E ns n =
     call (\<lambda>tr. kc_get_TaskRun (client E) tr ns n) (\<lambda>r. EGet KTaskRun ns n (map_sum id OTaskRun r))"

definition Get_Notification :: "env \<Rightarrow> string \<Rightarrow> (go_error + ConsoleNotification) op" where
  "Get_Notification E n =
     call (\<lambda>tr. kc_get_Notification (client E) tr n) (\<lambda>r. EGet KNotification [] n (map_sum id ONotification r))"

definition Get_Route :: "env \<Rightarrow> string \<Rightarrow> string \<Rightarrow> (go_error + string) op" where
  "Get_Route E ns n =
     call (\<lambda>tr. kc_get_Route (client E) tr ns n) (\<lambda>r. EGet KRoute ns n (map_sum id ORoute r))"

definition List_Pods :: "env \<Rightarrow> string \<Rightarrow> (string \<rightharpoonup> string) \<Rightarrow> (go_error + Pod list) op" where
  "List_Pods E ns labels =
     call (\<lambda>tr. kc_list_Pods (client E) tr ns labels) (\<lambda>r. EListPods ns labels r)"

definition Create_Deployment :: "env \<Rightarrow> Deployment \<Rightarrow> (go_error + Deployment) op" where
  "Create_Deployment E d =
     call (\<lambda>tr. kw_create_Deployment (writer E) tr d) (\<lambda>r. ECreate (ODeployment d) (map_sum id ODeployment r))"

definition Create_Job :: "env \<Rightarrow> Job \<Rightarrow> (go_error + Job) op" where
  "Create_Job E j =
     call (\<lambda>tr. kw_create_Job (writer E) tr j) (\<lambda>r. ECreate (OJob j) (map_sum id OJob r))"

definition Create_Pipeline :: "env \<Rightarrow> Pipeline \<Rightarrow> (go_error + Pipeline) op" where
  "Create_Pipeline E p =
     call (\<lambda>tr. kw_create_Pipeline (writer E) tr p) (\<lambda>r. ECreate (OPipeline p) (map_sum id OPipeline r))"

definition Create_PipelineRun :: "env \<Rightarrow> PipelineRun \<Rightarrow> (go_error + PipelineRun) op" where
  "Create_PipelineRun E p =
     call (\<lambda>tr. kw_create_PipelineRun (writer E) tr p) (\<lambda>r. ECreate (OPipelineRun p) (map_sum id OPipelineRun r))"

definition Create_Notification :: "env \<Rightarrow> ConsoleNotification \<Rightarrow> (go_error + ConsoleNotification) op" where
  "Create_Notification E n =
     call (\<lambda>tr. kw_create_Notification (writer E) tr n) (\<lambda>r. ECreate (ONotification n) (map_sum id ONotification r))"

definition Update_Deployment :: "env \<Rightarrow> Deployment \<Rightarrow> (go_error + Deployment) op" where
  "Update_Deployment E d =
     call (\<lambda>tr. kw_update_Deployment (writer E) tr d) (\<lambda>r. EUpdate (ODeployment d) (map_sum id ODeployment r))"

definition Update_Notification :: "env \<Rightarrow> ConsoleNotification \<Rightarrow> (go_error + ConsoleNotification) op" where
  "Update_Notification E n =
     call (\<lambda>tr. kw_update_Notification (writer E) tr n) (\<lambda>r. EUpdate (ONotification n) (map_sum id ONotification r))"

definition Status_Update :: "env \<Rightarrow> Deployment \<Rightarrow> (go_error + Deployment) op" where
  "Status_Update E d = call (\<lambda>tr. kw_status_update (writer E) tr d) (\<lambda>r. EStatusUpdate d r)"

definition Delete_Notification :: "env \<Rightarrow> string \<Rightarrow> (go_error option) op" where
  "Delete_Notification E n =
     call (\<lambda>tr. kw_delete_Notification (writer E) tr n) (\<lambda>r. EDelete KNotification [] n r)"

definition ReadFile :: "env \<Rightarrow> string \<Rightarrow> (go_error + string) op" where
  "ReadFile E p = call (\<lambda>tr. ho_ReadFile (host E) tr p) (\<lambda>r. EReadFile p r)"

definition MkdirTemp :: "env \<Rightarrow> (go_error + string) op" where
  "MkdirTemp E = call (\<lambda>tr. ho_MkdirTemp (host E) tr) EMkdirTemp"

definition PlainClone :: "env \<Rightarrow> string \<Rightarrow> string \<Rightarrow> string \<Rightarrow> string \<Rightarrow> string \<Rightarrow> (go_error option) op" where
  "PlainClone E dir url refname user pass =
     call (\<lambda>tr. ho_PlainClone (host E) tr dir url refname user pass) (\<lambda>r. EPlainClone dir url refname r)"

definition RemoveAll :: "string \<Rightarrow> unit op" where
  "RemoveAll dir = emit (ERemoveAll dir)"

definition PodLogs :: "env \<Rightarrow> string \<Rightarrow> string \<Rightarrow> string \<Rightarrow> int \<Rightarrow> (go_error + (go_error + string)) op" where
  "PodLogs E ns pod container lines =
     call (\<lambda>tr. ho_PodLogs (host E) tr ns pod container lines) (\<lambda>_. EPodLogs ns pod container lines)"

definition InClusterConfig :: "env \<Rightarrow> (go_error option) op" where
  "InClusterConfig E = call (\<lambda>tr. ib_InClusterConfig (ibm E) tr) EInClusterConfig"

definition NewForConfig :: "env \<Rightarrow> (go_error option) op" where
  "NewForConfig E = call (\<lambda>tr. ib_NewForConfig (ibm E) tr) ENewForConfig"

definition Get_Secret :: "env \<Rightarrow> string \<Rightarrow> string \<Rightarrow> (go_error + (string \<rightharpoonup> string)) op" where
  "Get_Secret E ns n = call (\<lambda>tr. ib_Secret (ibm E) tr ns n) (\<lambda>r. EGetSecret ns n r)"

definition NewSecretsManagerV2 :: "env \<Rightarrow> string \<Rightarrow> string \<Rightarrow> (go_error option) op" where
  "NewSecretsManagerV2 E key url =
     call (\<lambda>tr. ib_NewSecretsManagerV2 (ibm E) tr key url) (\<lambda>r. ENewSecretsManager key url r)"

definition SecretsManager_GetSecret :: "env \<Rightarrow> string \<Rightarrow> string \<Rightarrow> string \<Rightarrow> (go_error + sm_secret) op" where
  "SecretsManager_GetSecret E key url ident =
     call (\<lambda>tr. ib_GetSecret (ibm E) tr key url ident) (\<lambda>r. ESecretsManagerGet ident r)"

definition Get_ServiceAccount :: "env \<Rightarrow> string \<Rightarrow> string \<Rightarrow> (go_error + ServiceAccount) op" where
  "Get_ServiceAccount E ns n = call (\<lambda>tr. ks_get_ServiceAccount (cluster E) tr ns n)
     (\<lambda>r. EGet KServiceAccount ns n (map_sum id OServiceAccount r))"

definition Get_ClusterRoleBinding :: "env \<Rightarrow> string \<Rightarrow> (go_error + ClusterRoleBinding) op" where
  "Get_ClusterRoleBinding E n = call (\<lambda>tr. ks_get_ClusterRoleBinding (cluster E) tr n)
     (\<lambda>r. EGet KClusterRoleBinding [] n (map_sum id OClusterRoleBinding r))"

definition Get_Application :: "env \<Rightarrow> string \<Rightarrow> string \<Rightarrow> (go_error + unstructured) op" where
  "Get_Application E ns n = call (\<lambda>tr. ks_get_Unstructured (cluster E) tr KApplication ns n)
     (\<lambda>r. EGet KApplication ns n (map_sum id OUnstructured r))"

definition Get_ArgoCD :: "env \<Rightarrow> string \<Rightarrow> string \<Rightarrow> (go_error + unstructured) op" where
  "Get_ArgoCD E ns n = call (\<lambda>tr. ks_get_Unstructured (cluster E) tr KArgoCD ns n)
     (\<lambda>r. EGet KArgoCD ns n (map_sum id OUnstructured r))"

definition Create_Secret :: "env \<Rightarrow> Secret \<Rightarrow> (go_error + Secret) op" where
  "Create_Secret E s =
     call (\<lambda>tr. ks_create_Secret (cluster E) tr s) (\<lambda>r. ECreate (OSecret s) (map_sum id OSecret r))"

definition Create_ClusterRoleBinding :: "env \<Rightarrow> ClusterRoleBinding \<Rightarrow> (go_error + ClusterRoleBinding) op" where
  "Create_ClusterRoleBinding E b = call (\<lambda>tr. ks_create_ClusterRoleBinding (cluster E) tr b)
     (\<lambda>r. ECreate (OClusterRoleBinding b) (map_sum id OClusterRoleBinding r))"

definition Create_Unstructured :: "env \<Rightarrow> unstructured \<Rightarrow> (go_error + unstructured) op" where
  "Create_Unstructured E u = call (\<lambda>tr. ks_create_Unstructured (cluster E) tr u)
     (\<lambda>r. ECreate (OUnstructured u) (map_sum id OUnstructured r))"

definition Update_ServiceAccount :: "env \<Rightarrow> ServiceAccount \<Rightarrow> (go_error + ServiceAccount) op" where
  "Update_ServiceAccount E a = call (\<lambda>tr. ks_update_ServiceAccount (cluster E) tr a)
     (\<lambda>r. EUpdate (OServiceAccount a) (map_sum id OServiceAccount r))"

definition Update_ClusterRoleBinding :: "env \<Rightarrow> ClusterRoleBinding \<Rightarrow> (go_error + ClusterRoleBinding) op" where
  "Update_ClusterRoleBinding E b = call (\<lambda>tr. ks_update_ClusterRoleBinding (cluster E) tr b)
     (\<lambda>r. EUpdate (OClusterRoleBinding b) (map_sum id OClusterRoleBinding r))"

definition Delete_Application :: "env \<Rightarrow> string \<Rightarrow> string \<Rightarrow> (go_error option) op" where
  "Delete_Application E ns n =
     call (\<lambda>tr. ks_delete_Application (cluster E) tr ns n) (\<lambda>r. EDelete KApplication ns n r)"

definition Patch_Apply :: "env \<Rightarrow> unstructured \<Rightarrow> (go_error option) op" where
  "Patch_Apply E u = call (\<lambda>tr. ks_patch (cluster E) tr u) (\<lambda>r. EPatch u r)"

definition HttpGet :: "env \<Rightarrow> string \<Rightarrow> string \<Rightarrow> (go_error + http_response) op" where
  "HttpGet E url pat = call (\<lambda>tr. ho_HttpGet (host E) tr url pat) (\<lambda>r. EHttpGet url r)"

definition Start :: "env \<Rightarrow> start_step \<Rightarrow> (go_error option) op" where
  "Start E s = call (\<lambda>tr. ho_Start (host E) tr s) (\<lambda>r. EStart s r)"

text \<open>The \<open>i\<close>-th reading of the clock since the last interaction.\<close>

definition Now :: "env \<Rightarrow> nat \<Rightarrow> int op" where
  "Now E i = asks (\<lambda>tr. ho_Now (host E) tr i)"

text \<open>The same of the monotonic clock, in nanoseconds.\<close>

definition Clock :: "env \<Rightarrow> nat \<Rightarrow> int op" where
  "Clock E i = asks (\<lambda>tr. ho_Clock (host E) tr i)"

text \<open>
  \<open>backoff.Retry\<close> is outside the repository and a parameter here: the environment says, from the
  history and the options, how many attempts it grants and with which error it gives up. All that
  is fixed of it is what it is documented for: it runs the operation until it succeeds or no
  attempt is left.
\<close>

fun attempts :: "env \<Rightarrow> retry_option list \<Rightarrow> nat \<Rightarrow> (go_error + 'a) op \<Rightarrow> (go_error + 'a) op" where
  "attempts E opts 0 attempt = asks (\<lambda>tr. Inl (ho_GaveUp (host E) tr opts))"
| "attempts E opts (Suc n) attempt = do {
     r \<leftarrow> attempt;
     case r of
       Inr v \<Rightarrow> ret (Inr v)
     | Inl _ \<Rightarrow> attempts E opts n attempt
   }"

definition Retry :: "env \<Rightarrow> retry_option list \<Rightarrow> (go_error + 'a) op \<Rightarrow> (go_error + 'a) op" where
  "Retry E opts attempt = do {
     n \<leftarrow> call (\<lambda>tr. ho_Retry (host E) tr opts) (\<lambda>n. ERetry opts n);
     attempts E opts n attempt
   }"

text \<open>
  Go ranges over a map in an unspecified order, different from one loop to the next. The
  environment chooses it; a choice that is no permutation of the keys counts as the identity.
\<close>

definition range_order :: "env \<Rightarrow> string list \<Rightarrow> (string list) op" where
  "range_order E ks =
     asks (\<lambda>tr. let ks' = ho_map_order (host E) tr ks
                in if distinct ks' \<and> set ks' = set ks then ks' else ks)"

lemmas op_defs = Get_Deployment_def Get_ConfigMap_def Get_Job_def Get_PipelineRun_def
  Get_TaskRun_def Get_Notification_def Get_Route_def List_Pods_def Create_Deployment_def
  Create_Job_def Create_Pipeline_def Create_PipelineRun_def Create_Notification_def
  Update_Deployment_def Update_Notification_def Status_Update_def Delete_Notification_def
  ReadFile_def MkdirTemp_def PlainClone_def RemoveAll_def PodLogs_def InClusterConfig_def
  NewForConfig_def Get_Secret_def NewSecretsManagerV2_def SecretsManager_GetSecret_def Now_def
  Get_ServiceAccount_def Get_ClusterRoleBinding_def Get_Application_def Get_ArgoCD_def
  Create_Secret_def Create_ClusterRoleBinding_def Create_Unstructured_def
  Update_ServiceAccount_def Update_ClusterRoleBinding_def Delete_Application_def Patch_Apply_def
  HttpGet_def Start_def Clock_def

lemma emits_range_order [emit_rules]:
  assumes "\<And>ks'. set ks' = set ks \<Longrightarrow> (distinct ks \<Longrightarrow> distinct ks') \<Longrightarrow> emits (g ks') \<Phi>"
  shows "emits (State_Monad.bind (range_order E ks) g) \<Phi>"
proof (rule emits_bind [where \<Psi> = "\<lambda>ks' es. es = [] \<and> set ks' = set ks \<and> (distinct ks \<longrightarrow> distinct ks')"])
  show "emits (range_order E ks)
      (\<lambda>ks' es. es = [] \<and> set ks' = set ks \<and> (distinct ks \<longrightarrow> distinct ks'))"
    unfolding range_order_def by (rule emits_asks_at) (simp add: Let_def)
qed (use assms in simp)

lemma only_range_order [only_rules]: "only P (range_order E ks)"
  by (simp add: range_order_def only_asks)

lemma emits_sm_secret [emit_rules]:
  "(\<And>p. s = ArbitrarySecret p \<Longrightarrow> emits (m p) \<Phi>) \<Longrightarrow> (s = OtherSecret \<Longrightarrow> emits n \<Phi>) \<Longrightarrow>
   emits (case s of ArbitrarySecret p \<Rightarrow> m p | OtherSecret \<Rightarrow> n) \<Phi>"
  by (cases s) simp_all

lemma only_sm_secret [only_rules]:
  "(\<And>p. s = ArbitrarySecret p \<Longrightarrow> only P (m p)) \<Longrightarrow> (s = OtherSecret \<Longrightarrow> only P n) \<Longrightarrow>
   only P (case s of ArbitrarySecret p \<Rightarrow> m p | OtherSecret \<Rightarrow> n)"
  by (cases s) simp_all

section \<open>Classes of interactions\<close>

text \<open>An interaction that changes the cluster.\<close>

fun api_write :: "event \<Rightarrow> bool" where
  "api_write (ECreate _ _) = True"
| "api_write (EUpdate _ _) = True"
| "api_write (EStatusUpdate _ _) = True"
| "api_write (EDelete _ _ _ _) = True"
| "api_write (EPatch _ _) = True"
| "api_write _ = False"

fun reads_deployment :: "event \<Rightarrow> bool" where
  "reads_deployment (EGet KDeployment _ _ _) = True"
| "reads_deployment _ = False"

text \<open>What a dependency of the reconciler may do: anything but write to the cluster or read the
  custom resource.\<close>

definition quiet :: "event \<Rightarrow> bool" where
  "quiet e \<longleftrightarrow> \<not> api_write e \<and> \<not> reads_deployment e"

text \<open>The statuses a run of the controller sent to the server, in order.\<close>

definition status_writes :: "trace \<Rightarrow> Deployment list" where
  "status_writes es = [d. EStatusUpdate d _ \<leftarrow> es]"

lemma status_writes_simps [simp]:
  "status_writes [] = []"
  "status_writes (es @ es') = status_writes es @ status_writes es'"
  "status_writes (EStatusUpdate d r # es) = d # status_writes es"
  by (simp_all add: status_writes_def)

lemma status_writes_quiet [simp]: "quiet e \<Longrightarrow> status_writes (e # es) = status_writes es"
  by (cases e) (simp_all add: status_writes_def quiet_def)

lemma status_writes_changes [simp]:
  "status_writes (ECreate ob g # es) = status_writes es"
  "status_writes (EUpdate ob g # es) = status_writes es"
  "status_writes (EDelete k a b c # es) = status_writes es"
  "status_writes (EGet k a b g # es) = status_writes es"
  by (simp_all add: status_writes_def)

lemma status_writes_other:
  "(\<And>d r. e \<noteq> EStatusUpdate d r) \<Longrightarrow> status_writes (e # es) = status_writes es"
  by (cases e) (auto simp: status_writes_def)

lemma set_status_writes: "d \<in> set (status_writes es) \<longleftrightarrow> (\<exists>r. EStatusUpdate d r \<in> set es)"
  by (induction es) (auto simp: status_writes_def split: event.splits)

section \<open>Third-party helpers\<close>

record lib =
  li_SetStatusCondition :: "int \<Rightarrow> Condition list \<Rightarrow> Condition \<Rightarrow> Condition list"
  li_SetControllerReference :: "ObjectMeta \<Rightarrow> ObjectMeta \<Rightarrow> go_error + ObjectMeta"
  li_ContainsFinalizer :: "ObjectMeta \<Rightarrow> string \<Rightarrow> bool"
  li_AddFinalizer :: "ObjectMeta \<Rightarrow> string \<Rightarrow> ObjectMeta"
  li_RemoveFinalizer :: "ObjectMeta \<Rightarrow> string \<Rightarrow> ObjectMeta"
  li_GetCondition :: "KnativeCondition list \<Rightarrow> string \<Rightarrow> KnativeCondition option"
  li_Unmarshal_Pipeline :: "string \<Rightarrow> go_error + Pipeline"
  li_Unmarshal_PipelineRun :: "string \<Rightarrow> go_error + PipelineRun"
  li_Unmarshal_params :: "string \<Rightarrow> go_error + (string \<times> string) list"
  li_Quote :: "string \<Rightarrow> string"

text \<open>
  The documented behaviour the code relies on: \<open>meta.SetStatusCondition\<close> makes the given
  condition the one of its type and leaves the others, with one condition for each type;
  \<open>controllerutil\<close> adds, removes and finds finalizers and touches nothing else;
  \<open>SetControllerReference\<close> changes owner references only; \<open>GetCondition\<close> finds a condition by its
  type; a decoded map has each key once.
\<close>

definition same_condition :: "Condition \<Rightarrow> Condition \<Rightarrow> bool" where
  "same_condition a b \<longleftrightarrow> mc_Type a = mc_Type b \<and> mc_Status a = mc_Status b \<and>
     mc_Reason a = mc_Reason b \<and> mc_Message a = mc_Message b \<and>
     mc_ObservedGeneration a = mc_ObservedGeneration b"

locale kube_lib =
  fixes L :: lib
  assumes set_condition_same:
      "\<exists>c'. find_condition (li_SetStatusCondition L now cs c) (mc_Type c) = Some c' \<and> same_condition c' c"
    and set_condition_other:
      "t \<noteq> mc_Type c \<Longrightarrow>
       find_condition (li_SetStatusCondition L now cs c) t = find_condition cs t"
    and set_condition_distinct:
      "distinct (map mc_Type cs) \<Longrightarrow> distinct (map mc_Type (li_SetStatusCondition L now cs c))"
    and contains_finalizer: "li_ContainsFinalizer L m f \<longleftrightarrow> f \<in> set (om_Finalizers m)"
    and add_finalizer:
      "li_AddFinalizer L m f =
         (if f \<in> set (om_Finalizers m) then m else m\<lparr>om_Finalizers := om_Finalizers m @ [f]\<rparr>)"
    and remove_finalizer:
      "li_RemoveFinalizer L m f = m\<lparr>om_Finalizers := [x \<leftarrow> om_Finalizers m. x \<noteq> f]\<rparr>"
    and controller_reference:
      "li_SetControllerReference L owner m = Inr m' \<Longrightarrow>
       \<exists>rs. m' = m\<lparr>om_OwnerReferences := rs\<rparr> \<and> (\<exists>r \<in> set rs. or_Name r = om_Name owner \<and> or_Controller r)"
    and get_condition: "li_GetCondition L kcs t = find (\<lambda>c. kc_Type c = t) kcs"
    and params_distinct: "li_Unmarshal_params L raw = Inr ov \<Longrightarrow> distinct (map fst ov)"
begin

lemma condition_set [simp]:
  "map_option mc_Status (find_condition (li_SetStatusCondition L now cs (condition t s r m g)) t) = Some s"
  using set_condition_same [of now cs "condition t s r m g"] by (auto simp: same_condition_def)

lemma condition_kept [simp]:
  "t' \<noteq> t \<Longrightarrow> find_condition (li_SetStatusCondition L now cs (condition t s r m g)) t' = find_condition cs t'"
  using set_condition_other [of t' "condition t s r m g"] by simp

lemma removed_finalizer [simp]: "f \<notin> set (om_Finalizers (li_RemoveFinalizer L m f))"
  by (simp add: remove_finalizer)

lemma added_finalizer [simp]: "f \<in> set (om_Finalizers (li_AddFinalizer L m f))"
  by (simp add: add_finalizer)

end

text \<open>
  An executable instance, written from the documentation of \<open>k8s.io/apimachinery\<close> and
  \<open>controller-runtime\<close>. The YAML decoders and \<open>%q\<close> stay parameters; a decoder of a map
  refuses a key that occurs twice, as the YAML library does.
\<close>

fun documented_SetStatusCondition :: "int \<Rightarrow> Condition list \<Rightarrow> Condition \<Rightarrow> Condition list" where
  "documented_SetStatusCondition now [] c =
     [if mc_LastTransitionTime c = 0 then c\<lparr>mc_LastTransitionTime := now\<rparr> else c]"
| "documented_SetStatusCondition now (x # xs) c =
     (if mc_Type x = mc_Type c
      then c\<lparr>mc_LastTransitionTime :=
               (if mc_Status x = mc_Status c then mc_LastTransitionTime x
                else if mc_LastTransitionTime c = 0 then now else mc_LastTransitionTime c)\<rparr> # xs
      else x # documented_SetStatusCondition now xs c)"

definition documented_SetControllerReference :: "ObjectMeta \<Rightarrow> ObjectMeta \<Rightarrow> go_error + ObjectMeta" where
  "documented_SetControllerReference owner m =
     (let mine = \<lparr>or_Kind = ''Deployment'', or_Name = om_Name owner, or_Controller = True\<rparr>
      in if \<exists>r \<in> set (om_OwnerReferences m). or_Controller r \<and> or_Name r \<noteq> om_Name owner
         then Inl (Errorf ''object is already owned by another controller'')
         else Inr (m\<lparr>om_OwnerReferences :=
                [r \<leftarrow> om_OwnerReferences m. or_Name r \<noteq> om_Name owner] @ [mine]\<rparr>))"

definition documented_lib ::
  "(string \<Rightarrow> go_error + Pipeline) \<Rightarrow> (string \<Rightarrow> go_error + PipelineRun) \<Rightarrow>
   (string \<Rightarrow> go_error + (string \<times> string) list) \<Rightarrow> (string \<Rightarrow> string) \<Rightarrow> lib" where
  "documented_lib up ur ps q = \<lparr>
     li_SetStatusCondition = documented_SetStatusCondition,
     li_SetControllerReference = documented_SetControllerReference,
     li_ContainsFinalizer = (\<lambda>m f. List.member (om_Finalizers m) f),
     li_AddFinalizer = (\<lambda>m f. if List.member (om_Finalizers m) f then m
                              else m\<lparr>om_Finalizers := om_Finalizers m @ [f]\<rparr>),
     li_RemoveFinalizer = (\<lambda>m f. m\<lparr>om_Finalizers := [x \<leftarrow> om_Finalizers m. x \<noteq> f]\<rparr>),
     li_GetCondition = (\<lambda>cs t. find (\<lambda>c. kc_Type c = t) cs),
     li_Unmarshal_Pipeline = up,
     li_Unmarshal_PipelineRun = ur,
     li_Unmarshal_params = (\<lambda>raw. case ps raw of Inl e \<Rightarrow> Inl e
        | Inr ov \<Rightarrow> if distinct (map fst ov) then Inr ov else Inl (Errorf ''key already set'')),
     li_Quote = q\<rparr>"

lemma documented_set_condition:
  "\<exists>c'. find_condition (documented_SetStatusCondition now cs c) (mc_Type c) = Some c' \<and> same_condition c' c"
  by (induction cs) (auto simp: find_condition_def same_condition_def)

lemma documented_set_condition_other:
  "t \<noteq> mc_Type c \<Longrightarrow> find_condition (documented_SetStatusCondition now cs c) t = find_condition cs t"
  by (induction cs) (auto simp: find_condition_def)

lemma documented_types:
  "mc_Type ` set (documented_SetStatusCondition now cs c) = insert (mc_Type c) (mc_Type ` set cs)"
  by (induction cs) auto

lemma documented_distinct:
  "distinct (map mc_Type cs) \<Longrightarrow> distinct (map mc_Type (documented_SetStatusCondition now cs c))"
  by (induction cs) (auto simp: documented_types image_iff)

interpretation documented: kube_lib "documented_lib up ur ps q"
proof
  fix now cs c and t :: string
  show "\<exists>c'. find_condition (li_SetStatusCondition (documented_lib up ur ps q) now cs c) (mc_Type c)
          = Some c' \<and> same_condition c' c"
    by (simp add: documented_lib_def documented_set_condition)
  show "t \<noteq> mc_Type c \<Longrightarrow>
      find_condition (li_SetStatusCondition (documented_lib up ur ps q) now cs c) t = find_condition cs t"
    by (simp add: documented_lib_def documented_set_condition_other)
  show "distinct (map mc_Type cs) \<Longrightarrow>
      distinct (map mc_Type (li_SetStatusCondition (documented_lib up ur ps q) now cs c))"
    by (simp add: documented_lib_def documented_distinct)
qed (auto simp: documented_lib_def documented_SetControllerReference_def Let_def List.member_iff
     split: if_splits sum.splits)

end
