(* ===== verification/Interfaces.thy ===== *)
theory Interfaces
  imports Effects
begin

text \<open>
  The configuration (\<open>pkg/config/config.go\<close>), the IBM services (\<open>pkg/ibm/secret_manager.go\<close>) and
  the four interfaces the reconciler is built from with their production implementations
  (\<open>internal/controller/interfaces.go\<close>). Each Go interface is a locale that states what the
  reconciler relies on, interpreted on the implementation that \<open>cmd/main.go\<close> wires in.
\<close>

section \<open>pkg/config\<close>

definition PipelineServiceAccount :: string where "PipelineServiceAccount = ''pipeline''"
definition GitHubSecretName :: string where "GitHubSecretName = ''github-ibm-pat''"
definition GitHubUsername :: string where "GitHubUsername = ''x-oauth-basic''"
definition IBMSecretName :: string where "IBMSecretName = ''ibm-secret''"
definition IBMSecretNamespace :: string where "IBMSecretNamespace = ''kube-system''"

text \<open>Reading a Go map: a missing key gives the empty string.\<close>

definition data_at :: "(string \<rightharpoonup> string) \<Rightarrow> string \<Rightarrow> string" where
  "data_at m k = (case m k of None \<Rightarrow> [] | Some v \<Rightarrow> v)"

definition getOperatorNamespace :: "env \<Rightarrow> (go_error + string) op" where
  "getOperatorNamespace E = do {
     r \<leftarrow> ReadFile E ''/var/run/secrets/kubernetes.io/serviceaccount/namespace'';
     case r of
       Inl e \<Rightarrow> ret (Inl (wrapf ''failed to read namespace file: '' e))
     | Inr text \<Rightarrow> ret (Inr (TrimSpace text))
   }"

definition config_keys :: "string list" where
  "config_keys = [''secretsManagerURL'', ''secretsManagerSecretID'', ''gitBaseURL'',
     ''argoCDRepoURL'', ''ansibleRunnerImage'']"

definition config_of :: "(string \<rightharpoonup> string) \<Rightarrow> OperatorConfig" where
  "config_of m = \<lparr>oc_SecretsManagerURL = data_at m ''secretsManagerURL'',
     oc_SecretsManagerSecretID = data_at m ''secretsManagerSecretID'',
     oc_GitBaseURL = data_at m ''gitBaseURL'',
     oc_ArgoCDRepoURL = data_at m ''argoCDRepoURL'',
     oc_AnsibleRunnerImage = data_at m ''ansibleRunnerImage''\<rparr>"

text \<open>The map \<open>required\<close> of the source, from key to configured value.\<close>

definition required_value :: "OperatorConfig \<Rightarrow> string \<Rightarrow> string" where
  "required_value cfg k =
     (if k = ''secretsManagerURL'' then oc_SecretsManagerURL cfg
      else if k = ''secretsManagerSecretID'' then oc_SecretsManagerSecretID cfg
      else if k = ''gitBaseURL'' then oc_GitBaseURL cfg
      else if k = ''argoCDRepoURL'' then oc_ArgoCDRepoURL cfg
      else oc_AnsibleRunnerImage cfg)"

definition LoadFromConfigMap :: "lib \<Rightarrow> env \<Rightarrow> (go_error + OperatorConfig) op" where
  "LoadFromConfigMap L E = do {
     r \<leftarrow> getOperatorNamespace E;
     case r of
       Inl e \<Rightarrow> ret (Inl (wrapf ''failed to determine operator namespace: '' e))
     | Inr namespace \<Rightarrow> do {
         cm \<leftarrow> Get_ConfigMap E namespace ''itz-deployer-config'';
         case cm of
           Inl e \<Rightarrow> ret (Inl (wrapf ''failed to get operator configmap: '' e))
         | Inr m \<Rightarrow> do {
             keys \<leftarrow> range_order E config_keys;
             case find (\<lambda>k. required_value (config_of m) k = []) keys of
               Some k \<Rightarrow> ret (Inl (Errorf (''operator configmap is missing required key '' @ li_Quote L k)))
             | None \<Rightarrow> ret (Inr (config_of m))
           }
       }
   }"

definition config_complete :: "OperatorConfig \<Rightarrow> bool" where
  "config_complete cfg \<longleftrightarrow> oc_SecretsManagerURL cfg \<noteq> [] \<and> oc_SecretsManagerSecretID cfg \<noteq> [] \<and>
     oc_GitBaseURL cfg \<noteq> [] \<and> oc_ArgoCDRepoURL cfg \<noteq> [] \<and> oc_AnsibleRunnerImage cfg \<noteq> []"

section \<open>pkg/ibm\<close>

definition GetIBMAPIKey :: "env \<Rightarrow> (go_error + string) op" where
  "GetIBMAPIKey E = do {
     c \<leftarrow> InClusterConfig E;
     case c of
       Some e \<Rightarrow> ret (Inl (wrapf ''failed to get in-cluster config: '' e))
     | None \<Rightarrow> do {
         k \<leftarrow> NewForConfig E;
         case k of
           Some e \<Rightarrow> ret (Inl (wrapf ''failed to create clientset: '' e))
         | None \<Rightarrow> do {
             s \<leftarrow> Get_Secret E IBMSecretNamespace IBMSecretName;
             case s of
               Inl e \<Rightarrow> ret (Inl (wrapf (''failed to get secret '' @ squoted IBMSecretName @ '': '') e))
             | Inr m \<Rightarrow>
                 (case m ''apiKey'' of
                    None \<Rightarrow> ret (Inl (Errorf (''apiKey not found in secret '' @ squoted IBMSecretName)))
                  | Some key \<Rightarrow> ret (Inr key))
           }
       }
   }"

text \<open>The client of the Secrets Manager is known by its API key and address.\<close>

definition CreateSecretsManagerClient ::
  "env \<Rightarrow> string \<Rightarrow> OperatorConfig \<Rightarrow> (go_error + (string \<times> string)) op" where
  "CreateSecretsManagerClient E apiKey cfg = do {
     r \<leftarrow> NewSecretsManagerV2 E apiKey (oc_SecretsManagerURL cfg);
     case r of
       Some e \<Rightarrow> ret (Inl (wrapf ''failed to create secrets manager client: '' e))
     | None \<Rightarrow> ret (Inr (apiKey, oc_SecretsManagerURL cfg))
   }"

definition GetGitHubPAT :: "env \<Rightarrow> string \<times> string \<Rightarrow> string \<Rightarrow> (go_error + string) op" where
  "GetGitHubPAT E smClient secretID = do {
     r \<leftarrow> SecretsManager_GetSecret E (fst smClient) (snd smClient) secretID;
     case r of
       Inl e \<Rightarrow> ret (Inl (wrapf ''failed to get secret: '' e))
     | Inr s \<Rightarrow>
         (case s of
            OtherSecret \<Rightarrow>
              ret (Inl (Errorf (''secret with ID '' @ secretID @ '' is not an ArbitrarySecret'')))
          | ArbitrarySecret p \<Rightarrow>
              (case p of
                 None \<Rightarrow> ret (Inl (Errorf ''secret payload is empty''))
               | Some pat \<Rightarrow> ret (Inr (TrimSpace pat))))
   }"

section \<open>The production implementations\<close>

definition realConfigLoader_Load :: "lib \<Rightarrow> env \<Rightarrow> (go_error + OperatorConfig) op" where
  "realConfigLoader_Load L E = LoadFromConfigMap L E"

definition realCredentialProvider_GetGitHubPAT :: "env \<Rightarrow> OperatorConfig \<Rightarrow> (go_error + string) op" where
  "realCredentialProvider_GetGitHubPAT E cfg = do {
     k \<leftarrow> GetIBMAPIKey E;
     case k of
       Inl e \<Rightarrow> ret (Inl e)
     | Inr apiKey \<Rightarrow> do {
         c \<leftarrow> CreateSecretsManagerClient E apiKey cfg;
         case c of
           Inl e \<Rightarrow> ret (Inl e)
         | Inr smClient \<Rightarrow> GetGitHubPAT E smClient (oc_SecretsManagerSecretID cfg)
       }
   }"

text \<open>A clone answers the directory and the function that removes it.\<close>

definition realRepoCloner_Clone ::
  "env \<Rightarrow> string \<Rightarrow> string \<Rightarrow> string \<Rightarrow> (go_error + (string \<times> unit op)) op" where
  "realRepoCloner_Clone E repoURL release pat = do {
     t \<leftarrow> MkdirTemp E;
     case t of
       Inl e \<Rightarrow> ret (Inl (wrapf ''failed to create temp directory: '' e))
     | Inr dir \<Rightarrow> do {
         c \<leftarrow> PlainClone E dir repoURL (''refs/tags/'' @ release) GitHubUsername pat;
         case c of
           Some e \<Rightarrow> do {
             RemoveAll dir;
             ret (Inl (wrapf (''failed to clone '' @ repoURL @ '' at tag '' @ release @ '': '') e))
           }
         | None \<Rightarrow> ret (Inr (dir, RemoveAll dir))
       }
   }"

definition errEmptyRouteHost :: go_error where
  "errEmptyRouteHost = Errorf ''console route spec.host is empty''"

definition realRouteResolver_GetExternalClusterBaseURL :: "env \<Rightarrow> (go_error + string) op" where
  "realRouteResolver_GetExternalClusterBaseURL E = do {
     r \<leftarrow> Get_Route E ''openshift-console'' ''console'';
     case r of
       Inl e \<Rightarrow> ret (Inl e)
     | Inr h \<Rightarrow> if h = [] then ret (Inl errEmptyRouteHost) else ret (Inr (''https://'' @ h))
   }"

text \<open>The interface fields of \<open>DeploymentReconciler\<close>, and the values \<open>main\<close> gives them.\<close>

record reconciler =
  Loader :: "(go_error + OperatorConfig) op"
  Creds :: "OperatorConfig \<Rightarrow> (go_error + string) op"
  Cloner :: "string \<Rightarrow> string \<Rightarrow> string \<Rightarrow> (go_error + (string \<times> unit op)) op"
  Resolver :: "(go_error + string) op"

definition real_reconciler :: "lib \<Rightarrow> env \<Rightarrow> reconciler" where
  "real_reconciler L E = \<lparr>Loader = realConfigLoader_Load L E,
     Creds = realCredentialProvider_GetGitHubPAT E,
     Cloner = realRepoCloner_Clone E,
     Resolver = realRouteResolver_GetExternalClusterBaseURL E\<rparr>"

section \<open>The interfaces\<close>

text \<open>Temporary directories that exist after some interactions, of those that existed before.\<close>

fun live_dirs :: "string set \<Rightarrow> trace \<Rightarrow> string set" where
  "live_dirs D [] = D"
| "live_dirs D (EMkdirTemp (Inr dir) # es) = live_dirs (insert dir D) es"
| "live_dirs D (ERemoveAll dir # es) = live_dirs (D - {dir}) es"
| "live_dirs D (_ # es) = live_dirs D es"

fun makes_temp :: "event \<Rightarrow> bool" where
  "makes_temp (EMkdirTemp _) = True"
| "makes_temp _ = False"

definition inert :: "event \<Rightarrow> bool" where
  "inert e \<longleftrightarrow> quiet e \<and> \<not> makes_temp e"

lemma live_dirs_append [simp]: "live_dirs D (es @ es') = live_dirs (live_dirs D es) es'"
  by (induction D es rule: live_dirs.induct) auto

lemma live_dirs_mono: "D \<subseteq> D' \<Longrightarrow> live_dirs D es \<subseteq> live_dirs D' es"
proof (induction D es arbitrary: D' rule: live_dirs.induct)
  case (2 D dir es)
  then have "insert dir D \<subseteq> insert dir D'" by blast
  with 2 show ?case by simp
next
  case (3 D dir es)
  then have "D - {dir} \<subseteq> D' - {dir}" by blast
  with 3 show ?case by simp
qed auto

lemma live_dirs_no_temp: "\<forall>e \<in> set es. \<not> makes_temp e \<Longrightarrow> live_dirs D es \<subseteq> D"
proof (induction D es rule: live_dirs.induct)
  case (3 D dir es)
  then have "live_dirs (D - {dir}) es \<subseteq> D - {dir}" by simp
  then show ?case by auto
qed auto

lemma live_dirs_inert: "\<forall>e \<in> set es. inert e \<Longrightarrow> live_dirs D es \<subseteq> D"
  by (rule live_dirs_no_temp) (auto simp: inert_def)

locale config_loader =
  fixes Load :: "(go_error + OperatorConfig) op"
  assumes load_inert: "only inert Load"
    and load_complete: "emits Load (\<lambda>r _. case r of Inl _ \<Rightarrow> True | Inr cfg \<Rightarrow> config_complete cfg)"

locale credential_provider =
  fixes GetPAT :: "OperatorConfig \<Rightarrow> (go_error + string) op"
  assumes pat_inert: "only inert (GetPAT cfg)"

locale repo_cloner =
  fixes Clone :: "string \<Rightarrow> string \<Rightarrow> string \<Rightarrow> (go_error + (string \<times> unit op)) op"
  assumes clone_quiet: "only quiet (Clone url release pat)"
    and clone_dirs: "emits (Clone url release pat) (\<lambda>r es. \<forall>D.
        live_dirs D es \<subseteq> (case r of Inl _ \<Rightarrow> D | Inr (dir, _) \<Rightarrow> insert dir D))"
    and cleanup_removes: "emits (Clone url release pat) (\<lambda>r _. case r of Inl _ \<Rightarrow> True
        | Inr (dir, cleanup) \<Rightarrow>
            emits cleanup (\<lambda>_ es. (\<forall>e \<in> set es. quiet e) \<and> (\<forall>D. live_dirs D es \<subseteq> D - {dir})))"

locale route_resolver =
  fixes Resolve :: "(go_error + string) op"
  assumes resolve_inert: "only inert Resolve"
    and resolve_https: "emits Resolve (\<lambda>r _. case r of Inl _ \<Rightarrow> True
        | Inr url \<Rightarrow> \<exists>h. h \<noteq> [] \<and> url = ''https://'' @ h)"

locale reconciler_deps =
  loader: config_loader "Loader R" + creds: credential_provider "Creds R" +
  cloner: repo_cloner "Cloner R" + resolver: route_resolver "Resolver R"
  for R :: reconciler

lemma quiet_simps [simp]:
  "quiet (EReadFile p r)" "quiet (EMkdirTemp m)" "quiet (EPlainClone dr u f c)" "quiet (ERemoveAll dr)"
  "quiet (EInClusterConfig c)" "quiet (ENewForConfig c)" "quiet (EGetSecret a b s)"
  "quiet (ENewSecretsManager a b c)" "quiet (ESecretsManagerGet a sm)"
  "quiet (EGet k a b g) \<longleftrightarrow> k \<noteq> KDeployment" "quiet (EListPods a l ps)" "quiet (EPodLogs a b l2 i)"
  "\<not> quiet (ECreate ob g)" "\<not> quiet (EUpdate ob g)" "\<not> quiet (EStatusUpdate d sr)"
  "\<not> quiet (EDelete k a b c)" "quiet (ERetry ro rn)" "quiet (EHttpGet url hr)" "\<not> quiet (EPatch uo up)"
  "quiet (ESelect tm rdy ch)" "quiet (EStart ss sa)"
  by (cases k; simp add: quiet_def)+

lemma inert_simps [simp]:
  "inert (EReadFile p r)" "inert (ERemoveAll dr)" "inert (EInClusterConfig c)" "inert (ENewForConfig c)"
  "inert (EGetSecret a b s)" "inert (ENewSecretsManager a b c)" "inert (ESecretsManagerGet a sm)"
  "inert (EGet k a b g) \<longleftrightarrow> k \<noteq> KDeployment" "inert (EListPods a l ps)" "inert (EPodLogs a b l2 i)"
  "inert (ERetry ro rn)" "inert (EHttpGet url hr)" "inert (ESelect tm rdy ch)" "inert (EStart ss sa)"
  by (simp_all add: inert_def)

lemmas interface_defs = getOperatorNamespace_def LoadFromConfigMap_def
  GetIBMAPIKey_def CreateSecretsManagerClient_def GetGitHubPAT_def realConfigLoader_Load_def
  realCredentialProvider_GetGitHubPAT_def realRepoCloner_Clone_def
  realRouteResolver_GetExternalClusterBaseURL_def op_defs

section \<open>The production implementations keep their promises\<close>

lemma find_config_key:
  assumes "set ks = set config_keys" and "find (\<lambda>k. required_value cfg k = []) ks = None"
  shows "config_complete cfg"
proof -
  have "\<forall>k \<in> set config_keys. required_value cfg k \<noteq> []"
    using assms by (auto simp: find_None_iff)
  then show ?thesis by (simp add: config_keys_def required_value_def config_complete_def)
qed

interpretation real_loader: config_loader "realConfigLoader_Load L E"
proof
  show "only inert (realConfigLoader_Load L E)"
    by (auto simp: interface_defs intro!: only_rules)
  show "emits (realConfigLoader_Load L E) (\<lambda>r _. case r of Inl _ \<Rightarrow> True | Inr cfg \<Rightarrow> config_complete cfg)"
    by (auto simp: interface_defs Let_def intro!: emit_rules) (erule (1) find_config_key)+
qed

interpretation real_creds: credential_provider "realCredentialProvider_GetGitHubPAT E"
  by standard (auto simp: interface_defs intro!: only_rules)

interpretation real_cloner: repo_cloner "realRepoCloner_Clone E"
proof
  fix url release pat
  show "only quiet (realRepoCloner_Clone E url release pat)"
    by (auto simp: interface_defs intro!: only_rules)
  show "emits (realRepoCloner_Clone E url release pat) (\<lambda>r es. \<forall>D.
        live_dirs D es \<subseteq> (case r of Inl _ \<Rightarrow> D | Inr (dir, _) \<Rightarrow> insert dir D))"
    by (auto simp: interface_defs intro!: emit_rules)
  show "emits (realRepoCloner_Clone E url release pat) (\<lambda>r _. case r of Inl _ \<Rightarrow> True
        | Inr (dir, cleanup) \<Rightarrow>
            emits cleanup (\<lambda>_ es. (\<forall>e \<in> set es. quiet e) \<and> (\<forall>D. live_dirs D es \<subseteq> D - {dir})))"
    by (auto simp: interface_defs intro!: emit_rules)
qed

interpretation real_resolver: route_resolver "realRouteResolver_GetExternalClusterBaseURL E"
proof
  show "only inert (realRouteResolver_GetExternalClusterBaseURL E)"
    by (auto simp: interface_defs intro!: only_rules)
  show "emits (realRouteResolver_GetExternalClusterBaseURL E) (\<lambda>r _. case r of Inl _ \<Rightarrow> True
        | Inr url \<Rightarrow> \<exists>h. h \<noteq> [] \<and> url = ''https://'' @ h)"
    by (auto simp: interface_defs intro!: emit_rules)
qed

interpretation production: reconciler_deps "real_reconciler L E"
  unfolding reconciler_deps_def real_reconciler_def
  by (simp add: real_loader.config_loader_axioms real_creds.credential_provider_axioms
    real_cloner.repo_cloner_axioms real_resolver.route_resolver_axioms)

section \<open>Properties\<close>

text \<open>A configuration that loads is complete, each of its five values non-empty, and its
  values are those of the config map \<open>itz-deployer-config\<close> that was read.\<close>

lemma config_loaded_complete:
  "emits (LoadFromConfigMap L E) (\<lambda>r es. case r of
     Inl _ \<Rightarrow> True
   | Inr cfg \<Rightarrow> config_complete cfg \<and>
       (\<exists>ns m. EGet KConfigMap ns ''itz-deployer-config'' (Inr (OConfigMap m)) \<in> set es \<and> cfg = config_of m))"
  by (auto simp: LoadFromConfigMap_def getOperatorNamespace_def op_defs Let_def intro!: emit_rules)
    (erule (1) find_config_key)+

text \<open>C40: The token of the clone is the trimmed payload of the configured secret, fetched from the
  configured address with the API key of the cluster secret: the five calls are made in this
  order, each only after the one before it succeeded.\<close>

theorem pat_fetched_in_order:
  "emits (realCredentialProvider_GetGitHubPAT E cfg) (\<lambda>r es. case r of
     Inl _ \<Rightarrow> True
   | Inr pat \<Rightarrow> (\<exists>m key payload. m ''apiKey'' = Some key \<and> pat = TrimSpace payload \<and>
       es = [EInClusterConfig None, ENewForConfig None, EGetSecret ''kube-system'' ''ibm-secret'' (Inr m),
             ENewSecretsManager key (oc_SecretsManagerURL cfg) None,
             ESecretsManagerGet (oc_SecretsManagerSecretID cfg) (Inr (ArbitrarySecret (Some payload)))]))"
  by (auto simp: interface_defs IBMSecretNamespace_def IBMSecretName_def intro!: emit_rules)

text \<open>C37: A clone that fails leaves no temporary directory of its own; one that succeeds has checked
  out the tag of the release into its directory, and its clean-up removes that directory.\<close>

theorem clone_leaves_nothing:
  "emits (realRepoCloner_Clone E url release pat) (\<lambda>r es. case r of
     Inl _ \<Rightarrow> (\<forall>D. live_dirs D es \<subseteq> D)
   | Inr (dir, cleanup) \<Rightarrow> EPlainClone dir url (''refs/tags/'' @ release) None \<in> set es \<and>
       (\<forall>D. live_dirs D es \<subseteq> insert dir D) \<and> (\<forall>D tr. live_dirs D (events cleanup tr) \<subseteq> D - {dir}))"
  unfolding realRepoCloner_Clone_def op_defs
  by (intro emit_rules) (auto simp: events_def emit_def call_def Let_def)

end
