(* ===== verification/Samples.thy ===== *)
theory Samples
  imports Interfaces
begin

text \<open>
  Concrete inputs at which the theorems are applied: an instance of the helpers, a small cluster
  that answers every read and accepts every write, and a deployment. All of it is executable.
\<close>

definition sample_meta :: ObjectMeta where
  "sample_meta = (named ''demo'' ''apps'')
     \<lparr>om_Finalizers := [''techzone.ibm.com/console-notification-cleanup'']\<rparr>"

definition sample_spec :: DeploymentSpec where
  "sample_spec = \<lparr>ds_RepoName = ''demo'', ds_Release = ''v1.0.0'', ds_Parameters = ''params.yaml'',
     ds_Ansible = \<lparr>an_AnsiblePlaybook = [], an_Requirements = []\<rparr>,
     ds_PostDeployment = \<lparr>pd_RepoName = [], pd_Release = [], pd_Parameters = [],
       pd_Ansible = \<lparr>an_AnsiblePlaybook = [], an_Requirements = []\<rparr>\<rparr>\<rparr>"

definition sample_deployment :: Deployment where
  "sample_deployment = \<lparr>d_Meta = sample_meta, d_Spec = sample_spec, d_Status = DeploymentStatus0\<rparr>"

definition sample_condition :: "string \<Rightarrow> KnativeCondition" where
  "sample_condition s = \<lparr>kc_Type = ConditionSucceeded, kc_Status = s, kc_Reason = [],
     kc_Message = ''step build failed''\<rparr>"

definition sample_step :: StepState where
  "sample_step = \<lparr>ss_Name = ''build'',
     ss_Terminated = Some \<lparr>te_ExitCode = 1, te_Reason = ''Error'', te_Message = []\<rparr>\<rparr>"

definition sample_task :: TaskRun where
  "sample_task = \<lparr>tr_Conditions = [sample_condition ConditionFalse], tr_PodName = ''demo-pod'',
     tr_Steps = [sample_step]\<rparr>"

definition sample_run :: PipelineRun where
  "sample_run = \<lparr>pr_Meta = named ''demo-run'' [], pr_Spec = [],
     pr_Params = [\<lparr>pm_Name = ''region'', pm_Value = ParamString ''us''\<rparr>],
     pr_Conditions = [sample_condition ConditionFalse],
     pr_ChildReferences = [\<lparr>cr_Name = ''demo-run-build'', cr_DisplayName = ''build''\<rparr>]\<rparr>"

definition sample_pipeline :: Pipeline where
  "sample_pipeline = \<lparr>pl_Meta = named ''demo-pipeline'' [], pl_Spec = []\<rparr>"

definition sample_lib :: lib where
  "sample_lib = documented_lib (\<lambda>_. Inr sample_pipeline) (\<lambda>_. Inr sample_run)
     (\<lambda>_. Inr [(''region'', ''eu'')]) (\<lambda>s. s)"

lemma sample_lib_kube: "kube_lib sample_lib"
  unfolding sample_lib_def by (rule documented.kube_lib_axioms)

definition missing :: go_error where
  "missing = GoError NotFound ''not found''"

definition sample_client :: "Deployment \<Rightarrow> kube_client" where
  "sample_client d = \<lparr>kc_get_Deployment = (\<lambda>_ _ _. Inr d),
     kc_get_ConfigMap = (\<lambda>_ _ _. Inr (\<lambda>_. Some ''https://git.example.com'')),
     kc_get_Job = (\<lambda>_ _ _. Inl missing),
     kc_get_PipelineRun = (\<lambda>_ _ _. Inr sample_run),
     kc_get_TaskRun = (\<lambda>_ _ _. Inr sample_task),
     kc_get_Notification = (\<lambda>_ _. Inl missing),
     kc_get_Route = (\<lambda>_ _ _. Inr ''console.example.com''),
     kc_list_Pods = (\<lambda>_ _ _. Inr [])\<rparr>"

definition sample_writer :: kube_writer where
  "sample_writer = \<lparr>kw_create_Deployment = (\<lambda>_ d. Inr d), kw_create_Job = (\<lambda>_ j. Inr j),
     kw_create_Pipeline = (\<lambda>_ p. Inr p), kw_create_PipelineRun = (\<lambda>_ p. Inr p),
     kw_create_Notification = (\<lambda>_ n. Inr n), kw_update_Deployment = (\<lambda>_ d. Inr d),
     kw_update_Notification = (\<lambda>_ n. Inr n), kw_status_update = (\<lambda>_ d. Inr d),
     kw_delete_Notification = (\<lambda>_ _. None)\<rparr>"

definition sample_account :: ServiceAccount where
  "sample_account = \<lparr>sa_Meta = named ''pipeline'' ''default'', sa_Secrets = [''pipeline-dockercfg''],
     sa_ImagePullSecrets = []\<rparr>"

text \<open>An Argo CD object that reports everything the bootstrap waits for.\<close>

definition sample_argo :: unstructured where
  "sample_argo = [(''status'', Map_any [(''sync'', Map_any [(''status'', String_any ''Synced'')]),
     (''health'', Map_any [(''status'', String_any ''Healthy'')]), (''server'', String_any ''Running'')])]"

definition sample_setup :: kube_setup where
  "sample_setup = \<lparr>ks_get_ServiceAccount = (\<lambda>_ _ _. Inr sample_account),
     ks_get_ClusterRoleBinding = (\<lambda>_ _. Inl missing), ks_get_Unstructured = (\<lambda>_ _ _ _. Inr sample_argo),
     ks_create_Secret = (\<lambda>_ s. Inr s), ks_create_ClusterRoleBinding = (\<lambda>_ b. Inr b),
     ks_create_Unstructured = (\<lambda>_ u. Inr u), ks_update_ServiceAccount = (\<lambda>_ a. Inr a),
     ks_update_ClusterRoleBinding = (\<lambda>_ b. Inr b), ks_delete_Application = (\<lambda>_ _ _. None),
     ks_patch = (\<lambda>_ _. None)\<rparr>"

definition sample_env :: "Deployment \<Rightarrow> env" where
  "sample_env d = \<lparr>client = sample_client d, writer = sample_writer, cluster = sample_setup,
     ibm = \<lparr>ib_InClusterConfig = (\<lambda>_. None), ib_NewForConfig = (\<lambda>_. None),
       ib_Secret = (\<lambda>_ _ _. Inr [''apiKey'' \<mapsto> ''key'']), ib_NewSecretsManagerV2 = (\<lambda>_ _ _. None),
       ib_GetSecret = (\<lambda>_ _ _ _. Inr (ArbitrarySecret (Some ''pat'')))\<rparr>,
     host = \<lparr>ho_ReadFile = (\<lambda>_ _. Inr ''operator''), ho_MkdirTemp = (\<lambda>_. Inr ''/tmp/itz''),
       ho_PlainClone = (\<lambda>_ _ _ _ _ _. None), ho_PodLogs = (\<lambda>_ _ _ _ _. Inr (Inr ''log'')),
       ho_Now = (\<lambda>_ _. 0), ho_map_order = (\<lambda>_ ks. ks),
       ho_Retry = (\<lambda>_ _. 10), ho_GaveUp = (\<lambda>_ _. missing),
       ho_HttpGet = (\<lambda>_ _ _. Inr \<lparr>hr_StatusCode = 200, hr_Body = Inr ''body''\<rparr>),
       ho_Clock = (\<lambda>tr _. int (length tr) * 1000000000), ho_CtxErr = (\<lambda>_. None),
       ho_Pick = (\<lambda>_ _. 0), ho_Start = (\<lambda>_ _. None)\<rparr>\<rparr>"

end
