(* ===== verification/Diagnostics.thy ===== *)
theory Diagnostics
  imports Samples
begin

text \<open>
  Failure diagnostics, \<open>internal/controller/deployment_diagnostics.go\<close>: what is collected from
  a failed PipelineRun or Job into the status of the resource. The loops over child references
  and steps are recursive functions over the lists; the object they mutate is passed along.
\<close>

section \<open>Remediation hints\<close>

definition remediationHintForStep :: "lib \<Rightarrow> string \<Rightarrow> string \<Rightarrow> 32 word \<Rightarrow> string" where
  "remediationHintForStep L stepName reason exitCode =
     (if reason = ''OOMKilled''
      then ''The container was OOMKilled. Increase memory limits in the pipeline task definition.''
      else
        let stepLower = ToLower stepName in
        if Contains stepLower ''push'' \<or> Contains stepLower ''image''
        then ''Image push failed. Verify registry credentials are present in the pipeline workspace secret and the destination repository exists.''
        else if Contains stepLower ''clone'' \<or> Contains stepLower ''git''
        then ''Git operation failed. Verify the repository URL, tag, and that the GitHub PAT has read access.''
        else if Contains stepLower ''test''
        then ''Test step failed (exit code '' @ fmt_d exitCode @ ''). Review the test output in the log tail above.''
        else if Contains stepLower ''build'' \<or> Contains stepLower ''compile''
        then ''Build step failed. Review compilation errors in the log tail above.''
        else if Contains stepLower ''deploy'' \<or> Contains stepLower ''apply''
        then ''Deployment step failed. Verify cluster permissions and that target namespaces exist.''
        else ''Step '' @ li_Quote L stepName @ '' failed with exit code '' @ fmt_d exitCode @
             ''. Review the log tail above for the root cause.'')"

definition remediationHintForAnsible :: "string \<Rightarrow> string" where
  "remediationHintForAnsible reason =
     (if reason = ''DeadlineExceeded''
      then ''The Ansible job exceeded its deadline. The playbook may be hanging on a task. Review the log tail for the last executed task.''
      else if reason = ''BackoffLimitExceeded''
      then ''The Ansible job exhausted its retry limit. Review the log tail for the recurring failure.''
      else ''Review the ansible-runner container log tail above for the failing task and error message.'')"

section \<open>Logs and pods\<close>

definition logTailLines :: int where "logTailLines = 50"

definition fetchLogTail :: "env \<Rightarrow> string \<Rightarrow> string \<Rightarrow> string \<Rightarrow> string op" where
  "fetchLogTail E namespace podName containerName = do {
     stream \<leftarrow> PodLogs E namespace podName containerName logTailLines;
     ret (case stream of
            Inl _ \<Rightarrow> []
          | Inr copied \<Rightarrow> (case copied of Inl _ \<Rightarrow> [] | Inr text \<Rightarrow> text))
   }"

definition newer_failed :: "Pod option \<Rightarrow> Pod \<Rightarrow> Pod option" where
  "newer_failed latest pod =
     (if po_Phase pod \<noteq> ''Failed'' then latest
      else case latest of
             None \<Rightarrow> Some pod
           | Some l \<Rightarrow> if po_CreationTimestamp l < po_CreationTimestamp pod then Some pod else latest)"

definition mostRecentFailedPod :: "Pod list \<Rightarrow> string" where
  "mostRecentFailedPod pods =
     (case foldl newer_failed None pods of None \<Rightarrow> [] | Some pod \<Rightarrow> po_Name pod)"

section \<open>Tekton\<close>

text \<open>\<open>deployment.Status.Diagnostics = append(deployment.Status.Diagnostics, entry)\<close>.\<close>

definition add_diagnostic :: "DiagnosticEntry \<Rightarrow> Deployment \<Rightarrow> Deployment" where
  "add_diagnostic entry = map_status (\<lambda>s. s\<lparr>st_Diagnostics := st_Diagnostics s @ [entry]\<rparr>)"

definition set_category :: "string \<Rightarrow> Deployment \<Rightarrow> Deployment" where
  "set_category c = map_status (\<lambda>s. s\<lparr>st_FailureCategory := c\<rparr>)"

definition step_entry :: "lib \<Rightarrow> ChildStatusReference \<Rightarrow> StepState \<Rightarrow> Terminated \<Rightarrow> string \<Rightarrow> DiagnosticEntry" where
  "step_entry L ref step t logTail = DiagnosticEntry0\<lparr>de_Component := ''Tekton'',
     de_TaskName := cr_DisplayName ref, de_StepName := ss_Name step, de_ExitCode := Some (te_ExitCode t),
     de_Reason := te_Reason t, de_Message := te_Message t,
     de_RemediationHint := remediationHintForStep L (ss_Name step) (te_Reason t) (te_ExitCode t),
     de_LogTail := logTail\<rparr>"

fun collect_steps ::
  "lib \<Rightarrow> env \<Rightarrow> string \<Rightarrow> ChildStatusReference \<Rightarrow> TaskRun \<Rightarrow> StepState list \<Rightarrow> Deployment \<Rightarrow> Deployment op" where
  "collect_steps L E ns ref tr [] d = ret d"
| "collect_steps L E ns ref tr (step # steps) d =
     (case ss_Terminated step of
        None \<Rightarrow> collect_steps L E ns ref tr steps d
      | Some t \<Rightarrow>
          if te_ExitCode t = 0 then collect_steps L E ns ref tr steps d
          else do {
            logTail \<leftarrow> (if tr_PodName tr \<noteq> [] then fetchLogTail E ns (tr_PodName tr) (''step-'' @ ss_Name step)
                        else ret []);
            collect_steps L E ns ref tr steps (add_diagnostic (step_entry L ref step t logTail) d)
          })"

definition task_entry :: "string \<Rightarrow> ChildStatusReference \<Rightarrow> TaskRun \<Rightarrow> KnativeCondition \<Rightarrow> DiagnosticEntry" where
  "task_entry ns ref tr succeeded = DiagnosticEntry0\<lparr>de_Component := ''Tekton'',
     de_TaskName := cr_DisplayName ref, de_Message := kc_Message succeeded,
     de_RemediationHint := ''Check the TaskRun logs for more details: '' @
       ''oc logs -n '' @ ns @ '' '' @ tr_PodName tr @ '' --all-containers''\<rparr>"

definition task_fallback ::
  "string \<Rightarrow> ChildStatusReference \<Rightarrow> TaskRun \<Rightarrow> KnativeCondition \<Rightarrow> Deployment \<Rightarrow> Deployment" where
  "task_fallback ns ref tr succeeded d =
     (if st_Diagnostics (d_Status d) = [] then add_diagnostic (task_entry ns ref tr succeeded) d else d)"

text \<open>The condition of a failed task run, nil for one that has not failed.\<close>

definition failed_condition :: "lib \<Rightarrow> TaskRun \<Rightarrow> KnativeCondition option" where
  "failed_condition L tr =
     (case li_GetCondition L (tr_Conditions tr) ConditionSucceeded of
        None \<Rightarrow> None
      | Some c \<Rightarrow> if kc_Status c \<noteq> ConditionFalse then None else Some c)"

fun collect_refs :: "lib \<Rightarrow> env \<Rightarrow> string \<Rightarrow> ChildStatusReference list \<Rightarrow> Deployment \<Rightarrow> Deployment op" where
  "collect_refs L E ns [] d = ret d"
| "collect_refs L E ns (ref # refs) d = do {
     t \<leftarrow> Get_TaskRun E ns (cr_Name ref);
     case t of
       Inl _ \<Rightarrow> collect_refs L E ns refs d
     | Inr tr \<Rightarrow>
         (case failed_condition L tr of
            None \<Rightarrow> collect_refs L E ns refs d
          | Some succeeded \<Rightarrow> do {
              d' \<leftarrow> collect_steps L E ns ref tr (tr_Steps tr) d;
              collect_refs L E ns refs (task_fallback ns ref tr succeeded d')
            })
   }"

definition collectTektonDiagnostics :: "lib \<Rightarrow> env \<Rightarrow> Deployment \<Rightarrow> PipelineRun option \<Rightarrow> Deployment op" where
  "collectTektonDiagnostics L E d pr = do {
     k \<leftarrow> NewForConfig E;
     case k of
       Some e \<Rightarrow> ret (add_diagnostic (DiagnosticEntry0\<lparr>de_Component := ''Operator'',
                   de_Message := ''Failed to initialise log client: '' @ message_of e\<rparr>) d)
     | None \<Rightarrow>
         (case pr of
            None \<Rightarrow> ret d
          | Some run \<Rightarrow> do {
              d' \<leftarrow> collect_refs L E (om_Namespace (pr_Meta run)) (pr_ChildReferences run) d;
              ret (set_category FailureCategoryStepFailed d')
            })
   }"

section \<open>Ansible\<close>

definition failed_job_condition :: "Job \<Rightarrow> JobCondition option" where
  "failed_job_condition job =
     find (\<lambda>c. jc_Type c = JobFailed) (case jb_Conditions job of None \<Rightarrow> [] | Some cs \<Rightarrow> cs)"

text \<open>\<open>Inl\<close> is the nil dereference of a Job that has no selector.\<close>

definition collectAnsibleDiagnostics ::
  "env \<Rightarrow> Deployment \<Rightarrow> Job option \<Rightarrow> (go_error + Deployment) op" where
  "collectAnsibleDiagnostics E d jobp =
     (case jobp of
        None \<Rightarrow> ret (Inr d)
      | Some job \<Rightarrow> do {
          k \<leftarrow> NewForConfig E;
          case k of
            Some e \<Rightarrow> ret (Inr d)
          | None \<Rightarrow>
              (case jb_Selector job of
                 None \<Rightarrow> ret (Inl nil_deref)
               | Some labels \<Rightarrow> do {
                   pods \<leftarrow> List_Pods E (om_Namespace (jb_Meta job)) labels;
                   let (reason, message) = (case failed_job_condition job of
                         None \<Rightarrow> ([], []) | Some c \<Rightarrow> (jc_Reason c, jc_Message c));
                   let latest = mostRecentFailedPod (case pods of Inl _ \<Rightarrow> [] | Inr ps \<Rightarrow> ps);
                   logTail \<leftarrow> (if latest \<noteq> []
                     then fetchLogTail E (om_Namespace (jb_Meta job)) latest ''ansible-runner'' else ret []);
                   ret (Inr (set_category FailureCategoryJobFailed (add_diagnostic
                     (DiagnosticEntry0\<lparr>de_Component := ''AnsibleJob'', de_Reason := reason,
                        de_Message := message, de_RemediationHint := remediationHintForAnsible reason,
                        de_LogTail := logTail\<rparr>) d)))
                 })
        })"

section \<open>What the collectors leave alone\<close>

text \<open>The collectors only read the cluster, and change nothing of the object but the diagnostics
  and the failure category.\<close>

definition same_but_diagnostics :: "Deployment \<Rightarrow> Deployment \<Rightarrow> bool" where
  "same_but_diagnostics d d' \<longleftrightarrow>
     d' = map_status (\<lambda>s. s\<lparr>st_Diagnostics := st_Diagnostics (d_Status d'),
                            st_FailureCategory := st_FailureCategory (d_Status d')\<rparr>) d"

lemma same_but_diagnostics_refl [simp]: "same_but_diagnostics d d"
  by (simp add: same_but_diagnostics_def map_status_def)

lemma same_but_diagnostics_iff:
  "same_but_diagnostics d d' \<longleftrightarrow> d_Meta d' = d_Meta d \<and> d_Spec d' = d_Spec d \<and>
     st_Conditions (d_Status d') = st_Conditions (d_Status d) \<and> d_Phase d' = d_Phase d \<and>
     st_Message (d_Status d') = st_Message (d_Status d) \<and>
     st_PipelineRunName (d_Status d') = st_PipelineRunName (d_Status d)"
  by (cases d; cases d'; cases "d_Status d"; cases "d_Status d'")
    (auto simp: same_but_diagnostics_def map_status_def)

lemma same_but_diagnostics_trans:
  "same_but_diagnostics a b \<Longrightarrow> same_but_diagnostics b c \<Longrightarrow> same_but_diagnostics a c"
  by (simp add: same_but_diagnostics_iff)

lemma add_diagnostic_simps [simp]:
  "same_but_diagnostics d (add_diagnostic e d)"
  "st_Diagnostics (d_Status (add_diagnostic e d)) = st_Diagnostics (d_Status d) @ [e]"
  "st_FailureCategory (d_Status (add_diagnostic e d)) = st_FailureCategory (d_Status d)"
  by (simp_all add: add_diagnostic_def same_but_diagnostics_iff)

lemma set_category_simps [simp]:
  "same_but_diagnostics d (set_category c d)"
  "st_Diagnostics (d_Status (set_category c d)) = st_Diagnostics (d_Status d)"
  "st_FailureCategory (d_Status (set_category c d)) = c"
  by (simp_all add: set_category_def same_but_diagnostics_iff)

lemma set_category_same: "same_but_diagnostics d d' \<Longrightarrow> same_but_diagnostics d (set_category c d')"
  by (erule same_but_diagnostics_trans) simp

lemma add_diagnostic_same: "same_but_diagnostics d d' \<Longrightarrow> same_but_diagnostics d (add_diagnostic e d')"
  by (erule same_but_diagnostics_trans) simp

section \<open>What is collected\<close>

text \<open>The steps of a task run that exited non-zero, in order, as the entries will show them.\<close>

type_synonym step_key = "string \<times> string \<times> 32 word option \<times> string \<times> string"

definition key_of :: "DiagnosticEntry \<Rightarrow> step_key" where
  "key_of e = (de_TaskName e, de_StepName e, de_ExitCode e, de_Reason e, de_Message e)"

fun failing_steps :: "ChildStatusReference \<Rightarrow> StepState list \<Rightarrow> step_key list" where
  "failing_steps ref [] = []"
| "failing_steps ref (s # ss) =
     (case ss_Terminated s of
        None \<Rightarrow> failing_steps ref ss
      | Some t \<Rightarrow>
          if te_ExitCode t = 0 then failing_steps ref ss
          else (cr_DisplayName ref, ss_Name s, Some (te_ExitCode t), te_Reason t, te_Message t)
                 # failing_steps ref ss)"

text \<open>The answers to the reads of task runs, in order.\<close>

fun task_runs_read :: "trace \<Rightarrow> (go_error + obj) list" where
  "task_runs_read [] = []"
| "task_runs_read (EGet KTaskRun _ _ r # es) = r # task_runs_read es"
| "task_runs_read (_ # es) = task_runs_read es"

fun steps_to_report :: "lib \<Rightarrow> ChildStatusReference list \<Rightarrow> (go_error + obj) list \<Rightarrow> step_key list" where
  "steps_to_report L (ref # refs) (Inr (OTaskRun tr) # rs) =
     (if failed_condition L tr = None then [] else failing_steps ref (tr_Steps tr)) @ steps_to_report L refs rs"
| "steps_to_report L (ref # refs) (_ # rs) = steps_to_report L refs rs"
| "steps_to_report L _ _ = []"

fun some_task_failed :: "lib \<Rightarrow> (go_error + obj) list \<Rightarrow> bool" where
  "some_task_failed L [] = False"
| "some_task_failed L (Inr (OTaskRun tr) # rs) = (failed_condition L tr \<noteq> None \<or> some_task_failed L rs)"
| "some_task_failed L (_ # rs) = some_task_failed L rs"

lemma task_runs_read_append [simp]: "task_runs_read (es @ es') = task_runs_read es @ task_runs_read es'"
  by (induction es rule: task_runs_read.induct) auto

lemma fetchLogTail_emits:
  "emits (fetchLogTail E ns pod c) (\<lambda>_ es. es = [EPodLogs ns pod c logTailLines])"
  by (auto simp: fetchLogTail_def op_defs intro!: emit_rules)

lemma fetchLogTail_inert [only_rules]: "only inert (fetchLogTail E ns pod c)"
  unfolding only_def by (rule emits_mono [OF fetchLogTail_emits]) simp

text \<open>Entries of the form the loops append: those with an exit code are the failing steps.\<close>

definition appends :: "Deployment \<Rightarrow> step_key list \<Rightarrow> Deployment \<Rightarrow> bool" where
  "appends d keys d' \<longleftrightarrow> same_but_diagnostics d d' \<and>
     st_FailureCategory (d_Status d') = st_FailureCategory (d_Status d) \<and>
     (\<exists>new. st_Diagnostics (d_Status d') = st_Diagnostics (d_Status d) @ new \<and>
        map key_of [e \<leftarrow> new. de_ExitCode e \<noteq> None] = keys \<and> (\<forall>e \<in> set new. de_Component e = ''Tekton''))"

lemma appends_refl [simp]: "appends d [] d"
  by (simp add: appends_def)

lemma appends_trans: "appends d ks d' \<Longrightarrow> appends d' ks' d'' \<Longrightarrow> appends d (ks @ ks') d''"
  unfolding appends_def by (fastforce intro: same_but_diagnostics_trans)

lemma appends_step:
  "appends d [(cr_DisplayName ref, ss_Name s, Some (te_ExitCode t), te_Reason t, te_Message t)]
     (add_diagnostic (step_entry L ref s t logTail) d)"
  by (simp add: appends_def step_entry_def key_of_def DiagnosticEntry0_def)

lemma appends_fallback: "appends d [] (task_fallback ns ref tr c d)"
  by (simp add: appends_def task_fallback_def task_entry_def DiagnosticEntry0_def)

lemma task_fallback_nonempty [simp]: "st_Diagnostics (d_Status (task_fallback ns ref tr c d)) \<noteq> []"
  by (simp add: task_fallback_def)

lemma appends_nonempty:
  "appends d ks d' \<Longrightarrow> st_Diagnostics (d_Status d) \<noteq> [] \<Longrightarrow> st_Diagnostics (d_Status d') \<noteq> []"
  by (auto simp: appends_def)

lemma collect_steps_spec:
  "emits (collect_steps L E ns ref tr steps d)
     (\<lambda>d' es. appends d (failing_steps ref steps) d' \<and> (\<forall>e \<in> set es. inert e) \<and> task_runs_read es = [])"
proof (induction steps arbitrary: d)
  case Nil
  then show ?case by (simp add: emits_ret)
next
  case (Cons s ss)
  show ?case
  proof (cases "ss_Terminated s")
    case None
    then show ?thesis using Cons.IH by simp
  next
    case (Some t)
    let ?log = "if tr_PodName tr \<noteq> [] then fetchLogTail E ns (tr_PodName tr) (''step-'' @ ss_Name s) else ret []"
    have log: "emits ?log (\<lambda>_ es. (\<forall>e \<in> set es. inert e) \<and> task_runs_read es = [])"
      by (auto intro!: emits_ret emits_mono [OF fetchLogTail_emits])
    have "emits (State_Monad.bind ?log
            (\<lambda>logTail. collect_steps L E ns ref tr ss (add_diagnostic (step_entry L ref s t logTail) d)))
        (\<lambda>d' es. appends d ((cr_DisplayName ref, ss_Name s, Some (te_ExitCode t), te_Reason t, te_Message t)
            # failing_steps ref ss) d' \<and> (\<forall>e \<in> set es. inert e) \<and> task_runs_read es = [])"
      by (rule emits_bind [OF log], rule emits_mono [OF Cons.IH])
        (use appends_trans [OF appends_step] in auto)
    with Some Cons.IH show ?thesis by simp
  qed
qed

lemma steps_skip:
  "(\<And>tr. r = Inr (OTaskRun tr) \<Longrightarrow> failed_condition L tr = None) \<Longrightarrow>
   steps_to_report L (ref # refs) (r # rs) = steps_to_report L refs rs"
  by (cases "(L, ref # refs, r # rs)" rule: steps_to_report.cases) auto

lemma some_skip:
  "(\<And>tr. r = Inr (OTaskRun tr) \<Longrightarrow> failed_condition L tr = None) \<Longrightarrow>
   some_task_failed L (r # rs) = some_task_failed L rs"
  by (cases "(L, r # rs)" rule: some_task_failed.cases) auto

lemma collect_refs_spec:
  "emits (collect_refs L E ns refs d)
     (\<lambda>d' es. length (task_runs_read es) = length refs \<and>
        appends d (steps_to_report L refs (task_runs_read es)) d' \<and> (\<forall>e \<in> set es. inert e) \<and>
        (some_task_failed L (task_runs_read es) \<longrightarrow> st_Diagnostics (d_Status d') \<noteq> []))"
  (is "emits _ (?spec refs d)")
proof (induction refs arbitrary: d)
  case Nil
  then show ?case by (simp add: emits_ret)
next
  case (Cons ref refs)
  have found: "emits (State_Monad.bind (collect_steps L E ns ref tr (tr_Steps tr) d)
        (\<lambda>d'. collect_refs L E ns refs (task_fallback ns ref tr c d')))
      (\<lambda>d' es. ?spec (ref # refs) d d' (EGet KTaskRun ns (cr_Name ref) (Inr (OTaskRun tr)) # es))"
    if c: "failed_condition L tr = Some c" for tr c
  proof (rule emits_bind [OF collect_steps_spec], rule emits_mono [OF Cons.IH])
    fix d1 es1 d2 es2
    assume 1: "appends d (failing_steps ref (tr_Steps tr)) d1 \<and> (\<forall>e \<in> set es1. inert e) \<and> task_runs_read es1 = []"
      and 2: "?spec refs (task_fallback ns ref tr c d1) d2 es2"
    have "appends d (failing_steps ref (tr_Steps tr)) (task_fallback ns ref tr c d1)"
      using 1 appends_trans [OF _ appends_fallback] by force
    with 2 have "appends d (failing_steps ref (tr_Steps tr) @ steps_to_report L refs (task_runs_read es2)) d2"
      by (blast intro: appends_trans)
    moreover have "st_Diagnostics (d_Status d2) \<noteq> []"
      using 2 appends_nonempty by fastforce
    ultimately show "?spec (ref # refs) d d2 (EGet KTaskRun ns (cr_Name ref) (Inr (OTaskRun tr)) # es1 @ es2)"
      using 1 2 c by auto
  qed
  have skipped: "emits (collect_refs L E ns refs d)
      (\<lambda>d' es. ?spec (ref # refs) d d' (EGet KTaskRun ns (cr_Name ref) r # es))"
    if "\<And>tr. r = Inr (OTaskRun tr) \<Longrightarrow> failed_condition L tr = None" for r
    by (rule emits_mono [OF Cons.IH]) (simp add: steps_skip [OF that] some_skip [OF that])
  show ?case
    unfolding collect_refs.simps Get_TaskRun_def
  proof (rule emits_bind_call)
    fix r :: "go_error + TaskRun"
    show "emits (case r of Inl _ \<Rightarrow> collect_refs L E ns refs d
        | Inr tr \<Rightarrow> (case failed_condition L tr of None \<Rightarrow> collect_refs L E ns refs d
            | Some c \<Rightarrow> State_Monad.bind (collect_steps L E ns ref tr (tr_Steps tr) d)
                (\<lambda>d'. collect_refs L E ns refs (task_fallback ns ref tr c d'))))
      (\<lambda>d' es. ?spec (ref # refs) d d' (EGet KTaskRun ns (cr_Name ref) (map_sum id OTaskRun r) # es))"
    proof (cases r)
      case (Inl e)
      then show ?thesis using skipped [of "Inl e"] by simp
    next
      case (Inr tr)
      show ?thesis
      proof (cases "failed_condition L tr")
        case None
        then show ?thesis using Inr skipped [of "Inr (OTaskRun tr)"] by simp
      next
        case (Some c)
        then show ?thesis using Inr found [OF Some] by simp
      qed
    qed
  qed
qed

lemma collectTektonDiagnostics_spec:
  "emits (collectTektonDiagnostics L E d (Some run))
     (\<lambda>d' es. same_but_diagnostics d d' \<and> (\<forall>e \<in> set es. inert e) \<and>
        (if ENewForConfig None \<in> set es
         then st_FailureCategory (d_Status d') = FailureCategoryStepFailed \<and>
           length (task_runs_read es) = length (pr_ChildReferences run) \<and>
           appends d (steps_to_report L (pr_ChildReferences run) (task_runs_read es))
             (set_category (st_FailureCategory (d_Status d)) d') \<and>
           (some_task_failed L (task_runs_read es) \<longrightarrow> st_Diagnostics (d_Status d') \<noteq> [])
         else st_FailureCategory (d_Status d') = st_FailureCategory (d_Status d) \<and>
           (\<exists>e. st_Diagnostics (d_Status d') = st_Diagnostics (d_Status d) @ [e])))"
proof -
  have kept: "same_but_diagnostics d (set_category c d1) \<and>
      appends d ks (set_category (st_FailureCategory (d_Status d)) (set_category c d1))"
    if "appends d ks d1" for ks d1 c
    using that
    by (auto simp: appends_def same_but_diagnostics_iff set_category_def)
  show ?thesis
    unfolding collectTektonDiagnostics_def NewForConfig_def
    by (intro emit_rules; clarsimp)
      (auto intro!: emit_rules emits_bind [OF collect_refs_spec] dest: kept)
qed

lemma collectAnsibleDiagnostics_spec:
  "emits (collectAnsibleDiagnostics E d (Some job))
     (\<lambda>r es. (\<forall>e \<in> set es. inert e) \<and>
        (case r of Inl e \<Rightarrow> jb_Selector job = None
         | Inr d' \<Rightarrow> same_but_diagnostics d d' \<and>
             (d' = d \<or> st_FailureCategory (d_Status d') = FailureCategoryJobFailed \<and>
                length (st_Diagnostics (d_Status d')) = Suc (length (st_Diagnostics (d_Status d))))))"
proof -
  have log: "emits (if b then fetchLogTail E ns p c else ret []) (\<lambda>_ es. \<forall>e \<in> set es. inert e)" for b ns p c
    by (auto intro!: emits_ret emits_mono [OF fetchLogTail_emits])
  show ?thesis
    unfolding collectAnsibleDiagnostics_def op_defs
    by (auto simp: Let_def split_beta intro!: emit_rules emits_bind [OF log] add_diagnostic_same set_category_same)
qed

lemma collectTekton_inert [only_rules]: "only inert (collectTektonDiagnostics L E d (Some run))"
  unfolding only_def by (rule emits_mono [OF collectTektonDiagnostics_spec]) simp

lemma collectAnsible_inert [only_rules]: "only inert (collectAnsibleDiagnostics E d (Some job))"
  unfolding only_def by (rule emits_mono [OF collectAnsibleDiagnostics_spec]) simp

section \<open>The most recent failed pod\<close>

lemma newer_failed_best:
  "case foldl newer_failed None pods of
     None \<Rightarrow> \<forall>p \<in> set pods. po_Phase p \<noteq> ''Failed''
   | Some p \<Rightarrow> \<exists>a b. pods = a @ p # b \<and> po_Phase p = ''Failed'' \<and>
       (\<forall>q \<in> set a. po_Phase q = ''Failed'' \<longrightarrow> po_CreationTimestamp q < po_CreationTimestamp p) \<and>
       (\<forall>q \<in> set b. po_Phase q = ''Failed'' \<longrightarrow> po_CreationTimestamp q \<le> po_CreationTimestamp p)"
  (is "?best pods (foldl newer_failed None pods)")
proof (induction pods rule: rev_induct)
  case Nil
  then show ?case by simp
next
  case (snoc x xs)
  show ?case
  proof (cases "foldl newer_failed None xs")
    case None
    with snoc have none: "\<forall>p \<in> set xs. po_Phase p \<noteq> ''Failed''" by simp
    show ?thesis
    proof (cases "po_Phase x = ''Failed''")
      case True
      then have "newer_failed None x = Some x" by (simp add: newer_failed_def)
      with None none True show ?thesis
        by (simp, intro exI [where x = xs] exI [where x = "[]"]) simp
    next
      case False
      then have "newer_failed None x = None" by (simp add: newer_failed_def)
      with None none False show ?thesis by simp
    qed
  next
    case (Some p)
    with snoc obtain a b where ab: "xs = a @ p # b" "po_Phase p = ''Failed''"
      "\<forall>q \<in> set a. po_Phase q = ''Failed'' \<longrightarrow> po_CreationTimestamp q < po_CreationTimestamp p"
      "\<forall>q \<in> set b. po_Phase q = ''Failed'' \<longrightarrow> po_CreationTimestamp q \<le> po_CreationTimestamp p"
      by auto
    show ?thesis
    proof (cases "po_Phase x = ''Failed'' \<and> po_CreationTimestamp p < po_CreationTimestamp x")
      case True
      then have "newer_failed (Some p) x = Some x" by (simp add: newer_failed_def)
      moreover have "\<forall>q \<in> set xs. po_Phase q = ''Failed'' \<longrightarrow> po_CreationTimestamp q < po_CreationTimestamp x"
        using ab True by fastforce
      ultimately show ?thesis
        using Some True by (simp, intro exI [where x = xs] exI [where x = "[]"]) simp
    next
      case False
      then have "newer_failed (Some p) x = Some p" by (auto simp: newer_failed_def)
      moreover have "xs @ [x] = a @ p # (b @ [x])" using ab by simp
      moreover have "\<forall>q \<in> set (b @ [x]). po_Phase q = ''Failed'' \<longrightarrow> po_CreationTimestamp q \<le> po_CreationTimestamp p"
        using ab False by auto
      ultimately show ?thesis using Some ab by fastforce
    qed
  qed
qed

section \<open>Properties\<close>






text \<open>C38: The pod whose log is fetched is a failed one, none of the failed pods was created after it,
  and those of the same age come later in the list; there is none exactly when no pod failed.\<close>

theorem mostRecentFailedPod_latest:
  assumes "\<And>p. p \<in> set pods \<Longrightarrow> po_Name p \<noteq> []"
  shows "if mostRecentFailedPod pods = [] then list_all (\<lambda>p. po_Phase p \<noteq> ''Failed'') pods
    else (\<exists>a p b. pods = a @ p # b \<and> po_Name p = mostRecentFailedPod pods \<and> po_Phase p = ''Failed'' \<and>
      (\<forall>q \<in> set a. po_Phase q = ''Failed'' \<longrightarrow> po_CreationTimestamp q < po_CreationTimestamp p) \<and>
      (\<forall>q \<in> set b. po_Phase q = ''Failed'' \<longrightarrow> po_CreationTimestamp q \<le> po_CreationTimestamp p))"
  using newer_failed_best [of pods] assms
  by (auto simp: mostRecentFailedPod_def list_all_iff split: option.splits)

definition sample_pods :: "Pod list" where
  "sample_pods = [\<lparr>po_Name = ''a'', po_Phase = ''Failed'', po_CreationTimestamp = 1\<rparr>,
     \<lparr>po_Name = ''b'', po_Phase = ''Failed'', po_CreationTimestamp = 3\<rparr>,
     \<lparr>po_Name = ''c'', po_Phase = ''Running'', po_CreationTimestamp = 5\<rparr>,
     \<lparr>po_Name = ''d'', po_Phase = ''Failed'', po_CreationTimestamp = 3\<rparr>]"

lemma mostRecentFailedPod_latest_witness:
  "mostRecentFailedPod sample_pods = ''b'' \<and>
   (\<exists>a p b. sample_pods = a @ p # b \<and> po_Name p = ''b'' \<and> po_Phase p = ''Failed'' \<and>
      (\<forall>q \<in> set a. po_Phase q = ''Failed'' \<longrightarrow> po_CreationTimestamp q < po_CreationTimestamp p) \<and>
      (\<forall>q \<in> set b. po_Phase q = ''Failed'' \<longrightarrow> po_CreationTimestamp q \<le> po_CreationTimestamp p))"
proof -
  have b: "mostRecentFailedPod sample_pods = ''b''" by code_simp
  have "po_Name p \<noteq> []" if "p \<in> set sample_pods" for p
    using that by (auto simp: sample_pods_def)
  from mostRecentFailedPod_latest [where pods = sample_pods, OF this] b show ?thesis by simp
qed

end
