(* ===== verification/Status_Update.thy ===== *)
theory Status_Update
  imports Diagnostics
begin

text \<open>
  The status of the resource, \<open>internal/controller/deployment_controller.go\<close>: \<open>applyFailedStatus\<close>,
  \<open>applyCondition\<close> and the two translations that call it. An operation that mutates
  \<open>deployment\<close> takes it and returns it; after a successful write the object is the server's
  answer. \<open>status_ok\<close> is the consistency of phase, conditions and diagnostics that every write
  keeps.
\<close>

definition ConditionReady :: string where "ConditionReady = ''Ready''"
definition ConditionProgressing :: string where "ConditionProgressing = ''Progressing''"
definition ConditionDegraded :: string where "ConditionDegraded = ''Degraded''"

definition postDeploymentMessage :: string where
  "postDeploymentMessage = ''Post-deployment CRD created.''"

lemmas condition_types = ConditionReady_def ConditionProgressing_def ConditionDegraded_def

section \<open>Operations\<close>

text \<open>\<open>apimeta.SetStatusCondition(&deployment.Status.Conditions, c)\<close>, which reads the clock.\<close>

definition set_condition :: "lib \<Rightarrow> int \<Rightarrow> Condition \<Rightarrow> Deployment \<Rightarrow> Deployment" where
  "set_condition L now c =
     map_status (\<lambda>s. s\<lparr>st_Conditions := li_SetStatusCondition L now (st_Conditions s) c\<rparr>)"

definition SetStatusCondition :: "lib \<Rightarrow> env \<Rightarrow> nat \<Rightarrow> Condition \<Rightarrow> Deployment \<Rightarrow> Deployment op" where
  "SetStatusCondition L E i c d = do { now \<leftarrow> Now E i; ret (set_condition L now c d) }"

definition generation :: "Deployment \<Rightarrow> int" where
  "generation d = om_Generation (d_Meta d)"

definition applyFailedStatus ::
  "lib \<Rightarrow> env \<Rightarrow> Deployment \<Rightarrow> string \<Rightarrow> string \<Rightarrow> DiagnosticEntry list \<Rightarrow> Deployment op" where
  "applyFailedStatus L E d category message diagnostics = do {
     let d = map_status (\<lambda>s. s\<lparr>st_Phase := ''Failed'', st_Message := message,
               st_FailureCategory := category, st_Diagnostics := diagnostics\<rparr>) d;
     d \<leftarrow> SetStatusCondition L E 0
       (condition ConditionReady ConditionFalse ''Failed'' message (generation d)) d;
     d \<leftarrow> SetStatusCondition L E 1 (condition ConditionProgressing ConditionFalse ''Failed''
       ''Deployment is no longer progressing.'' (generation d)) d;
     d \<leftarrow> SetStatusCondition L E 2
       (condition ConditionDegraded ConditionTrue ''Failed'' message (generation d)) d;
     r \<leftarrow> Status_Update E d;
     ret (updated d r)
   }"

text \<open>The three branches of \<open>switch cond.Status\<close> in \<open>applyCondition\<close>. A panic of a collector
  unwinds \<open>applyCondition\<close>: \<open>Inl\<close>.\<close>

definition apply_succeeded :: "lib \<Rightarrow> env \<Rightarrow> Deployment \<Rightarrow> Deployment op" where
  "apply_succeeded L E d = do {
     let d = map_status (\<lambda>s. s\<lparr>st_Phase := ''Succeeded'', st_Message := ''Resource completed successfully.'',
               st_Diagnostics := [], st_FailureCategory := []\<rparr>) d;
     d \<leftarrow> SetStatusCondition L E 0 (condition ConditionReady ConditionTrue ''Succeeded''
       ''Deployment completed successfully.'' (generation d)) d;
     d \<leftarrow> SetStatusCondition L E 1 (condition ConditionProgressing ConditionFalse ''Succeeded''
       ''Deployment is no longer progressing.'' (generation d)) d;
     SetStatusCondition L E 2 (condition ConditionDegraded ConditionFalse ''Succeeded''
       ''Deployment is not degraded.'' (generation d)) d
   }"

definition apply_failed :: "lib \<Rightarrow> env \<Rightarrow> Deployment \<Rightarrow> string \<Rightarrow> Deployment op" where
  "apply_failed L E d message = do {
     let d = map_status (\<lambda>s. s\<lparr>st_Phase := ''Failed'', st_Message := message\<rparr>) d;
     d \<leftarrow> SetStatusCondition L E 0
       (condition ConditionReady ConditionFalse ''Failed'' message (generation d)) d;
     d \<leftarrow> SetStatusCondition L E 1 (condition ConditionProgressing ConditionFalse ''Failed''
       ''Deployment is no longer progressing.'' (generation d)) d;
     SetStatusCondition L E 2
       (condition ConditionDegraded ConditionTrue ''Failed'' message (generation d)) d
   }"

definition apply_running :: "lib \<Rightarrow> env \<Rightarrow> Deployment \<Rightarrow> string \<Rightarrow> Deployment op" where
  "apply_running L E d message = do {
     let d = map_status (\<lambda>s. s\<lparr>st_Phase := ''Running'', st_Message := message\<rparr>) d;
     d \<leftarrow> SetStatusCondition L E 0 (condition ConditionReady ConditionFalse ''Progressing''
       ''Deployment is in progress.'' (generation d)) d;
     d \<leftarrow> SetStatusCondition L E 1
       (condition ConditionProgressing ConditionTrue ''Progressing'' message (generation d)) d;
     SetStatusCondition L E 2 (condition ConditionDegraded ConditionFalse ''Progressing''
       ''Deployment is not degraded.'' (generation d)) d
   }"

definition apply_branch ::
  "lib \<Rightarrow> env \<Rightarrow> Deployment \<Rightarrow> KnativeCondition \<Rightarrow> PipelineRun option \<Rightarrow> Job option \<Rightarrow>
   (go_error + Deployment) op" where
  "apply_branch L E d c pr job =
     (if kc_Status c = ConditionTrue then do { d \<leftarrow> apply_succeeded L E d; ret (Inr d) }
      else if kc_Status c = ConditionFalse then do {
        d \<leftarrow> apply_failed L E d (kc_Message c);
        if pr \<noteq> None then do { d \<leftarrow> collectTektonDiagnostics L E d pr; ret (Inr d) }
        else if job \<noteq> None then collectAnsibleDiagnostics E d job
        else ret (Inr d)
      }
      else if kc_Status c = ConditionUnknown then do { d \<leftarrow> apply_running L E d (kc_Message c); ret (Inr d) }
      else ret (Inr d))"

definition applyCondition ::
  "lib \<Rightarrow> env \<Rightarrow> Deployment \<Rightarrow> KnativeCondition option \<Rightarrow> PipelineRun option \<Rightarrow> Job option \<Rightarrow>
   (go_error option \<times> Deployment) op" where
  "applyCondition L E d cond pr job =
     (case cond of
        None \<Rightarrow> ret (None, d)
      | Some c \<Rightarrow> do {
          b \<leftarrow> apply_branch L E d c pr job;
          case b of
            Inl e \<Rightarrow> ret (Some e, d)
          | Inr d' \<Rightarrow> do {
              r \<leftarrow> Status_Update E d';
              ret (error_of r, updated d' r)
            }
        })"

definition updatePipelineRunStatus ::
  "lib \<Rightarrow> env \<Rightarrow> Deployment \<Rightarrow> PipelineRun option \<Rightarrow> (go_error option \<times> Deployment) op" where
  "updatePipelineRunStatus L E d pr =
     (case pr of
        None \<Rightarrow> ret (None, d)
      | Some run \<Rightarrow>
          if pr_Conditions run = [] then ret (None, d)
          else applyCondition L E d (li_GetCondition L (pr_Conditions run) ConditionSucceeded) pr None)"

text \<open>A literal \<open>apis.Condition{Type: apis.ConditionSucceeded, Status, Message}\<close>.\<close>

definition succeeded_condition :: "string \<Rightarrow> string \<Rightarrow> KnativeCondition" where
  "succeeded_condition s m = \<lparr>kc_Type = ConditionSucceeded, kc_Status = s, kc_Reason = [], kc_Message = m\<rparr>"

fun job_conditions ::
  "lib \<Rightarrow> env \<Rightarrow> Deployment \<Rightarrow> Job \<Rightarrow> JobCondition list \<Rightarrow> (go_error option \<times> Deployment) op" where
  "job_conditions L E d job [] =
     (if word_sless 0 (jb_Active job)
      then applyCondition L E d
        (Some (succeeded_condition ConditionUnknown ''Kubernetes Job is in progress.'')) None None
      else ret (None, d))"
| "job_conditions L E d job (c # cs) =
     (if jc_Type c = JobComplete \<and> jc_Status c = ConditionTrue
      then applyCondition L E d
        (Some (succeeded_condition ConditionTrue ''Kubernetes Job completed successfully.'')) None None
      else if jc_Type c = JobFailed \<and> jc_Status c = ConditionTrue
      then applyCondition L E d (Some (succeeded_condition ConditionFalse (jc_Message c))) None (Some job)
      else job_conditions L E d job cs)"

definition updateJobStatus ::
  "lib \<Rightarrow> env \<Rightarrow> Deployment \<Rightarrow> Job option \<Rightarrow> (go_error option \<times> Deployment) op" where
  "updateJobStatus L E d job =
     (case job of
        None \<Rightarrow> ret (None, d)
      | Some j \<Rightarrow> (case jb_Conditions j of None \<Rightarrow> ret (None, d) | Some cs \<Rightarrow> job_conditions L E d j cs))"

section \<open>The consistency of a status\<close>

definition status_of :: "DeploymentStatus \<Rightarrow> string \<Rightarrow> string option" where
  "status_of s t = map_option mc_Status (find_condition (st_Conditions s) t)"

definition displays :: "DeploymentStatus \<Rightarrow> string \<Rightarrow> string \<Rightarrow> string \<Rightarrow> bool" where
  "displays s ready progressing degraded \<longleftrightarrow> status_of s ConditionReady = Some ready \<and>
     status_of s ConditionProgressing = Some progressing \<and> status_of s ConditionDegraded = Some degraded"

text \<open>The conditions say what the phase says, each type occurs once, and diagnostics and a
  category are there only after a failure.\<close>

definition status_ok :: "DeploymentStatus \<Rightarrow> bool" where
  "status_ok s \<longleftrightarrow> distinct (map mc_Type (st_Conditions s)) \<and>
     (if st_Phase s = ''Failed'' then displays s ConditionFalse ConditionFalse ConditionTrue
      else st_Diagnostics s = [] \<and> st_FailureCategory s = [] \<and>
        (if st_Phase s = ''Succeeded'' then displays s ConditionTrue ConditionFalse ConditionFalse
         else if st_Phase s = ''Running'' then displays s ConditionFalse ConditionTrue ConditionFalse
         else True))"

definition terminal :: "DeploymentStatus \<Rightarrow> bool" where
  "terminal s \<longleftrightarrow> st_Phase s = ''Succeeded'' \<or> st_Phase s = ''Failed''"

text \<open>From one status of a resource to a later one: consistency is kept, and once a deployment has
  ended nothing changes any more but the message of a success, to that of the follow-up.\<close>

definition advances :: "DeploymentStatus \<Rightarrow> DeploymentStatus \<Rightarrow> bool" where
  "advances s s' \<longleftrightarrow> (status_ok s \<longrightarrow> status_ok s') \<and> (terminal s \<longrightarrow>
     s' = s \<or> st_Phase s = ''Succeeded'' \<and> s' = s\<lparr>st_Message := postDeploymentMessage\<rparr>)"

lemma advances_refl [simp, intro]: "advances s s"
  by (simp add: advances_def)

lemma advances_trans [trans]: "advances s s' \<Longrightarrow> advances s' s'' \<Longrightarrow> advances s s''"
  by (auto simp: advances_def terminal_def)

text \<open>Writing the message or the name of the run leaves the rest as it was.\<close>

lemma status_ok_simps [simp]:
  "status_ok (s\<lparr>st_PipelineRunName := n\<rparr>) = status_ok s"
  "status_ok (s\<lparr>st_Message := m\<rparr>) = status_ok s"
  by (simp_all add: status_ok_def displays_def status_of_def)

lemma advances_message:
  "st_Phase s = ''Succeeded'' \<Longrightarrow> advances s (s\<lparr>st_Message := postDeploymentMessage\<rparr>)"
  by (simp add: advances_def)

lemma terminal_simps [simp]:
  "terminal (s\<lparr>st_PipelineRunName := n\<rparr>) = terminal s" "terminal (s\<lparr>st_Message := m\<rparr>) = terminal s"
  by (simp_all add: terminal_def)

definition same_key :: "Deployment \<Rightarrow> Deployment \<Rightarrow> bool" where
  "same_key d d' \<longleftrightarrow> d_Meta d' = d_Meta d \<and> d_Spec d' = d_Spec d"

lemma same_key_refl [simp]: "same_key d d"
  by (simp add: same_key_def)

lemma same_key_map_status [simp]: "same_key d (map_status f d') = same_key d d'"
  by (simp add: same_key_def)

lemma same_but_same_key: "same_but_diagnostics d d' \<Longrightarrow> same_key d d'"
  by (simp add: same_but_diagnostics_iff same_key_def)


section \<open>What the operations write\<close>

text \<open>The abstract status: phase, message and the three conditions; and the translation of a
  condition of the underlying run into it.\<close>

type_synonym view = "string \<times> string \<times> string option \<times> string option \<times> string option"

definition view_of :: "DeploymentStatus \<Rightarrow> view" where
  "view_of s = (st_Phase s, st_Message s, status_of s ConditionReady,
     status_of s ConditionProgressing, status_of s ConditionDegraded)"

definition translate :: "KnativeCondition \<Rightarrow> view \<Rightarrow> view" where
  "translate c v =
     (if kc_Status c = ConditionTrue
      then (''Succeeded'', ''Resource completed successfully.'', Some ConditionTrue, Some ConditionFalse, Some ConditionFalse)
      else if kc_Status c = ConditionFalse
      then (''Failed'', kc_Message c, Some ConditionFalse, Some ConditionFalse, Some ConditionTrue)
      else if kc_Status c = ConditionUnknown
      then (''Running'', kc_Message c, Some ConditionFalse, Some ConditionTrue, Some ConditionFalse)
      else v)"

definition one_each :: "DeploymentStatus \<Rightarrow> bool" where
  "one_each s \<longleftrightarrow> distinct (map mc_Type (st_Conditions s))"

definition failure_data :: "DeploymentStatus \<Rightarrow> string \<times> DiagnosticEntry list" where
  "failure_data s = (st_FailureCategory s, st_Diagnostics s)"

lemma status_ok_view:
  "status_ok s \<longleftrightarrow> one_each s \<and>
     (case view_of s of (p, m, r, g, d) \<Rightarrow>
        if p = ''Failed'' then (r, g, d) = (Some ConditionFalse, Some ConditionFalse, Some ConditionTrue)
        else failure_data s = ([], []) \<and>
          (p = ''Succeeded'' \<longrightarrow> (r, g, d) = (Some ConditionTrue, Some ConditionFalse, Some ConditionFalse)) \<and>
          (p = ''Running'' \<longrightarrow> (r, g, d) = (Some ConditionFalse, Some ConditionTrue, Some ConditionFalse)))"
  by (auto simp: status_ok_def one_each_def view_of_def displays_def failure_data_def)

lemma terminal_view: "terminal s \<longleftrightarrow> fst (view_of s) \<in> {''Succeeded'', ''Failed''}"
  by (simp add: terminal_def view_of_def)

lemma view_of_same:
  "same_but_diagnostics d d' \<Longrightarrow> view_of (d_Status d') = view_of (d_Status d) \<and>
     one_each (d_Status d') = one_each (d_Status d)"
  by (simp add: same_but_diagnostics_iff view_of_def status_of_def one_each_def)

definition run_name :: "Deployment \<Rightarrow> string" where
  "run_name d = st_PipelineRunName (d_Status d)"

text \<open>What a branch makes of the status, for each value of the condition.\<close>

definition turned :: "KnativeCondition \<Rightarrow> Deployment \<Rightarrow> Deployment \<Rightarrow> bool" where
  "turned c d d' \<longleftrightarrow> same_key d d' \<and> run_name d' = run_name d \<and>
     view_of (d_Status d') = translate c (view_of (d_Status d)) \<and>
     (one_each (d_Status d) \<longrightarrow> one_each (d_Status d')) \<and>
     (kc_Status c \<noteq> ConditionFalse \<longrightarrow> failure_data (d_Status d') =
        (if kc_Status c = ConditionTrue then ([], []) else failure_data (d_Status d)))"

lemma set_condition_rest [simp]:
  "failure_data (d_Status (set_condition L now c d)) = failure_data (d_Status d)"
  "same_key d1 (set_condition L now c d) = same_key d1 d"
  "run_name (set_condition L now c d) = run_name d"
  by (simp_all add: set_condition_def failure_data_def run_name_def)

lemma run_name_map_status [simp]:
  "(\<And>s. st_PipelineRunName (f s) = st_PipelineRunName s) \<Longrightarrow> run_name (map_status f d) = run_name d"
  by (simp add: run_name_def)

lemma status_update_rest [simp]:
  "one_each (s\<lparr>st_Phase := ph\<rparr>) = one_each s" "one_each (s\<lparr>st_Message := m\<rparr>) = one_each s"
  "one_each (s\<lparr>st_FailureCategory := fc\<rparr>) = one_each s" "one_each (s\<lparr>st_Diagnostics := ds\<rparr>) = one_each s"
  "failure_data (s\<lparr>st_Phase := ph\<rparr>) = failure_data s" "failure_data (s\<lparr>st_Message := m\<rparr>) = failure_data s"
  "failure_data (s\<lparr>st_FailureCategory := fc, st_Diagnostics := ds\<rparr>) = (fc, ds)"
  "failure_data (s\<lparr>st_Diagnostics := ds, st_FailureCategory := fc\<rparr>) = (fc, ds)"
  by (simp_all add: one_each_def failure_data_def)

lemma generation_set [simp]: "generation (set_condition L now c d) = generation d"
  by (simp add: generation_def set_condition_def)

lemma emits_SetStatusCondition [emit_rules]:
  "(\<And>now. emits (f (set_condition L now c d)) \<Phi>) \<Longrightarrow>
   emits (State_Monad.bind (SetStatusCondition L E i c d) f) \<Phi>"
  "(\<And>now. \<Psi> (set_condition L now c d) []) \<Longrightarrow> emits (SetStatusCondition L E i c d) \<Psi>"
proof -
  have *: "emits (SetStatusCondition L E i c d) (\<lambda>d' es. es = [] \<and> (\<exists>now. d' = set_condition L now c d))"
    unfolding SetStatusCondition_def Now_def by (intro emit_rules) auto
  show "(\<And>now. emits (f (set_condition L now c d)) \<Phi>) \<Longrightarrow>
     emits (State_Monad.bind (SetStatusCondition L E i c d) f) \<Phi>"
    by (rule emits_bind [OF *]) auto
  show "(\<And>now. \<Psi> (set_condition L now c d) []) \<Longrightarrow> emits (SetStatusCondition L E i c d) \<Psi>"
    by (rule emits_mono [OF *]) auto
qed

text \<open>The key of a resource. A status update that the server accepts stores the status that was sent
  under the key it was sent for.\<close>

definition key :: "Deployment \<Rightarrow> string \<times> string" where
  "key d = (d_Namespace d, d_Name d)"

lemma key_simps [simp]: "key (map_status f d) = key d" "same_key d d' \<Longrightarrow> key d' = key d"
  by (simp_all add: key_def same_key_def)

fun accepted :: "event \<Rightarrow> bool" where
  "accepted (EStatusUpdate w (Inr r)) \<longleftrightarrow> d_Status r = d_Status w \<and> key r = key w"
| "accepted _ = True"

lemma status_writes_inert: "\<forall>e \<in> set es. quiet e \<Longrightarrow> status_writes es = []"
  by (induction es) auto

text \<open>Every status that is sent satisfies \<open>P\<close>, as long as those before it were accepted as sent. A run
  that is cut short has this property, too.\<close>

fun writes_ok :: "(Deployment \<Rightarrow> bool) \<Rightarrow> trace \<Rightarrow> bool" where
  "writes_ok P [] = True"
| "writes_ok P (e # es) = ((case e of EStatusUpdate w _ \<Rightarrow> P w | _ \<Rightarrow> True) \<and> (accepted e \<longrightarrow> writes_ok P es))"

lemma writes_ok_append [simp]:
  "writes_ok P (es @ es') \<longleftrightarrow> writes_ok P es \<and> ((\<forall>e \<in> set es. accepted e) \<longrightarrow> writes_ok P es')"
  by (induction es) auto

lemma writes_ok_mono: "writes_ok P es \<Longrightarrow> (\<And>w. P w \<Longrightarrow> Q w) \<Longrightarrow> writes_ok Q es"
  by (induction es) (auto split: event.splits)

lemma writes_okD: "writes_ok P es \<Longrightarrow> \<forall>e \<in> set es. accepted e \<Longrightarrow> w \<in> set (status_writes es) \<Longrightarrow> P w"
  by (induction es) (auto simp: status_writes_def split: event.splits)

lemma writes_ok_unwritten: "status_writes es = [] \<Longrightarrow> writes_ok P es"
  by (induction es) (auto simp: status_writes_def split: event.splits)

lemma writes_ok_none: "\<forall>e \<in> set es. quiet e \<Longrightarrow> writes_ok P es"
  by (simp add: writes_ok_unwritten status_writes_inert)

text \<open>Work on a deployment \<open>d\<close>: every status it sends belongs to \<open>d\<close> and is consistent, and so is the
  deployment it leaves.\<close>

definition fit :: "Deployment \<Rightarrow> Deployment \<Rightarrow> bool" where
  "fit d w \<longleftrightarrow> key w = key d \<and> (\<not> terminal (d_Status d) \<and> status_ok (d_Status d) \<longrightarrow> status_ok (d_Status w))"

definition keeps_ok :: "Deployment \<Rightarrow> Deployment \<Rightarrow> trace \<Rightarrow> bool" where
  "keeps_ok d d' es \<longleftrightarrow> writes_ok (fit d) es \<and> ((\<forall>e \<in> set es. accepted e) \<longrightarrow> fit d d')"

lemma fit_refl [simp]: "fit d d"
  by (simp add: fit_def)

lemma accepted_updated:
  "accepted (EStatusUpdate w r) \<Longrightarrow> d_Status (updated w r) = d_Status w \<and> key (updated w r) = key w"
  by (cases r) simp_all

lemma fit_updated: "accepted (EStatusUpdate w r) \<Longrightarrow> fit d (updated w r) = fit d w"
  using accepted_updated [of w r] by (simp add: fit_def)

lemma inert_accepted [simp]: "inert e \<Longrightarrow> accepted e"
  by (cases e rule: accepted.cases) (auto simp: inert_def quiet_def)

text \<open>Work that leaves the cluster alone but for the status: it creates, changes and deletes
  nothing, makes no temporary directory and does not read the resource again.\<close>

fun tame :: "event \<Rightarrow> bool" where
  "tame (ECreate _ _) = False"
| "tame (EUpdate _ _) = False"
| "tame (EDelete _ _ _ _) = False"
| "tame (EMkdirTemp _) = False"
| "tame (EGet k _ _ _) = (k \<noteq> KDeployment)"
| "tame _ = True"

text \<open>Work on behalf of a deployment may also create jobs, pipelines and pipeline runs that the
  deployment controls, in its namespace.\<close>

definition owned :: "Deployment \<Rightarrow> ObjectMeta \<Rightarrow> bool" where
  "owned d m \<longleftrightarrow> om_Namespace m = d_Namespace d \<and>
     list_ex (\<lambda>r. or_Name r = d_Name d \<and> or_Controller r) (om_OwnerReferences m)"

definition in_scope :: "Deployment \<Rightarrow> event \<Rightarrow> bool" where
  "in_scope d e = (case e of
     ECreate ob _ \<Rightarrow> (case ob of OJob j \<Rightarrow> owned d (jb_Meta j) | OPipeline p \<Rightarrow> owned d (pl_Meta p)
                                | OPipelineRun p \<Rightarrow> owned d (pr_Meta p) | _ \<Rightarrow> False)
   | _ \<Rightarrow> tame e)"

lemma inert_tame [simp]: "inert e \<Longrightarrow> tame e"
  by (cases e rule: tame.cases) (auto simp: inert_def quiet_def)

lemma tame_in_scope [simp]: "tame e \<Longrightarrow> in_scope d e"
  by (cases e) (simp_all add: in_scope_def)

lemma in_scope_simps [simp]:
  "in_scope d (ECreate (OJob j) r) = owned d (jb_Meta j)"
  "in_scope d (ECreate (OPipeline p) r) = owned d (pl_Meta p)"
  "in_scope d (ECreate (OPipelineRun pr) r) = owned d (pr_Meta pr)"
  by (simp_all add: in_scope_def)

lemma in_scope_no_temp: "in_scope d e \<Longrightarrow> \<not> makes_temp e"
  by (cases e) (simp_all add: in_scope_def)

text \<open>
  The contract of the two ways to deploy. A backend works on a deployment that has not ended: it
  keeps the status consistent and stays in its scope.
\<close>

definition sound_work :: "Deployment \<Rightarrow> go_error option \<times> Deployment \<Rightarrow> trace \<Rightarrow> bool" where
  "sound_work d r es \<longleftrightarrow> keeps_ok d (snd r) es \<and> (\<forall>e \<in> set es. in_scope d e)"

locale backend =
  fixes run :: "Deployment \<Rightarrow> (go_error option \<times> Deployment) op"
  assumes run_sound: "emits (run d) (sound_work d)"

lemma inert_quiet: "inert e \<Longrightarrow> quiet e"
  by (simp add: inert_def)

lemma keeps_ok_nothing [simp]: "keeps_ok d d []"
  by (simp add: keeps_ok_def)

text \<open>Work that records something else in the status and leaves phase and conditions.\<close>

definition alike :: "Deployment \<Rightarrow> Deployment \<Rightarrow> bool" where
  "alike d w \<longleftrightarrow> key w = key d \<and> status_ok (d_Status w) = status_ok (d_Status d) \<and>
     terminal (d_Status w) = terminal (d_Status d)"

definition same_course :: "Deployment \<Rightarrow> Deployment \<Rightarrow> trace \<Rightarrow> bool" where
  "same_course d d' es \<longleftrightarrow> writes_ok (alike d) es \<and> ((\<forall>e \<in> set es. accepted e) \<longrightarrow> alike d d')"

lemma alike_refl [simp]: "alike d d"
  by (simp add: alike_def)

lemma alike_updated: "accepted (EStatusUpdate w r) \<Longrightarrow> alike d (updated w r) = alike d w"
  using accepted_updated [of w r] by (simp add: alike_def)

lemma alike_run_name [simp]: "alike d (map_status (\<lambda>s. s\<lparr>st_PipelineRunName := n\<rparr>) d)"
  by (simp add: alike_def)

lemma alike_fit: "alike d w \<Longrightarrow> fit d w" "alike d d1 \<Longrightarrow> fit d1 w \<Longrightarrow> fit d w"
  by (auto simp: alike_def fit_def)

lemma same_course_keeps_ok: "same_course d d' es \<Longrightarrow> keeps_ok d d' es"
  by (auto simp: same_course_def keeps_ok_def alike_fit intro: writes_ok_mono)

lemma keeps_ok_append:
  "same_course d d1 es1 \<Longrightarrow> keeps_ok d1 d2 es2 \<Longrightarrow> keeps_ok d d2 (es1 @ es2)"
  by (auto simp: same_course_def keeps_ok_def intro: writes_ok_mono alike_fit)

text \<open>What a backend does before it looks at the condition of its run.\<close>

definition prepares :: "Deployment \<Rightarrow> Deployment \<Rightarrow> trace \<Rightarrow> bool" where
  "prepares d d' es \<longleftrightarrow> same_course d d' es \<and> (\<forall>e \<in> set es. in_scope d e)"

lemma prepares_inert: "\<forall>e \<in> set es. inert e \<Longrightarrow> prepares d d es"
  by (auto simp: prepares_def same_course_def inert_quiet intro: writes_ok_none)

lemma prepares_append: "\<forall>e \<in> set es. inert e \<Longrightarrow> prepares d d' es' \<Longrightarrow> prepares d d' (es @ es')"
  by (auto simp: prepares_def same_course_def inert_quiet intro: writes_ok_none)

lemma prepares_then:
  "prepares d d1 es1 \<Longrightarrow> keeps_ok d1 (snd r) es \<Longrightarrow> \<forall>e \<in> set es. tame e \<Longrightarrow>
   sound_work d r (es1 @ es)"
  by (auto simp: prepares_def sound_work_def intro: keeps_ok_append)

lemma prepares_stop: "prepares d d1 es1 \<Longrightarrow> sound_work d (err, d1) es1"
  by (auto simp: prepares_def sound_work_def same_course_keeps_ok)

lemma turned_ok:
  assumes "turned c d d'"
  shows "fit d d'"
  using assms unfolding fit_def by (auto simp: turned_def status_ok_view terminal_view translate_def split: if_splits prod.splits)

text \<open>The one way in which the collectors of diagnostics panic: a failed job without a selector.\<close>

definition collector_panics :: "KnativeCondition \<Rightarrow> PipelineRun option \<Rightarrow> Job option \<Rightarrow> bool" where
  "collector_panics c pr job \<longleftrightarrow>
     kc_Status c = ConditionFalse \<and> pr = None \<and> (\<exists>j. job = Some j \<and> jb_Selector j = None)"

context kube_lib
begin

lemma controller_reference_owned:
  assumes "li_SetControllerReference L (d_Meta d) m = Inr m'" "om_Namespace m = d_Namespace d"
  shows "owned d m' \<and> om_Name m' = om_Name m"
  using controller_reference [OF assms(1)] assms(2) by (auto simp: owned_def list_ex_iff)

text \<open>The three conditions as the operations write them, one after the other.\<close>

lemma three_view:
  "view_of (d_Status (set_condition L t2 (condition ConditionDegraded g gr gm gg)
     (set_condition L t1 (condition ConditionProgressing p pr pm pg)
     (set_condition L t0 (condition ConditionReady r rr rm rg) d)))) =
   (d_Phase d, st_Message (d_Status d), Some r, Some p, Some g)"
  by (simp add: set_condition_def view_of_def status_of_def condition_types)

lemma set_condition_one_each [simp]:
  "one_each (d_Status d) \<Longrightarrow> one_each (d_Status (set_condition L now c d))"
  by (simp add: set_condition_def one_each_def set_condition_distinct)

lemma apply_succeeded_turned:
  "kc_Status c = ConditionTrue \<Longrightarrow> emits (apply_succeeded L E d) (\<lambda>d' es. es = [] \<and> turned c d d')"
  unfolding apply_succeeded_def Let_def
  by (intro emit_rules) (simp add: turned_def three_view translate_def)

lemma apply_failed_turned:
  "kc_Status c = ConditionFalse \<Longrightarrow>
   emits (apply_failed L E d (kc_Message c)) (\<lambda>d' es. es = [] \<and> turned c d d')"
  unfolding apply_failed_def Let_def
  by (intro emit_rules) (simp add: turned_def three_view translate_def)

lemma apply_running_turned:
  "kc_Status c = ConditionUnknown \<Longrightarrow>
   emits (apply_running L E d (kc_Message c)) (\<lambda>d' es. es = [] \<and> turned c d d')"
  unfolding apply_running_def Let_def
  by (intro emit_rules) (simp add: turned_def three_view translate_def)

lemma turned_same: "turned c d d' \<Longrightarrow> same_but_diagnostics d' d'' \<Longrightarrow> kc_Status c = ConditionFalse \<Longrightarrow> turned c d d''"
  using view_of_same [of d' d''] by (auto simp: turned_def same_but_diagnostics_iff same_key_def run_name_def)

lemma turned_refl:
  "kc_Status c \<noteq> ConditionTrue \<Longrightarrow> kc_Status c \<noteq> ConditionFalse \<Longrightarrow> kc_Status c \<noteq> ConditionUnknown \<Longrightarrow>
   turned c d d"
  by (simp add: turned_def translate_def)

lemma apply_branch_turned:
  "emits (apply_branch L E d c pr job) (\<lambda>r es. (\<forall>e \<in> set es. inert e) \<and>
     (case r of Inl e \<Rightarrow> collector_panics c pr job | Inr d' \<Rightarrow> turned c d d'))"
proof -
  have tekton: "emits (State_Monad.bind (collectTektonDiagnostics L E d' (Some run)) (\<lambda>d. ret (Inr d)))
     (\<lambda>r es. (\<forall>e \<in> set es. inert e) \<and>
       (case r of Inl e \<Rightarrow> collector_panics c (Some run) job | Inr d'' \<Rightarrow> turned c d d''))"
    if "turned c d d'" "kc_Status c = ConditionFalse" for d' run
    by (rule emits_bind [OF collectTektonDiagnostics_spec], rule emits_ret) (use that turned_same in auto)
  have ansible: "emits (collectAnsibleDiagnostics E d' (Some j))
     (\<lambda>r es. (\<forall>e \<in> set es. inert e) \<and>
       (case r of Inl e \<Rightarrow> collector_panics c None (Some j) | Inr d'' \<Rightarrow> turned c d d''))"
    if "turned c d d'" "kc_Status c = ConditionFalse" for d' j
    by (rule emits_mono [OF collectAnsibleDiagnostics_spec]) (use that turned_same in \<open>auto simp: collector_panics_def split: sum.splits\<close>)
  show ?thesis
    unfolding apply_branch_def
    by (intro emit_rules emits_bind [OF apply_succeeded_turned] emits_bind [OF apply_failed_turned]
        emits_bind [OF apply_running_turned])
      (auto intro!: emits_ret tekton ansible turned_refl)
qed

text \<open>\<open>applyCondition\<close> collects, then writes the translated status once.\<close>

lemma applyCondition_spec:
  "emits (applyCondition L E d (Some c) pr job) (\<lambda>(err, d') es. \<exists>reads. (\<forall>e \<in> set reads. inert e) \<and>
     ((\<exists>w r. es = reads @ [EStatusUpdate w r] \<and> turned c d w \<and> err = error_of r \<and> d' = updated w r) \<or>
      (es = reads \<and> err \<noteq> None \<and> d' = d \<and> collector_panics c pr job)))"
  unfolding applyCondition_def option.case Status_Update_def
  by (rule emits_bind [OF apply_branch_turned], intro emit_rules) (force+)

lemma applyCondition_keeps_ok:
  "emits (applyCondition L E d cond pr job)
     (\<lambda>(err, d') es. keeps_ok d d' es \<and> (\<forall>e \<in> set es. tame e))"
proof (cases cond)
  case None
  then show ?thesis by (simp add: applyCondition_def emits_ret keeps_ok_def)
next
  case (Some c)
  have written: "keeps_ok d (updated w r) (reads @ [EStatusUpdate w r])"
    if "turned c d w" "\<forall>e \<in> set reads. inert e" for w r reads
    using that turned_ok [of c d w] by (auto simp: keeps_ok_def inert_quiet fit_updated intro: writes_ok_none)
  have unwritten: "keeps_ok d d reads" if "\<forall>e \<in> set reads. inert e" for reads
    using that by (simp add: keeps_ok_def inert_quiet writes_ok_none)
  show ?thesis
    unfolding Some by (rule emits_mono [OF applyCondition_spec]) (use written unwritten in \<open>fastforce\<close>)
qed

lemma updatePipelineRunStatus_keeps_ok:
  "emits (updatePipelineRunStatus L E d pr)
     (\<lambda>(err, d') es. keeps_ok d d' es \<and> (\<forall>e \<in> set es. tame e))"
  unfolding updatePipelineRunStatus_def
  by (intro emit_rules applyCondition_keeps_ok) simp_all

lemma job_conditions_keeps_ok:
  "emits (job_conditions L E d job cs)
     (\<lambda>(err, d') es. keeps_ok d d' es \<and> (\<forall>e \<in> set es. tame e))"
  by (induction cs) (auto intro!: applyCondition_keeps_ok emits_ret)

lemma updateJobStatus_keeps_ok:
  "emits (updateJobStatus L E d job)
     (\<lambda>(err, d') es. keeps_ok d d' es \<and> (\<forall>e \<in> set es. tame e))"
  unfolding updateJobStatus_def
  by (intro emit_rules job_conditions_keeps_ok) simp_all

lemma applyFailedStatus_spec:
  "emits (applyFailedStatus L E d category message ds) (\<lambda>d' es. \<exists>w r. es = [EStatusUpdate w r] \<and>
     d' = updated w r \<and> same_key d w \<and> run_name w = run_name d \<and>
     view_of (d_Status w) = (''Failed'', message, Some ConditionFalse, Some ConditionFalse, Some ConditionTrue) \<and>
     failure_data (d_Status w) = (category, ds) \<and> (one_each (d_Status d) \<longrightarrow> one_each (d_Status w)))"
  unfolding applyFailedStatus_def Let_def Status_Update_def
  by (intro emit_rules) (auto simp: three_view)

lemma applyFailedStatus_ok:
  "emits (applyFailedStatus L E d category message ds)
     (\<lambda>d' es. keeps_ok d d' es \<and> (\<forall>e \<in> set es. tame e))"
proof (rule emits_mono [OF applyFailedStatus_spec], elim exE conjE)
  fix d' es w r
  assume es: "es = [EStatusUpdate w r]" "d' = updated w r"
    and w: "same_key d w" "view_of (d_Status w) = (''Failed'', message, Some ConditionFalse, Some ConditionFalse, Some ConditionTrue)"
    "one_each (d_Status d) \<longrightarrow> one_each (d_Status w)"
  have "fit d w" using w by (simp add: fit_def status_ok_view)
  with es show "keeps_ok d d' es \<and> (\<forall>e \<in> set es. tame e)"
    by (simp add: keeps_ok_def fit_updated)
qed

end

section \<open>Properties\<close>

text \<open>C9: The condition of the underlying run is translated into the status and written exactly once,
  last, whatever the collection of diagnostics came across: phase, message and the three conditions
  are those of the translation, metadata, specification and the name of the run stay, a success
  clears the failure data, and the answer of the server is returned. There is one exception: for a
  failed job that has no selector the collector panics; then nothing is written, an error is
  returned and the deployment is as before.\<close>

theorem applyCondition_reports:
  assumes "kube_lib L"
  shows "emits (applyCondition L E d (Some c) pr job) (\<lambda>(err, d') es. \<exists>reads. list_all inert reads \<and>
    (if es = reads
     then kc_Status c = ''False'' \<and> pr = None \<and> (\<exists>j. job = Some j \<and> jb_Selector j = None) \<and>
       (\<exists>e. err = Some e) \<and> d' = d
     else \<exists>w r. es = reads @ [EStatusUpdate w r] \<and> err = error_of r \<and> d' = updated w r \<and>
       view_of (d_Status w) = translate c (view_of (d_Status d)) \<and>
       d_Meta w = d_Meta d \<and> d_Spec w = d_Spec d \<and> run_name w = run_name d \<and>
       (kc_Status c = ''True'' \<longrightarrow> failure_data (d_Status w) = ([], []))))"
  by (rule emits_mono [OF kube_lib.applyCondition_spec [OF assms]])
    (force simp: turned_def same_key_def list_all_iff collector_panics_def)

definition sample_apply :: "string \<Rightarrow> (go_error option \<times> Deployment) op" where
  "sample_apply s = applyCondition sample_lib (sample_env sample_deployment) sample_deployment
     (Some (sample_condition s)) (Some sample_run) None"

lemma applyCondition_reports_witness:
  "\<exists>w. status_writes (events (sample_apply ConditionFalse) []) = [w] \<and>
     view_of (d_Status w) = (''Failed'', ''step build failed'', Some ConditionFalse, Some ConditionFalse, Some ConditionTrue)"
proof -
  have "translate (sample_condition ConditionFalse) (view_of (d_Status sample_deployment)) =
      (''Failed'', ''step build failed'', Some ConditionFalse, Some ConditionFalse, Some ConditionTrue)"
    by code_simp
  then show ?thesis
    using emitsD [OF applyCondition_reports [OF sample_lib_kube, of "sample_env sample_deployment" sample_deployment
        "sample_condition ConditionFalse" "Some sample_run" None, folded sample_apply_def], of "[]"]
    by (auto simp: list_all_iff status_writes_inert inert_quiet split: if_splits)
qed

end
