(* ===== verification/Ansible_Job.thy ===== *)
theory Ansible_Job
  imports Status_Update
begin

text \<open>
  Deployment by Ansible, \<open>internal/controller/deployment_controller.go\<close>: \<open>newAnsibleJob\<close> builds the
  job, \<open>reconcileJobResources\<close> creates it once and follows it. With \<open>updateJobStatus\<close> it is the
  first backend.
\<close>

section \<open>Operations\<close>

definition patEnvVar :: EnvVar where
  "patEnvVar = \<lparr>ev_Name = ''GIT_PAT'', ev_Value = [],
     ev_SecretKeyRef = Some (GitHubSecretName, ''password'')\<rparr>"

definition mountPath :: string where "mountPath = ''/workspace''"
definition volumeName :: string where "volumeName = ''ansible-repo''"

definition dquoted :: "string \<Rightarrow> string" where
  "dquoted s = CHR 0x22 # s @ [CHR 0x22]"

definition initContainer :: "Deployment \<Rightarrow> string \<Rightarrow> Container" where
  "initContainer d gitAuthURL = \<lparr>co_Name = ''git-cloner'', co_Image = ''alpine/git'',
     co_Command = [''sh'', ''-c''],
     co_Args = [''git clone --single-branch --branch '' @ ds_Release (d_Spec d) @ '' '' @ gitAuthURL @ '' '' @
       mountPath @ '' && chmod go-w '' @ mountPath],
     co_WorkingDir = [], co_ImagePullPolicy = ''Always'',
     co_VolumeMounts = [(volumeName, mountPath)], co_Env = [patEnvVar],
     co_Privileged = False, co_RunAsUser = None\<rparr>"

definition playbookArgs :: "Deployment \<Rightarrow> string list" where
  "playbookArgs d =
     [mountPath @ ''/'' @ an_AnsiblePlaybook (ds_Ansible (d_Spec d))] @
     (if ds_Parameters (d_Spec d) \<noteq> []
      then [''-e'', ''@'' @ mountPath @ ''/'' @ ds_Parameters (d_Spec d)] else [])"

definition git_host :: "string \<Rightarrow> string" where
  "git_host gitBaseURL = hd (SplitN2 (TrimPrefix gitBaseURL ''https://'') ''/'')"

definition shellCmd :: "Deployment \<Rightarrow> string \<Rightarrow> string" where
  "shellCmd d gitBaseURL =
     (let req = an_Requirements (ds_Ansible (d_Spec d));
          gh = git_host gitBaseURL
      in if req \<noteq> []
         then ''git config --global url.'' @ dquoted (''https://${GIT_PAT}@'' @ gh) @ ''.insteadOf '' @
                dquoted (''https://'' @ gh) @ '' && ansible-galaxy install -r '' @ mountPath @ ''/'' @ req @ '' && ''
         else []) @
     ''ansible-playbook '' @ Join (playbookArgs d) '' ''"

definition mainContainer :: "Deployment \<Rightarrow> string \<Rightarrow> string \<Rightarrow> Container" where
  "mainContainer d ansibleRunnerImage gitBaseURL = \<lparr>co_Name = ''ansible-runner'',
     co_Image = ansibleRunnerImage, co_Command = [''/bin/sh''],
     co_Args = [''-c'', shellCmd d gitBaseURL], co_WorkingDir = mountPath,
     co_ImagePullPolicy = ''Always'', co_VolumeMounts = [(volumeName, mountPath)],
     co_Env = [patEnvVar], co_Privileged = True, co_RunAsUser = Some 0\<rparr>"

definition newAnsibleJob :: "Deployment \<Rightarrow> string \<Rightarrow> string \<Rightarrow> string \<Rightarrow> string \<Rightarrow> go_error + Job" where
  "newAnsibleJob d jobName gitRepoURL ansibleRunnerImage gitBaseURL =
     (let parts = SplitN2 gitRepoURL ''//'' in
      if length parts \<noteq> 2 then Inl (Errorf (''malformed git repo URL: '' @ gitRepoURL))
      else
        let gitAuthURL = parts ! 0 @ ''//$(GIT_PAT)@'' @ parts ! 1 in
        Inr \<lparr>jb_Meta = (named jobName (d_Namespace d))
                \<lparr>om_Labels := [''app'' \<mapsto> ''ansible-runner'', ''deployment'' \<mapsto> d_Name d]\<rparr>,
             jb_BackoffLimit = Some 3, jb_Selector = None,
             jb_PodSpec = \<lparr>ps_RestartPolicy = ''Never'', ps_InitContainers = [initContainer d gitAuthURL],
               ps_Containers = [mainContainer d ansibleRunnerImage gitBaseURL],
               ps_EmptyDirVolumes = [volumeName], ps_ServiceAccountName = PipelineServiceAccount\<rparr>,
             jb_Conditions = None, jb_Active = 0\<rparr>)"

text \<open>The loop over the conditions of an existing job: \<open>None\<close> when it runs off the end.\<close>

fun job_outcome :: "JobCondition list \<Rightarrow> go_error option option" where
  "job_outcome [] = None"
| "job_outcome (c # cs) =
     (if jc_Type c = JobComplete \<and> jc_Status c = ConditionTrue then Some None
      else if jc_Type c = JobFailed \<and> jc_Status c = ConditionTrue
      then Some (Some (Errorf (''ansible Job failed: '' @ jc_Reason c)))
      else job_outcome cs)"

definition job_name :: "Deployment \<Rightarrow> string" where
  "job_name d = d_Name d @ ''-ansible-runner''"

definition create_job ::
  "lib \<Rightarrow> env \<Rightarrow> Deployment \<Rightarrow> string \<Rightarrow> string \<Rightarrow> string \<Rightarrow> ((Job option \<times> go_error option) \<times> Deployment) op" where
  "create_job L E d gitRepoURL ansibleRunnerImage gitBaseURL =
     (case newAnsibleJob d (job_name d) gitRepoURL ansibleRunnerImage gitBaseURL of
        Inl e \<Rightarrow> ret ((None, Some (wrapf ''failed to build Ansible job spec: '' e)), d)
      | Inr job \<Rightarrow>
          (case li_SetControllerReference L (d_Meta d) (jb_Meta job) of
             Inl e \<Rightarrow> ret ((None, Some e), d)
           | Inr m \<Rightarrow> do {
               c \<leftarrow> Create_Job E (job\<lparr>jb_Meta := m\<rparr>);
               case c of
                 Inl e \<Rightarrow> ret ((None, Some e), d)
               | Inr created \<Rightarrow> do {
                   let d = map_status (\<lambda>s. s\<lparr>st_PipelineRunName := om_Name (jb_Meta created)\<rparr>) d;
                   u \<leftarrow> Status_Update E d;
                   ret ((Some created, None), updated d u)
                 }
             }))"

definition reconcileJobResources ::
  "lib \<Rightarrow> env \<Rightarrow> Deployment \<Rightarrow> string \<Rightarrow> string \<Rightarrow> string \<Rightarrow> ((Job option \<times> go_error option) \<times> Deployment) op" where
  "reconcileJobResources L E d gitRepoURL ansibleRunnerImage gitBaseURL = do {
     r \<leftarrow> Get_Job E (d_Namespace d) (job_name d);
     case r of
       Inl e \<Rightarrow>
         if IsNotFound e then create_job L E d gitRepoURL ansibleRunnerImage gitBaseURL
         else ret ((None, Some e), d)
     | Inr foundJob \<Rightarrow>
         (case job_outcome (case jb_Conditions foundJob of None \<Rightarrow> [] | Some cs \<Rightarrow> cs) of
            None \<Rightarrow> ret ((None, None), d)
          | Some err \<Rightarrow> ret ((Some foundJob, err), d))
   }"

text \<open>The Ansible branch of \<open>reconcileDeploymentPhase\<close>.\<close>

definition deploy_ansible ::
  "lib \<Rightarrow> env \<Rightarrow> string \<Rightarrow> OperatorConfig \<Rightarrow> Deployment \<Rightarrow> (go_error option \<times> Deployment) op" where
  "deploy_ansible L E gitRepoURL cfg d = do {
     ((job, err), d) \<leftarrow> reconcileJobResources L E d gitRepoURL (oc_AnsibleRunnerImage cfg) (oc_GitBaseURL cfg);
     case err of
       Some e \<Rightarrow> ret (Some e, d)
     | None \<Rightarrow> updateJobStatus L E d job
   }"

section \<open>The job that is built\<close>

lemma newAnsibleJob_cases:
  "case newAnsibleJob d n url img base of
     Inl _ \<Rightarrow> \<not> Contains url ''//''
   | Inr job \<Rightarrow> om_Name (jb_Meta job) = n \<and> om_Namespace (jb_Meta job) = d_Namespace d \<and>
       jb_Selector job = None \<and> jb_Conditions job = None \<and> jb_Active job = 0 \<and>
       (\<exists>a b. first_split url ''//'' a b \<and>
          ps_InitContainers (jb_PodSpec job) = [initContainer d (a @ ''//$(GIT_PAT)@'' @ b)] \<and>
          ps_Containers (jb_PodSpec job) = [mainContainer d img base])"
  using cut_None [of "''//''" url] cut_first_split [of url "''//''"]
  by (auto simp: newAnsibleJob_def SplitN2_def Let_def split: option.splits)

context kube_lib
begin

lemma create_job_spec:
  "emits (create_job L E d url img base) (\<lambda>r es. prepares d (snd r) es)"
proof -
  have ok: "owned d m" if "newAnsibleJob d (job_name d) url img base = Inr j"
    "li_SetControllerReference L (d_Meta d) (jb_Meta j) = Inr m" for j m
    using newAnsibleJob_cases [where d = d and n = "job_name d" and url = url and img = img and base = base]
      that controller_reference_owned by force
  show ?thesis
    unfolding create_job_def op_defs Let_def
    by (intro emit_rules) (auto simp: ok prepares_def same_course_def alike_updated)
qed

lemma reconcileJobResources_spec:
  "emits (reconcileJobResources L E d url img base) (\<lambda>r es. prepares d (snd r) es)"
  unfolding reconcileJobResources_def Get_Job_def
  by (intro emit_rules; (rule emits_mono [OF create_job_spec])?)
    (auto intro!: prepares_inert prepares_append [where es = "[e]" for e, simplified])

lemma deploy_ansible_sound: "emits (deploy_ansible L E url cfg d) (sound_work d)"
  unfolding deploy_ansible_def
proof (rule emits_bind [OF reconcileJobResources_spec], clarify)
  fix job :: "Job option" and err :: "go_error option" and d1 es1
  assume first: "prepares d (snd ((job, err), d1)) es1"
  show "emits (case err of Some e \<Rightarrow> ret (Some e, d1) | None \<Rightarrow> updateJobStatus L E d1 job)
     (\<lambda>r es. sound_work d r (es1 @ es))"
    by (intro emit_rules emits_mono [OF updateJobStatus_keeps_ok])
      (use first in \<open>auto intro: prepares_stop prepares_then\<close>)
qed

end

sublocale kube_lib \<subseteq> ansible: backend "deploy_ansible L E url cfg" for E url cfg
  by unfold_locales (rule deploy_ansible_sound)

interpretation documented_ansible: backend "deploy_ansible (documented_lib up ur ps q) E url cfg"
  by (rule documented.ansible.backend_axioms)

section \<open>One job for each deployment\<close>

text \<open>The branches of \<open>reconcileJobResources\<close>, told by the calls they make: the job is there and
  its conditions decide; it cannot be looked up, or cannot be built; its creation is refused; it is
  created and its name recorded.\<close>

definition outcome_of :: "Job \<Rightarrow> Job option \<times> go_error option" where
  "outcome_of j =
     (case job_outcome (case jb_Conditions j of None \<Rightarrow> [] | Some cs \<Rightarrow> cs) of
        None \<Rightarrow> (None, None) | Some e \<Rightarrow> (Some j, e))"

inductive job_branches ::
  "Deployment \<Rightarrow> (Job option \<times> go_error option) \<times> Deployment \<Rightarrow> trace \<Rightarrow> bool" for d where
  followed: "job_branches d (outcome_of j, d) [EGet KJob (d_Namespace d) (job_name d) (Inr (OJob j))]"
| failed: "job_branches d ((None, Some e'), d) [EGet KJob (d_Namespace d) (job_name d) (Inl e)]"
| refused: "IsNotFound e \<Longrightarrow> om_Name (jb_Meta j) = job_name d \<Longrightarrow> owned d (jb_Meta j) \<Longrightarrow>
    job_branches d ((None, Some c), d)
      [EGet KJob (d_Namespace d) (job_name d) (Inl e), ECreate (OJob j) (Inl c)]"
| created: "IsNotFound e \<Longrightarrow> om_Name (jb_Meta j) = job_name d \<Longrightarrow> owned d (jb_Meta j) \<Longrightarrow>
    w = map_status (\<lambda>s. s\<lparr>st_PipelineRunName := om_Name (jb_Meta new)\<rparr>) d \<Longrightarrow>
    job_branches d ((Some new, None), updated w u)
      [EGet KJob (d_Namespace d) (job_name d) (Inl e), ECreate (OJob j) (Inr (OJob new)), EStatusUpdate w u]"

inductive_cases job_branches_elim: "job_branches d r es"

context kube_lib
begin

lemma reconcileJobResources_branches:
  "emits (reconcileJobResources L E d url img base) (job_branches d)"
proof -
  have ok: "owned d m \<and> om_Name m = job_name d" if "newAnsibleJob d (job_name d) url img base = Inr j"
    "li_SetControllerReference L (d_Meta d) (jb_Meta j) = Inr m" for j m
    using newAnsibleJob_cases [where d = d and n = "job_name d" and url = url and img = img and base = base]
      that controller_reference_owned by force
  have rejected: "job_branches d ((None, Some c), d) [EGet KJob (d_Namespace d) (job_name d) (Inl e),
      ECreate (OJob (j\<lparr>jb_Meta := m\<rparr>)) (Inl c)]"
    if "IsNotFound e" "newAnsibleJob d (job_name d) url img base = Inr j"
      "li_SetControllerReference L (d_Meta d) (jb_Meta j) = Inr m" for c e j m
    using ok [OF that(2,3)] that(1) by (intro refused) simp_all
  have recorded: "job_branches d ((Some new, None),
      updated (map_status (\<lambda>s. s\<lparr>st_PipelineRunName := om_Name (jb_Meta new)\<rparr>) d) u)
      [EGet KJob (d_Namespace d) (job_name d) (Inl e), ECreate (OJob (j\<lparr>jb_Meta := m\<rparr>)) (Inr (OJob new)),
       EStatusUpdate (map_status (\<lambda>s. s\<lparr>st_PipelineRunName := om_Name (jb_Meta new)\<rparr>) d) u]"
    if "IsNotFound e" "newAnsibleJob d (job_name d) url img base = Inr j"
      "li_SetControllerReference L (d_Meta d) (jb_Meta j) = Inr m" for e j m new u
    using ok [OF that(2,3)] that(1) by (intro created) simp_all
  have found: "job_branches d ((None, None), d) [EGet KJob (d_Namespace d) (job_name d) (Inr (OJob j))]"
    if "job_outcome (case jb_Conditions j of None \<Rightarrow> [] | Some cs \<Rightarrow> cs) = None" for j
    using followed [of d j] that by (simp add: outcome_of_def)
  have ended: "job_branches d ((Some j, err), d) [EGet KJob (d_Namespace d) (job_name d) (Inr (OJob j))]"
    if "job_outcome (case jb_Conditions j of None \<Rightarrow> [] | Some cs \<Rightarrow> cs) = Some err" for j err
    using followed [of d j] that by (simp add: outcome_of_def)
  show ?thesis
    unfolding reconcileJobResources_def create_job_def op_defs Let_def
    by (intro emit_rules; simp only: map_sum.simps id_apply)
      (assumption | rule found ended failed rejected recorded)+
qed

end

section \<open>Properties\<close>

definition conditions_of :: "Job \<Rightarrow> JobCondition list" where
  "conditions_of j = (case jb_Conditions j of None \<Rightarrow> [] | Some cs \<Rightarrow> cs)"

lemma job_outcome_decisive:
  "job_outcome cs =
     (case [c \<leftarrow> cs. jc_Status c = ''True'' \<and> (jc_Type c = ''Complete'' \<or> jc_Type c = ''Failed'')] of
        [] \<Rightarrow> None
      | c # _ \<Rightarrow> Some (if jc_Type c = ''Failed'' then Some (Errorf (''ansible Job failed: '' @ jc_Reason c)) else None))"
  by (induction cs) auto

lemma job_conditions_complete:
  "job_outcome cs = Some None \<Longrightarrow> job_conditions L E d j cs = applyCondition L E d
     (Some (succeeded_condition ConditionTrue ''Kubernetes Job completed successfully.'')) None None"
  by (induction cs) (auto split: if_splits)

text \<open>C36: The job cannot be built exactly when the repository address has no \<open>//\<close>. Otherwise its one
  init container clones the release from that address, with the token as an environment reference
  put between scheme and host (the address is split at its first \<open>//\<close>), into \<open>/workspace\<close>, which its
  one main container, of the given image, shares; that one installs the requirements, if the
  deployment names any, and runs the playbook, with the parameter file if there is one. Both get the
  token from the key \<open>password\<close> of the same secret; name and namespace are as given.\<close>

theorem newAnsibleJob_url:
  "case newAnsibleJob d n url img base of
     Inl _ \<Rightarrow> \<not> Contains url ''//''
   | Inr job \<Rightarrow> om_Name (jb_Meta job) = n \<and> om_Namespace (jb_Meta job) = d_Namespace d \<and>
       (\<exists>scheme rest clone run install. first_split url ''//'' scheme rest \<and>
          ps_InitContainers (jb_PodSpec job) = [clone] \<and> ps_Containers (jb_PodSpec job) = [run] \<and>
          co_Command clone = [''sh'', ''-c''] \<and>
          co_Args clone = [''git clone --single-branch --branch '' @ ds_Release (d_Spec d) @ '' '' @
            scheme @ ''//$(GIT_PAT)@'' @ rest @ '' /workspace && chmod go-w /workspace''] \<and>
          co_Image run = img \<and> co_Command run = [''/bin/sh''] \<and>
          co_Args run = [''-c'', install @ ''ansible-playbook /workspace/'' @
            an_AnsiblePlaybook (ds_Ansible (d_Spec d)) @
            (if ds_Parameters (d_Spec d) = [] then [] else '' -e @/workspace/'' @ ds_Parameters (d_Spec d))] \<and>
          (if an_Requirements (ds_Ansible (d_Spec d)) = [] then install = []
           else HasSuffix install
             (''ansible-galaxy install -r /workspace/'' @ an_Requirements (ds_Ansible (d_Spec d)) @ '' && '')) \<and>
          co_VolumeMounts clone = [(volumeName, ''/workspace'')] \<and>
          co_VolumeMounts run = [(volumeName, ''/workspace'')] \<and>
          ps_EmptyDirVolumes (jb_PodSpec job) = [volumeName] \<and>
          map (\<lambda>v. (ev_Name v, ev_SecretKeyRef v)) (co_Env clone) =
            [(''GIT_PAT'', Some (''github-ibm-pat'', ''password''))] \<and>
          co_Env run = co_Env clone)"
proof (cases "newAnsibleJob d n url img base")
  case (Inl e)
  then show ?thesis
    using newAnsibleJob_cases [where d = d and n = n and url = url and img = img and base = base] by simp
next
  case (Inr job)
  then obtain scheme rest where job: "first_split url ''//'' scheme rest" "om_Name (jb_Meta job) = n"
      "om_Namespace (jb_Meta job) = d_Namespace d"
      "ps_InitContainers (jb_PodSpec job) = [initContainer d (scheme @ ''//$(GIT_PAT)@'' @ rest)]"
      "ps_Containers (jb_PodSpec job) = [mainContainer d img base]"
    using newAnsibleJob_cases [where d = d and n = n and url = url and img = img and base = base] by auto
  have volume: "ps_EmptyDirVolumes (jb_PodSpec job) = [volumeName]"
    using Inr by (auto simp: newAnsibleJob_def Let_def split: if_splits)
  let ?req = "an_Requirements (ds_Ansible (d_Spec d))"
  define install where "install =
    (if ?req = [] then []
     else ''git config --global url.'' @ dquoted (''https://${GIT_PAT}@'' @ git_host base) @ ''.insteadOf '' @
       dquoted (''https://'' @ git_host base) @ '' && ansible-galaxy install -r '' @ mountPath @ ''/'' @ ?req @ '' && '')"
  have command: "shellCmd d base = install @ ''ansible-playbook /workspace/'' @
      an_AnsiblePlaybook (ds_Ansible (d_Spec d)) @
      (if ds_Parameters (d_Spec d) = [] then [] else '' -e @/workspace/'' @ ds_Parameters (d_Spec d))"
    by (simp add: shellCmd_def Let_def install_def playbookArgs_def mountPath_def)
  have "HasSuffix install (''ansible-galaxy install -r /workspace/'' @ ?req @ '' && '')" if "?req \<noteq> []"
    unfolding HasSuffix_iff
    by (rule exI [of _ "''git config --global url.'' @ dquoted (''https://${GIT_PAT}@'' @ git_host base) @
      ''.insteadOf '' @ dquoted (''https://'' @ git_host base) @ '' && ''"])
      (simp add: install_def that mountPath_def)
  then have prepared: "if ?req = [] then install = []
      else HasSuffix install (''ansible-galaxy install -r /workspace/'' @ ?req @ '' && '')"
    by (cases "?req = []") (simp add: install_def, simp only: if_False not_False_eq_True simp_thms)
  show ?thesis
    unfolding Inr sum.case
    by (intro conjI exI [of _ scheme] exI [of _ rest] exI [of _ install]
        exI [of _ "initContainer d (scheme @ ''//$(GIT_PAT)@'' @ rest)"] exI [of _ "mainContainer d img base"];
        (rule job volume prepared)?)
      (simp_all add: initContainer_def mainContainer_def patEnvVar_def mountPath_def command GitHubSecretName_def)
qed

text \<open>C11: One job for each deployment: a run looks for the job of its name first; it creates one only
  when there is none, controlled by the deployment, and then records the name the server answered;
  a job that exists is followed and nothing is written.\<close>

theorem one_job_each:
  assumes "kube_lib L"
  shows "emits (reconcileJobResources L E d url img base) (job_branches d)"
  by (rule kube_lib.reconcileJobResources_branches [OF assms])

lemma one_job_each_witness:
  fixes m defines "m \<equiv> reconcileJobResources sample_lib (sample_env sample_deployment) sample_deployment
    ''https://git.example.com/demo.git'' ''runner'' ''https://git.example.com''"
  shows "job_branches sample_deployment (result m []) (events m [])"
  unfolding m_def by (rule emitsD [OF one_job_each [OF sample_lib_kube]])

text \<open>What becomes of a job that exists, told by \<open>outcome_of\<close>.\<close>

lemma followed_job:
  assumes "kube_lib L" and "kc_get_Job (client E) tr (d_Namespace d) (job_name d) = Inr j"
  shows "case outcome_of j of
     (None, _) \<Rightarrow> result (deploy_ansible L E url cfg d) tr = (None, d) \<and>
       status_writes (events (deploy_ansible L E url cfg d) tr) = []
   | (Some _, Some e) \<Rightarrow> result (deploy_ansible L E url cfg d) tr = (Some e, d) \<and>
       status_writes (events (deploy_ansible L E url cfg d) tr) = []
   | (Some _, None) \<Rightarrow> map (\<lambda>w. d_Phase w) (status_writes (events (deploy_ansible L E url cfg d) tr)) = [''Succeeded'']"
proof -
  let ?es = "[EGet KJob (d_Namespace d) (job_name d) (Inr (OJob j))]"
  let ?m = "deploy_ansible L E url cfg d"
  have quietly: "result ?m tr = r \<and> status_writes (events ?m tr) = []" if "run_state ?m tr = (r, tr @ ?es)" for r
    using that by (simp add: result_def events_def)
  show ?thesis
  proof (cases "job_outcome (case jb_Conditions j of None \<Rightarrow> [] | Some cs \<Rightarrow> cs)")
    case None
    then have "run_state ?m tr = ((None, d), tr @ ?es)"
      by (simp add: deploy_ansible_def reconcileJobResources_def Get_Job_def assms(2) updateJobStatus_def)
    from quietly [OF this] have "result ?m tr = (None, d)" "status_writes (events ?m tr) = []" by blast+
    then show ?thesis by (simp add: outcome_of_def None)
  next
    case (Some err)
    show ?thesis
    proof (cases err)
      case None
      with Some obtain cs where cs: "jb_Conditions j = Some cs" "job_outcome cs = Some None"
        by (auto split: option.splits)
      let ?c = "succeeded_condition ConditionTrue ''Kubernetes Job completed successfully.''"
      let ?n = "applyCondition L E d (Some ?c) None None"
      have "run_state ?m tr = run_state ?n (tr @ ?es)"
        by (simp add: deploy_ansible_def reconcileJobResources_def Get_Job_def assms(2) updateJobStatus_def
            cs job_conditions_complete)
      moreover have "run_state ?n (tr @ ?es) = (result ?n (tr @ ?es), (tr @ ?es) @ events ?n (tr @ ?es))"
        by (rule emits_run [OF kube_lib.applyCondition_spec [OF assms(1)]])
      ultimately have "snd (run_state ?m tr) = tr @ ?es @ events ?n (tr @ ?es)"
        by simp
      then have "events ?m tr = ?es @ events ?n (tr @ ?es)"
        by (subst events_def) simp
      moreover obtain reads w r where "events ?n (tr @ ?es) = reads @ [EStatusUpdate w r]"
        "\<forall>e \<in> set reads. inert e" "turned ?c d w"
        using emitsD [OF kube_lib.applyCondition_spec [OF assms(1), of E d ?c None None], of "tr @ ?es"]
        by (auto simp: collector_panics_def split: prod.splits)
      ultimately show ?thesis
        using Some None
        by (simp add: outcome_of_def status_writes_inert inert_quiet turned_def translate_def
            succeeded_condition_def view_of_def)
    next
      case (Some e)
      with \<open>job_outcome _ = Some err\<close> have "run_state ?m tr = ((Some e, d), tr @ ?es)"
        by (simp add: deploy_ansible_def reconcileJobResources_def Get_Job_def assms(2))
      from quietly [OF this] have "result ?m tr = (Some e, d)" "status_writes (events ?m tr) = []" by blast+
      then show ?thesis by (simp add: outcome_of_def Some \<open>job_outcome _ = Some err\<close>)
    qed
  qed
qed

text \<open>C10: Of a job that exists the first condition with status \<open>True\<close> and type \<open>Complete\<close> or \<open>Failed\<close>
  decides. If it says complete, one status is written, with phase Succeeded. If it says failed, an
  error with its reason is returned and the deployment left as it was, so no status is written, its
  phase does not become Failed and no diagnostics are collected. Without such a condition the job
  is still running, and nothing is written or returned.\<close>

theorem existing_job_outcome:
  assumes "kube_lib L" and "kc_get_Job (client E) tr (d_Namespace d) (job_name d) = Inr j"
  shows "case [c \<leftarrow> conditions_of j. jc_Status c = ''True'' \<and> (jc_Type c = ''Complete'' \<or> jc_Type c = ''Failed'')] of
     [] \<Rightarrow> result (deploy_ansible L E url cfg d) tr = (None, d) \<and>
       status_writes (events (deploy_ansible L E url cfg d) tr) = []
   | c # _ \<Rightarrow>
       if jc_Type c = ''Failed''
       then result (deploy_ansible L E url cfg d) tr = (Some (Errorf (''ansible Job failed: '' @ jc_Reason c)), d) \<and>
         status_writes (events (deploy_ansible L E url cfg d) tr) = []
       else map (\<lambda>w. d_Phase w) (status_writes (events (deploy_ansible L E url cfg d) tr)) = [''Succeeded'']"
  using followed_job [OF assms, of url cfg]
  unfolding outcome_of_def job_outcome_decisive conditions_of_def [symmetric]
  by (cases "[c \<leftarrow> conditions_of j. jc_Status c = ''True'' \<and> (jc_Type c = ''Complete'' \<or> jc_Type c = ''Failed'')]")
    (simp_all split: if_splits)

text \<open>A job that has failed.\<close>

definition sample_job :: Job where
  "sample_job = \<lparr>jb_Meta = named ''demo-ansible-runner'' ''apps'', jb_BackoffLimit = Some 3, jb_Selector = None,
     jb_PodSpec = \<lparr>ps_RestartPolicy = [], ps_InitContainers = [], ps_Containers = [], ps_EmptyDirVolumes = [],
       ps_ServiceAccountName = []\<rparr>,
     jb_Conditions = Some [\<lparr>jc_Type = JobFailed, jc_Status = ConditionTrue, jc_Reason = ''BackoffLimitExceeded'',
       jc_Message = []\<rparr>], jb_Active = 0\<rparr>"

definition sample_job_env :: env where
  "sample_job_env = (sample_env sample_deployment)
     \<lparr>client := (sample_client sample_deployment)\<lparr>kc_get_Job := (\<lambda>_ _ _. Inr sample_job)\<rparr>\<rparr>"

definition sample_config :: OperatorConfig where
  "sample_config = config_of (\<lambda>_. Some ''https://git.example.com'')"

lemma existing_job_outcome_witness:
  "result (deploy_ansible sample_lib sample_job_env ''https://git.example.com/demo.git'' sample_config sample_deployment) [] =
     (Some (Errorf ''ansible Job failed: BackoffLimitExceeded''), sample_deployment)"
proof -
  have "kc_get_Job (client sample_job_env) [] (d_Namespace sample_deployment) (job_name sample_deployment) = Inr sample_job"
    by (simp add: sample_job_env_def)
  from existing_job_outcome [OF sample_lib_kube this]
  show ?thesis by (simp add: conditions_of_def sample_job_def)
qed

end
