(* ===== verification/Tekton_Run.thy ===== *)
theory Tekton_Run
  imports Status_Update
begin

text \<open>
  Deployment by Tekton, \<open>internal/controller/deployment_controller.go\<close>: \<open>mergeParams\<close> and
  \<open>reconcileTektonResources\<close>, which launches a pipeline run from the files of the repository once
  and follows it. With \<open>updatePipelineRunStatus\<close> it is the second backend.
\<close>

section \<open>Operations\<close>

definition pipelineFileName :: string where "pipelineFileName = ''pipeline.yaml''"
definition pipelineRunFileName :: string where "pipelineRunFileName = ''pipelinerun.yaml''"

definition string_param :: "string \<Rightarrow> string \<Rightarrow> Param" where
  "string_param n v = \<lparr>pm_Name = n, pm_Value = ParamString v\<rparr>"

text \<open>The map \<open>index\<close> of \<open>mergeParams\<close> after each of its two loops. The second loop ranges over
  the map of overrides in the order \<open>names\<close>.\<close>

definition index_params :: "Param list \<Rightarrow> (string \<rightharpoonup> Param)" where
  "index_params ps = foldl (\<lambda>m p. m(pm_Name p \<mapsto> p)) Map.empty ps"

definition index_overrides ::
  "(string \<times> string) list \<Rightarrow> string list \<Rightarrow> (string \<rightharpoonup> Param) \<Rightarrow> (string \<rightharpoonup> Param)" where
  "index_overrides overrides names index =
     foldl (\<lambda>m n. m(n \<mapsto> string_param n (data_at (map_of overrides) n))) index names"

definition index_keys :: "Param list \<Rightarrow> (string \<times> string) list \<Rightarrow> string list" where
  "index_keys ps overrides = remdups (map pm_Name ps @ map fst overrides)"

definition mergeParams :: "lib \<Rightarrow> env \<Rightarrow> PipelineRun \<Rightarrow> string \<Rightarrow> (go_error + PipelineRun) op" where
  "mergeParams L E pipelineRun paramsYAML =
     (case li_Unmarshal_params L paramsYAML of
        Inl e \<Rightarrow> ret (Inl (wrapf ''failed to unmarshal parameters YAML: '' e))
      | Inr overrides \<Rightarrow> do {
          names \<leftarrow> range_order E (map fst overrides);
          let index = index_overrides overrides names (index_params (pr_Params pipelineRun));
          order \<leftarrow> range_order E (index_keys (pr_Params pipelineRun) overrides);
          ret (Inr (pipelineRun\<lparr>pr_Params := List.map_filter index order\<rparr>))
        })"

text \<open>\<open>err != nil && !errors.IsAlreadyExists(err)\<close> after a create.\<close>

definition create_error :: "go_error + 'a \<Rightarrow> go_error option" where
  "create_error r = (case r of Inl e \<Rightarrow> if IsAlreadyExists e then None else Some e | Inr _ \<Rightarrow> None)"

text \<open>The pipeline and the run as the files of the repository give them.\<close>

definition read_parameters ::
  "lib \<Rightarrow> env \<Rightarrow> Deployment \<Rightarrow> string \<Rightarrow> PipelineRun \<Rightarrow> (go_error + PipelineRun) op" where
  "read_parameters L E d repoDir pipelineRun =
     (if ds_Parameters (d_Spec d) = [] then ret (Inr pipelineRun)
      else do {
        f \<leftarrow> ReadFile E (filepath_Join repoDir (ds_Parameters (d_Spec d)));
        case f of
          Inl e \<Rightarrow> ret (Inl (wrapf ''failed to read parameters file: '' e))
        | Inr paramsYAML \<Rightarrow> do {
            m \<leftarrow> mergeParams L E pipelineRun paramsYAML;
            case m of
              Inl e \<Rightarrow> ret (Inl (wrapf ''failed to merge parameters: '' e))
            | Inr run \<Rightarrow> ret (Inr run)
          }
      })"

definition read_manifests ::
  "lib \<Rightarrow> env \<Rightarrow> Deployment \<Rightarrow> string \<Rightarrow> (go_error + (Pipeline \<times> PipelineRun)) op" where
  "read_manifests L E d repoDir = do {
     f \<leftarrow> ReadFile E (filepath_Join repoDir pipelineFileName);
     case f of
       Inl e \<Rightarrow> ret (Inl (wrapf ''could not read pipeline file: '' e))
     | Inr pipelineYAML \<Rightarrow>
     (case li_Unmarshal_Pipeline L pipelineYAML of
       Inl e \<Rightarrow> ret (Inl (wrapf ''failed to unmarshal Pipeline YAML: '' e))
     | Inr pl \<Rightarrow> do {
         let pipeline = pl\<lparr>pl_Meta := (pl_Meta pl)\<lparr>om_Namespace := d_Namespace d\<rparr>\<rparr>;
         g \<leftarrow> ReadFile E (filepath_Join repoDir pipelineRunFileName);
         case g of
           Inl e \<Rightarrow> ret (Inl (wrapf ''failed to read PipelineRun file: '' e))
         | Inr pipelineRunYAML \<Rightarrow>
         (case li_Unmarshal_PipelineRun L pipelineRunYAML of
           Inl e \<Rightarrow> ret (Inl (wrapf ''failed to unmarshal PipelineRun YAML: '' e))
         | Inr pr \<Rightarrow> do {
             let pipelineRun = pr\<lparr>pr_Meta := (pr_Meta pr)\<lparr>om_Namespace := d_Namespace d\<rparr>\<rparr>;
             p \<leftarrow> read_parameters L E d repoDir pipelineRun;
             case p of Inl e \<Rightarrow> ret (Inl e) | Inr run \<Rightarrow> ret (Inr (pipeline, run))
           })
       })
   }"

text \<open>Both objects are created with the deployment as their controller.\<close>

definition create_run ::
  "lib \<Rightarrow> env \<Rightarrow> Deployment \<Rightarrow> Pipeline \<Rightarrow> PipelineRun \<Rightarrow> ((go_error + PipelineRun) \<times> Deployment) op" where
  "create_run L E d pipeline pipelineRun =
     (case li_SetControllerReference L (d_Meta d) (pl_Meta pipeline) of
        Inl e \<Rightarrow> ret (Inl e, d)
      | Inr m \<Rightarrow> do {
          c \<leftarrow> Create_Pipeline E (pipeline\<lparr>pl_Meta := m\<rparr>);
          case create_error c of
            Some e \<Rightarrow> ret (Inl (wrapf ''failed to create Pipeline: '' e), d)
          | None \<Rightarrow>
          (case li_SetControllerReference L (d_Meta d) (pr_Meta pipelineRun) of
             Inl e \<Rightarrow> ret (Inl e, d)
           | Inr m' \<Rightarrow> do {
               let wanted = pipelineRun\<lparr>pr_Meta := m'\<rparr>;
               c' \<leftarrow> Create_PipelineRun E wanted;
               case create_error c' of
                 Some e \<Rightarrow> ret (Inl (wrapf ''failed to create PipelineRun: '' e), d)
               | None \<Rightarrow> do {
                   let run = updated wanted c';
                   let d = map_status (\<lambda>s. s\<lparr>st_PipelineRunName := om_Name (pr_Meta run)\<rparr>) d;
                   u \<leftarrow> Status_Update E d;
                   ret (Inr run, updated d u)
                 }
             })
        })"

definition reconcileTektonResources ::
  "lib \<Rightarrow> env \<Rightarrow> Deployment \<Rightarrow> string \<Rightarrow> ((go_error + PipelineRun) \<times> Deployment) op" where
  "reconcileTektonResources L E d repoDir =
     (if st_PipelineRunName (d_Status d) \<noteq> [] then do {
        r \<leftarrow> Get_PipelineRun E (d_Namespace d) (st_PipelineRunName (d_Status d));
        case r of
          Inl e \<Rightarrow> ret (Inl (wrapf ''failed to get existing PipelineRun: '' e), d)
        | Inr existing \<Rightarrow> ret (Inr existing, d)
      }
      else do {
        r \<leftarrow> read_manifests L E d repoDir;
        case r of
          Inl e \<Rightarrow> ret (Inl e, d)
        | Inr (pipeline, pipelineRun) \<Rightarrow> create_run L E d pipeline pipelineRun
      })"

text \<open>The Tekton branch of \<open>reconcileDeploymentPhase\<close>.\<close>

definition deploy_tekton :: "lib \<Rightarrow> env \<Rightarrow> string \<Rightarrow> Deployment \<Rightarrow> (go_error option \<times> Deployment) op" where
  "deploy_tekton L E repoDir d = do {
     (r, d) \<leftarrow> reconcileTektonResources L E d repoDir;
     case r of
       Inl e \<Rightarrow> ret (Some e, d)
     | Inr pipelineRun \<Rightarrow> updatePipelineRunStatus L E d (Some pipelineRun)
   }"

section \<open>Merging parameters\<close>

lemma index_params_apply:
  "index_params ps n = find (\<lambda>p. pm_Name p = n) (rev ps)"
proof -
  have "foldl (\<lambda>m p. m(pm_Name p \<mapsto> p)) m ps n =
      (case find (\<lambda>p. pm_Name p = n) (rev ps) of None \<Rightarrow> m n | Some p \<Rightarrow> Some p)" for m
    by (induction ps rule: rev_induct) auto
  from this [of Map.empty] show ?thesis
    by (simp add: index_params_def split: option.splits)
qed

lemma index_overrides_apply:
  "index_overrides ov names index n =
     (if n \<in> set names then Some (string_param n (data_at (map_of ov) n)) else index n)"
  unfolding index_overrides_def
  by (induction names arbitrary: index) auto

text \<open>What the run gets for a name: the override if there is one, else the run's own parameter.\<close>

definition merged :: "Param list \<Rightarrow> (string \<times> string) list \<Rightarrow> string \<Rightarrow> Param option" where
  "merged ps ov n =
     (case map_of ov n of
        Some v \<Rightarrow> Some (string_param n v)
      | None \<Rightarrow> find (\<lambda>p. pm_Name p = n) (rev ps))"

lemma merged_name: "merged ps ov n = Some p \<Longrightarrow> pm_Name p = n"
  by (auto simp: merged_def string_param_def find_Some_iff split: option.splits)

lemma map_of_key: "map_of ov n = Some v \<Longrightarrow> n \<in> fst ` set ov"
  by (force dest: map_of_SomeD)

lemma merged_None: "merged ps ov n = None \<longleftrightarrow> n \<notin> set (index_keys ps ov)"
  by (auto simp: merged_def index_keys_def find_None_iff map_of_eq_None_iff split: option.splits
      dest: map_of_key)

lemma index_is_merged:
  assumes "set names = fst ` set ov"
  shows "index_overrides ov names (index_params ps) = merged ps ov"
proof
  fix n
  show "index_overrides ov names (index_params ps) n = merged ps ov n"
    using assms
    by (auto simp: index_overrides_apply index_params_apply merged_def data_at_def
        split: option.splits dest: map_of_key simp: map_of_eq_None_iff)
qed

lemma map_filter_merged:
  assumes "set order = set (index_keys ps ov)" "distinct order"
  shows "distinct (map pm_Name (List.map_filter (merged ps ov) order))"
    and "set (List.map_filter (merged ps ov) order) = {p. \<exists>n. merged ps ov n = Some p}"
proof -
  have known: "\<exists>p. merged ps ov n = Some p" if "n \<in> set (index_keys ps ov)" for n
    using that merged_None [of ps ov n] by (cases "merged ps ov n") auto
  have "map pm_Name (List.map_filter (merged ps ov) xs) = xs"
    if "set xs \<subseteq> set (index_keys ps ov)" for xs
    using that known
    by (induction xs) (fastforce simp: List.map_filter_simps split: option.splits dest: merged_name)+
  with assms show "distinct (map pm_Name (List.map_filter (merged ps ov) order))" by simp
  have "n \<in> set order" if "merged ps ov n = Some p" for n p
    using that assms(1) merged_None [of ps ov n] by auto
  then show "set (List.map_filter (merged ps ov) order) = {p. \<exists>n. merged ps ov n = Some p}"
    by (auto simp: List.map_filter_def) force+
qed

section \<open>The backend\<close>

lemma create_error_cases: "create_error r = None \<longleftrightarrow> (\<exists>v. r = Inr v) \<or> (\<exists>e. r = Inl e \<and> IsAlreadyExists e)"
  by (auto simp: create_error_def split: sum.splits)

context kube_lib
begin

lemma mergeParams_spec:
  "emits (mergeParams L E pr raw) (\<lambda>r es. es = [] \<and>
     (case r of
        Inl _ \<Rightarrow> (\<exists>e. li_Unmarshal_params L raw = Inl e)
      | Inr pr' \<Rightarrow> \<exists>ov. li_Unmarshal_params L raw = Inr ov \<and> pr' = pr\<lparr>pr_Params := pr_Params pr'\<rparr> \<and>
          distinct (map pm_Name (pr_Params pr')) \<and>
          set (pr_Params pr') = {p. \<exists>n. merged (pr_Params pr) ov n = Some p}))"
  unfolding mergeParams_def Let_def
  by (intro emit_rules) (auto simp: index_is_merged map_filter_merged index_keys_def)

lemma mergeParams_meta:
  "emits (mergeParams L E pr raw) (\<lambda>r es. es = [] \<and>
     (case r of Inl _ \<Rightarrow> True | Inr pr' \<Rightarrow> pr_Meta pr' = pr_Meta pr \<and> pr_Spec pr' = pr_Spec pr))"
  by (rule emits_mono [OF mergeParams_spec]) (auto split: sum.splits dest: arg_cong [where f = pr_Meta] arg_cong [where f = pr_Spec])

lemma read_manifests_spec:
  "emits (read_manifests L E d dir) (\<lambda>r es. (\<forall>e \<in> set es. inert e) \<and>
     (case r of Inl _ \<Rightarrow> True
      | Inr (pl, pr) \<Rightarrow> om_Namespace (pl_Meta pl) = d_Namespace d \<and> om_Namespace (pr_Meta pr) = d_Namespace d))"
proof -
  have params: "emits (read_parameters L E d dir pr) (\<lambda>r es. (\<forall>e \<in> set es. inert e) \<and>
     (case r of Inl _ \<Rightarrow> True | Inr pr' \<Rightarrow> pr_Meta pr' = pr_Meta pr))" for pr
    unfolding read_parameters_def ReadFile_def
    by (intro emit_rules; (rule emits_bind [OF mergeParams_meta])?) (auto intro!: emit_rules)
  show ?thesis
    unfolding read_manifests_def ReadFile_def Let_def
    by (intro emit_rules; (rule emits_bind [OF params])?) (auto intro!: emit_rules)
qed

lemma create_run_spec:
  assumes "om_Namespace (pl_Meta pl) = d_Namespace d" "om_Namespace (pr_Meta pr) = d_Namespace d"
  shows "emits (create_run L E d pl pr) (\<lambda>r es. prepares d (snd r) es)"
  unfolding create_run_def op_defs Let_def
  by (intro emit_rules)
    (auto simp: prepares_def same_course_def alike_updated assms controller_reference_owned)

lemma reconcileTektonResources_spec:
  "emits (reconcileTektonResources L E d dir) (\<lambda>r es. prepares d (snd r) es)"
proof -
  have launch: "emits (create_run L E d pl pr) (\<lambda>r es'. prepares d (snd r) (es @ es'))"
    if "\<forall>e \<in> set es. inert e" "om_Namespace (pl_Meta pl) = d_Namespace d"
      "om_Namespace (pr_Meta pr) = d_Namespace d" for es pl pr
    by (rule emits_mono [OF create_run_spec [OF that(2,3)]])
      (use that(1) in \<open>auto intro!: prepares_append\<close>)
  show ?thesis
    unfolding reconcileTektonResources_def Get_PipelineRun_def
    by (intro emit_rules; (rule emits_bind [OF read_manifests_spec])?)
      (auto intro!: emit_rules prepares_inert launch split: sum.splits)
qed

lemma deploy_tekton_sound: "emits (deploy_tekton L E dir d) (sound_work d)"
  unfolding deploy_tekton_def
proof (rule emits_bind [OF reconcileTektonResources_spec], clarify)
  fix r :: "go_error + PipelineRun" and d1 es1
  assume first: "prepares d (snd (r, d1)) es1"
  show "emits (case r of Inl e \<Rightarrow> ret (Some e, d1) | Inr run \<Rightarrow> updatePipelineRunStatus L E d1 (Some run))
     (\<lambda>r es. sound_work d r (es1 @ es))"
    by (intro emit_rules emits_mono [OF updatePipelineRunStatus_keeps_ok])
      (use first in \<open>auto intro: prepares_stop prepares_then\<close>)
qed

end

sublocale kube_lib \<subseteq> tekton: backend "deploy_tekton L E dir" for E dir
  by unfold_locales (rule deploy_tekton_sound)

interpretation documented_tekton: backend "deploy_tekton (documented_lib up ur ps q) E dir"
  by (rule documented.tekton.backend_axioms)

section \<open>Properties\<close>

lemma find_by_name:
  "distinct (map pm_Name ps) \<Longrightarrow> p \<in> set ps \<Longrightarrow> find (\<lambda>q. pm_Name q = pm_Name p) ps = Some p"
  by (induction ps) auto

lemma find_in_set:
  assumes "distinct (map pm_Name ps)" "set ps = {p. \<exists>n. f n = Some p}" "\<And>n p. f n = Some p \<Longrightarrow> pm_Name p = n"
  shows "find (\<lambda>p. pm_Name p = n) ps = f n"
proof (cases "f n")
  case None
  then have "pm_Name p \<noteq> n" if "p \<in> set ps" for p
    using that assms(2,3) by force
  with None show ?thesis by (simp add: find_None_iff)
next
  case (Some p)
  then have "p \<in> set ps" "pm_Name p = n" using assms by auto
  with Some find_by_name [OF assms(1)] show ?thesis by auto
qed

text \<open>C21: Merging parameters: in whatever order the maps are ranged over, each name occurs once
  afterwards; a name of the overrides has their value, as a string; any other keeps the last
  parameter of the run with that name; nothing else of the run changes.\<close>

theorem mergeParams_overrides:
  assumes "kube_lib L"
  shows "emits (mergeParams L E pr raw) (\<lambda>r es. es = [] \<and>
     (case r of
        Inl _ \<Rightarrow> (\<exists>e. li_Unmarshal_params L raw = Inl e)
      | Inr pr' \<Rightarrow> \<exists>ov. li_Unmarshal_params L raw = Inr ov \<and> pr' = pr\<lparr>pr_Params := pr_Params pr'\<rparr> \<and>
          distinct (map pm_Name (pr_Params pr')) \<and>
          (\<forall>n. find (\<lambda>p. pm_Name p = n) (pr_Params pr') =
            (case map_of ov n of Some v \<Rightarrow> Some (string_param n v)
             | None \<Rightarrow> find (\<lambda>p. pm_Name p = n) (rev (pr_Params pr))))))"
proof -
  have look: "find (\<lambda>p. pm_Name p = n) qs = (case map_of ov n of Some v \<Rightarrow> Some (string_param n v)
      | None \<Rightarrow> find (\<lambda>p. pm_Name p = n) (rev ps))"
    if "distinct (map pm_Name qs)" "set qs = {p. \<exists>n. merged ps ov n = Some p}" for ps qs ov n
    using find_in_set [of qs "merged ps ov" n] that merged_name by (force simp: merged_def)
  show ?thesis
    by (rule emits_mono [OF kube_lib.mergeParams_spec [OF assms]]) (auto simp: look split: sum.splits)
qed

lemma mergeParams_overrides_witness:
  "\<exists>run. result (mergeParams sample_lib (sample_env sample_deployment) sample_run []) [] = Inr run \<and>
     find (\<lambda>p. pm_Name p = ''region'') (pr_Params run) = Some (string_param ''region'' ''eu'')"
proof -
  let ?m = "mergeParams sample_lib (sample_env sample_deployment) sample_run []"
  have run: "\<not> isl (result ?m [])" by code_simp
  have raw: "li_Unmarshal_params sample_lib [] = Inr [(''region'', ''eu'')]" by code_simp
  obtain pr' where "result ?m [] = Inr pr'" using run by (cases "result ?m []") auto
  with emitsD [OF mergeParams_overrides [OF sample_lib_kube, of "sample_env sample_deployment" sample_run "[]"], of "[]"] raw
  show ?thesis by simp
qed

lemma read_manifests_inert: "emits (read_manifests L E d dir) (\<lambda>r es. \<forall>e \<in> set es. inert e)"
proof -
  have "only inert (mergeParams L E pr raw)" for pr raw
    unfolding mergeParams_def Let_def by (intro only_rules)
  then have "only inert (read_manifests L E d dir)"
    unfolding read_manifests_def read_parameters_def ReadFile_def Let_def
    by (intro only_rules) simp_all
  then show ?thesis by (rule only_emits)
qed

text \<open>C20: A pipeline run that was launched is followed, never launched again: with a recorded name the
  only interaction is the read of that run. Otherwise, when a run comes out, the last interaction
  records its name, and it is the only status written.\<close>

theorem tekton_run_tracked:
  "emits (reconcileTektonResources L E d dir) (\<lambda>(r, d') es.
     if run_name d \<noteq> [] then d' = d \<and> (\<exists>g. es = [EGet KPipelineRun (d_Namespace d) (run_name d) g])
     else case r of
       Inl _ \<Rightarrow> d' = d \<and> status_writes es = []
     | Inr run \<Rightarrow> \<exists>w u. last es = EStatusUpdate w u \<and> d' = updated w u \<and> status_writes es = [w] \<and>
         run_name w = om_Name (pr_Meta run))"
proof -
  have launch: "emits (create_run L E d pl pr) (\<lambda>x es'. (case x of (r, d') \<Rightarrow> \<lambda>es. case r of
       Inl _ \<Rightarrow> d' = d \<and> status_writes es = []
     | Inr run \<Rightarrow> \<exists>w u. last es = EStatusUpdate w u \<and> d' = updated w u \<and>
         status_writes es = [w] \<and> run_name w = om_Name (pr_Meta run)) (es @ es'))"
    if "\<forall>e \<in> set es. inert e" for es pl pr
    unfolding create_run_def op_defs Let_def
    by (intro emit_rules) (auto simp: that status_writes_inert inert_quiet run_name_def)
  show ?thesis
    unfolding reconcileTektonResources_def Get_PipelineRun_def
    by (intro emit_rules; (rule emits_bind [OF read_manifests_inert])?)
      (auto simp: run_name_def status_writes_inert inert_quiet intro!: emit_rules launch split: prod.splits)
qed

end
