(* ===== verification/Notification.thy ===== *)
theory Notification
  imports Status_Update
begin

text \<open>
  The console banner, \<open>internal/controller/deployment_controller.go\<close>: one cluster-wide
  \<open>ConsoleNotification\<close> for each deployment shows its phase. \<open>banner\<close> is what a sequence of
  interactions tells of it, and the contract of the two operations is stated over it.
\<close>

section \<open>Operations\<close>

definition banner_text :: "Deployment \<Rightarrow> string" where
  "banner_text d =
     (if d_Phase d = ''Failed''
      then ''CR '' @ squoted (d_Name d) @ '' failed: '' @ st_Message (d_Status d)
      else if d_Phase d = ''Running'' then ''CR '' @ squoted (d_Name d) @ '' is running...''
      else if d_Phase d = ''Succeeded'' then ''CR '' @ squoted (d_Name d) @ '' is finished!''
      else ''CR '' @ squoted (d_Name d) @ '' is starting...'')"

definition banner_color :: "Deployment \<Rightarrow> string" where
  "banner_color d =
     (if d_Phase d = ''Failed'' then ''#C00000''
      else if d_Phase d = ''Running'' then ''#0043CE''
      else if d_Phase d = ''Succeeded'' then ''#198038''
      else ''#6929C4'')"

definition buildNotification :: "string \<Rightarrow> string \<Rightarrow> Deployment \<Rightarrow> ConsoleNotification" where
  "buildNotification name externalURL d = \<lparr>cn_Meta = named name [],
     cn_Spec = \<lparr>ns_Text = banner_text d, ns_Location = ''BannerTop'',
       ns_Link = Some (externalURL @ ''/k8s/ns/'' @ d_Namespace d @ ''/core~v1~Pod'',
                       ''See more information in the pods here.''),
       ns_Color = [], ns_BackgroundColor = banner_color d\<rparr>\<rparr>"

definition banner_name :: "Deployment \<Rightarrow> string" where
  "banner_name d = d_Name d @ ''-status-banner''"

definition ReconcileConsoleNotification :: "env \<Rightarrow> reconciler \<Rightarrow> Deployment \<Rightarrow> (go_error option) op" where
  "ReconcileConsoleNotification E R d = do {
     u \<leftarrow> Resolver R;
     case u of
       Inl e \<Rightarrow> ret (Some e)
     | Inr externalURL \<Rightarrow> do {
         let name = banner_name d;
         let desired = buildNotification name externalURL d;
         r \<leftarrow> Get_Notification E name;
         case r of
           Inl e \<Rightarrow>
             if IsNotFound e then do { c \<leftarrow> Create_Notification E desired; ret (error_of c) }
             else ret (Some (wrapf ''failed to get ConsoleNotification: '' e))
         | Inr existing \<Rightarrow>
             if cn_Spec existing \<noteq> cn_Spec desired then do {
               w \<leftarrow> Update_Notification E (existing\<lparr>cn_Spec := cn_Spec desired\<rparr>);
               case w of
                 Inl e \<Rightarrow>
                   if IsConflict e
                   then ret (Some (wrapf ''conflict updating ConsoleNotification, requeueing: '' e))
                   else ret (Some e)
               | Inr _ \<Rightarrow> ret None
             }
             else ret None
       }
   }"

definition deleteConsoleNotification :: "env \<Rightarrow> Deployment \<Rightarrow> (go_error option) op" where
  "deleteConsoleNotification E d = do {
     let name = banner_name d;
     r \<leftarrow> Get_Notification E name;
     case r of
       Inl e \<Rightarrow>
         if IsNotFound e then ret None
         else ret (Some (wrapf (''failed to get ConsoleNotification '' @ name @ '': '') e))
     | Inr notification \<Rightarrow> do {
         x \<leftarrow> Delete_Notification E (om_Name (cn_Meta notification));
         case x of
           None \<Rightarrow> ret None
         | Some e \<Rightarrow>
             if IsNotFound e then ret None
             else ret (Some (wrapf (''failed to delete ConsoleNotification '' @ name @ '': '') e))
       }
   }"

text \<open>Resources of one name in two namespaces share a banner, of which they want different contents:
  the kind of the banner has no namespace.\<close>

lemma banner_shared:
  assumes "d_Name d' = d_Name d" "d_Namespace d' \<noteq> d_Namespace d"
  shows "banner_name d' = banner_name d \<and>
    cn_Spec (buildNotification (banner_name d') url d') \<noteq> cn_Spec (buildNotification (banner_name d) url d)"
  using assms by (simp add: banner_name_def buildNotification_def)

section \<open>What is known of the banner\<close>

text \<open>\<open>None\<close>: nothing; \<open>Some None\<close>: there is no banner; \<open>Some (Some s)\<close>: there is one showing \<open>s\<close>.\<close>

definition banner_step :: "string \<Rightarrow> NotificationSpec option option \<Rightarrow> event \<Rightarrow> NotificationSpec option option" where
  "banner_step n b e = (case e of
     EGet k ns m r \<Rightarrow>
       (if k = KNotification \<and> m = n
        then case r of Inl err \<Rightarrow> if IsNotFound err then Some None else b
                     | Inr (ONotification c) \<Rightarrow> Some (Some (cn_Spec c)) | Inr _ \<Rightarrow> b
        else b)
   | ECreate (ONotification c) (Inr _) \<Rightarrow> if om_Name (cn_Meta c) = n then Some (Some (cn_Spec c)) else b
   | EUpdate (ONotification c) (Inr _) \<Rightarrow> if om_Name (cn_Meta c) = n then Some (Some (cn_Spec c)) else b
   | EDelete k ns m r \<Rightarrow>
       (if k = KNotification \<and> m = n
        then case r of None \<Rightarrow> Some None | Some err \<Rightarrow> if IsNotFound err then Some None else b
        else b)
   | _ \<Rightarrow> b)"

definition banner ::
  "string \<Rightarrow> NotificationSpec option option \<Rightarrow> trace \<Rightarrow> NotificationSpec option option" where
  "banner n b es = foldl (banner_step n) b es"

lemma banner_append [simp]: "banner n b (es @ es') = banner n (banner n b es) es'"
  by (simp add: banner_def)

text \<open>The server answers a read of a name with an object of that name.\<close>

definition names_ok :: "event \<Rightarrow> bool" where
  "names_ok e = (case e of EGet k ns m (Inr (ONotification c)) \<Rightarrow> om_Name (cn_Meta c) = m | _ \<Rightarrow> True)"

text \<open>The banner operations write nothing but banners, and create that of the deployment only.\<close>

definition banner_only :: "Deployment \<Rightarrow> event \<Rightarrow> bool" where
  "banner_only d e = (case e of
     ECreate ob _ \<Rightarrow> (case ob of ONotification c \<Rightarrow> (\<exists>url. c = buildNotification (banner_name d) url d) | _ \<Rightarrow> False)
   | EUpdate ob _ \<Rightarrow> (case ob of ONotification _ \<Rightarrow> True | _ \<Rightarrow> False)
   | EDelete k _ _ _ \<Rightarrow> k = KNotification
   | EStatusUpdate _ _ \<Rightarrow> False
   | _ \<Rightarrow> inert e)"

lemma inert_banner_only [simp]: "inert e \<Longrightarrow> banner_only d e"
  by (cases e) (auto simp: banner_only_def inert_def)

lemma banner_only_simps [simp]:
  "banner_only d (ECreate (ONotification c) r) \<longleftrightarrow> (\<exists>url. c = buildNotification (banner_name d) url d)" "banner_only d (EUpdate (ONotification c) r)"
  "banner_only d (EDelete KNotification a b x)" "\<not> banner_only d (EStatusUpdate d' w)"
  by (simp_all add: banner_only_def)

lemma banner_only_no_temp: "banner_only d e \<Longrightarrow> \<not> makes_temp e"
  by (cases e) (auto simp: banner_only_def inert_def)

lemma banner_only_tame: "banner_only d e \<Longrightarrow> accepted e"
  by (cases e) (auto simp: banner_only_def)

lemma banner_only_status: "\<forall>e \<in> set es. banner_only d e \<Longrightarrow> status_writes es = []"
  unfolding status_writes_def
  by (induction es) (auto simp: banner_only_def split: event.splits)

text \<open>Taking the banner down is reading and deleting it.\<close>

fun removes_banner :: "event \<Rightarrow> bool" where
  "removes_banner (EGet k _ _ _) = (k = KNotification)"
| "removes_banner (EDelete k _ _ _) = (k = KNotification)"
| "removes_banner _ = False"

lemma removes_banner_only: "removes_banner e \<Longrightarrow> banner_only d e"
  by (cases e) (auto simp: banner_only_def)

lemma deleteConsoleNotification_spec:
  "emits (deleteConsoleNotification E d) (\<lambda>err es. (\<forall>e \<in> set es. removes_banner e) \<and>
     (err = None \<and> (\<forall>e \<in> set es. names_ok e) \<longrightarrow> (\<forall>b. banner (banner_name d) b es = Some None)))"
  unfolding deleteConsoleNotification_def op_defs Let_def
  by (intro emit_rules) (auto simp: banner_def banner_step_def names_ok_def)

context route_resolver
begin

lemma resolve_cases:
  "emits Resolve (\<lambda>r es. (\<forall>e \<in> set es. inert e) \<and>
     (case r of Inl _ \<Rightarrow> True | Inr url \<Rightarrow> \<exists>h. h \<noteq> [] \<and> url = ''https://'' @ h))"
  using emits_conj [OF only_emits [OF resolve_inert] resolve_https] by simp

end

context reconciler_deps
begin

lemma ReconcileConsoleNotification_spec:
  "emits (ReconcileConsoleNotification E R d) (\<lambda>err es. (\<forall>e \<in> set es. banner_only d e) \<and>
     (err = None \<and> (\<forall>e \<in> set es. names_ok e) \<longrightarrow>
      (\<exists>h. h \<noteq> [] \<and> (\<forall>b. banner (banner_name d) b es =
         Some (Some (cn_Spec (buildNotification (banner_name d) (''https://'' @ h) d)))))))"
  unfolding ReconcileConsoleNotification_def op_defs Let_def
  by (rule emits_bind [OF resolver.resolve_cases], intro emit_rules)
    (auto simp: banner_def banner_step_def names_ok_def buildNotification_def)

end

section \<open>Properties\<close>

text \<open>C29: When the banner was reconciled without an error, the banner on the cluster is the one wanted
  for the deployment as it is: its text and colour tell the phase, its link leads to the pods of
  the namespace on the external console.\<close>

theorem banner_up_to_date:
  "emits (ReconcileConsoleNotification E (real_reconciler L E) d) (\<lambda>err es.
     err = None \<and> list_all names_ok es \<longrightarrow>
     (\<exists>h. h \<noteq> [] \<and> banner (banner_name d) None es =
        Some (Some (cn_Spec (buildNotification (banner_name d) (''https://'' @ h) d)))))"
  by (rule emits_mono [OF production.ReconcileConsoleNotification_spec]) (auto simp: list_all_iff)

definition sample_banner :: "(go_error option) op" where
  "sample_banner = ReconcileConsoleNotification (sample_env sample_deployment)
     (real_reconciler sample_lib (sample_env sample_deployment)) sample_deployment"

lemma banner_up_to_date_witness:
  "\<exists>h. h \<noteq> [] \<and> banner ''demo-status-banner'' None (events sample_banner []) =
     Some (Some (cn_Spec (buildNotification ''demo-status-banner'' (''https://'' @ h) sample_deployment)))"
proof -
  have 1: "result sample_banner [] = None" by code_simp
  have 2: "list_all names_ok (events sample_banner [])" by code_simp
  have 3: "banner_name sample_deployment = ''demo-status-banner''" by code_simp
  show ?thesis
    using emitsD [OF banner_up_to_date [of "sample_env sample_deployment" sample_lib sample_deployment,
        folded sample_banner_def], of "[]"] 1 2 3
    by simp
qed

end
