(* ===== verification/Deployment_Reconciler.thy ===== *)
theory Deployment_Reconciler
  imports Ansible_Job Tekton_Run Notification
begin

text \<open>
  The reconciler, \<open>internal/controller/deployment_controller.go\<close>: the deployment phase over its two
  backends, the follow-up resource, and \<open>Reconcile\<close>. Its lemmas are proved in
  \<open>deployment_reconciler\<close>, for any helpers and any implementation of the four interfaces that keep
  their contracts, and interpreted on the production wiring.
\<close>

section \<open>Operations\<close>

definition notificationFinalizer :: string where
  "notificationFinalizer = ''techzone.ibm.com/console-notification-cleanup''"

definition PostDeployment0 :: PostDeployment where
  "PostDeployment0 = \<lparr>pd_RepoName = [], pd_Release = [], pd_Parameters = [],
     pd_Ansible = \<lparr>an_AnsiblePlaybook = [], an_Requirements = []\<rparr>\<rparr>"

definition post_deployment_spec :: "DeploymentSpec \<Rightarrow> DeploymentSpec" where
  "post_deployment_spec s = (let p = ds_PostDeployment s in
     \<lparr>ds_RepoName = pd_RepoName p, ds_Release = pd_Release p, ds_Parameters = pd_Parameters p,
      ds_Ansible = pd_Ansible p, ds_PostDeployment = PostDeployment0\<rparr>)"

definition post_deployment :: "Deployment \<Rightarrow> Deployment" where
  "post_deployment d =
     \<lparr>d_Meta = named (d_Name d @ ''-post-deploy'') (d_Namespace d),
      d_Spec = post_deployment_spec (d_Spec d), d_Status = DeploymentStatus0\<rparr>"

definition reconcilePostDeployment :: "lib \<Rightarrow> env \<Rightarrow> Deployment \<Rightarrow> (go_error option) op" where
  "reconcilePostDeployment L E d =
     (case li_SetControllerReference L (d_Meta d) (d_Meta (post_deployment d)) of
        Inl e \<Rightarrow> ret (Some (wrapf ''failed to set owner reference on post-deployment CR: '' e))
      | Inr m \<Rightarrow> do {
          c \<leftarrow> Create_Deployment E ((post_deployment d)\<lparr>d_Meta := m\<rparr>);
          case c of
            Inl e \<Rightarrow> ret (Some (wrapf ''failed to create post-deployment CR: '' e))
          | Inr _ \<Rightarrow> do {
              Status_Update E (map_status (\<lambda>s. s\<lparr>st_Message := postDeploymentMessage\<rparr>) d);
              ret None
            }
        })"

definition git_repo_url :: "OperatorConfig \<Rightarrow> Deployment \<Rightarrow> string" where
  "git_repo_url cfg d = TrimSuffix (oc_GitBaseURL cfg) ''/'' @ ''/'' @ ds_RepoName (d_Spec d) @ ''.git''"

definition credential_entry :: "go_error \<Rightarrow> DiagnosticEntry" where
  "credential_entry err = DiagnosticEntry0\<lparr>de_Component := ''Operator'', de_Message := message_of err,
     de_RemediationHint := ''Verify SecretsManagerURL and SecretsManagerSecretID in the itz-deployer-config ConfigMap, and that the IBM API key in the operator environment is valid.''\<rparr>"

definition clone_entry :: "lib \<Rightarrow> Deployment \<Rightarrow> go_error \<Rightarrow> DiagnosticEntry" where
  "clone_entry L d err = DiagnosticEntry0\<lparr>de_Component := ''Operator'', de_Message := message_of err,
     de_RemediationHint := ''Verify that the repository '' @ li_Quote L (ds_RepoName (d_Spec d)) @
       '' exists, the tag '' @ li_Quote L (ds_Release (d_Spec d)) @
       '' is valid, and the GitHub PAT has read access.''\<rparr>"

definition dispatch ::
  "lib \<Rightarrow> env \<Rightarrow> OperatorConfig \<Rightarrow> string \<Rightarrow> string \<Rightarrow> Deployment \<Rightarrow> (go_error option \<times> Deployment) op" where
  "dispatch L E cfg gitRepoURL repoDir d =
     (if an_AnsiblePlaybook (ds_Ansible (d_Spec d)) \<noteq> [] then deploy_ansible L E gitRepoURL cfg d
      else deploy_tekton L E repoDir d)"

definition after_clone ::
  "lib \<Rightarrow> env \<Rightarrow> Deployment \<Rightarrow> OperatorConfig \<Rightarrow> go_error + (string \<times> unit op) \<Rightarrow>
   (go_error option \<times> Deployment) op" where
  "after_clone L E d cfg c =
     (case c of
        Inl err \<Rightarrow> do {
          d \<leftarrow> applyFailedStatus L E d FailureCategoryClone
            (''Failed to clone repository: '' @ message_of err) [clone_entry L d err];
          ret (Some err, d)
        }
      | Inr (repoDir, cleanup) \<Rightarrow> do {
          r \<leftarrow> dispatch L E cfg (git_repo_url cfg d) repoDir d;
          cleanup;
          ret r
        })"

definition reconcileDeploymentPhase ::
  "lib \<Rightarrow> env \<Rightarrow> reconciler \<Rightarrow> Deployment \<Rightarrow> OperatorConfig \<Rightarrow> (go_error option \<times> Deployment) op" where
  "reconcileDeploymentPhase L E R d cfg = do {
     p \<leftarrow> Creds R cfg;
     case p of
       Inl err \<Rightarrow> do {
         d \<leftarrow> applyFailedStatus L E d FailureCategoryCredential
           (''Failed to retrieve GitHub PAT: '' @ message_of err) [credential_entry err];
         ret (Some err, d)
       }
     | Inr pat \<Rightarrow> do {
         c \<leftarrow> Cloner R (git_repo_url cfg d) (ds_Release (d_Spec d)) pat;
         after_clone L E d cfg c
       }
   }"

text \<open>\<open>ctrl.Result\<close> is the seconds of \<open>RequeueAfter\<close>, zero when it is not set. The parts of
  \<open>Reconcile\<close> in order: a resource being deleted, one without the finalizer, the rest.\<close>

type_synonym result = "nat \<times> go_error option"

definition with_meta :: "(ObjectMeta \<Rightarrow> ObjectMeta) \<Rightarrow> Deployment \<Rightarrow> Deployment" where
  "with_meta f d = d\<lparr>d_Meta := f (d_Meta d)\<rparr>"

definition reconcile_deleted :: "lib \<Rightarrow> env \<Rightarrow> Deployment \<Rightarrow> result op" where
  "reconcile_deleted L E d =
     (if li_ContainsFinalizer L (d_Meta d) notificationFinalizer then do {
        err \<leftarrow> deleteConsoleNotification E d;
        case err of
          Some e \<Rightarrow> ret (0, Some e)
        | None \<Rightarrow> do {
            u \<leftarrow> Update_Deployment E (with_meta (\<lambda>m. li_RemoveFinalizer L m notificationFinalizer) d);
            ret (0, error_of u)
          }
      }
      else ret (0, None))"

definition reconcile_active :: "lib \<Rightarrow> env \<Rightarrow> reconciler \<Rightarrow> OperatorConfig \<Rightarrow> Deployment \<Rightarrow> result op" where
  "reconcile_active L E R cfg d = do {
     ReconcileConsoleNotification E R d;
     if d_Phase d \<noteq> ''Succeeded'' \<and> d_Phase d \<noteq> ''Failed'' then do {
       (err, _) \<leftarrow> reconcileDeploymentPhase L E R d cfg;
       case err of Some e \<Rightarrow> ret (0, Some e) | None \<Rightarrow> ret (30, None)
     }
     else if d_Phase d = ''Succeeded'' \<and> pd_RepoName (ds_PostDeployment (d_Spec d)) \<noteq> [] \<and>
       st_Message (d_Status d) \<noteq> postDeploymentMessage
     then do { err \<leftarrow> reconcilePostDeployment L E d; ret (0, err) }
     else ret (0, None)
   }"

definition reconcile_found :: "lib \<Rightarrow> env \<Rightarrow> reconciler \<Rightarrow> OperatorConfig \<Rightarrow> Deployment \<Rightarrow> result op" where
  "reconcile_found L E R cfg d =
     (if om_DeletionTimestamp (d_Meta d) \<noteq> None then reconcile_deleted L E d
      else if \<not> li_ContainsFinalizer L (d_Meta d) notificationFinalizer then do {
        u \<leftarrow> Update_Deployment E (with_meta (\<lambda>m. li_AddFinalizer L m notificationFinalizer) d);
        ret (0, error_of u)
      }
      else reconcile_active L E R cfg d)"

definition Reconcile :: "lib \<Rightarrow> env \<Rightarrow> reconciler \<Rightarrow> string \<Rightarrow> string \<Rightarrow> result op" where
  "Reconcile L E R ns n = do {
     c \<leftarrow> Loader R;
     case c of
       Inl e \<Rightarrow> ret (0, Some (wrapf ''failed to load operator config: '' e))
     | Inr cfg \<Rightarrow> do {
         g \<leftarrow> Get_Deployment E ns n;
         case g of
           Inl e \<Rightarrow> if IsNotFound e then ret (0, None) else ret (0, Some e)
         | Inr d \<Rightarrow> reconcile_found L E R cfg d
       }
   }"

section \<open>The deployment phase\<close>

locale deployment_reconciler = kube_lib L + reconciler_deps R for L :: lib and R :: reconciler
begin

lemma dispatch_sound: "emits (dispatch L E cfg url dir d) (sound_work d)"
  unfolding dispatch_def by (intro emit_rules ansible.run_sound tekton.run_sound)

end

interpretation documented_dispatch: backend "dispatch (documented_lib up ur ps q) E cfg url dir"
proof
  fix d
  show "emits (dispatch (documented_lib up ur ps q) E cfg url dir d) (sound_work d)"
    unfolding dispatch_def
    by (intro emit_rules documented.ansible.run_sound documented.tekton.run_sound)
qed

text \<open>The interactions of a deployment phase: the dependencies' and the backend's.\<close>

definition phase_event :: "Deployment \<Rightarrow> event \<Rightarrow> bool" where
  "phase_event d e \<longleftrightarrow> quiet e \<or> in_scope d e"

definition sound_phase :: "Deployment \<Rightarrow> go_error option \<times> Deployment \<Rightarrow> trace \<Rightarrow> bool" where
  "sound_phase d r es \<longleftrightarrow> keeps_ok d (snd r) es \<and> (\<forall>e \<in> set es. phase_event d e) \<and>
     (\<forall>D. live_dirs D es \<subseteq> D)"

lemma quiet_accepted: "quiet e \<Longrightarrow> accepted e"
  by (cases e) simp_all

lemma keeps_ok_around:
  assumes "\<forall>e \<in> set pre. quiet e" "\<forall>e \<in> set post. quiet e" "keeps_ok d d' es"
  shows "keeps_ok d d' (pre @ es @ post)"
  using assms by (simp add: keeps_ok_def writes_ok_none)

lemma backend_dirs: "\<forall>e \<in> set es. in_scope d e \<Longrightarrow> live_dirs D es \<subseteq> D"
  by (rule live_dirs_no_temp) (blast dest: in_scope_no_temp)

lemma work_is_phase:
  assumes "sound_work d r es" "\<forall>e \<in> set pre. quiet e" "\<forall>e \<in> set post. quiet e"
    and dirs: "\<And>D. live_dirs D pre \<subseteq> insert x D" "\<And>D. live_dirs D post \<subseteq> D - {x}"
  shows "sound_phase d r (pre @ es @ post)"
proof -
  have "live_dirs D (pre @ es @ post) \<subseteq> D" for D
  proof -
    have "live_dirs D (pre @ es) \<subseteq> insert x D"
      using backend_dirs [of es d "live_dirs D pre"] dirs(1) [of D] assms(1)
      by (auto simp: sound_work_def)
    then have "live_dirs D (pre @ es) - {x} \<subseteq> D" by blast
    with dirs(2) [of "live_dirs D (pre @ es)"] show ?thesis by simp
  qed
  with assms show ?thesis
    by (auto simp: sound_phase_def sound_work_def phase_event_def keeps_ok_around)
qed

context repo_cloner
begin

lemma clone_cases:
  "emits (Clone url release pat) (\<lambda>r es. (\<forall>e \<in> set es. quiet e) \<and>
     (case r of
        Inl _ \<Rightarrow> \<forall>D. live_dirs D es \<subseteq> D
      | Inr (dir, cleanup) \<Rightarrow> (\<forall>D. live_dirs D es \<subseteq> insert dir D) \<and>
          emits cleanup (\<lambda>_ es. (\<forall>e \<in> set es. quiet e) \<and> (\<forall>D. live_dirs D es \<subseteq> D - {dir}))))"
  using emits_conj [OF only_emits [OF clone_quiet] emits_conj [OF clone_dirs cleanup_removes]]
  by (rule emits_mono) (auto split: sum.splits)

end

context deployment_reconciler
begin

lemma failed_phase:
  assumes "\<forall>e \<in> set pre. quiet e" "\<And>D. live_dirs D pre \<subseteq> D"
  shows "emits (State_Monad.bind (applyFailedStatus L E d category message ds) (\<lambda>d'. ret (Some err, d')))
     (\<lambda>r es. sound_phase d r (pre @ es))"
proof (rule emits_bind [OF applyFailedStatus_ok], rule emits_ret)
  fix d' es
  assume ok: "keeps_ok d d' es \<and> (\<forall>e \<in> set es. tame e)"
  then have "sound_work d (Some err, d') es" by (auto simp: sound_work_def)
  then show "sound_phase d (Some err, d') (pre @ es @ [])"
    using assms ok backend_dirs [of es d]
    by (auto simp: sound_phase_def sound_work_def phase_event_def keeps_ok_around [where post = "[]", simplified])
      blast
qed

lemma cloned_phase:
  assumes cleanup: "emits cleanup (\<lambda>_ es. (\<forall>e \<in> set es. quiet e) \<and> (\<forall>D. live_dirs D es \<subseteq> D - {dir}))"
    and pre: "\<forall>e \<in> set pre. quiet e" "\<And>D. live_dirs D pre \<subseteq> insert dir D"
  shows "emits (after_clone L E d cfg (Inr (dir, cleanup))) (\<lambda>r es. sound_phase d r (pre @ es))"
  unfolding after_clone_def sum.case prod.case
proof (rule emits_bind [OF dispatch_sound], rule emits_bind [OF cleanup], rule emits_ret)
  fix r es u post
  assume "sound_work d r es" "(\<forall>e \<in> set post. quiet e) \<and> (\<forall>D. live_dirs D post \<subseteq> D - {dir})"
  then show "sound_phase d r (pre @ es @ post @ [])"
    using work_is_phase [of d r es pre post dir] pre by simp
qed

lemma after_clone_sound:
  assumes es1: "\<forall>e \<in> set es1. inert e"
    and es2: "(\<forall>e \<in> set es2. quiet e) \<and> (case c of Inl _ \<Rightarrow> \<forall>D. live_dirs D es2 \<subseteq> D
      | Inr (dir, cleanup) \<Rightarrow> (\<forall>D. live_dirs D es2 \<subseteq> insert dir D) \<and>
          emits cleanup (\<lambda>_ es. (\<forall>e \<in> set es. quiet e) \<and> (\<forall>D. live_dirs D es \<subseteq> D - {dir})))"
  shows "emits (after_clone L E d cfg c) (\<lambda>r es. sound_phase d r ((es1 @ es2) @ es))"
proof -
  have pre: "live_dirs D (es1 @ es2) \<subseteq> live_dirs D es2" for D
    using live_dirs_mono [OF live_dirs_inert [OF es1]] by simp
  have quiet: "\<forall>e \<in> set (es1 @ es2). quiet e"
    using es1 es2 by (auto simp: inert_quiet)
  show ?thesis
  proof (cases c)
    case (Inl err)
    show ?thesis
      unfolding Inl after_clone_def sum.case
      by (rule failed_phase [OF quiet], rule order_trans [OF pre]) (use es2 Inl in simp)
  next
    case (Inr v)
    then obtain dir cleanup where v: "c = Inr (dir, cleanup)" by (cases v) simp
    show ?thesis
      unfolding v by (rule cloned_phase [OF _ quiet], use es2 v in simp, rule order_trans [OF pre]) (use es2 v in simp)
  qed
qed

lemma reconcileDeploymentPhase_sound: "emits (reconcileDeploymentPhase L E R d cfg) (sound_phase d)"
  unfolding reconcileDeploymentPhase_def
proof (rule emits_bind [OF only_emits [OF creds.pat_inert]], rule emits_sum)
  fix p es1 and err :: go_error
  assume "\<forall>e \<in> set es1. inert e"
  then show "emits (State_Monad.bind (applyFailedStatus L E d FailureCategoryCredential
      (''Failed to retrieve GitHub PAT: '' @ message_of err) [credential_entry err]) (\<lambda>d. ret (Some err, d)))
    (\<lambda>r es. sound_phase d r (es1 @ es))"
    by (intro failed_phase live_dirs_inert) (auto simp: inert_quiet)
next
  fix p es1 pat
  assume es1: "\<forall>e \<in> set es1. inert e"
  show "emits (State_Monad.bind (Cloner R (git_repo_url cfg d) (ds_Release (d_Spec d)) pat) (after_clone L E d cfg))
    (\<lambda>r es. sound_phase d r (es1 @ es))"
    by (rule emits_bind [OF cloner.clone_cases], unfold append.assoc [symmetric],
        rule after_clone_sound [OF es1])
qed

end

interpretation production_phase: deployment_reconciler "documented_lib up ur ps q" "real_reconciler L E"
  unfolding deployment_reconciler_def
  by (simp add: documented.kube_lib_axioms production.reconciler_deps_axioms)

section \<open>The follow-up resource\<close>

definition post_child :: "Deployment \<Rightarrow> Deployment \<Rightarrow> bool" where
  "post_child d c \<longleftrightarrow> d_Name c = d_Name d @ ''-post-deploy'' \<and> owned d (d_Meta c) \<and>
     d_Spec c = post_deployment_spec (d_Spec d) \<and> d_Status c = DeploymentStatus0"

inductive follow_up :: "Deployment \<Rightarrow> go_error option \<Rightarrow> trace \<Rightarrow> bool" for d where
  unowned: "follow_up d (Some e) []"
| refused: "post_child d c \<Longrightarrow> follow_up d (Some e) [ECreate (ODeployment c) (Inl e')]"
| created: "post_child d c \<Longrightarrow> w = map_status (\<lambda>s. s\<lparr>st_Message := postDeploymentMessage\<rparr>) d \<Longrightarrow>
    follow_up d None [ECreate (ODeployment c) (Inr a), EStatusUpdate w u]"

section \<open>One reconciliation\<close>

text \<open>Every status sent belongs to the resource that was read and advances its status, as long as the
  server stores what it accepts.\<close>

definition progress :: "Deployment \<Rightarrow> Deployment \<Rightarrow> bool" where
  "progress d w \<longleftrightarrow> key w = key d \<and> advances (d_Status d) (d_Status w)"

definition course_kept :: "Deployment \<Rightarrow> trace \<Rightarrow> bool" where
  "course_kept d es \<longleftrightarrow> writes_ok (progress d) es"

lemma fit_progress: "\<not> terminal (d_Status d) \<Longrightarrow> fit d w \<Longrightarrow> progress d w"
  by (simp add: fit_def progress_def advances_def)

text \<open>The interactions while a resource is alive, by component.\<close>

definition active_event :: "Deployment \<Rightarrow> event \<Rightarrow> bool" where
  "active_event d e \<longleftrightarrow> banner_only d e \<or> phase_event d e \<or>
     (\<exists>c r. e = ECreate (ODeployment c) r \<and> post_child d c \<and> d_Phase d = ''Succeeded'')"

definition sound_active :: "Deployment \<Rightarrow> trace \<Rightarrow> bool" where
  "sound_active d es \<longleftrightarrow> (\<forall>D. live_dirs D es \<subseteq> D) \<and> course_kept d es \<and> (\<forall>e \<in> set es. active_event d e)"

lemma sound_active_append:
  assumes "\<forall>e \<in> set pre. banner_only d e" "sound_active d es"
  shows "sound_active d (pre @ es)"
proof -
  have "live_dirs D pre \<subseteq> D" for D
    by (rule live_dirs_no_temp) (use assms(1) banner_only_no_temp in blast)
  then have "live_dirs D (pre @ es) \<subseteq> D" for D
    using assms(2) live_dirs_mono [of "live_dirs D pre" D es] by (force simp: sound_active_def)
  with assms show ?thesis
    by (auto simp: sound_active_def course_kept_def active_event_def
      intro: writes_ok_unwritten banner_only_status)
qed

lemma sound_active_phase:
  assumes "sound_phase d r es" "\<not> terminal (d_Status d)"
  shows "sound_active d es"
  using assms by (auto simp: sound_phase_def sound_active_def course_kept_def active_event_def keeps_ok_def
    intro: writes_ok_mono fit_progress)

lemma sound_active_follow_up:
  assumes "follow_up d err es" "d_Phase d = ''Succeeded''"
  shows "sound_active d es"
  using assms(1)
  by cases (auto simp: sound_active_def course_kept_def active_event_def phase_event_def assms(2) progress_def
    intro!: advances_message)

lemma sound_active_nothing: "sound_active d []"
  by (simp add: sound_active_def course_kept_def)

text \<open>The answer to the work queue: back in 30 seconds while the deployment is under way.\<close>

definition requeued :: "Deployment \<Rightarrow> result \<Rightarrow> bool" where
  "requeued d r \<longleftrightarrow> fst r = (if snd r = None \<and> \<not> terminal (d_Status d) then 30 else 0)"

text \<open>What happens to a resource that is being deleted.\<close>

inductive removal :: "lib \<Rightarrow> Deployment \<Rightarrow> result \<Rightarrow> trace \<Rightarrow> bool" for L d where
  kept: "\<forall>e \<in> set es. removes_banner e \<Longrightarrow> removal L d (0, err) es"
| removed: "\<forall>e \<in> set es. removes_banner e \<Longrightarrow>
    (\<forall>e \<in> set es. names_ok e) \<longrightarrow> (\<forall>b. banner (banner_name d) b es = Some None) \<Longrightarrow>
    w = with_meta (\<lambda>m. li_RemoveFinalizer L m notificationFinalizer) d \<Longrightarrow>
    removal L d (0, error_of u) (es @ [EUpdate (ODeployment w) (map_sum id ODeployment u)])"

text \<open>
  The specification of \<open>Reconcile\<close>: what it answers and what it does, by the state of the
  resource it finds.
\<close>

inductive reconciled :: "lib \<Rightarrow> string \<Rightarrow> string \<Rightarrow> result \<Rightarrow> trace \<Rightarrow> bool" for L ns n where
  unconfigured: "\<forall>e \<in> set pre. inert e \<Longrightarrow> reconciled L ns n (0, Some err) pre"
| absent: "\<forall>e \<in> set pre. inert e \<Longrightarrow>
    reconciled L ns n (0, if IsNotFound e then None else Some e) (pre @ [EGet KDeployment ns n (Inl e)])"
| deleted: "\<forall>e \<in> set pre. inert e \<Longrightarrow> om_DeletionTimestamp (d_Meta d) \<noteq> None \<Longrightarrow> removal L d r es \<Longrightarrow>
    reconciled L ns n r (pre @ EGet KDeployment ns n (Inr (ODeployment d)) # es)"
| registered: "\<forall>e \<in> set pre. inert e \<Longrightarrow> om_DeletionTimestamp (d_Meta d) = None \<Longrightarrow>
    notificationFinalizer \<notin> set (om_Finalizers (d_Meta d)) \<Longrightarrow>
    w = with_meta (\<lambda>m. li_AddFinalizer L m notificationFinalizer) d \<Longrightarrow>
    reconciled L ns n (0, error_of u)
      (pre @ [EGet KDeployment ns n (Inr (ODeployment d)), EUpdate (ODeployment w) (map_sum id ODeployment u)])"
| active: "\<forall>e \<in> set pre. inert e \<Longrightarrow> om_DeletionTimestamp (d_Meta d) = None \<Longrightarrow>
    notificationFinalizer \<in> set (om_Finalizers (d_Meta d)) \<Longrightarrow> sound_active d es \<Longrightarrow> requeued d r \<Longrightarrow>
    reconciled L ns n r (pre @ EGet KDeployment ns n (Inr (ODeployment d)) # es)"

inductive_cases reconciled_elim: "reconciled L ns n r es"
inductive_cases removal_elim: "removal L d r es"

context deployment_reconciler
begin

lemma post_child_created:
  "li_SetControllerReference L (d_Meta d) (d_Meta (post_deployment d)) = Inr m \<Longrightarrow>
   post_child d ((post_deployment d)\<lparr>d_Meta := m\<rparr>)"
  using controller_reference_owned [of d "d_Meta (post_deployment d)" m]
  by (simp add: post_child_def post_deployment_def)

lemma reconcilePostDeployment_follow_up: "emits (reconcilePostDeployment L E d) (follow_up d)"
  unfolding reconcilePostDeployment_def op_defs
  by (intro emit_rules; (simp only: map_sum.simps id_apply)?)
    (rule unowned refused created post_child_created refl | assumption)+

lemma reconcile_deleted_removal: "emits (reconcile_deleted L E d) (removal L d)"
proof (cases "li_ContainsFinalizer L (d_Meta d) notificationFinalizer")
  case True
  show ?thesis
    unfolding reconcile_deleted_def Update_Deployment_def if_P [OF True]
  proof (rule emits_bind [OF deleteConsoleNotification_spec], rule emits_option)
    fix err es e
    assume "(\<forall>e \<in> set es. removes_banner e) \<and>
      (err = None \<and> (\<forall>e \<in> set es. names_ok e) \<longrightarrow> (\<forall>b. banner (banner_name d) b es = Some None))"
    then show "emits (ret (0, Some e)) (\<lambda>r es'. removal L d r (es @ es'))"
      by (intro emits_ret) (simp add: kept)
  next
    fix err es
    assume "(\<forall>e \<in> set es. removes_banner e) \<and>
      (err = None \<and> (\<forall>e \<in> set es. names_ok e) \<longrightarrow> (\<forall>b. banner (banner_name d) b es = Some None))"
      and "err = None"
    then show "emits (State_Monad.bind (call
          (\<lambda>tr. kw_update_Deployment (writer E) tr (with_meta (\<lambda>m. li_RemoveFinalizer L m notificationFinalizer) d))
          (\<lambda>r. EUpdate (ODeployment (with_meta (\<lambda>m. li_RemoveFinalizer L m notificationFinalizer) d))
             (map_sum id ODeployment r))) (\<lambda>u. ret (0, error_of u)))
        (\<lambda>r es'. removal L d r (es @ es'))"
      by (intro emit_rules) (rule removed; simp)
  qed
next
  case False
  then show ?thesis
    by (simp add: reconcile_deleted_def emits_ret kept)
qed

lemma reconcile_active_sound: "emits (reconcile_active L E R cfg d) (\<lambda>r es. sound_active d es \<and> requeued d r)"
  unfolding reconcile_active_def
proof (rule emits_bind [OF ReconcileConsoleNotification_spec], intro emits_if)
  fix err es0
  assume b: "(\<forall>e \<in> set es0. banner_only d e) \<and>
     (err = None \<and> (\<forall>e \<in> set es0. names_ok e) \<longrightarrow>
      (\<exists>h. h \<noteq> [] \<and> (\<forall>b. banner (banner_name d) b es0 =
         Some (Some (cn_Spec (buildNotification (banner_name d) (''https://'' @ h) d))))))"
  note before = sound_active_append [OF conjunct1 [OF b]]
  {
    assume "d_Phase d \<noteq> ''Succeeded'' \<and> d_Phase d \<noteq> ''Failed''"
    then have "\<not> terminal (d_Status d)" by (simp add: terminal_def)
    then show "emits (State_Monad.bind (reconcileDeploymentPhase L E R d cfg)
        (\<lambda>(err, _). case err of None \<Rightarrow> ret (30, None) | Some e \<Rightarrow> ret (0, Some e)))
      (\<lambda>r es. sound_active d (es0 @ es) \<and> requeued d r)"
      by (intro emits_bind [OF reconcileDeploymentPhase_sound] emit_rules)
        (auto intro: before dest: sound_active_phase simp: requeued_def)
  next
    assume "d_Phase d = ''Succeeded'' \<and> pd_RepoName (ds_PostDeployment (d_Spec d)) \<noteq> [] \<and>
      st_Message (d_Status d) \<noteq> postDeploymentMessage"
    then show "emits (State_Monad.bind (reconcilePostDeployment L E d) (\<lambda>err. ret (0, err)))
      (\<lambda>r es. sound_active d (es0 @ es) \<and> requeued d r)"
      by (intro emits_bind [OF reconcilePostDeployment_follow_up] emits_ret)
        (auto intro: before dest: sound_active_follow_up simp: requeued_def terminal_def)
  next
    assume "\<not> (d_Phase d \<noteq> ''Succeeded'' \<and> d_Phase d \<noteq> ''Failed'')"
    then show "emits (ret (0, None)) (\<lambda>r es. sound_active d (es0 @ es) \<and> requeued d r)"
      by (intro emits_ret conjI before sound_active_nothing) (auto simp: requeued_def terminal_def)
  }
qed

lemma reconcile_found_reconciled:
  assumes "\<forall>e \<in> set pre. inert e"
  shows "emits (reconcile_found L E R cfg d)
    (\<lambda>r es. reconciled L ns n r (pre @ EGet KDeployment ns n (Inr (ODeployment d)) # es))"
  unfolding reconcile_found_def Update_Deployment_def
proof (intro emits_if)
  assume "om_DeletionTimestamp (d_Meta d) \<noteq> None"
  then show "emits (reconcile_deleted L E d)
      (\<lambda>r es. reconciled L ns n r (pre @ EGet KDeployment ns n (Inr (ODeployment d)) # es))"
    by (intro emits_mono [OF reconcile_deleted_removal] deleted assms)
next
  assume "\<not> om_DeletionTimestamp (d_Meta d) \<noteq> None"
    and "\<not> li_ContainsFinalizer L (d_Meta d) notificationFinalizer"
  then show "emits (State_Monad.bind (call
        (\<lambda>tr. kw_update_Deployment (writer E) tr (with_meta (\<lambda>m. li_AddFinalizer L m notificationFinalizer) d))
        (\<lambda>r. EUpdate (ODeployment (with_meta (\<lambda>m. li_AddFinalizer L m notificationFinalizer) d))
           (map_sum id ODeployment r))) (\<lambda>u. ret (0, error_of u)))
      (\<lambda>r es. reconciled L ns n r (pre @ EGet KDeployment ns n (Inr (ODeployment d)) # es))"
    by (intro emit_rules registered assms) (simp_all add: contains_finalizer)
next
  assume "\<not> om_DeletionTimestamp (d_Meta d) \<noteq> None"
    and "\<not> \<not> li_ContainsFinalizer L (d_Meta d) notificationFinalizer"
  then show "emits (reconcile_active L E R cfg d)
      (\<lambda>r es. reconciled L ns n r (pre @ EGet KDeployment ns n (Inr (ODeployment d)) # es))"
    by (intro emits_mono [OF reconcile_active_sound] active assms) (simp_all add: contains_finalizer)
qed

lemma Reconcile_reconciled: "emits (Reconcile L E R ns n) (reconciled L ns n)"
  unfolding Reconcile_def Get_Deployment_def
proof (rule emits_bind [OF only_emits [OF loader.load_inert]], rule emits_sum)
  fix c es and e :: go_error
  assume "\<forall>e \<in> set es. inert e"
  then show "emits (ret (0, Some (wrapf ''failed to load operator config: '' e)))
      (\<lambda>r es'. reconciled L ns n r (es @ es'))"
    by (intro emits_ret) (simp add: unconfigured)
next
  fix c es cfg
  assume es: "\<forall>e \<in> set es. inert e"
  have gone: "reconciled L ns n (0, None) (es @ [EGet KDeployment ns n (Inl e)])" if "IsNotFound e" for e
    using absent [OF es, of L ns n e] that by simp
  have unread: "reconciled L ns n (0, Some e) (es @ [EGet KDeployment ns n (Inl e)])" if "\<not> IsNotFound e" for e
    using absent [OF es, of L ns n e] that by simp
  show "emits (State_Monad.bind (call (\<lambda>tr. kc_get_Deployment (client E) tr ns n)
        (\<lambda>r. EGet KDeployment ns n (map_sum id ODeployment r)))
        (\<lambda>g. case g of Inl e \<Rightarrow> if IsNotFound e then ret (0, None) else ret (0, Some e)
          | Inr d \<Rightarrow> reconcile_found L E R cfg d))
      (\<lambda>r es'. reconciled L ns n r (es @ es'))"
    by (intro emit_rules; (simp only: map_sum.simps id_apply)?)
      (use gone unread reconcile_found_reconciled [OF es] in simp_all)
qed

end

section \<open>Properties\<close>

text \<open>C23: When the token cannot be fetched, the phase writes one status, Failed with the category of
  credentials, the error in its message and in its one diagnostic entry; it clones nothing, creates
  nothing and returns the error.\<close>

theorem credential_failure_recorded:
  assumes "kube_lib L" and "m = reconcileDeploymentPhase L E (real_reconciler L E) d cfg"
    and "result (realCredentialProvider_GetGitHubPAT E cfg) tr = Inl err"
  shows "fst (result m tr) = Some err \<and> list_all (\<lambda>e. inert e \<or> e \<in> range (case_prod EStatusUpdate)) (events m tr) \<and>
    map (\<lambda>w. (d_Phase w, st_Message (d_Status w), failure_data (d_Status w))) (status_writes (events m tr)) =
      [(''Failed'', ''Failed to retrieve GitHub PAT: '' @ message_of err,
        FailureCategoryCredential, [credential_entry err])]"
proof -
  let ?c = "realCredentialProvider_GetGitHubPAT E cfg"
  let ?f = "State_Monad.bind (applyFailedStatus L E d FailureCategoryCredential
     (''Failed to retrieve GitHub PAT: '' @ message_of err) [credential_entry err]) (\<lambda>d. ret (Some err, d))"
  have f: "emits ?f (\<lambda>r es. fst r = Some err \<and> (\<exists>w u. es = [EStatusUpdate w u] \<and>
      d_Phase w = ''Failed'' \<and> st_Message (d_Status w) = ''Failed to retrieve GitHub PAT: '' @ message_of err \<and>
      failure_data (d_Status w) = (FailureCategoryCredential, [credential_entry err])))"
    by (rule emits_bind [OF kube_lib.applyFailedStatus_spec [OF assms(1)]], rule emits_ret)
      (auto simp: view_of_def)
  have c: "emits ?c (\<lambda>_ es. \<forall>e \<in> set es. inert e)"
    by (rule only_emits [OF real_creds.pat_inert])
  define g where "g = (\<lambda>p. case p of
      Inl err \<Rightarrow> State_Monad.bind (applyFailedStatus L E d FailureCategoryCredential
        (''Failed to retrieve GitHub PAT: '' @ message_of err) [credential_entry err]) (\<lambda>d. ret (Some err, d))
    | Inr pat \<Rightarrow> State_Monad.bind (Cloner (real_reconciler L E) (git_repo_url cfg d) (ds_Release (d_Spec d)) pat)
        (after_clone L E d cfg))"
  have "Creds (real_reconciler L E) = realCredentialProvider_GetGitHubPAT E"
    by (simp add: real_reconciler_def)
  then have m: "m = State_Monad.bind ?c g"
    by (simp only: assms(2) reconcileDeploymentPhase_def g_def)
  have g: "g (Inl err) = ?f" by (simp add: g_def)
  have run: "result m tr = result ?f (tr @ events ?c tr)" "events m tr = events ?c tr @ events ?f (tr @ events ?c tr)"
    unfolding m using run_bind [OF assms(3) c, where f = g, unfolded g, OF f] by blast+
  show ?thesis
    using emitsD [OF f, of "tr @ events ?c tr"] emitsD [OF c, of tr]
    by (auto simp: run list_all_iff status_writes_inert inert_quiet image_iff)
qed

text \<open>C24: When the clone fails, the phase writes one status, Failed with the category of clones, the
  error in its message and in its one diagnostic entry, and returns the error.\<close>

theorem clone_failure_recorded:
  assumes "kube_lib L"
  shows "emits (after_clone L E d cfg (Inl err)) (\<lambda>r es. fst r = Some err \<and>
    (\<exists>w u. es = [EStatusUpdate w u] \<and>
      (d_Phase w, st_Message (d_Status w), failure_data (d_Status w)) =
        (''Failed'', ''Failed to clone repository: '' @ message_of err, FailureCategoryClone, [clone_entry L d err])))"
  unfolding after_clone_def sum.case
  by (rule emits_bind [OF kube_lib.applyFailedStatus_spec [OF assms]], rule emits_ret) (auto simp: view_of_def)

lemma clone_failure_recorded_witness:
  fixes m defines "m \<equiv> after_clone sample_lib (sample_env sample_deployment) sample_deployment sample_config (Inl missing)"
  shows "fst (result m []) = Some missing \<and> map (\<lambda>w. d_Phase w) (status_writes (events m [])) = [''Failed'']"
  unfolding m_def
  using emitsD [OF clone_failure_recorded [OF sample_lib_kube, of "sample_env sample_deployment" sample_deployment
      sample_config missing], of "[]"]
  by auto

text \<open>An environment without the cluster secret.\<close>

definition sample_locked :: env where
  "sample_locked = (sample_env sample_deployment)
     \<lparr>ibm := (ibm (sample_env sample_deployment))\<lparr>ib_Secret := (\<lambda>_ _ _. Inl missing)\<rparr>\<rparr>"

lemma credential_failure_recorded_witness:
  "\<exists>err. map (\<lambda>w. (d_Phase w, fst (failure_data (d_Status w)))) (status_writes (events
     (reconcileDeploymentPhase sample_lib sample_locked (real_reconciler sample_lib sample_locked)
        sample_deployment sample_config) [])) = [(''Failed'', FailureCategoryCredential)]"
proof -
  have "isl (result (realCredentialProvider_GetGitHubPAT sample_locked sample_config) [])" by code_simp
  then obtain err where "result (realCredentialProvider_GetGitHubPAT sample_locked sample_config) [] = Inl err"
    by (cases "result (realCredentialProvider_GetGitHubPAT sample_locked sample_config) []") auto
  from credential_failure_recorded [OF sample_lib_kube refl this, of sample_deployment]
  show ?thesis by (auto simp: map_eq_Cons_conv)
qed

end
