(* ===== verification/Lifecycle.thy ===== *)
theory Lifecycle
  imports Deployment_Reconciler
begin

text \<open>
  The life of one resource over many reconciliations. A step is a run of \<open>Reconcile\<close> with the
  production wiring, against any environment, that reads the status as it is stored and whose
  accepted status updates are stored; the run may be cut short after any of its interactions, when
  the process is killed or loses its lease. Runs on one resource do not overlap: the work queue
  hands a key to one worker at a time.
\<close>

definition deployments_read :: "trace \<Rightarrow> Deployment list" where
  "deployments_read es =
     List.map_filter (\<lambda>e. case e of EGet KDeployment _ _ (Inr (ODeployment d)) \<Rightarrow> Some d | _ \<Rightarrow> None) es"

definition store :: "DeploymentStatus \<Rightarrow> event \<Rightarrow> DeploymentStatus" where
  "store s e = (case e of EStatusUpdate w (Inr _) \<Rightarrow> d_Status w | _ \<Rightarrow> s)"

definition stored :: "DeploymentStatus \<Rightarrow> trace \<Rightarrow> DeploymentStatus" where
  "stored s es = foldl store s es"

inductive status_step :: "lib \<Rightarrow> DeploymentStatus \<Rightarrow> DeploymentStatus \<Rightarrow> bool" for L where
  "es = take m (events (Reconcile L E (real_reconciler L E) ns n) tr) \<Longrightarrow>
   list_all accepted es \<Longrightarrow> list_all (\<lambda>d. d_Status d = s) (deployments_read es) \<Longrightarrow>
   status_step L s (stored s es)"

lemma status_step_run:
  "es = events (Reconcile L E (real_reconciler L E) ns n) tr \<Longrightarrow>
   list_all accepted es \<Longrightarrow> list_all (\<lambda>d. d_Status d = s) (deployments_read es) \<Longrightarrow>
   status_step L s (stored s es)"
  by (rule status_step.intros [where m = "length es" and E = E and ns = ns and n = n and tr = tr]) simp_all

lemma stored_cases: "stored s es = s \<or> (\<exists>w \<in> set (status_writes es). stored s es = d_Status w)"
proof (induction es rule: rev_induct)
  case Nil
  then show ?case by (simp add: stored_def)
next
  case (snoc e es)
  then show ?case
    by (cases e) (auto simp: stored_def store_def set_status_writes split: sum.splits)
qed

lemma deployments_read_append [simp]:
  "deployments_read (es @ es') = deployments_read es @ deployments_read es'"
  by (simp add: deployments_read_def List.map_filter_def)

lemma deployments_read_none: "\<forall>e \<in> set es. \<not> reads_deployment e \<Longrightarrow> deployments_read es = []"
  unfolding deployments_read_def
  by (induction es) (auto simp: List.map_filter_simps split: event.splits kind.splits sum.splits obj.splits)

lemma deployments_read_one [simp]:
  "deployments_read (EGet KDeployment ns n (Inr (ODeployment d)) # es) = d # deployments_read es"
  "deployments_read (EGet KDeployment ns n (Inl x) # es) = deployments_read es"
  by (simp_all add: deployments_read_def List.map_filter_simps)

text \<open>A reconciliation reads the resource once at most, and what it writes follows from what it
  read.\<close>

lemma banner_only_unread: "banner_only d e \<Longrightarrow> \<not> reads_deployment e"
  by (cases e) (auto simp: banner_only_def inert_def quiet_def)

lemma phase_event_unread: "phase_event d e \<Longrightarrow> \<not> reads_deployment e"
proof (cases e)
  case (EGet k a b r)
  assume "phase_event d e"
  with EGet show ?thesis by (cases k) (auto simp: phase_event_def quiet_def in_scope_def)
qed auto

lemma active_event_unread: "active_event d e \<Longrightarrow> \<not> reads_deployment e"
  by (auto simp: active_event_def dest: banner_only_unread phase_event_unread)

lemma inert_unread: "inert e \<Longrightarrow> \<not> reads_deployment e"
  by (simp add: inert_def quiet_def)

lemma removes_banner_quiet:
  "removes_banner e \<Longrightarrow> \<not> reads_deployment e \<and> \<not> makes_temp e \<and> (\<forall>ob a. e \<noteq> ECreate ob a \<and> e \<noteq> EUpdate ob a)"
  by (cases e) auto

lemma removes_banner_status: "\<forall>e \<in> set es. removes_banner e \<Longrightarrow> status_writes es = []"
  by (induction es) (auto simp: status_writes_def elim: removes_banner.elims)

lemma removal_events:
  "removal L d r es \<Longrightarrow> (\<forall>e \<in> set es. \<not> reads_deployment e) \<and> status_writes es = [] \<and> (\<forall>D. live_dirs D es \<subseteq> D)"
  by (cases rule: removal.cases)
    (auto simp: removes_banner_status dest: removes_banner_quiet intro!: live_dirs_no_temp)

definition read_course :: "string \<Rightarrow> string \<Rightarrow> trace \<Rightarrow> bool" where
  "read_course ns n es \<longleftrightarrow> (deployments_read es = [] \<and> status_writes es = []) \<or>
     (\<exists>pre d es'. es = pre @ EGet KDeployment ns n (Inr (ODeployment d)) # es' \<and>
        deployments_read pre = [] \<and> status_writes pre = [] \<and> deployments_read es' = [] \<and> course_kept d es')"

lemma read_courseI:
  assumes "es = pre @ EGet KDeployment ns n (Inr (ODeployment d)) # es'" "\<forall>e \<in> set pre. inert e"
    and "deployments_read es' = []" "course_kept d es'"
  shows "read_course ns n es"
proof -
  have "deployments_read pre = []" "status_writes pre = []"
    using assms(2) by (simp_all add: deployments_read_none inert_unread status_writes_inert inert_quiet)
  with assms show ?thesis unfolding read_course_def by blast
qed

lemma reconciled_course:
  assumes "reconciled L ns n r es"
  shows "read_course ns n es"
  using assms
proof cases
  case (active pre d es')
  then show ?thesis
    by (intro read_courseI [OF active(1)] deployments_read_none) (auto simp: sound_active_def dest: active_event_unread)
next
  case (deleted pre d es')
  then show ?thesis
    using removal_events [OF deleted(4)]
    by (intro read_courseI [OF deleted(1)]) (simp_all add: deployments_read_none course_kept_def writes_ok_unwritten)
next
  case (registered pre d w u)
  have "course_kept d [EUpdate (ODeployment w) (map_sum id ODeployment u)]" by (simp add: course_kept_def)
  then show ?thesis
    using registered by (intro read_courseI [OF registered(2)]) (simp_all add: deployments_read_none)
qed (auto simp: read_course_def deployments_read_none inert_unread status_writes_inert inert_quiet)

text \<open>A run that is cut short has done a part of this and nothing else.\<close>

lemma read_course_prefix:
  assumes "read_course ns n (es @ rest)"
  shows "read_course ns n es"
  using assms unfolding read_course_def
proof (elim disjE exE conjE)
  fix pre d es'
  assume split: "es @ rest = pre @ EGet KDeployment ns n (Inr (ODeployment d)) # es'"
    and pre: "deployments_read pre = []" "status_writes pre = []" and es': "deployments_read es' = []" "course_kept d es'"
  from split consider us where "pre = es @ us" | us where "es = pre @ us"
    "us @ rest = EGet KDeployment ns n (Inr (ODeployment d)) # es'"
    by (auto simp: append_eq_append_conv2)
  then show "(deployments_read es = [] \<and> status_writes es = []) \<or>
    (\<exists>pre d es'. es = pre @ EGet KDeployment ns n (Inr (ODeployment d)) # es' \<and>
       deployments_read pre = [] \<and> status_writes pre = [] \<and> deployments_read es' = [] \<and> course_kept d es')"
  proof cases
    case 1
    then show ?thesis using pre by simp
  next
    case 2
    show ?thesis
    proof (cases us)
      case Nil
      then show ?thesis using 2 pre by simp
    next
      case (Cons u vs)
      then have "es = pre @ EGet KDeployment ns n (Inr (ODeployment d)) # vs" "es' = vs @ rest" using 2 by simp_all
      then show ?thesis using pre es' by (intro disjI2 exI conjI) (assumption | simp add: course_kept_def)+
    qed
  qed
qed simp

lemma read_course_stored:
  assumes "read_course ns n es" "list_all accepted es" "list_all (\<lambda>d. d_Status d = s) (deployments_read es)"
  shows "advances s (stored s es)"
  using assms(1) unfolding read_course_def
proof (elim disjE exE conjE)
  assume "status_writes es = []"
  then show ?thesis using stored_cases [of s es] by auto
next
  fix pre d es'
  assume es: "es = pre @ EGet KDeployment ns n (Inr (ODeployment d)) # es'"
    and pre: "deployments_read pre = []" "status_writes pre = []" and es': "deployments_read es' = []" "course_kept d es'"
  have "status_writes es = status_writes es'" by (simp add: es pre)
  moreover have "d_Status d = s" using assms(3) by (simp add: es pre)
  moreover have "progress d w" if "w \<in> set (status_writes es')" for w
    using writes_okD [of "progress d" es' w] es' assms(2) that by (simp add: es course_kept_def list_all_iff)
  ultimately show ?thesis using stored_cases [of s es] by (auto simp: progress_def)
qed

sublocale kube_lib \<subseteq> wired: deployment_reconciler L "real_reconciler L E" for E
  by (intro deployment_reconciler.intro production.reconciler_deps_axioms kube_lib_axioms)

context kube_lib
begin

lemma production_reconciled: "emits (Reconcile L E (real_reconciler L E) ns n) (reconciled L ns n)"
  by (rule wired.Reconcile_reconciled)

lemma run_course: "read_course ns n (take m (events (Reconcile L E (real_reconciler L E) ns n) tr))"
proof -
  let ?es = "events (Reconcile L E (real_reconciler L E) ns n) tr"
  have "reconciled L ns n (result (Reconcile L E (real_reconciler L E) ns n) tr) ?es"
    by (rule emitsD [OF production_reconciled])
  from reconciled_course [OF this] have "read_course ns n (take m ?es @ drop m ?es)" by simp
  then show ?thesis by (rule read_course_prefix)
qed

lemma status_step_advances: "status_step L s s' \<Longrightarrow> advances s s'"
  by (cases rule: status_step.cases, assumption) (simp add: read_course_stored [OF run_course])

lemma status_steps_advance: "(status_step L)\<^sup>*\<^sup>* s s' \<Longrightarrow> advances s s'"
  by (induction rule: rtranclp_induct) (auto intro: advances_trans status_step_advances)

end

lemma status_ok_initial: "status_ok DeploymentStatus0"
  by (simp add: status_ok_def DeploymentStatus0_def)

text \<open>Updates of the resource itself: only to add or to drop the finalizer.\<close>

lemma no_deployment_update:
  "inert e \<Longrightarrow> e \<noteq> EUpdate (ODeployment w) a" "banner_only d e \<Longrightarrow> e \<noteq> EUpdate (ODeployment w) a"
  "active_event d e \<Longrightarrow> e \<noteq> EUpdate (ODeployment w) a"
proof -
  show i: "inert e \<Longrightarrow> e \<noteq> EUpdate (ODeployment w) a" by (auto simp: inert_def)
  show b: "banner_only d e \<Longrightarrow> e \<noteq> EUpdate (ODeployment w) a" by (auto simp: banner_only_def)
  show "active_event d e \<Longrightarrow> e \<noteq> EUpdate (ODeployment w) a"
    using b by (auto simp: active_event_def phase_event_def in_scope_def)
qed

lemma finalizer_dropped:
  assumes "reconciled L ns n r es"
    and update: "EUpdate (ODeployment w) a \<in> set es" "notificationFinalizer \<notin> set (om_Finalizers (d_Meta w))"
    and names: "\<forall>e \<in> set es. names_ok e"
    and added: "\<And>m. notificationFinalizer \<in> set (om_Finalizers (li_AddFinalizer L m notificationFinalizer))"
  shows "\<exists>pre d. es = pre @ [EUpdate (ODeployment w) a] \<and> deployments_read pre = [d] \<and>
    om_DeletionTimestamp (d_Meta d) \<noteq> None \<and> banner (banner_name d) None pre = Some None"
  using assms(1)
proof cases
  case (deleted pre d es')
  from deleted(4) show ?thesis
  proof cases
    case (removed es1 w' u)
    have last: "EUpdate (ODeployment w) a = EUpdate (ODeployment w') (map_sum id ODeployment u)"
      using update deleted removed by (auto dest: no_deployment_update removes_banner_quiet)
    have "deployments_read es1 = []"
      using removed by (intro deployments_read_none) (auto dest: removes_banner_quiet)
    then have "deployments_read (pre @ EGet KDeployment ns n (Inr (ODeployment d)) # es1) = [d]"
      using deleted by (simp add: deployments_read_none inert_unread)
    moreover have "banner (banner_name d) None (pre @ EGet KDeployment ns n (Inr (ODeployment d)) # es1) = Some None"
      using removed names deleted banner_append [of "banner_name d" None "pre @ [EGet KDeployment ns n (Inr (ODeployment d))]" es1]
      by simp
    moreover have "es = (pre @ EGet KDeployment ns n (Inr (ODeployment d)) # es1) @ [EUpdate (ODeployment w) a]"
      using deleted removed last by simp
    ultimately show ?thesis using deleted(3) by blast
  qed (use update deleted in \<open>auto dest: no_deployment_update removes_banner_quiet\<close>)
next
  case (registered pre d w' u)
  then show ?thesis using update added by (auto simp: with_meta_def dest: no_deployment_update)
next
  case (active pre d es')
  then show ?thesis using update by (auto simp: sound_active_def dest: no_deployment_update)
qed (use update in \<open>auto dest: no_deployment_update removes_banner_quiet\<close>)

lemma created_by_active:
  assumes "reconciled L ns n r es" "ECreate ob a \<in> set es"
  shows "\<exists>d. deployments_read es = [d] \<and> om_DeletionTimestamp (d_Meta d) = None \<and>
    notificationFinalizer \<in> set (om_Finalizers (d_Meta d)) \<and>
    (case ob of
       OJob j \<Rightarrow> owned d (jb_Meta j) | OPipeline p \<Rightarrow> owned d (pl_Meta p)
     | OPipelineRun p \<Rightarrow> owned d (pr_Meta p) | ONotification c \<Rightarrow> (\<exists>url. c = buildNotification (banner_name d) url d)
     | ODeployment c \<Rightarrow> post_child d c \<and> d_Phase d = ''Succeeded'' | _ \<Rightarrow> False)"
  using assms(1)
proof cases
  case (active pre d es')
  have "active_event d (ECreate ob a)"
    using active assms(2) by (auto simp: sound_active_def inert_def)
  then have "case ob of
       OJob j \<Rightarrow> owned d (jb_Meta j) | OPipeline p \<Rightarrow> owned d (pl_Meta p)
     | OPipelineRun p \<Rightarrow> owned d (pr_Meta p) | ONotification c \<Rightarrow> (\<exists>url. c = buildNotification (banner_name d) url d)
     | ODeployment c \<Rightarrow> post_child d c \<and> d_Phase d = ''Succeeded'' | _ \<Rightarrow> False"
    by (cases ob) (auto simp: active_event_def banner_only_def phase_event_def in_scope_def)
  moreover have "\<forall>e \<in> set es'. \<not> reads_deployment e"
    using active by (auto simp: sound_active_def dest: active_event_unread)
  then have "deployments_read es = [d]"
    using active by (simp add: deployments_read_none inert_unread)
  ultimately show ?thesis using active by blast
next
  case (deleted pre d es')
  from deleted(4) show ?thesis
    by cases (use assms(2) deleted in \<open>auto simp: inert_def dest: removes_banner_quiet\<close>)
qed (use assms(2) in \<open>auto simp: inert_def\<close>)

lemma requeue_rule:
  assumes "reconciled L ns n r es"
  shows "fst r = (if snd r = None \<and> list_ex (\<lambda>d. om_DeletionTimestamp (d_Meta d) = None \<and>
      notificationFinalizer \<in> set (om_Finalizers (d_Meta d)) \<and> \<not> terminal (d_Status d))
      (deployments_read es) then 30 else 0)"
  using assms
proof cases
  case (active pre d es')
  have "\<forall>e \<in> set es'. \<not> reads_deployment e"
    using active by (auto simp: sound_active_def dest: active_event_unread)
  then show ?thesis
    using active by (simp add: deployments_read_none inert_unread requeued_def)
next
  case (deleted pre d es')
  have "fst r = 0" using deleted(4) by cases auto
  then show ?thesis
    using deleted removal_events [OF deleted(4)] by (simp add: deployments_read_none inert_unread)
qed (auto simp: deployments_read_none inert_unread)

lemma reconciled_dirs: "reconciled L ns n r es \<Longrightarrow> live_dirs D es \<subseteq> D"
proof -
  assume r: "reconciled L ns n r es"
  show ?thesis
    using r
  proof cases
    case (active pre d es')
    then show ?thesis
      using live_dirs_inert [of pre D] live_dirs_mono [of "live_dirs D pre" D es']
      by (force simp: sound_active_def)
  next
    case (deleted pre d es')
    then show ?thesis
      using live_dirs_inert [of pre D] removal_events [OF deleted(4)] by force
  qed (use live_dirs_inert [of _ D] in force)+
qed

lemma absent_rule:
  assumes "reconciled L ns n r es" "EGet KDeployment ns n (Inl e) \<in> set es"
  shows "r = (0, if IsNotFound e then None else Some e) \<and> \<not> list_ex api_write es"
  using assms(1)
proof cases
  case (active pre d es')
  have "\<forall>e \<in> set es'. \<not> reads_deployment e"
    using active by (auto simp: sound_active_def dest: active_event_unread)
  then show ?thesis using active assms(2) by (auto dest: inert_unread)
next
  case (deleted pre d es')
  then show ?thesis
    using removal_events [OF deleted(4)] assms(2) by (auto dest: inert_unread)
next
  case (absent pre e')
  then show ?thesis
    using assms(2) by (auto simp: list_ex_iff inert_def quiet_def)
qed (use assms(2) in \<open>auto dest: inert_unread\<close>)

section \<open>Runs on the sample cluster\<close>

text \<open>Finding an interaction of a given form in a run.\<close>

fun updates_to :: "(Deployment \<Rightarrow> bool) \<Rightarrow> event \<Rightarrow> bool" where
  "updates_to P (EUpdate (ODeployment w) _) = P w"
| "updates_to P _ = False"

fun creates_deployment :: "event \<Rightarrow> bool" where
  "creates_deployment (ECreate (ODeployment _) _) = True"
| "creates_deployment _ = False"

fun misses :: "string \<Rightarrow> string \<Rightarrow> go_error \<Rightarrow> event \<Rightarrow> bool" where
  "misses ns n err (EGet KDeployment a b (Inl x)) = (a = ns \<and> b = n \<and> x = err)"
| "misses ns n err _ = False"

fun_cases updates_toE: "updates_to P e"
fun_cases creates_deploymentE: "creates_deployment e"
fun_cases missesE: "misses ns n err e"

lemma list_ex_elims:
  "list_ex (updates_to P) es \<Longrightarrow> \<exists>w a. EUpdate (ODeployment w) a \<in> set es \<and> P w"
  "list_ex creates_deployment es \<Longrightarrow> \<exists>c a. ECreate (ODeployment c) a \<in> set es"
  "list_ex (misses ns n err) es \<Longrightarrow> EGet KDeployment ns n (Inl err) \<in> set es"
  by (auto simp: list_ex_iff elim!: updates_toE creates_deploymentE missesE)

definition sample_events :: "Deployment \<Rightarrow> trace" where
  "sample_events d = events (Reconcile sample_lib (sample_env d) (real_reconciler sample_lib (sample_env d))
     ''apps'' ''demo'') []"

definition sample_result :: "Deployment \<Rightarrow> result" where
  "sample_result d = result (Reconcile sample_lib (sample_env d) (real_reconciler sample_lib (sample_env d))
     ''apps'' ''demo'') []"

text \<open>After the first run, which launches the pipeline and finds it failed.\<close>

definition sample_failed :: Deployment where
  "sample_failed = map_status (\<lambda>s. stored s (sample_events sample_deployment)) sample_deployment"

definition sample_deleted :: Deployment where
  "sample_deleted = with_meta (\<lambda>m. m\<lparr>om_DeletionTimestamp := Some 7\<rparr>) sample_deployment"

lemma sample_step_failed: "status_step sample_lib DeploymentStatus0 (d_Status sample_failed)"
proof -
  have "status_step sample_lib DeploymentStatus0 (stored DeploymentStatus0 (sample_events sample_deployment))"
    by (rule status_step_run [OF sample_events_def]) code_simp+
  then show ?thesis by (simp add: sample_failed_def sample_deployment_def)
qed

text \<open>A deployment that has succeeded and asks for a follow-up.\<close>

definition sample_succeeded :: Deployment where
  "sample_succeeded = sample_deployment
     \<lparr>d_Spec := sample_spec\<lparr>ds_PostDeployment := \<lparr>pd_RepoName = ''next'', pd_Release = ''v1'',
        pd_Parameters = [], pd_Ansible = \<lparr>an_AnsiblePlaybook = [], an_Requirements = []\<rparr>\<rparr>\<rparr>,
      d_Status := DeploymentStatus0\<lparr>st_Phase := ''Succeeded''\<rparr>\<rparr>"

lemma sample_step_follow_up:
  "status_step sample_lib (d_Status sample_succeeded)
     ((d_Status sample_succeeded)\<lparr>st_Message := postDeploymentMessage\<rparr>)"
proof -
  have "status_step sample_lib (d_Status sample_succeeded)
      (stored (d_Status sample_succeeded) (sample_events sample_succeeded))"
    by (rule status_step_run [OF sample_events_def]) code_simp+
  moreover have "stored (d_Status sample_succeeded) (sample_events sample_succeeded)
      = (d_Status sample_succeeded)\<lparr>st_Message := postDeploymentMessage\<rparr>"
    by code_simp
  ultimately show ?thesis by simp
qed

section \<open>Properties\<close>

text \<open>C1: At any time in the life of a resource, also after runs that were cut short, its stored status is
  consistent: the conditions
  Ready, Progressing and Degraded say what the phase says, each condition type occurs once, and
  diagnostics and a failure category are there only in phase Failed.\<close>

theorem status_always_consistent:
  assumes "kube_lib L" and "(status_step L)\<^sup>*\<^sup>* DeploymentStatus0 s"
  shows "status_ok s"
  using kube_lib.status_steps_advance [OF assms] status_ok_initial by (simp add: advances_def)

lemma status_always_consistent_witness:
  "d_Phase sample_failed = ''Failed'' \<and> status_ok (d_Status sample_failed)"
proof
  show "d_Phase sample_failed = ''Failed''" by code_simp
  show "status_ok (d_Status sample_failed)"
    by (rule status_always_consistent [OF sample_lib_kube r_into_rtranclp [where r = "status_step sample_lib",
        OF sample_step_failed]])
qed

text \<open>C2: Once a deployment has Succeeded or Failed it stays so over every later reconciliation:
  its status is never touched again, but for the message of a success, which is set to that of the
  follow-up.\<close>

theorem phase_final:
  assumes "kube_lib L" and "(status_step L)\<^sup>*\<^sup>* s s'" and "st_Phase s = ''Succeeded'' \<or> st_Phase s = ''Failed''"
  shows "s' = s \<or> st_Phase s = ''Succeeded'' \<and> s' = s\<lparr>st_Message := postDeploymentMessage\<rparr>"
  using kube_lib.status_steps_advance [OF assms(1,2)] assms(3) by (simp add: advances_def terminal_def)

lemma phase_final_witness:
  fixes s defines "s \<equiv> d_Status sample_succeeded"
  shows "s\<lparr>st_Message := postDeploymentMessage\<rparr> = s \<or> st_Phase s = ''Succeeded'' \<and>
     s\<lparr>st_Message := postDeploymentMessage\<rparr> = s\<lparr>st_Message := postDeploymentMessage\<rparr>"
  unfolding s_def
  by (rule phase_final [OF sample_lib_kube r_into_rtranclp [where r = "status_step sample_lib",
        OF sample_step_follow_up]]) code_simp

text \<open>C5: The finalizer is taken off a resource only while it is being deleted and only when its
  banner is known to be gone: the update that drops it is the last interaction of the run, and the
  ones before it show that there is no banner.\<close>

theorem banner_gone_before_finalizer:
  assumes "kube_lib L" and "es = events (Reconcile L E (real_reconciler L E) ns n) tr"
    and "EUpdate (ODeployment w) a \<in> set es" and "notificationFinalizer \<notin> set (om_Finalizers (d_Meta w))"
    and "list_all names_ok es"
  shows "\<exists>pre d. es = pre @ [EUpdate (ODeployment w) a] \<and> deployments_read pre = [d] \<and>
    om_DeletionTimestamp (d_Meta d) \<noteq> None \<and> banner (banner_name d) None pre = Some None"
proof -
  have "reconciled L ns n (result (Reconcile L E (real_reconciler L E) ns n) tr) es"
    unfolding assms(2) by (rule emitsD [OF kube_lib.production_reconciled [OF assms(1)]])
  then show ?thesis
    by (rule finalizer_dropped [OF _ assms(3,4) _ kube_lib.added_finalizer [OF assms(1)]])
      (use assms(5) in \<open>simp add: list_all_iff\<close>)
qed

lemma banner_gone_before_finalizer_witness:
  "\<exists>w a pre d. sample_events sample_deleted = pre @ [EUpdate (ODeployment w) a] \<and>
    deployments_read pre = [d] \<and> om_DeletionTimestamp (d_Meta d) \<noteq> None \<and>
    banner (banner_name d) None pre = Some None"
proof -
  have "list_ex (updates_to (\<lambda>w. om_Finalizers (d_Meta w) = [])) (sample_events sample_deleted)"
    by code_simp
  then obtain w a where w: "EUpdate (ODeployment w) a \<in> set (sample_events sample_deleted)"
    "om_Finalizers (d_Meta w) = []"
    using list_ex_elims(1) by blast
  moreover have "list_all names_ok (sample_events sample_deleted)" by code_simp
  ultimately have "\<exists>pre d. sample_events sample_deleted = pre @ [EUpdate (ODeployment w) a] \<and>
      deployments_read pre = [d] \<and> om_DeletionTimestamp (d_Meta d) \<noteq> None \<and>
      banner (banner_name d) None pre = Some None"
    by (intro banner_gone_before_finalizer [OF sample_lib_kube sample_events_def]) simp_all
  then show ?thesis by blast
qed

text \<open>C4: Whatever a run creates, it creates for a resource that it has read, that carries the
  finalizer and is not being deleted. A job, a pipeline or a pipeline run is in the namespace of
  that resource and controlled by it. A banner is cluster-wide, without namespace and owner: it is
  the one built from the resource as it was read, with a name made of the name of the resource.
  And the only resource created is the follow-up of a deployment that has succeeded.\<close>

theorem creates_in_scope:
  assumes "kube_lib L" and "es = events (Reconcile L E (real_reconciler L E) ns n) tr"
    and "ECreate ob a \<in> set es"
  shows "\<exists>d. deployments_read es = [d] \<and> om_DeletionTimestamp (d_Meta d) = None \<and>
    notificationFinalizer \<in> set (om_Finalizers (d_Meta d)) \<and>
    (case ob of
       OJob j \<Rightarrow> owned d (jb_Meta j) | OPipeline p \<Rightarrow> owned d (pl_Meta p)
     | OPipelineRun p \<Rightarrow> owned d (pr_Meta p) | ONotification c \<Rightarrow> (\<exists>url. c = buildNotification (banner_name d) url d)
     | ODeployment c \<Rightarrow> post_child d c \<and> d_Phase d = ''Succeeded'' | _ \<Rightarrow> False)"
proof -
  have "reconciled L ns n (result (Reconcile L E (real_reconciler L E) ns n) tr) es"
    unfolding assms(2) by (rule emitsD [OF kube_lib.production_reconciled [OF assms(1)]])
  then show ?thesis by (rule created_by_active) (rule assms(3))
qed

lemma creates_in_scope_witness:
  "\<exists>d c. deployments_read (sample_events sample_succeeded) = [d] \<and> om_DeletionTimestamp (d_Meta d) = None \<and>
    notificationFinalizer \<in> set (om_Finalizers (d_Meta d)) \<and> post_child d c \<and> d_Phase d = ''Succeeded''"
proof -
  have "list_ex creates_deployment (sample_events sample_succeeded)"
    by code_simp
  then obtain c a where "ECreate (ODeployment c) a \<in> set (sample_events sample_succeeded)"
    using list_ex_elims(2) by blast
  from creates_in_scope [OF sample_lib_kube sample_events_def this] show ?thesis by auto
qed

text \<open>C7: A run asks to be repeated after 30 seconds exactly when it went without an error over a
  resource that is registered, alive and whose deployment was under way when it was read; there is
  no other delay.\<close>

theorem requeue_while_active:
  assumes "kube_lib L" and "m = Reconcile L E (real_reconciler L E) ns n"
  shows "fst (result m tr) = (if snd (result m tr) = None \<and> list_ex (\<lambda>d. om_DeletionTimestamp (d_Meta d) = None \<and>
      notificationFinalizer \<in> set (om_Finalizers (d_Meta d)) \<and> \<not> terminal (d_Status d))
      (deployments_read (events m tr)) then 30 else 0)"
proof -
  have "reconciled L ns n (result m tr) (events m tr)"
    unfolding assms(2) by (rule emitsD [OF kube_lib.production_reconciled [OF assms(1)]])
  then show ?thesis by (rule requeue_rule)
qed

lemma requeue_while_active_witness: "sample_result sample_deployment = (30, None)"
proof -
  have "snd (sample_result sample_deployment) = None" by code_simp
  moreover have "fst (sample_result sample_deployment) = 30"
    using requeue_while_active [OF sample_lib_kube refl, of "sample_env sample_deployment" "''apps''" "''demo''" "[]"]
    unfolding sample_result_def [symmetric] sample_events_def [symmetric]
    by (rule trans) code_simp
  ultimately show ?thesis by (simp add: prod_eq_iff)
qed

text \<open>C6: No run leaves a temporary directory behind, whichever way it ends: the directories that
  exist afterwards are among those that existed before.\<close>

theorem temp_dirs_removed:
  assumes "kube_lib L"
  shows "live_dirs D (events (Reconcile L E (real_reconciler L E) ns n) tr) \<subseteq> D"
  using reconciled_dirs [OF emitsD [OF kube_lib.production_reconciled [OF assms]]] .

lemma temp_dirs_removed_witness:
  "list_ex makes_temp (sample_events sample_deployment) \<and>
   live_dirs {} (sample_events sample_deployment) \<subseteq> {}"
proof
  show "list_ex makes_temp (sample_events sample_deployment)" by code_simp
  show "live_dirs {} (sample_events sample_deployment) \<subseteq> {}"
    unfolding sample_events_def by (rule temp_dirs_removed [OF sample_lib_kube])
qed

text \<open>C8: When the resource is gone the run ends without an error and has changed nothing in the
  cluster; any other failure to read it is answered as it came, again with nothing changed.\<close>

theorem absent_resource:
  assumes "kube_lib L" and "m = Reconcile L E (real_reconciler L E) ns n"
    and "EGet KDeployment ns n (Inl e) \<in> set (events m tr)"
  shows "result m tr = (0, if IsNotFound e then None else Some e) \<and> \<not> list_ex api_write (events m tr)"
proof -
  have "reconciled L ns n (result m tr) (events m tr)"
    unfolding assms(2) by (rule emitsD [OF kube_lib.production_reconciled [OF assms(1)]])
  then show ?thesis by (rule absent_rule) (rule assms(3))
qed

text \<open>A cluster that has lost the resource.\<close>

definition sample_empty :: env where
  "sample_empty = (sample_env sample_deployment)
     \<lparr>client := (sample_client sample_deployment)\<lparr>kc_get_Deployment := (\<lambda>_ _ _. Inl missing)\<rparr>\<rparr>"

lemma absent_resource_witness:
  "result (Reconcile sample_lib sample_empty (real_reconciler sample_lib sample_empty) ''apps'' ''demo'') [] = (0, None)"
proof -
  have "list_ex (misses ''apps'' ''demo'' missing)
      (events (Reconcile sample_lib sample_empty (real_reconciler sample_lib sample_empty) ''apps'' ''demo'') [])"
    by code_simp
  then have "EGet KDeployment ''apps'' ''demo'' (Inl missing)
      \<in> set (events (Reconcile sample_lib sample_empty (real_reconciler sample_lib sample_empty) ''apps'' ''demo'') [])"
    by (rule list_ex_elims)
  from absent_resource [OF sample_lib_kube refl this] show ?thesis
    by (simp add: missing_def IsNotFound_def)
qed

end
