(* ===== verification/Webhook.thy ===== *)
theory Webhook
  imports Samples
begin

text \<open>
  The validating admission webhook of \<open>api/v1alpha1/deployment_webhook.go\<close>: the rules, in the
  order the code runs them, every violated one reported; and a declarative reading of what an
  admitted resource satisfies.
\<close>

section \<open>Field errors\<close>

datatype error_type = ErrorTypeRequired | ErrorTypeInvalid | ErrorTypeForbidden

record field_error =
  fe_Type :: error_type
  fe_Field :: "string list"
  fe_BadValue :: string
  fe_Detail :: string

definition Required :: "string list \<Rightarrow> string \<Rightarrow> field_error" where
  "Required path detail = \<lparr>fe_Type = ErrorTypeRequired, fe_Field = path, fe_BadValue = [], fe_Detail = detail\<rparr>"

definition Invalid :: "string list \<Rightarrow> string \<Rightarrow> string \<Rightarrow> field_error" where
  "Invalid path v detail = \<lparr>fe_Type = ErrorTypeInvalid, fe_Field = path, fe_BadValue = v, fe_Detail = detail\<rparr>"

definition Forbidden :: "string list \<Rightarrow> string \<Rightarrow> field_error" where
  "Forbidden path detail = \<lparr>fe_Type = ErrorTypeForbidden, fe_Field = path, fe_BadValue = [], fe_Detail = detail\<rparr>"

lemma field_error_simps [simp]:
  "fe_Type (Required p m) = ErrorTypeRequired" "fe_Field (Required p m) = p"
  "fe_Type (Invalid p v m) = ErrorTypeInvalid" "fe_Field (Invalid p v m) = p"
  "fe_Type (Forbidden p m) = ErrorTypeForbidden" "fe_Field (Forbidden p m) = p"
  "fe_BadValue (Invalid p v m) = v"
  by (simp_all add: Required_def Invalid_def Forbidden_def)

section \<open>Git tags\<close>

text \<open>Space, tab, \<open>~\<close>, \<open>^\<close>, \<open>:\<close>, \<open>?\<close>, \<open>*\<close>, \<open>[\<close> and the backslash.\<close>

definition invalidGitTagChars :: string where
  "invalidGitTagChars = [CHR 0x20, CHR 0x09, CHR ''~'', CHR ''^'', CHR '':'', CHR ''?'', CHR ''*'',
     CHR ''['', CHR 0x5C]"

text \<open>The two characters \<open>@\<close> and opening brace, and the em dash of the messages in UTF-8.\<close>

definition at_brace :: string where "at_brace = [CHR ''@'', CHR 0x7B]"
definition em_dash :: string where "em_dash = [CHR 0xE2, CHR 0x80, CHR 0x94]"

definition validateGitTag :: "lib \<Rightarrow> string \<Rightarrow> string list \<Rightarrow> field_error option" where
  "validateGitTag L tag path =
     (case find (\<lambda>ch. Contains tag [ch]) invalidGitTagChars of
        Some ch \<Rightarrow> Some (Invalid path tag
          (''release contains invalid git tag character '' @ li_Quote L [ch] @ '' '' @ em_dash @
           '' see git-check-ref-format(1)''))
      | None \<Rightarrow>
          if HasPrefix tag ''.'' \<or> HasPrefix tag ''-''
          then Some (Invalid path tag (''release must not begin with '' @ squoted ''.'' @ '' or '' @ squoted ''-''))
          else if HasSuffix tag ''.lock''
          then Some (Invalid path tag (''release must not end with '' @ squoted ''.lock''))
          else if Contains tag ''..''
          then Some (Invalid path tag (''release must not contain '' @ squoted ''..''))
          else if Contains tag at_brace
          then Some (Invalid path tag (''release must not contain '' @ squoted at_brace))
          else None)"

text \<open>What a tag admitted by the rules looks like.\<close>

definition git_tag_ok :: "string \<Rightarrow> bool" where
  "git_tag_ok tag \<longleftrightarrow>
     set tag \<inter> {CHR 0x20, CHR 0x09, CHR ''~'', CHR ''^'', CHR '':'', CHR ''?'', CHR ''*'', CHR ''['', CHR 0x5C} = {} \<and>
     (\<nexists>t. tag = CHR ''.'' # t) \<and> (\<nexists>t. tag = CHR ''-'' # t) \<and>
     (\<nexists>t. tag = t @ ''.lock'') \<and> (\<nexists>a b. tag = a @ ''..'' @ b) \<and> (\<nexists>a b. tag = a @ at_brace @ b)"

lemma find_invalid_char:
  "find (\<lambda>ch. Contains tag [ch]) invalidGitTagChars = None \<longleftrightarrow> set tag \<inter> set invalidGitTagChars = {}"
  by (auto simp: find_None_iff Contains_Cons_iff)

lemma validateGitTag_iff: "validateGitTag L tag path = None \<longleftrightarrow> git_tag_ok tag"
proof -
  have "validateGitTag L tag path = None \<longleftrightarrow>
      find (\<lambda>ch. Contains tag [ch]) invalidGitTagChars = None \<and>
      \<not> HasPrefix tag ''.'' \<and> \<not> HasPrefix tag ''-'' \<and> \<not> HasSuffix tag ''.lock'' \<and>
      \<not> Contains tag ''..'' \<and> \<not> Contains tag at_brace"
    by (auto simp: validateGitTag_def split: option.splits)
  also have "\<dots> \<longleftrightarrow> git_tag_ok tag"
    unfolding find_invalid_char git_tag_ok_def
    by (simp add: HasPrefix_singleton HasSuffix_iff Contains_iff invalidGitTagChars_def)
  finally show ?thesis .
qed

lemma validateGitTag_error:
  "validateGitTag L tag path = Some e \<Longrightarrow> fe_Type e = ErrorTypeInvalid \<and> fe_Field e = path \<and> fe_BadValue e = tag"
  by (auto simp: validateGitTag_def split: option.splits if_splits)

section \<open>The specification rules\<close>

definition specPath :: "string list \<Rightarrow> string list" where
  "specPath child = ''spec'' # child"

text \<open>The answer: the warnings and the list of errors, empty for a nil error. \<open>oldD\<close> is nil on create.\<close>

definition validateDeploymentSpec ::
  "lib \<Rightarrow> Deployment \<Rightarrow> Deployment option \<Rightarrow> string list \<times> field_error list" where
  "validateDeploymentSpec L d oldD =
     (let s = d_Spec d;
          post = ds_PostDeployment s;
          requiredRepo =
            (if TrimSpace (ds_RepoName s) = []
             then [Required (specPath [''repoName'']) ''repoName is required and must not be empty''] else []);
          release =
            (if TrimSpace (ds_Release s) = []
             then [Required (specPath [''release'']) ''release is required and must not be empty'']
             else case validateGitTag L (ds_Release s) (specPath [''release'']) of None \<Rightarrow> [] | Some e \<Rightarrow> [e]);
          postRelease =
            (if TrimSpace (pd_RepoName post) \<noteq> [] \<and> TrimSpace (pd_Release post) = []
             then [Required (specPath [''postDeployment'', ''release''])
                     ''postDeployment.release is required when postDeployment.repoName is set''] else []);
          postRepo =
            (if TrimSpace (pd_Release post) \<noteq> [] \<and> TrimSpace (pd_RepoName post) = []
             then [Required (specPath [''postDeployment'', ''repoName''])
                     ''postDeployment.repoName is required when postDeployment.release is set''] else []);
          postTag =
            (if TrimSpace (pd_Release post) \<noteq> []
             then case validateGitTag L (pd_Release post) (specPath [''postDeployment'', ''release'']) of
                    None \<Rightarrow> [] | Some e \<Rightarrow> [e]
             else []);
          immutable =
            (case oldD of
               None \<Rightarrow> []
             | Some old \<Rightarrow>
                 (if ds_RepoName s \<noteq> ds_RepoName (d_Spec old)
                  then [Forbidden (specPath [''repoName''])
                          (''repoName is immutable after creation (was '' @ li_Quote L (ds_RepoName (d_Spec old)) @
                           '', got '' @ li_Quote L (ds_RepoName s) @ '')'')] else []) @
                 (if ds_Release s \<noteq> ds_Release (d_Spec old)
                  then [Forbidden (specPath [''release''])
                          (''release is immutable after creation (was '' @ li_Quote L (ds_Release (d_Spec old)) @
                           '', got '' @ li_Quote L (ds_Release s) @ '')'')] else []));
          warnings =
            (if HasPrefix (ds_Parameters s) ''/''
             then [''spec.parameters looks like an absolute path '' @ em_dash @
                   '' it should be relative to the repository root''] else [])
      in (warnings, requiredRepo @ release @ postRelease @ postRepo @ postTag @ immutable))"

text \<open>The decoded object of an admission request: a Deployment or something else.\<close>

datatype runtime_object = RDeployment Deployment | ROther string

datatype admission_error = Aggregate "field_error list" | Unexpected string

definition to_aggregate :: "string list \<times> field_error list \<Rightarrow> string list \<times> admission_error option" where
  "to_aggregate r = (fst r, if snd r = [] then None else Some (Aggregate (snd r)))"

definition ValidateCreate :: "lib \<Rightarrow> runtime_object \<Rightarrow> string list \<times> admission_error option" where
  "ValidateCreate L obj =
     (case obj of
        ROther t \<Rightarrow> ([], Some (Unexpected (''expected a Deployment but got '' @ t)))
      | RDeployment d \<Rightarrow> to_aggregate (validateDeploymentSpec L d None))"

definition ValidateUpdate :: "lib \<Rightarrow> runtime_object \<Rightarrow> runtime_object \<Rightarrow> string list \<times> admission_error option" where
  "ValidateUpdate L oldObj newObj =
     (case oldObj of
        ROther t \<Rightarrow> ([], Some (Unexpected (''expected a Deployment but got '' @ t)))
      | RDeployment oldD \<Rightarrow>
          (case newObj of
             ROther t \<Rightarrow> ([], Some (Unexpected (''expected a Deployment but got '' @ t)))
           | RDeployment newD \<Rightarrow> to_aggregate (validateDeploymentSpec L newD (Some oldD))))"

definition ValidateDelete :: "runtime_object \<Rightarrow> string list \<times> admission_error option" where
  "ValidateDelete obj = ([], None)"

section \<open>What is admitted\<close>

text \<open>The declarative reading of the rules that do not compare with the old object.\<close>

definition spec_ok :: "DeploymentSpec \<Rightarrow> bool" where
  "spec_ok s \<longleftrightarrow>
     TrimSpace (ds_RepoName s) \<noteq> [] \<and> TrimSpace (ds_Release s) \<noteq> [] \<and> git_tag_ok (ds_Release s) \<and>
     (TrimSpace (pd_RepoName (ds_PostDeployment s)) \<noteq> [] \<longleftrightarrow> TrimSpace (pd_Release (ds_PostDeployment s)) \<noteq> []) \<and>
     (TrimSpace (pd_Release (ds_PostDeployment s)) \<noteq> [] \<longrightarrow> git_tag_ok (pd_Release (ds_PostDeployment s)))"

text \<open>An error of a given type at a given field is among those reported.\<close>

definition reports :: "string list \<times> field_error list \<Rightarrow> error_type \<Rightarrow> string list \<Rightarrow> bool" where
  "reports r t child \<longleftrightarrow> list_ex (\<lambda>e. fe_Type e = t \<and> fe_Field e = specPath child) (snd r)"

lemma validateDeploymentSpec_none:
  "snd (validateDeploymentSpec L d oldD) = [] \<longleftrightarrow>
     spec_ok (d_Spec d) \<and>
     (case oldD of None \<Rightarrow> True
      | Some old \<Rightarrow> ds_RepoName (d_Spec d) = ds_RepoName (d_Spec old) \<and>
                     ds_Release (d_Spec d) = ds_Release (d_Spec old))"
proof -
  have tag: "(case validateGitTag L t p of None \<Rightarrow> [] | Some e \<Rightarrow> [e]) = [] \<longleftrightarrow> git_tag_ok t" for t p
    using validateGitTag_iff [of L t p] by (cases "validateGitTag L t p") auto
  show ?thesis
    unfolding validateDeploymentSpec_def spec_ok_def Let_def
    by (cases oldD) (auto simp: tag)
qed

lemma ValidateCreate_admits: "snd (ValidateCreate L (RDeployment d)) = None \<longleftrightarrow> spec_ok (d_Spec d)"
  using validateDeploymentSpec_none [of L d None]
  by (simp add: ValidateCreate_def to_aggregate_def)

lemma ValidateUpdate_admits:
  "snd (ValidateUpdate L (RDeployment old) (RDeployment new)) = None \<longleftrightarrow>
     spec_ok (d_Spec new) \<and> ds_RepoName (d_Spec new) = ds_RepoName (d_Spec old) \<and>
     ds_Release (d_Spec new) = ds_Release (d_Spec old)"
  using validateDeploymentSpec_none [of L new "Some old"]
  by (simp add: ValidateUpdate_def to_aggregate_def)

text \<open>Reading a list of errors rule by rule.\<close>

lemma reported_if:
  "list_ex P (if b then [x] else []) \<longleftrightarrow> b \<and> P x"
  "list_ex P (if b then [] else [x]) \<longleftrightarrow> \<not> b \<and> P x"
  "list_ex P (if b then if c then [] else [x] else []) \<longleftrightarrow> b \<and> \<not> c \<and> P x"
  "list_ex P (if b then [y] else if c then [] else [x]) \<longleftrightarrow> b \<and> P y \<or> \<not> b \<and> \<not> c \<and> P x"
  by simp_all

lemma tag_errors:
  "(case validateGitTag L t path of None \<Rightarrow> [] | Some e \<Rightarrow> [e]) =
     (if git_tag_ok t then [] else [the (validateGitTag L t path)])"
  using validateGitTag_iff [of L t path] by (cases "validateGitTag L t path") auto

lemma tag_error_shape:
  "\<not> git_tag_ok t \<Longrightarrow> fe_Type (the (validateGitTag L t path)) = ErrorTypeInvalid"
  "\<not> git_tag_ok t \<Longrightarrow> fe_Field (the (validateGitTag L t path)) = path"
  using validateGitTag_iff [of L t path] validateGitTag_error [of L t path] by auto

section \<open>Properties\<close>

text \<open>C39: The tag check answers nil exactly for the tags that satisfy the documented rules
  (no forbidden character, no leading dot or dash, no \<open>.lock\<close> at the end, no \<open>..\<close> and no
  \<open>@\<close> with an opening brace), and an error it returns is an Invalid error on the given field with the tag as
  its value.\<close>

theorem git_tag_check:
  "case validateGitTag L tag path of
     None \<Rightarrow> git_tag_ok tag
   | Some e \<Rightarrow> \<not> git_tag_ok tag \<and> fe_Type e = ErrorTypeInvalid \<and> fe_Field e = path \<and> fe_BadValue e = tag"
  using validateGitTag_iff [of L tag path] validateGitTag_error [of L tag path]
  by (cases "validateGitTag L tag path") auto

text \<open>C25: The webhook admits a new resource exactly when its specification is well formed, and a
  changed one exactly when moreover repository and release are those of the stored resource.\<close>

theorem webhook_admits:
  "(snd (ValidateCreate L (RDeployment d)) = None \<longleftrightarrow> spec_ok (d_Spec d)) \<and>
   (snd (ValidateUpdate L (RDeployment old) (RDeployment d)) = None \<longleftrightarrow>
      spec_ok (d_Spec d) \<and> ds_RepoName (d_Spec d) = ds_RepoName (d_Spec old) \<and>
      ds_Release (d_Spec d) = ds_Release (d_Spec old))"
  by (simp add: ValidateCreate_admits ValidateUpdate_admits)

text \<open>C26: Every violated rule is reported, and only violated ones: for each rule, the error with
  its type and field is in the list exactly when the rule is broken, whatever the other rules say.\<close>

theorem webhook_reports_all:
  fixes L :: lib and d :: Deployment and oldD :: "Deployment option"
  defines "r \<equiv> validateDeploymentSpec L d oldD" and "s \<equiv> d_Spec d" and "p \<equiv> ds_PostDeployment (d_Spec d)"
  shows "(reports r ErrorTypeRequired [''repoName''] \<longleftrightarrow> TrimSpace (ds_RepoName s) = []) \<and>
    (reports r ErrorTypeRequired [''release''] \<longleftrightarrow> TrimSpace (ds_Release s) = []) \<and>
    (reports r ErrorTypeInvalid [''release''] \<longleftrightarrow> TrimSpace (ds_Release s) \<noteq> [] \<and> \<not> git_tag_ok (ds_Release s)) \<and>
    (reports r ErrorTypeRequired [''postDeployment'', ''release''] \<longleftrightarrow>
       TrimSpace (pd_RepoName p) \<noteq> [] \<and> TrimSpace (pd_Release p) = []) \<and>
    (reports r ErrorTypeRequired [''postDeployment'', ''repoName''] \<longleftrightarrow>
       TrimSpace (pd_Release p) \<noteq> [] \<and> TrimSpace (pd_RepoName p) = []) \<and>
    (reports r ErrorTypeInvalid [''postDeployment'', ''release''] \<longleftrightarrow>
       TrimSpace (pd_Release p) \<noteq> [] \<and> \<not> git_tag_ok (pd_Release p)) \<and>
    (reports r ErrorTypeForbidden [''repoName''] \<longleftrightarrow>
       (\<exists>old. oldD = Some old \<and> ds_RepoName s \<noteq> ds_RepoName (d_Spec old))) \<and>
    (reports r ErrorTypeForbidden [''release''] \<longleftrightarrow>
       (\<exists>old. oldD = Some old \<and> ds_Release s \<noteq> ds_Release (d_Spec old)))"
  unfolding r_def s_def p_def reports_def
  by (cases oldD) (simp_all add: validateDeploymentSpec_def Let_def specPath_def tag_errors
    reported_if tag_error_shape cong: conj_cong)

end
