(* ===== verification/Admission.thy ===== *)
theory Admission
  imports Lifecycle Webhook
begin

text \<open>
  The webhook and the controller together: the life of a stored resource, which users change when
  the webhook admits it, and which the controller updates to add or to drop its finalizer. Its
  status is a subresource, of which the webhook is not asked.
\<close>

section \<open>The controller leaves the specification alone\<close>

lemma reconciled_update_spec:
  assumes "reconciled L ns n r es" "EUpdate (ODeployment w) a \<in> set es"
  shows "\<exists>d \<in> set (deployments_read es). d_Spec w = d_Spec d"
  using assms(1)
proof cases
  case (deleted pre d es')
  have read: "d \<in> set (deployments_read es)" using deleted by simp
  from deleted(4) show ?thesis
  proof cases
    case (removed es1 w' u)
    then have "w = w'"
      using assms(2) deleted by (auto dest: no_deployment_update removes_banner_quiet)
    then show ?thesis using read removed by (auto simp: with_meta_def)
  qed (use assms(2) deleted in \<open>auto dest: no_deployment_update removes_banner_quiet\<close>)
next
  case (registered pre d w' u)
  then have "w = w'" "d \<in> set (deployments_read es)"
    using assms(2) by (auto dest: no_deployment_update)
  then show ?thesis using registered by (auto simp: with_meta_def)
next
  case (active pre d es')
  then show ?thesis using assms(2) by (auto simp: sound_active_def dest: no_deployment_update)
qed (use assms(2) in \<open>auto dest: no_deployment_update\<close>)

lemma controller_update_spec:
  assumes "kube_lib L" "EUpdate (ODeployment w) a \<in> set (events (Reconcile L E (real_reconciler L E) ns n) tr)"
    and "list_all (\<lambda>x. d_Spec x = d_Spec d) (deployments_read (events (Reconcile L E (real_reconciler L E) ns n) tr))"
  shows "d_Spec w = d_Spec d"
  using reconciled_update_spec [OF emitsD [OF kube_lib.production_reconciled [OF assms(1)]] assms(2)] assms(3)
  by (auto simp: list_all_iff)

section \<open>The life of a resource\<close>

text \<open>Created and changed by users as far as the webhook admits it; updated by the controller in a run
  that has read the specification as it is stored (the server refuses an update that is based on an
  older version). Nothing is assumed of the webhook's answer to the controller.\<close>

inductive admitted_life :: "lib \<Rightarrow> Deployment \<Rightarrow> Deployment \<Rightarrow> bool" for L d0 where
  created: "snd (ValidateCreate L (RDeployment d0)) = None \<Longrightarrow> admitted_life L d0 d0"
| by_user: "admitted_life L d0 d \<Longrightarrow> snd (ValidateUpdate L (RDeployment d) (RDeployment d')) = None \<Longrightarrow>
    admitted_life L d0 d'"
| by_controller: "admitted_life L d0 d \<Longrightarrow>
    list_all (\<lambda>x. d_Spec x = d_Spec d) (deployments_read (events (Reconcile L E (real_reconciler L E) ns n) tr)) \<Longrightarrow>
    EUpdate (ODeployment w) a \<in> set (events (Reconcile L E (real_reconciler L E) ns n) tr) \<Longrightarrow>
    admitted_life L d0 w"

lemma admitted_life_spec:
  assumes "kube_lib L" and "admitted_life L d0 d"
  shows "spec_ok (d_Spec d) \<and> ds_RepoName (d_Spec d) = ds_RepoName (d_Spec d0) \<and>
     ds_Release (d_Spec d) = ds_Release (d_Spec d0)"
  using assms(2)
proof (induction rule: admitted_life.induct)
  case (by_controller d E ns n tr w a)
  have "d_Spec w = d_Spec d" by (rule controller_update_spec [OF assms(1) by_controller(3,2)])
  then show ?case using by_controller.IH by simp
qed (simp_all add: ValidateCreate_admits ValidateUpdate_admits)

section \<open>Properties\<close>

text \<open>C27: Over the whole life of a resource, repository and release stay what they were at creation
  and the specification stays well formed. The updates of the resource itself that the
  reconciler sends, to add or drop the finalizer, leave the specification as it read it, and so the
  webhook admits every one of them.\<close>

theorem admitted_life_immutable:
  assumes "kube_lib L" and "admitted_life L d0 d"
  shows "ds_RepoName (d_Spec d) = ds_RepoName (d_Spec d0) \<and> ds_Release (d_Spec d) = ds_Release (d_Spec d0) \<and>
    spec_ok (d_Spec d) \<and>
    (\<forall>E ns n tr w a.
       list_all (\<lambda>x. d_Spec x = d_Spec d) (deployments_read (events (Reconcile L E (real_reconciler L E) ns n) tr)) \<longrightarrow>
       EUpdate (ODeployment w) a \<in> set (events (Reconcile L E (real_reconciler L E) ns n) tr) \<longrightarrow>
       d_Spec w = d_Spec d \<and> snd (ValidateUpdate L (RDeployment d) (RDeployment w)) = None)"
proof -
  have "snd (ValidateUpdate L (RDeployment d) (RDeployment w)) = None" if "d_Spec w = d_Spec d" for w
    using admitted_life_spec [OF assms] that by (simp add: ValidateUpdate_admits)
  then show ?thesis
    using admitted_life_spec [OF assms] controller_update_spec [OF assms(1)] by blast
qed

text \<open>A resource whose parameter file is changed and which is then deleted; the update of the
  controller drops the finalizer.\<close>

definition sample_leaving :: Deployment where
  "sample_leaving = sample_deleted\<lparr>d_Spec := sample_spec\<lparr>ds_Parameters := ''params.yaml''\<rparr>\<rparr>"

lemma admitted_life_immutable_witness:
  "\<exists>w a. EUpdate (ODeployment w) a \<in> set (sample_events sample_leaving) \<and> om_Finalizers (d_Meta w) = [] \<and>
     snd (ValidateUpdate sample_lib (RDeployment sample_leaving) (RDeployment w)) = None \<and>
     ds_RepoName (d_Spec sample_leaving) = ds_RepoName (d_Spec sample_deployment)"
proof -
  have "snd (ValidateCreate sample_lib (RDeployment sample_deployment)) = None" by code_simp
  moreover have "snd (ValidateUpdate sample_lib (RDeployment sample_deployment) (RDeployment sample_leaving)) = None"
    by code_simp
  ultimately have "admitted_life sample_lib sample_deployment sample_leaving"
    by (rule admitted_life.by_user [OF admitted_life.created])
  note life = admitted_life_immutable [OF sample_lib_kube this]
  have "list_ex (updates_to (\<lambda>w. om_Finalizers (d_Meta w) = [])) (sample_events sample_leaving)"
    by code_simp
  then obtain w a where w: "EUpdate (ODeployment w) a \<in> set (sample_events sample_leaving)"
    "om_Finalizers (d_Meta w) = []"
    using list_ex_elims(1) by blast
  have "list_all (\<lambda>x. d_Spec x = d_Spec sample_leaving) (deployments_read (sample_events sample_leaving))"
    by code_simp
  with life w show ?thesis unfolding sample_events_def by blast
qed

end
