(* ===== verification/Workers.thy ===== *)
theory Workers
  imports Lifecycle
begin

text \<open>
  The workers of the deployment controller. \<open>SetupWithManager\<close> asks for five concurrent
  reconciliations. What controller-runtime makes of it is its documented rule and a guard of the
  step relation here: it runs no more reconciliations at a time than it was asked for, and its work
  queue never gives one key to two of them. The interactions of the runs
  interleave in any order, each run may be cut short, and a run may read the resource from a cache
  that is behind the API server: then the server refuses the status updates of that run, because
  their resource version is out of date.
\<close>

text \<open>What the builder is given: the kind that is watched, the name, the options.\<close>

record controller_setup =
  su_For :: kind
  su_Named :: string
  su_MaxConcurrentReconciles :: nat

definition SetupWithManager :: controller_setup where
  "SetupWithManager = \<lparr>su_For = KDeployment, su_Named = ''deployment'', su_MaxConcurrentReconciles = 5\<rparr>"

type_synonym object_key = "string \<times> string"

text \<open>The statuses that the server stores and the runs under way, each with whether what it read is
  out of date and with the interactions still to come.\<close>

record workers =
  statuses :: "object_key \<Rightarrow> DeploymentStatus"
  active :: "object_key \<Rightarrow> (bool \<times> trace) option"

text \<open>What the server answers, and what an interaction makes of the store.\<close>

definition answered :: "bool \<Rightarrow> event \<Rightarrow> bool" where
  "answered stale e = (case e of
     EGet KDeployment ns n (Inr (ODeployment d)) \<Rightarrow> key d = (ns, n)
   | EStatusUpdate w (Inr r) \<Rightarrow> \<not> stale \<and> accepted e
   | _ \<Rightarrow> True)"

definition out_of_date :: "(object_key \<Rightarrow> DeploymentStatus) \<Rightarrow> event \<Rightarrow> bool" where
  "out_of_date st e = (case e of
     EGet KDeployment ns n (Inr (ODeployment d)) \<Rightarrow> d_Status d \<noteq> st (ns, n)
   | _ \<Rightarrow> False)"

definition applied :: "event \<Rightarrow> (object_key \<Rightarrow> DeploymentStatus) \<Rightarrow> object_key \<Rightarrow> DeploymentStatus" where
  "applied e st = (case e of EStatusUpdate w (Inr _) \<Rightarrow> st(key w := d_Status w) | _ \<Rightarrow> st)"

inductive workers_step :: "lib \<Rightarrow> workers \<Rightarrow> workers \<Rightarrow> bool" for L where
  take_up: "active c (ns, n) = None \<Longrightarrow> card (dom (active c)) < su_MaxConcurrentReconciles SetupWithManager \<Longrightarrow>
    es = take m (events (Reconcile L E (real_reconciler L E) ns n) tr) \<Longrightarrow>
    workers_step L c (c\<lparr>active := (active c)((ns, n) \<mapsto> (False, es))\<rparr>)"
| act: "active c k = Some (stale, e # es) \<Longrightarrow> answered stale e \<Longrightarrow>
    workers_step L c \<lparr>statuses = applied e (statuses c),
      active = (active c)(k \<mapsto> (stale \<or> out_of_date (statuses c) e, es))\<rparr>"
| finish: "active c k = Some (stale, []) \<Longrightarrow> workers_step L c (c\<lparr>active := (active c)(k := None)\<rparr>)"

inductive_cases workers_step_elim: "workers_step L c c'"

section \<open>One run among others\<close>

lemma answered_accepted: "answered stale e \<Longrightarrow> accepted e"
  by (cases e rule: accepted.cases) (auto simp: answered_def)

text \<open>The last interaction of a part of a run: a read of the resource is the first contact with its
  status, and a status update is meant for the resource that was read.\<close>

lemma last_read:
  assumes "read_course ns n (p @ [EGet KDeployment a b (Inr (ODeployment d))])"
  shows "a = ns \<and> b = n \<and> status_writes p = []"
  using assms unfolding read_course_def
proof (elim disjE exE conjE)
  fix pre d' es'
  assume "p @ [EGet KDeployment a b (Inr (ODeployment d))] = pre @ EGet KDeployment ns n (Inr (ODeployment d')) # es'"
    "deployments_read es' = []" "status_writes pre = []"
  then show ?thesis by (cases es' rule: rev_cases) auto
qed simp

lemma last_write:
  assumes "read_course ns n (p @ [EStatusUpdate w r])" "list_all accepted p"
  shows "\<exists>d \<in> set (deployments_read p). key w = key d"
  using assms(1) unfolding read_course_def
proof (elim disjE exE conjE)
  fix pre d es'
  assume eq: "p @ [EStatusUpdate w r] = pre @ EGet KDeployment ns n (Inr (ODeployment d)) # es'"
    and kept: "course_kept d es'"
  then show ?thesis
  proof (cases es' rule: rev_cases)
    case (snoc us u)
    with eq have p: "p = pre @ EGet KDeployment ns n (Inr (ODeployment d)) # us" and u: "u = EStatusUpdate w r" by simp_all
    have "progress d w"
      using kept assms(2) by (simp add: course_kept_def snoc u p list_all_iff)
    then show ?thesis by (auto simp: p progress_def)
  qed simp
qed simp

text \<open>The course of one run up to now: it has begun with the stored status \<open>s0\<close>, what it has written is
  what is stored, and what is to come continues a run.\<close>

definition under_way :: "object_key \<Rightarrow> DeploymentStatus \<Rightarrow> DeploymentStatus \<Rightarrow> trace \<Rightarrow> bool" where
  "under_way k s0 s es \<longleftrightarrow> (\<exists>p. read_course (fst k) (snd k) (p @ es) \<and> list_all accepted p \<and>
     list_all (\<lambda>d. d_Status d = s0 \<and> key d = k) (deployments_read p) \<and> s = stored s0 p)"

lemma under_way_begin: "read_course (fst k) (snd k) es \<Longrightarrow> under_way k s s es"
  unfolding under_way_def by (intro exI [of _ "[]"]) (simp add: stored_def deployments_read_def List.map_filter_simps)

lemma under_way_advances:
  assumes "under_way k s0 s es"
  shows "advances s0 s"
proof -
  obtain p where p: "read_course (fst k) (snd k) (p @ es)" "list_all accepted p"
    "list_all (\<lambda>d. d_Status d = s0 \<and> key d = k) (deployments_read p)" "s = stored s0 p"
    using assms unfolding under_way_def by blast
  have "list_all (\<lambda>d. d_Status d = s0) (deployments_read p)" using p(3) by (simp add: list_all_iff)
  then show ?thesis unfolding p(4) by (rule read_course_stored [OF read_course_prefix [OF p(1)] p(2)])
qed

lemma under_way_act:
  assumes "under_way k s0 (st k) (e # es)" "answered False e" "\<not> out_of_date st e"
  shows "under_way k s0 (applied e st k) es" "k' \<noteq> k \<Longrightarrow> applied e st k' = st k'"
proof -
  obtain p where p: "read_course (fst k) (snd k) (p @ e # es)" "list_all accepted p"
    "list_all (\<lambda>d. d_Status d = s0 \<and> key d = k) (deployments_read p)" "st k = stored s0 p"
    using assms(1) unfolding under_way_def by blast
  have course: "read_course (fst k) (snd k) (p @ [e])"
    by (rule read_course_prefix [where rest = es]) (simp add: p(1))
  have key: "key w = k" if "e = EStatusUpdate w r" for w r
    using last_write [of "fst k" "snd k" p w r] course p(2,3) that by (auto simp: list_all_iff)
  have "list_all (\<lambda>d. d_Status d = s0 \<and> key d = k) (deployments_read [e])"
  proof (cases "\<exists>a b d. e = EGet KDeployment a b (Inr (ODeployment d))")
    case True
    then obtain a b d where e: "e = EGet KDeployment a b (Inr (ODeployment d))" by blast
    have "k = (a, b)" "status_writes p = []" using last_read [OF course [unfolded e]] by (auto simp: prod_eq_iff)
    moreover from this have "st k = s0" using p(4) stored_cases [of s0 p] by auto
    ultimately show ?thesis
      using assms(2,3) by (simp add: e answered_def out_of_date_def deployments_read_def List.map_filter_simps)
  next
    case False
    then have "deployments_read [e] = []"
      by (auto simp: deployments_read_def List.map_filter_simps split: event.splits kind.splits sum.splits obj.splits)
    then show ?thesis by simp
  qed
  moreover have "applied e st k = stored s0 (p @ [e])"
    using p(4) key by (auto simp: applied_def stored_def store_def split: event.splits sum.splits)
  ultimately show "under_way k s0 (applied e st k) es"
    unfolding under_way_def using p answered_accepted [OF assms(2)]
    by (intro exI [of _ "p @ [e]"]) simp
  show "k' \<noteq> k \<Longrightarrow> applied e st k' = st k'"
    using key by (auto simp: applied_def split: event.splits sum.splits)
qed

lemma stale_act: "answered True e \<Longrightarrow> applied e st = st"
  by (auto simp: answered_def applied_def split: event.splits sum.splits)

section \<open>All of them\<close>

text \<open>For each key, the stored status advances from that at the start, and so does the status that a
  run which is not out of date has begun with.\<close>

definition advancing :: "(object_key \<Rightarrow> DeploymentStatus) \<Rightarrow> workers \<Rightarrow> bool" where
  "advancing st0 c \<longleftrightarrow> (\<forall>k. advances (st0 k) (statuses c k) \<and>
     (\<forall>es. active c k = Some (False, es) \<longrightarrow> (\<exists>s0. advances (st0 k) s0 \<and> under_way k s0 (statuses c k) es)))"

lemma advancing_store:
  "advancing st0 c \<Longrightarrow> advances (st0 k) (statuses c k)"
  "advancing st0 c \<Longrightarrow> active c k = Some (False, es) \<Longrightarrow> \<exists>s0. advances (st0 k) s0 \<and> under_way k s0 (statuses c k) es"
  unfolding advancing_def by blast+

context kube_lib
begin

lemma workers_step_advancing:
  assumes "workers_step L c c'" "advancing st0 c"
  shows "advancing st0 c'"
  using assms(1)
proof cases
  case (take_up ns n es m E tr)
  have "under_way (ns, n) (statuses c (ns, n)) (statuses c (ns, n)) es"
    unfolding take_up by (rule under_way_begin) (simp add: run_course)
  then show ?thesis
    using advancing_store [OF assms(2)] unfolding advancing_def take_up(1) by auto
next
  case (act k stale e es)
  show ?thesis
  proof (cases stale)
    case True
    then have "applied e (statuses c) = statuses c" using act(3) by (intro stale_act) simp
    then show ?thesis
      using True advancing_store [OF assms(2)] unfolding advancing_def act(1) by auto
  next
    case False
    then obtain s0 where s0: "advances (st0 k) s0" and run: "under_way k s0 (statuses c k) (e # es)"
      using advancing_store(2) [OF assms(2), of k "e # es"] act(2) by auto
    show ?thesis
    proof (cases "out_of_date (statuses c) e")
      case True
      then have "applied e (statuses c) = statuses c"
        by (auto simp: out_of_date_def applied_def split: event.splits)
      then show ?thesis
        using True advancing_store [OF assms(2)] unfolding advancing_def act(1) by auto
    next
      case current: False
      have "answered False e" using act(3) False by simp
      note one = under_way_act [OF run this current]
      have "advances (st0 k) (applied e (statuses c) k)"
        by (rule advances_trans [OF s0 under_way_advances [OF one(1)]])
      then show ?thesis
        using False current one s0 advancing_store [OF assms(2)] unfolding advancing_def act(1) by auto
    qed
  qed
next
  case (finish k stale)
  then show ?thesis
    using advancing_store [OF assms(2)] unfolding advancing_def by auto
qed

lemma workers_bounded:
  assumes "workers_step L c c'" "finite (dom (active c))" "card (dom (active c)) \<le> su_MaxConcurrentReconciles SetupWithManager"
  shows "finite (dom (active c')) \<and> card (dom (active c')) \<le> su_MaxConcurrentReconciles SetupWithManager"
  using assms(1)
proof cases
  case (act k stale e es)
  then have "dom (active c') = dom (active c)" by auto
  then show ?thesis using assms(2,3) by simp
qed (use assms(2,3) in \<open>auto simp: card_insert_if intro: card_Diff1_le [THEN order_trans]\<close>)

lemma workers_advance:
  assumes "(workers_step L)\<^sup>*\<^sup>* c c'" "active c = (\<lambda>_. None)"
  shows "advancing (statuses c) c' \<and> finite (dom (active c')) \<and> card (dom (active c')) \<le> su_MaxConcurrentReconciles SetupWithManager"
  using assms(1)
proof (induction rule: rtranclp_induct)
  case base
  then show ?case using assms(2) by (simp add: advancing_def)
next
  case (step y z)
  then show ?case using workers_step_advancing workers_bounded by blast
qed

end

section \<open>Properties\<close>

text \<open>C3: With the workers on different resources, in any interleaving, with runs cut short anywhere and
  reads from a cache that may be behind: every stored status stays consistent, and a resource that
  has ended keeps its final status but for the message of the follow-up. No more than the five runs
  that \<open>SetupWithManager\<close> asks for are under way at a time, by the rule of controller-runtime.\<close>

theorem workers_keep_statuses:
  assumes "kube_lib L" and "(workers_step L)\<^sup>*\<^sup>* c c'" and "active c = (\<lambda>_. None)"
  shows "(status_ok (statuses c k) \<longrightarrow> status_ok (statuses c' k)) \<and>
    (terminal (statuses c k) \<longrightarrow> statuses c' k = statuses c k \<or>
       st_Phase (statuses c k) = ''Succeeded'' \<and>
       statuses c' k = (statuses c k)\<lparr>st_Message := postDeploymentMessage\<rparr>) \<and>
    card (dom (active c')) \<le> 5"
  using kube_lib.workers_advance [OF assms] advancing_store(1) [of "statuses c" c' k]
  by (simp add: advances_def SetupWithManager_def)

text \<open>A run of one worker from its first interaction to its last.\<close>

fun plays :: "(object_key \<Rightarrow> DeploymentStatus) \<Rightarrow> bool \<Rightarrow> trace \<Rightarrow> bool" where
  "plays st stale [] = True"
| "plays st stale (e # es) = (answered stale e \<and> plays (applied e st) (stale \<or> out_of_date st e) es)"

definition played :: "(object_key \<Rightarrow> DeploymentStatus) \<Rightarrow> trace \<Rightarrow> object_key \<Rightarrow> DeploymentStatus" where
  "played st es = foldl (\<lambda>st e. applied e st) st es"

lemma plays_steps:
  "plays (statuses c) stale es \<Longrightarrow> active c k = Some (stale, es) \<Longrightarrow>
   \<exists>c'. (workers_step L)\<^sup>*\<^sup>* c c' \<and> statuses c' = played (statuses c) es"
proof (induction es arbitrary: c stale)
  case Nil
  then show ?case by (auto simp: played_def)
next
  case (Cons e es)
  let ?c = "\<lparr>statuses = applied e (statuses c), active = (active c)(k \<mapsto> (stale \<or> out_of_date (statuses c) e, es))\<rparr>"
  have "workers_step L c ?c" using Cons.prems by (intro workers_step.act) simp_all
  moreover obtain c' where "(workers_step L)\<^sup>*\<^sup>* ?c c'" "statuses c' = played (statuses ?c) es"
    using Cons.IH [of ?c] Cons.prems by auto
  ultimately show ?case by (auto simp: played_def intro: converse_rtranclp_into_rtranclp)
qed

definition sample_workers :: workers where
  "sample_workers = \<lparr>statuses = (\<lambda>_. DeploymentStatus0), active = (\<lambda>_. None)\<rparr>"

definition sample_statuses :: "object_key \<Rightarrow> DeploymentStatus" where
  "sample_statuses = played (\<lambda>_. DeploymentStatus0) (sample_events sample_deployment)"

lemma workers_keep_statuses_witness:
  "st_Phase (sample_statuses (''apps'', ''demo'')) = ''Failed'' \<and> status_ok (sample_statuses (''apps'', ''demo''))"
proof
  show "st_Phase (sample_statuses (''apps'', ''demo'')) = ''Failed''" by code_simp
  let ?c = "sample_workers\<lparr>active := (active sample_workers)((''apps'', ''demo'') \<mapsto> (False, sample_events sample_deployment))\<rparr>"
  have "workers_step sample_lib sample_workers ?c"
    by (rule workers_step.take_up [where m = "length (sample_events sample_deployment)" and tr = "[]" and
        E = "sample_env sample_deployment"])
      (simp_all add: sample_workers_def SetupWithManager_def sample_events_def)
  moreover have "plays (\<lambda>_. DeploymentStatus0) False (sample_events sample_deployment)" by code_simp
  then obtain c' where "(workers_step sample_lib)\<^sup>*\<^sup>* ?c c'" "statuses c' = sample_statuses"
    using plays_steps [of ?c False "sample_events sample_deployment" "(''apps'', ''demo'')" sample_lib]
    by (auto simp: sample_workers_def sample_statuses_def)
  ultimately have steps: "(workers_step sample_lib)\<^sup>*\<^sup>* sample_workers c'" "statuses c' = sample_statuses"
    by (auto intro: converse_rtranclp_into_rtranclp)
  have "active sample_workers = (\<lambda>_. None)" "statuses sample_workers k = DeploymentStatus0" for k
    by (simp_all add: sample_workers_def)
  with workers_keep_statuses [OF sample_lib_kube steps(1), of "(''apps'', ''demo'')"] steps(2)
  show "status_ok (sample_statuses (''apps'', ''demo''))"
    by (simp add: status_ok_initial)
qed

end
