(* ===== verification/Float64.thy ===== *)
theory Float64
  imports Complex_Main "HOL-Library.Log_Nat"
begin

text \<open>
  The \<open>float64\<close> arithmetic of the utilization ratios. A \<open>float64\<close> is the rational number it stands
  for, rounded to 53 bits, ties to even, as IEEE 754 prescribes; ratios of 64-bit integers neither
  overflow nor get subnormal. The lemmas say what the rounding costs: it keeps the order, leaves
  1 and every integer below \<open>2 ^ 53\<close> as they are, and is off by at most one part in \<open>2 ^ 53\<close>.
\<close>

section \<open>float64\<close>

text \<open>A quotient of positive numbers to the nearest whole number, ties to the even one.\<close>

definition round_half_even :: "int \<Rightarrow> int \<Rightarrow> int" where
  "round_half_even a b =
     (let q = a div b; r = a mod b
      in if 2 * r < b \<or> (2 * r = b \<and> even q) then q else q + 1)"

text \<open>The quotient as a multiple of the power of two that leaves 53 bits.\<close>

definition f64_exponent :: "int \<Rightarrow> int \<Rightarrow> int" where
  "f64_exponent a b =
     (let k = bitlen a - bitlen b;
          above = (if 0 \<le> k then b * 2 ^ nat k \<le> a else b \<le> a * 2 ^ nat (- k))
      in (if above then k else k - 1) - 52)"

definition f64_round :: "int \<Rightarrow> int \<Rightarrow> rat" where
  "f64_round a b =
     (if a = 0 then 0
      else let e = f64_exponent a b in
        if 0 \<le> e then of_int (round_half_even a (b * 2 ^ nat e)) * 2 ^ nat e
        else of_int (round_half_even (a * 2 ^ nat (- e)) b) / 2 ^ nat (- e))"

text \<open>\<open>float64(n)\<close> for an integer and the quotient of two such numbers.\<close>

definition float64 :: "int \<Rightarrow> rat" where
  "float64 n = (if n < 0 then - f64_round (- n) 1 else f64_round n 1)"

definition f64_div :: "rat \<Rightarrow> rat \<Rightarrow> rat" where
  "f64_div x y =
     (let (p, q) = quotient_of x; (r, s) = quotient_of y; a = p * s; b = q * r
      in if a < 0 \<longleftrightarrow> b < 0 then f64_round \<bar>a\<bar> \<bar>b\<bar> else - f64_round \<bar>a\<bar> \<bar>b\<bar>)"

section \<open>Rounding to a whole number\<close>

definition round_q :: "rat \<Rightarrow> int" where
  "round_q x = (let q = \<lfloor>x\<rfloor>; f = x - of_int q in if f < 1 / 2 \<or> (f = 1 / 2 \<and> even q) then q else q + 1)"

lemma round_half_even_q:
  assumes "0 < b"
  shows "round_half_even a b = round_q (of_int a / of_int b)"
proof -
  have floor: "\<lfloor>(of_int a :: rat) / of_int b\<rfloor> = a div b" by (rule floor_divide_of_int_eq)
  have "(of_int a :: rat) = of_int (a div b * b + a mod b)" by simp
  then have frac: "(of_int a :: rat) / of_int b - of_int (a div b) = of_int (a mod b) / of_int b"
    using assms by (simp only: of_int_add of_int_mult) (simp add: field_simps)
  have less: "2 * r < b \<longleftrightarrow> (2 :: rat) * of_int r < of_int b" and eq: "2 * r = b \<longleftrightarrow> (2 :: rat) * of_int r = of_int b" for r
    by linarith+
  have pos: "(0 :: rat) < of_int b" using assms by simp
  have "2 * (a mod b) < b \<longleftrightarrow> (of_int (a mod b) :: rat) / of_int b < 1 / 2"
    using assms pos by (simp add: less) (simp add: field_simps)
  moreover have "2 * (a mod b) = b \<longleftrightarrow> (of_int (a mod b) :: rat) / of_int b = 1 / 2"
    using assms pos by (simp add: eq) (auto simp: field_simps)
  ultimately show ?thesis
    by (simp only: round_half_even_def round_q_def floor Let_def frac)
qed

lemma round_q_bounds: "\<lfloor>x\<rfloor> \<le> round_q x" "round_q x \<le> \<lfloor>x\<rfloor> + 1"
  by (simp_all add: round_q_def Let_def)

lemma round_q_of_int [simp]: "round_q (of_int n) = n"
  by (simp add: round_q_def)

lemma round_q_error: "\<bar>of_int (round_q x) - x\<bar> \<le> 1 / 2"
proof -
  have "of_int \<lfloor>x\<rfloor> \<le> x" "x < of_int \<lfloor>x\<rfloor> + 1" by linarith+
  then show ?thesis by (auto simp: round_q_def Let_def abs_le_iff)
qed

lemma round_q_mono:
  assumes "x \<le> y"
  shows "round_q x \<le> round_q y"
proof (cases "\<lfloor>x\<rfloor> = \<lfloor>y\<rfloor>")
  case True
  then show ?thesis using assms by (auto simp: round_q_def Let_def)
next
  case False
  then have "\<lfloor>x\<rfloor> + 1 \<le> \<lfloor>y\<rfloor>" using floor_mono [OF assms] by simp
  then show ?thesis using round_q_bounds(2) [of x] round_q_bounds(1) [of y] by simp
qed

section \<open>The binade of a quotient\<close>

abbreviation (input) quot :: "int \<Rightarrow> int \<Rightarrow> rat" where "quot a b \<equiv> of_int a / of_int b"

lemma two_powi_mono: "m \<le> n \<Longrightarrow> (2 :: rat) powi m \<le> 2 powi n"
  by (rule power_int_increasing) simp_all

lemma two_powi_pos [simp]: "0 < (2 :: rat) powi n"
  by simp

lemma two_powi_add: "(2 :: rat) powi (m + n) = 2 powi m * 2 powi n"
  by (simp add: power_int_add)

lemma bitlen_powi:
  assumes "0 < a"
  shows "(2 :: rat) powi (bitlen a - 1) \<le> of_int a" "of_int a < (2 :: rat) powi bitlen a"
proof -
  have len: "1 \<le> bitlen a" using assms by (simp add: bitlen_def floorlog_def)
  have "(of_int (2 ^ nat (bitlen a - 1)) :: rat) \<le> of_int a" "of_int a < (of_int (2 ^ nat (bitlen a)) :: rat)"
    using bitlen_bounds [OF assms] by (simp_all only: of_int_le_iff of_int_less_iff)
  then show "(2 :: rat) powi (bitlen a - 1) \<le> of_int a" "of_int a < (2 :: rat) powi bitlen a"
    using len by (simp_all add: power_int_nonneg_exp)
qed

lemma above_iff:
  assumes "0 < b"
  shows "(if 0 \<le> k then b * 2 ^ nat k \<le> a else b \<le> a * 2 ^ nat (- k)) \<longleftrightarrow> 2 powi k \<le> quot a b"
proof (cases "0 \<le> k")
  case True
  have "b * 2 ^ nat k \<le> a \<longleftrightarrow> (of_int (b * 2 ^ nat k) :: rat) \<le> of_int a" by (simp only: of_int_le_iff)
  also have "\<dots> \<longleftrightarrow> 2 ^ nat k \<le> quot a b" using assms by (simp add: le_divide_eq mult.commute)
  finally show ?thesis using True by (simp add: power_int_nonneg_exp)
next
  case False
  have "b \<le> a * 2 ^ nat (- k) \<longleftrightarrow> (of_int b :: rat) \<le> of_int (a * 2 ^ nat (- k))" by (simp only: of_int_le_iff)
  also have "\<dots> \<longleftrightarrow> inverse (2 ^ nat (- k)) \<le> quot a b" using assms by (simp add: field_simps)
  finally show ?thesis using False power_int_minus [of "2 :: rat" "- k"] by (simp add: power_int_nonneg_exp)
qed

lemma exponent_binade:
  assumes "0 < a" "0 < b"
  shows "2 powi (f64_exponent a b + 52) \<le> quot a b" "quot a b < 2 powi (f64_exponent a b + 53)"
proof -
  let ?k = "bitlen a - bitlen b"
  have pos: "(0 :: rat) < of_int b" "(0 :: rat) < of_int a" using assms by simp_all
  have "(2 :: rat) powi (?k - 1) * of_int b \<le> 2 powi (?k - 1) * 2 powi bitlen b"
    using bitlen_powi(2) [OF assms(2)] by (simp add: mult_le_cancel_left_pos less_imp_le)
  also have "\<dots> = 2 powi (bitlen a - 1)" by (simp flip: two_powi_add)
  also have "\<dots> \<le> of_int a" by (rule bitlen_powi(1) [OF assms(1)])
  finally have low: "2 powi (?k - 1) \<le> quot a b" using pos by (simp add: pos_le_divide_eq)
  have "of_int a < (2 :: rat) powi bitlen a" by (rule bitlen_powi(2) [OF assms(1)])
  also have "\<dots> = 2 powi (?k + 1) * 2 powi (bitlen b - 1)" by (simp flip: two_powi_add)
  also have "\<dots> \<le> 2 powi (?k + 1) * of_int b"
    using bitlen_powi(1) [OF assms(2)] by (simp add: mult_le_cancel_left_pos)
  finally have high: "quot a b < 2 powi (?k + 1)" using pos by (simp add: pos_divide_less_eq)
  have e: "f64_exponent a b = (if 2 powi ?k \<le> quot a b then ?k else ?k - 1) - 52"
    unfolding f64_exponent_def Let_def above_iff [OF assms(2)] ..
  show "2 powi (f64_exponent a b + 52) \<le> quot a b" "quot a b < 2 powi (f64_exponent a b + 53)"
    using low high by (auto simp: e not_le algebra_simps)
qed

lemma f64_round_q:
  assumes "0 < a" "0 < b" and e: "e = f64_exponent a b"
  shows "f64_round a b = of_int (round_q (quot a b * 2 powi (- e))) * 2 powi e"
proof (cases "0 \<le> e")
  case True
  then have "0 < b * 2 ^ nat e" using assms(2) by simp
  from round_half_even_q [OF this, of a] show ?thesis using True assms
    by (simp add: f64_round_def Let_def power_int_minus power_int_nonneg_exp divide_inverse mult.assoc)
next
  case False
  then have "(2 :: rat) powi e = inverse (2 ^ nat (- e))"
    using power_int_minus [of "2 :: rat" "- e"] by (simp add: power_int_nonneg_exp)
  then show ?thesis using False assms round_half_even_q [OF assms(2), of "a * 2 ^ nat (- e)"]
    by (simp add: f64_round_def Let_def power_int_nonneg_exp divide_inverse mult_ac)
qed

section \<open>What rounding costs\<close>

text \<open>The significand lies between \<open>2 ^ 52\<close> and \<open>2 ^ 53\<close>.\<close>

lemma scaled_binade:
  assumes "0 < a" "0 < b" and e: "e = f64_exponent a b"
  shows "2 ^ 52 \<le> quot a b * 2 powi (- e)" "quot a b * 2 powi (- e) < 2 ^ 53"
proof -
  have up: "(2 :: rat) powi (e + n) * 2 powi (- e) = 2 powi n" for n by (simp flip: two_powi_add)
  have "(2 :: rat) powi (e + 52) * 2 powi (- e) \<le> quot a b * 2 powi (- e)"
    using exponent_binade(1) [OF assms(1,2)] by (intro mult_right_mono) (simp_all add: e)
  then show "2 ^ 52 \<le> quot a b * 2 powi (- e)" by (simp only: up power_int_numeral)
  have "quot a b * 2 powi (- e) < (2 :: rat) powi (e + 53) * 2 powi (- e)"
    using exponent_binade(2) [OF assms(1,2)] by (intro mult_strict_right_mono) (simp_all add: e)
  then show "quot a b * 2 powi (- e) < 2 ^ 53" by (simp only: up power_int_numeral)
qed

lemma significand:
  assumes "0 < a" "0 < b" and "e = f64_exponent a b"
  shows "2 ^ 52 \<le> round_q (quot a b * 2 powi (- e))" "round_q (quot a b * 2 powi (- e)) \<le> 2 ^ 53"
proof -
  show "2 ^ 52 \<le> round_q (quot a b * 2 powi (- e))"
    using round_q_mono [of "of_int (2 ^ 52)"] scaled_binade(1) [OF assms] by (simp only: round_q_of_int) simp
  show "round_q (quot a b * 2 powi (- e)) \<le> 2 ^ 53"
    using round_q_mono [of _ "of_int (2 ^ 53)"] scaled_binade(2) [OF assms] by (simp only: round_q_of_int) simp
qed

lemma f64_round_binade:
  assumes "0 < a" "0 < b"
  shows "2 powi (f64_exponent a b + 52) \<le> f64_round a b" "f64_round a b \<le> 2 powi (f64_exponent a b + 53)"
proof -
  let ?e = "f64_exponent a b" let ?n = "round_q (quot a b * 2 powi (- ?e))"
  have "(of_int (2 ^ 52) :: rat) \<le> of_int ?n" "(of_int ?n :: rat) \<le> of_int (2 ^ 53)"
    using significand [OF assms refl] by (simp_all only: of_int_le_iff)
  then show "2 powi (?e + 52) \<le> f64_round a b" "f64_round a b \<le> 2 powi (?e + 53)"
    by (simp_all add: f64_round_q [OF assms refl] two_powi_add mult.commute)
qed

lemma f64_exponent_mono:
  assumes "0 < a" "0 < b" "0 < c" "0 < d" "quot a b \<le> quot c d"
  shows "f64_exponent a b \<le> f64_exponent c d"
proof (rule ccontr)
  assume "\<not> ?thesis"
  then have "(2 :: rat) powi (f64_exponent c d + 53) \<le> 2 powi (f64_exponent a b + 52)"
    by (intro two_powi_mono) simp
  then show False
    using exponent_binade(2) [OF assms(3,4)] exponent_binade(1) [OF assms(1,2)] assms(5) by linarith
qed

lemma f64_round_mono_pos:
  assumes "0 < a" "0 < b" "0 < c" "0 < d" "quot a b \<le> quot c d"
  shows "f64_round a b \<le> f64_round c d"
proof (cases "f64_exponent a b = f64_exponent c d")
  case True
  have "round_q (quot a b * 2 powi (- f64_exponent c d)) \<le> round_q (quot c d * 2 powi (- f64_exponent c d))"
    using assms(5) by (intro round_q_mono mult_right_mono) simp_all
  then show ?thesis
    by (simp add: f64_round_q [OF assms(1,2) refl] f64_round_q [OF assms(3,4) refl] True)
next
  case False
  then have "f64_exponent a b + 53 \<le> f64_exponent c d + 52"
    using f64_exponent_mono [OF assms] by simp
  from f64_round_binade(2) [OF assms(1,2)] two_powi_mono [OF this] f64_round_binade(1) [OF assms(3,4)]
  show ?thesis by linarith
qed

lemma f64_round_nonneg:
  assumes "0 \<le> a" "0 < b"
  shows "0 \<le> f64_round a b"
proof (cases "a = 0")
  case False
  then have "2 powi (f64_exponent a b + 52) \<le> f64_round a b" using assms f64_round_binade(1) by simp
  then show ?thesis using two_powi_pos [of "f64_exponent a b + 52"] by linarith
qed (simp add: f64_round_def)

lemma f64_round_mono:
  assumes "0 \<le> a" "0 < b" "0 \<le> c" "0 < d" "quot a b \<le> quot c d"
  shows "f64_round a b \<le> f64_round c d"
proof (cases "a = 0")
  case True
  then show ?thesis using f64_round_nonneg [OF assms(3,4)] by (simp add: f64_round_def)
next
  case False
  then have "0 < quot a b" using assms by simp
  then have "0 < c" using assms by (cases "c = 0") auto
  then show ?thesis using f64_round_mono_pos assms False by simp
qed

text \<open>The relative error is at most \<open>2 ^ - 53\<close>.\<close>

lemma f64_round_error:
  assumes "0 \<le> a" "0 < b"
  shows "\<bar>f64_round a b - quot a b\<bar> \<le> quot a b / 2 ^ 53"
proof (cases "a = 0")
  case False
  then have pos: "0 < a" using assms by simp
  let ?e = "f64_exponent a b" let ?x = "quot a b * 2 powi (- ?e)"
  have x: "quot a b = ?x * 2 powi ?e" by (simp add: mult.assoc flip: two_powi_add)
  have "f64_round a b - quot a b = (of_int (round_q ?x) - ?x) * 2 powi ?e"
    by (subst x) (simp only: f64_round_q [OF pos assms(2) refl] left_diff_distrib)
  then have "\<bar>f64_round a b - quot a b\<bar> = \<bar>of_int (round_q ?x) - ?x\<bar> * 2 powi ?e"
    by (simp add: abs_mult)
  also have "\<dots> \<le> 1 / 2 * 2 powi ?e" by (intro mult_right_mono round_q_error) simp
  also have "\<dots> = 2 powi (?e + 52) / 2 ^ 53" by (simp add: two_powi_add)
  also have "\<dots> \<le> quot a b / 2 ^ 53"
    using exponent_binade(1) [OF pos assms(2)] by (intro divide_right_mono) simp_all
  finally show ?thesis .
qed (simp add: f64_round_def)

text \<open>Whole numbers of at most 53 bits are exact.\<close>

lemma f64_round_exact:
  assumes "0 \<le> n" "n < 2 ^ 53"
  shows "f64_round n 1 = of_int n"
proof (cases "n = 0")
  case False
  then have pos: "0 < n" using assms by simp
  let ?e = "f64_exponent n 1"
  have "(of_int n :: rat) < of_int (2 ^ 53)" using assms(2) by (simp only: of_int_less_iff)
  with exponent_binade(1) [OF pos zero_less_one] have "(2 :: rat) powi (?e + 52) < 2 powi 53" by simp
  then have "?e \<le> 0" using two_powi_mono [of 53 "?e + 52"] by linarith
  then have "quot n 1 * 2 powi (- ?e) = of_int (n * 2 ^ nat (- ?e))" by (simp add: power_int_nonneg_exp)
  then have "f64_round n 1 = of_int (n * 2 ^ nat (- ?e)) * 2 powi ?e"
    by (simp only: f64_round_q [OF pos zero_less_one refl] round_q_of_int)
  also have "\<dots> = of_int n * ((2 :: rat) powi (- ?e) * 2 powi ?e)"
    using \<open>?e \<le> 0\<close> by (simp add: power_int_nonneg_exp)
  finally show ?thesis by (simp flip: two_powi_add)
qed (simp add: f64_round_def)

lemma f64_round_one: "f64_round 1 1 = 1"
  using f64_round_exact [of 1] by simp

section \<open>Conversion and division\<close>

lemma float64_exact: "0 \<le> n \<Longrightarrow> n < 2 ^ 53 \<Longrightarrow> float64 n = of_int n"
  by (simp add: float64_def f64_round_exact)

lemma float64_mono: "0 \<le> m \<Longrightarrow> m \<le> n \<Longrightarrow> float64 m \<le> float64 n"
  by (auto simp: float64_def intro: f64_round_mono)

lemma float64_nonneg: "0 \<le> n \<Longrightarrow> 0 \<le> float64 n"
  by (simp add: float64_def f64_round_nonneg)

lemma float64_pos: "0 < n \<Longrightarrow> 0 < float64 n"
  using float64_mono [of 1 n] by (simp add: float64_def f64_round_one)

lemma f64_div_round:
  assumes "0 \<le> x" "0 < y"
  shows "\<exists>a b. 0 \<le> a \<and> 0 < b \<and> quot a b = x / y \<and> f64_div x y = f64_round a b"
proof -
  obtain p q where x: "quotient_of x = (p, q)" by fastforce
  obtain r s where y: "quotient_of y = (r, s)" by fastforce
  have denom: "0 < q" "0 < s" using quotient_of_denom_pos [OF x] quotient_of_denom_pos [OF y] .
  have xy: "x = quot p q" "y = quot r s" using quotient_of_div [OF x] quotient_of_div [OF y] .
  have "0 \<le> p" using assms(1) denom by (simp add: xy zero_le_divide_iff)
  moreover have "0 < r" using assms(2) denom by (simp add: xy zero_less_divide_iff)
  ultimately have "0 \<le> p * s" "0 < q * r" using denom by simp_all
  moreover have "quot (p * s) (q * r) = x / y" by (simp add: xy)
  moreover from calculation have "f64_div x y = f64_round (p * s) (q * r)"
    by (simp add: f64_div_def x y Let_def not_less)
  ultimately show ?thesis by blast
qed

lemma f64_div_nonneg: "0 \<le> x \<Longrightarrow> 0 < y \<Longrightarrow> 0 \<le> f64_div x y"
  using f64_div_round [of x y] f64_round_nonneg by fastforce

lemma f64_div_error:
  assumes "0 \<le> x" "0 < y"
  shows "\<bar>f64_div x y - x / y\<bar> \<le> x / y / 2 ^ 53"
proof -
  obtain a b where "0 \<le> a" "0 < b" "quot a b = x / y" "f64_div x y = f64_round a b"
    using f64_div_round [OF assms] by blast
  then show ?thesis using f64_round_error [of a b] by simp
qed

lemma f64_div_le_one:
  assumes "0 \<le> x" "0 < y" "x \<le> y"
  shows "f64_div x y \<le> 1"
proof -
  obtain a b where ab: "0 \<le> a" "0 < b" "quot a b = x / y" "f64_div x y = f64_round a b"
    using f64_div_round [OF assms(1,2)] by blast
  have "f64_round a b \<le> f64_round 1 1"
    using ab assms by (intro f64_round_mono) simp_all
  then show ?thesis by (simp add: ab f64_round_one)
qed

lemma f64_div_ge_one:
  assumes "0 < y" "y \<le> x"
  shows "1 \<le> f64_div x y"
proof -
  have "0 \<le> x" using assms by simp
  then obtain a b where ab: "0 \<le> a" "0 < b" "quot a b = x / y" "f64_div x y = f64_round a b"
    using f64_div_round [OF _ assms(1)] by blast
  have "f64_round 1 1 \<le> f64_round a b"
    using ab assms by (intro f64_round_mono) simp_all
  then show ?thesis by (simp add: ab f64_round_one)
qed

end
