(* ===== verification/Capacity.thy ===== *)
theory Capacity
  imports Go_Strings Float64
begin

text \<open>
  The capacity reconciler, \<open>internal/controller/capacity_controller.go\<close>, a component of its own: it
  computes the share of the cluster's capacity that running pods request and keeps the highest
  values ever seen in a config map. It has its own environment and interactions. A
  \<open>resource.Quantity\<close> is a whole number of nano-units, the finest the Kubernetes API keeps; what the
  library makes an \<open>int64\<close> of it is a parameter. A finite \<open>float64\<close> is that of \<open>Float64\<close>.
\<close>

section \<open>The objects\<close>

type_synonym quantity = int

section \<open>float64\<close>

text \<open>A \<open>float64\<close> of Go: a finite one is the rational that it stands for.\<close>

datatype f64 = Fin rat | PosInf | NegInf | NotANumber

text \<open>The comparison \<open><\<close> of Go is false when a side is \<open>NaN\<close>.\<close>

fun f64_less :: "f64 \<Rightarrow> f64 \<Rightarrow> bool" where
  "f64_less (Fin x) (Fin y) \<longleftrightarrow> x < y"
| "f64_less NegInf (Fin _) \<longleftrightarrow> True"
| "f64_less NegInf PosInf \<longleftrightarrow> True"
| "f64_less (Fin _) PosInf \<longleftrightarrow> True"
| "f64_less _ _ \<longleftrightarrow> False"

instantiation f64 :: order
begin

definition less_f64 :: "f64 \<Rightarrow> f64 \<Rightarrow> bool" where
  "a < b \<longleftrightarrow> f64_less a b"

definition less_eq_f64 :: "f64 \<Rightarrow> f64 \<Rightarrow> bool" where
  "(a :: f64) \<le> b \<longleftrightarrow> a = b \<or> a < b"

instance
proof
  fix x y z :: f64
  show "x < y \<longleftrightarrow> x \<le> y \<and> \<not> y \<le> x"
    by (cases x; cases y) (auto simp: less_f64_def less_eq_f64_def)
  show "x \<le> y \<Longrightarrow> y \<le> z \<Longrightarrow> x \<le> z"
    by (cases x; cases y; cases z) (auto simp: less_f64_def less_eq_f64_def)
  show "x \<le> y \<Longrightarrow> y \<le> x \<Longrightarrow> x = y"
    by (cases x; cases y) (auto simp: less_f64_def less_eq_f64_def)
qed (simp add: less_eq_f64_def)

end

text \<open>\<open>float64(n)\<close> of an \<open>int64\<close>, and the quotient of two of them: dividing by zero gives an infinity,
  or \<open>NaN\<close>.\<close>

definition of_int64 :: "64 word \<Rightarrow> rat" where
  "of_int64 n = float64 (sint n)"

definition div_int64 :: "64 word \<Rightarrow> 64 word \<Rightarrow> f64" where
  "div_int64 a b =
     (if b = 0 then (if a = 0 then NotANumber else if word_sless 0 a then PosInf else NegInf)
      else Fin (f64_div (of_int64 a) (of_int64 b)))"

section \<open>Nodes, pods and the config map\<close>

record Node =
  nd_Taints :: "string list"  \<comment> \<open>their keys\<close>
  nd_Labels :: "string \<rightharpoonup> string"
  nd_Allocatable :: "string \<rightharpoonup> quantity"

record CContainer =
  cc_Requests :: "string \<rightharpoonup> quantity"

record CPod =
  cp_Phase :: string
  cp_Containers :: "CContainer list"
  cp_InitContainers :: "CContainer list"

record CapacityPeak =
  CPURatio :: f64
  MemoryRatio :: f64

record ConfigMap =
  cm_Name :: string
  cm_Namespace :: string
  cm_Labels :: "string \<rightharpoonup> string"
  cm_Data :: "(string \<rightharpoonup> string) option"

text \<open>Peaks are ordered by their two ratios.\<close>

instantiation CapacityPeak_ext :: (order) order
begin

definition less_eq_CapacityPeak_ext :: "'a CapacityPeak_scheme \<Rightarrow> 'a CapacityPeak_scheme \<Rightarrow> bool" where
  "p \<le> q \<longleftrightarrow> CPURatio p \<le> CPURatio q \<and> MemoryRatio p \<le> MemoryRatio q \<and>
     CapacityPeak.more p \<le> CapacityPeak.more q"

definition less_CapacityPeak_ext :: "'a CapacityPeak_scheme \<Rightarrow> 'a CapacityPeak_scheme \<Rightarrow> bool" where
  "(p :: 'a CapacityPeak_scheme) < q \<longleftrightarrow> p \<le> q \<and> \<not> q \<le> p"

instance
  by standard (auto simp: less_eq_CapacityPeak_ext_def less_CapacityPeak_ext_def)

end

lemma peak_le_iff: "p \<le> q \<longleftrightarrow> CPURatio p \<le> CPURatio q \<and> MemoryRatio p \<le> MemoryRatio q" for p q :: CapacityPeak
  by (simp add: less_eq_CapacityPeak_ext_def)

section \<open>The environment\<close>

datatype cap_event =
    CListNodes "go_error + Node list"
  | CListPods "go_error + CPod list"
  | CGet string string "go_error + ConfigMap"  \<comment> \<open>namespace, name\<close>
  | CCreate ConfigMap "go_error option"
  | CUpdate ConfigMap "go_error option"
  | CGauge string f64

type_synonym cap_trace = "cap_event list"
type_synonym 'a cap = "(cap_event, 'a) io"

text \<open>The JSON text of a peak, which \<open>encoding/json\<close> writes and reads, is a parameter, and so are the
  methods \<open>MilliValue\<close> and \<open>Value\<close> of a quantity, which return an \<open>int64\<close> and may overflow.\<close>

record cap_env =
  ca_Nodes :: "cap_trace \<Rightarrow> go_error + Node list"
  ca_Pods :: "cap_trace \<Rightarrow> go_error + CPod list"
  ca_Get :: "cap_trace \<Rightarrow> string \<Rightarrow> string \<Rightarrow> go_error + ConfigMap"
  ca_Create :: "cap_trace \<Rightarrow> ConfigMap \<Rightarrow> go_error option"
  ca_Update :: "cap_trace \<Rightarrow> ConfigMap \<Rightarrow> go_error option"
  ca_Marshal :: "CapacityPeak \<Rightarrow> go_error + string"
  ca_Unmarshal :: "string \<Rightarrow> go_error + CapacityPeak"
  ca_MilliValue :: "quantity \<Rightarrow> 64 word"
  ca_Value :: "quantity \<Rightarrow> 64 word"

section \<open>Utilization\<close>

definition isMasterNode :: "Node \<Rightarrow> bool" where
  "isMasterNode node \<longleftrightarrow>
     list_ex (\<lambda>k. k = ''node-role.kubernetes.io/master'' \<or> k = ''node-role.kubernetes.io/control-plane'')
       (nd_Taints node) \<or>
     nd_Labels node ''node-role.kubernetes.io/master'' \<noteq> None \<or>
     nd_Labels node ''node-role.kubernetes.io/control-plane'' \<noteq> None"

text \<open>\<open>Requests.Cpu()\<close>: a missing entry gives a pointer to zero, never nil.\<close>

definition request :: "string \<Rightarrow> CContainer \<Rightarrow> quantity" where
  "request k c = (case cc_Requests c k of None \<Rightarrow> 0 | Some q \<Rightarrow> q)"

definition container_sum :: "string \<Rightarrow> CContainer list \<Rightarrow> quantity" where
  "container_sum k cs = foldl (\<lambda>tot c. tot + request k c) 0 cs"

definition init_max :: "string \<Rightarrow> CContainer list \<Rightarrow> quantity" where
  "init_max k cs = foldl (\<lambda>m c. if request k c > m then request k c else m) 0 cs"

definition effective :: "string \<Rightarrow> CPod \<Rightarrow> quantity" where
  "effective k pod =
     (let m = init_max k (cp_InitContainers pod); s = container_sum k (cp_Containers pod)
      in if m > s then m else s)"

definition effectivePodRequests :: "CPod \<Rightarrow> quantity \<times> quantity" where
  "effectivePodRequests pod = (effective ''cpu'' pod, effective ''memory'' pod)"

definition add_node :: "quantity \<times> quantity \<Rightarrow> Node \<Rightarrow> quantity \<times> quantity" where
  "add_node tot node =
     (if isMasterNode node then tot
      else (case nd_Allocatable node ''cpu'' of None \<Rightarrow> fst tot | Some q \<Rightarrow> fst tot + q,
            case nd_Allocatable node ''memory'' of None \<Rightarrow> snd tot | Some q \<Rightarrow> snd tot + q))"

definition add_pod :: "quantity \<times> quantity \<Rightarrow> CPod \<Rightarrow> quantity \<times> quantity" where
  "add_pod requested pod =
     (if cp_Phase pod \<noteq> ''Running'' then requested
      else (fst requested + fst (effectivePodRequests pod), snd requested + snd (effectivePodRequests pod)))"

definition ratios :: "cap_env \<Rightarrow> quantity \<times> quantity \<Rightarrow> quantity \<times> quantity \<Rightarrow> f64 \<times> f64" where
  "ratios E requested tot =
     (div_int64 (ca_MilliValue E (fst requested)) (ca_MilliValue E (fst tot)),
      div_int64 (ca_Value E (snd requested)) (ca_Value E (snd tot)))"

definition computeUtilization :: "cap_env \<Rightarrow> (go_error + f64 \<times> f64) cap" where
  "computeUtilization E = do {
     n \<leftarrow> call (ca_Nodes E) CListNodes;
     case n of
       Inl e \<Rightarrow> ret (Inl (wrapf ''failed to list nodes: '' e))
     | Inr nodes \<Rightarrow> do {
         let tot = foldl add_node (0, 0) nodes;
         if fst tot = 0 \<or> snd tot = 0 then ret (Inl (Errorf ''no worker node capacity found''))
         else do {
           p \<leftarrow> call (ca_Pods E) CListPods;
           case p of
             Inl e \<Rightarrow> ret (Inl (wrapf ''failed to list pods: '' e))
           | Inr pods \<Rightarrow> ret (Inr (ratios E (foldl add_pod (0, 0) pods) tot))
         }
       }
   }"

section \<open>The peak\<close>

definition capacityConfigMapName :: string where
  "capacityConfigMapName = ''itz-cluster-capacity-peak''"

definition capacityPollInterval :: nat where "capacityPollInterval = 300"

definition zero_peak :: CapacityPeak where
  "zero_peak = \<lparr>CPURatio = Fin 0, MemoryRatio = Fin 0\<rparr>"

definition Get_Peak :: "cap_env \<Rightarrow> string \<Rightarrow> (go_error + ConfigMap) cap" where
  "Get_Peak E ns = call (\<lambda>tr. ca_Get E tr ns capacityConfigMapName) (CGet ns capacityConfigMapName)"

definition loadPeak :: "cap_env \<Rightarrow> string \<Rightarrow> (go_error + CapacityPeak) cap" where
  "loadPeak E ns = do {
     g \<leftarrow> Get_Peak E ns;
     case g of
       Inl e \<Rightarrow>
         if IsNotFound e then ret (Inr zero_peak)
         else ret (Inl (wrapf ''failed to get peak ConfigMap: '' e))
     | Inr cm \<Rightarrow>
         (case (case cm_Data cm of None \<Rightarrow> None | Some m \<Rightarrow> m ''peak'') of
            None \<Rightarrow> ret (Inr zero_peak)
          | Some raw \<Rightarrow>
              (case ca_Unmarshal E raw of
                 Inl e \<Rightarrow> ret (Inl (wrapf ''failed to unmarshal peak data: '' e))
               | Inr peak \<Rightarrow> ret (Inr peak)))
   }"

definition new_peak_map :: "string \<Rightarrow> string \<Rightarrow> ConfigMap" where
  "new_peak_map ns raw = \<lparr>cm_Name = capacityConfigMapName, cm_Namespace = ns,
     cm_Labels = [''app.kubernetes.io/managed-by'' \<mapsto> ''itz-deployer-operator''],
     cm_Data = Some [''peak'' \<mapsto> raw]\<rparr>"

definition put_peak :: "string \<Rightarrow> ConfigMap \<Rightarrow> ConfigMap" where
  "put_peak raw cm = cm\<lparr>cm_Data := Some ((case cm_Data cm of None \<Rightarrow> Map.empty | Some m \<Rightarrow> m)(''peak'' \<mapsto> raw))\<rparr>"

definition savePeak :: "cap_env \<Rightarrow> string \<Rightarrow> CapacityPeak \<Rightarrow> (go_error option) cap" where
  "savePeak E ns peak =
     (case ca_Marshal E peak of
        Inl e \<Rightarrow> ret (Some (wrapf ''failed to marshal peak data: '' e))
      | Inr raw \<Rightarrow> do {
          g \<leftarrow> Get_Peak E ns;
          case g of
            Inl e \<Rightarrow>
              if IsNotFound e
              then call (\<lambda>tr. ca_Create E tr (new_peak_map ns raw)) (CCreate (new_peak_map ns raw))
              else ret (Some (wrapf ''failed to get peak ConfigMap for update: '' e))
          | Inr cm \<Rightarrow> call (\<lambda>tr. ca_Update E tr (put_peak raw cm)) (CUpdate (put_peak raw cm))
        })"

text \<open>The comparison of \<open>Reconcile\<close>: the peak afterwards and whether it changed.\<close>

definition raise :: "f64 \<times> f64 \<Rightarrow> CapacityPeak \<Rightarrow> CapacityPeak \<times> bool" where
  "raise r peak =
     (let (peak, updated) =
            (if fst r > CPURatio peak then (peak\<lparr>CPURatio := fst r\<rparr>, True) else (peak, False))
      in if snd r > MemoryRatio peak then (peak\<lparr>MemoryRatio := snd r\<rparr>, True) else (peak, updated))"

definition gauge :: "string \<Rightarrow> f64 \<Rightarrow> unit cap" where
  "gauge name v = emit (CGauge name v)"

text \<open>The part of \<open>Reconcile\<close> from the load on, for the ratios \<open>r\<close>.\<close>

definition track_peak :: "cap_env \<Rightarrow> string \<Rightarrow> f64 \<times> f64 \<Rightarrow> (nat \<times> go_error option) cap" where
  "track_peak E ns r = do {
     l \<leftarrow> loadPeak E ns;
     case l of
       Inl e \<Rightarrow> ret (capacityPollInterval, None)
     | Inr old \<Rightarrow> do {
         let (peak, changed) = raise r old;
         s \<leftarrow> (if changed then savePeak E ns peak else ret None);
         case s of
           Some e \<Rightarrow> ret (capacityPollInterval, None)
         | None \<Rightarrow> do {
             gauge ''PeakRequestedCPURatio'' (CPURatio peak);
             gauge ''PeakRequestedMemoryRatio'' (MemoryRatio peak);
             ret (capacityPollInterval, None)
           }
       }
   }"

definition capacity_Reconcile :: "cap_env \<Rightarrow> string \<Rightarrow> (nat \<times> go_error option) cap" where
  "capacity_Reconcile E ns = do {
     u \<leftarrow> computeUtilization E;
     case u of
       Inl e \<Rightarrow> ret (capacityPollInterval, None)
     | Inr r \<Rightarrow> do {
         gauge ''CurrentRequestedCPURatio'' (fst r);
         gauge ''CurrentRequestedMemoryRatio'' (snd r);
         track_peak E ns r
       }
   }"

section \<open>Requests and capacity\<close>

lemma container_sum_alt: "container_sum k cs = sum_list (map (request k) cs)"
proof -
  have "foldl (\<lambda>tot c. tot + request k c) t cs = t + sum_list (map (request k) cs)" for t
    by (induction cs arbitrary: t) (simp_all add: add.assoc)
  from this [of 0] show ?thesis by (simp add: container_sum_def)
qed

lemma init_max_alt: "init_max k cs = Max (insert 0 (request k ` set cs))"
proof -
  have "foldl (\<lambda>m c. if request k c > m then request k c else m) t cs = Max (insert t (request k ` set cs))" for t
  proof (induction cs arbitrary: t)
    case Nil
    then show ?case by simp
  next
    case (Cons c cs)
    have "Max (insert (max t r) S) = Max (insert t (insert r S))" if "finite S" for r :: int and S
      using that by (cases "S = {}") (simp_all add: max.assoc)
    moreover have "(if request k c > t then request k c else t) = max t (request k c)" by simp
    ultimately show ?case by (simp only: foldl.simps Cons.IH list.set image_insert finite_imageI finite_set)
  qed
  from this [of 0] show ?thesis by (simp add: init_max_def)
qed

lemma effective_max:
  "effective k pod = max (sum_list (map (request k) (cp_Containers pod)))
     (Max (insert 0 (request k ` set (cp_InitContainers pod))))"
  by (simp add: effective_def Let_def container_sum_alt init_max_alt max_def)

text \<open>Totals: over the worker nodes, over the running pods.\<close>

definition allocatable :: "string \<Rightarrow> Node \<Rightarrow> quantity" where
  "allocatable k node = (case nd_Allocatable node k of None \<Rightarrow> 0 | Some q \<Rightarrow> q)"

definition capacity :: "string \<Rightarrow> Node list \<Rightarrow> quantity" where
  "capacity k nodes = sum_list (map (allocatable k) (filter (\<lambda>n. \<not> isMasterNode n) nodes))"

definition requested :: "string \<Rightarrow> CPod list \<Rightarrow> quantity" where
  "requested k pods = sum_list (map (effective k) (filter (\<lambda>p. cp_Phase p = ''Running'') pods))"




section \<open>Ratios\<close>

text \<open>What the documentation of the library says of the two methods: the quantity in thousandths and
  in units, rounded up, as long as an \<open>int64\<close> holds it.\<close>

definition ceil_div :: "int \<Rightarrow> int \<Rightarrow> int" where
  "ceil_div a b = - ((- a) div b)"

definition milli :: "quantity \<Rightarrow> int" where "milli q = ceil_div q 1000000"
definition units :: "quantity \<Rightarrow> int" where "units q = ceil_div q 1000000000"








text \<open>An instance: the values cut to 64 bits.\<close>

definition documented_MilliValue :: "quantity \<Rightarrow> 64 word" where
  "documented_MilliValue q = word_of_int (milli q)"

definition documented_Value :: "quantity \<Rightarrow> 64 word" where
  "documented_Value q = word_of_int (units q)"




section \<open>The high watermark\<close>

text \<open>The abstract state: a pair of numbers that only grows.\<close>

definition peak_pair :: "CapacityPeak \<Rightarrow> f64 \<times> f64" where
  "peak_pair p = (CPURatio p, MemoryRatio p)"

definition raised :: "f64 \<times> f64 \<Rightarrow> f64 \<times> f64 \<Rightarrow> f64 \<times> f64" where
  "raised r p = (max (fst p) (fst r), max (snd p) (snd r))"

lemma raise_raised:
  "peak_pair (fst (raise r p)) = raised r (peak_pair p)"
  "snd (raise r p) \<longleftrightarrow> peak_pair (fst (raise r p)) \<noteq> peak_pair p"
  by (auto simp: raise_def Let_def peak_pair_def raised_def max_def)

text \<open>The peak that a config map holds, and what \<open>loadPeak\<close> makes of an answer.\<close>

definition peak_of :: "cap_env \<Rightarrow> ConfigMap option \<Rightarrow> go_error + CapacityPeak" where
  "peak_of E s =
     (case (case s of None \<Rightarrow> None | Some cm \<Rightarrow> (case cm_Data cm of None \<Rightarrow> None | Some m \<Rightarrow> m ''peak'')) of
        None \<Rightarrow> Inr zero_peak
      | Some raw \<Rightarrow> (case ca_Unmarshal E raw of
            Inl e \<Rightarrow> Inl (wrapf ''failed to unmarshal peak data: '' e) | Inr peak \<Rightarrow> Inr peak))"

text \<open>An answer that tells the truth about the stored map.\<close>

definition seen :: "ConfigMap option \<Rightarrow> cap_event \<Rightarrow> bool" where
  "seen s e = (case e of
     CGet _ _ g \<Rightarrow> (case g of Inl err \<Rightarrow> if IsNotFound err then s = None else True | Inr cm \<Rightarrow> s = Some cm)
   | _ \<Rightarrow> True)"

fun kept_map :: "ConfigMap option \<Rightarrow> cap_event \<Rightarrow> ConfigMap option" where
  "kept_map s (CCreate cm None) = Some cm"
| "kept_map s (CUpdate cm None) = Some cm"
| "kept_map s _ = s"

definition kept :: "ConfigMap option \<Rightarrow> cap_trace \<Rightarrow> ConfigMap option" where
  "kept s es = foldl kept_map s es"

lemma kept_simps [simp]:
  "kept s [] = s" "kept s (e # es) = kept (kept_map s e) es" "kept s (es @ es') = kept (kept s es) es'"
  by (simp_all add: kept_def)

text \<open>A run that failed somewhere published no peak and stored nothing; another one published the
  raised peak, stored before if it was new.\<close>

definition published :: "cap_event \<Rightarrow> bool" where
  "published e = (case e of CGauge n _ \<Rightarrow> n = ''PeakRequestedCPURatio'' \<or> n = ''PeakRequestedMemoryRatio'' | _ \<Rightarrow> False)"

definition run_peak :: "cap_env \<Rightarrow> cap_trace \<Rightarrow> bool" where
  "run_peak E es \<longleftrightarrow> (\<forall>s. list_all (seen s) es \<longrightarrow>
     (if list_ex published es then
        \<exists>old r peak. peak_of E s = Inr old \<and> peak = fst (raise r old) \<and>
          filter published es = [CGauge ''PeakRequestedCPURatio'' (CPURatio peak),
             CGauge ''PeakRequestedMemoryRatio'' (MemoryRatio peak)] \<and>
          CGauge ''CurrentRequestedCPURatio'' (fst r) \<in> set es \<and>
          CGauge ''CurrentRequestedMemoryRatio'' (snd r) \<in> set es \<and>
          peak_of E (kept s es) = Inr peak
      else kept s es = s))"

lemma published_simps [simp]:
  "\<not> published (CListNodes n)" "\<not> published (CListPods p)" "\<not> published (CGet a b g)"
  "\<not> published (CCreate cm x)" "\<not> published (CUpdate cm x)"
  "published (CGauge ''PeakRequestedCPURatio'' v)" "published (CGauge ''PeakRequestedMemoryRatio'' v)"
  "\<not> published (CGauge ''CurrentRequestedCPURatio'' v)" "\<not> published (CGauge ''CurrentRequestedMemoryRatio'' v)"
  by (simp_all add: published_def)

lemma seen_simps [simp]:
  "seen s (CListNodes n)" "seen s (CListPods p)" "seen s (CCreate cm x)" "seen s (CUpdate cm x)" "seen s (CGauge gn v)"
  "seen s (CGet a b (Inr cm)) \<longleftrightarrow> s = Some cm" "seen s (CGet a b (Inl e)) \<longleftrightarrow> (IsNotFound e \<longrightarrow> s = None)"
  by (simp_all add: seen_def)

lemma loadPeak_spec:
  "emits (loadPeak E ns) (\<lambda>l es. \<exists>g. es = [CGet ns capacityConfigMapName g] \<and>
     (\<forall>s old. seen s (CGet ns capacityConfigMapName g) \<and> l = Inr old \<longrightarrow> peak_of E s = Inr old))"
  unfolding loadPeak_def Get_Peak_def
  by (intro emit_rules) (auto simp: peak_of_def split: option.splits)

lemma savePeak_spec:
  assumes json: "\<And>p raw. ca_Marshal E p = Inr raw \<Longrightarrow> ca_Unmarshal E raw = Inr p"
  shows "emits (savePeak E ns peak) (\<lambda>x es. \<not> list_ex published es \<and>
     (\<forall>s. if x = None then peak_of E (kept s es) = Inr peak else kept s es = s))"
  unfolding savePeak_def Get_Peak_def
  by (intro emit_rules) (auto simp: peak_of_def new_peak_map_def put_peak_def json split: option.splits)

lemma computeUtilization_quiet:
  "emits (computeUtilization E) (\<lambda>u es. (\<forall>s. kept s es = s \<and> list_all (seen s) es) \<and> \<not> list_ex published es)"
  unfolding computeUtilization_def Let_def by (intro emit_rules) auto

lemma run_peak_stopped: "\<not> list_ex published es \<Longrightarrow> (\<And>s. kept s es = s) \<Longrightarrow> run_peak E es"
  by (simp add: run_peak_def)

lemma peak_pair_inject: "peak_pair p = peak_pair q \<Longrightarrow> p = q"
  by (cases p; cases q) (simp add: peak_pair_def)

definition gauged :: "cap_trace \<Rightarrow> f64 \<times> f64 \<Rightarrow> cap_trace \<Rightarrow> cap_trace" where
  "gauged pre r es = pre @ CGauge ''CurrentRequestedCPURatio'' (fst r) #
     CGauge ''CurrentRequestedMemoryRatio'' (snd r) # es"

text \<open>The interactions of a run up to the reading of the old peak.\<close>

definition reading :: "cap_trace \<Rightarrow> string \<Rightarrow> f64 \<times> f64 \<Rightarrow> go_error + ConfigMap \<Rightarrow> cap_trace" where
  "reading pre ns r g = pre @ [CGauge ''CurrentRequestedCPURatio'' (fst r),
     CGauge ''CurrentRequestedMemoryRatio'' (snd r), CGet ns capacityConfigMapName g]"

lemma reading_kept:
  assumes "(\<forall>s. kept s pre = s \<and> list_all (seen s) pre) \<and> \<not> list_ex published pre"
  shows "kept s (reading pre ns r g) = s" "\<not> list_ex published (reading pre ns r g)"
  using assms by (simp_all add: reading_def)

lemma run_peak_done:
  assumes pre: "(\<forall>s. kept s pre = s \<and> list_all (seen s) pre) \<and> \<not> list_ex published pre"
    and load: "\<And>s. seen s (CGet ns capacityConfigMapName g) \<Longrightarrow> peak_of E s = Inr old"
    and raise: "raise r old = (peak, b)"
    and save: "\<not> list_ex published es"
      "if b then \<forall>s. peak_of E (kept s es) = Inr peak else es = []"
  shows "run_peak E (reading pre ns r g @ es @ [CGauge ''PeakRequestedCPURatio'' (CPURatio peak),
     CGauge ''PeakRequestedMemoryRatio'' (MemoryRatio peak)])"
    (is "run_peak E ?es")
proof -
  have unpublished: "filter published (reading pre ns r g) = []" "filter published es = []"
    using reading_kept(2) [OF pre] save(1) by (auto simp: filter_empty_conv list_ex_iff)
  have same: "peak = old" if "\<not> b"
    using raise_raised(2) [of r old] raise that by (auto dest: peak_pair_inject)
  have "\<exists>old r' peak'. peak_of E s = Inr old \<and> peak' = fst (raise r' old) \<and>
      filter published ?es = [CGauge ''PeakRequestedCPURatio'' (CPURatio peak'),
        CGauge ''PeakRequestedMemoryRatio'' (MemoryRatio peak')] \<and>
      CGauge ''CurrentRequestedCPURatio'' (fst r') \<in> set ?es \<and>
      CGauge ''CurrentRequestedMemoryRatio'' (snd r') \<in> set ?es \<and> peak_of E (kept s ?es) = Inr peak'"
    if truth: "list_all (seen s) ?es" for s
  proof (intro exI conjI)
    show old: "peak_of E s = Inr old"
      using truth by (intro load) (simp add: reading_def)
    show "peak = fst (raise r old)" using raise by simp
    show "peak_of E (kept s ?es) = Inr peak"
      using save(2) old same pre by (auto simp: reading_kept [OF pre] split: if_splits)
  qed (simp_all add: unpublished, simp_all add: reading_def)
  then show ?thesis by (simp add: run_peak_def)
qed

lemma track_peak_spec:
  assumes json: "\<And>p raw. ca_Marshal E p = Inr raw \<Longrightarrow> ca_Unmarshal E raw = Inr p"
    and pre: "(\<forall>s. kept s pre = s \<and> list_all (seen s) pre) \<and> \<not> list_ex published pre"
  shows "emits (track_peak E ns r) (\<lambda>x es. x = (capacityPollInterval, None) \<and>
     run_peak E (gauged pre r es))"
  unfolding track_peak_def gauge_def
proof (rule emits_bind [OF loadPeak_spec], rule emits_sum)
  fix l es and e :: go_error
  assume "\<exists>g. es = [CGet ns capacityConfigMapName g] \<and>
     (\<forall>s old. seen s (CGet ns capacityConfigMapName g) \<and> l = Inr old \<longrightarrow> peak_of E s = Inr old)"
  then show "emits (ret (capacityPollInterval, None)) (\<lambda>x es'. x = (capacityPollInterval, None) \<and> run_peak E (gauged pre r (es @ es')))"
    using pre by (intro emits_ret) (auto intro!: run_peak_stopped simp: gauged_def)
next
  fix l es old
  assume "\<exists>g. es = [CGet ns capacityConfigMapName g] \<and>
     (\<forall>s old. seen s (CGet ns capacityConfigMapName g) \<and> l = Inr old \<longrightarrow> peak_of E s = Inr old)" "l = Inr old"
  then obtain g where es: "es = [CGet ns capacityConfigMapName g]"
    and load: "\<And>s. seen s (CGet ns capacityConfigMapName g) \<Longrightarrow> peak_of E s = Inr old"
    by auto
  obtain peak b where raise: "raise r old = (peak, b)" by (cases "raise r old")
  have saved: "emits (if b then savePeak E ns peak else ret None) (\<lambda>x es. \<not> list_ex published es \<and>
      (if b then \<forall>s. if x = None then peak_of E (kept s es) = Inr peak else kept s es = s
       else es = [] \<and> x = None))"
    by (cases b) (auto intro: emits_mono [OF savePeak_spec [OF json]] emits_ret)
  have gauges: "gauged pre r (es @ es2) = reading pre ns r g @ es2" for es2
    by (simp add: es reading_def gauged_def)
  have stop: "run_peak E (reading pre ns r g @ es2)"
    if "\<not> list_ex published es2" "\<And>s. kept s es2 = s" for es2
    using that reading_kept [OF pre] by (intro run_peak_stopped) simp_all
  have done': "run_peak E (reading pre ns r g @ es2 @ [CGauge ''PeakRequestedCPURatio'' (CPURatio peak),
      CGauge ''PeakRequestedMemoryRatio'' (MemoryRatio peak)])"
    if "\<not> list_ex published es2" "if b then \<forall>s. peak_of E (kept s es2) = Inr peak else es2 = []" for es2
    by (rule run_peak_done [OF pre load raise that])
  show "emits (let (peak, changed) = raise r old in
      State_Monad.bind (if changed then savePeak E ns peak else ret None)
       (\<lambda>s. case s of None \<Rightarrow> State_Monad.bind (emit (CGauge ''PeakRequestedCPURatio'' (CPURatio peak)))
           (\<lambda>_. State_Monad.bind (emit (CGauge ''PeakRequestedMemoryRatio'' (MemoryRatio peak)))
             (\<lambda>_. ret (capacityPollInterval, None)))
        | Some e \<Rightarrow> ret (capacityPollInterval, None)))
    (\<lambda>x es'. x = (capacityPollInterval, None) \<and> run_peak E (gauged pre r (es @ es')))"
    unfolding raise Let_def prod.case gauges
    by (rule emits_bind [OF saved], intro emit_rules) (auto intro: stop done' done' [of "[]", simplified] split: if_splits)
qed

lemma capacity_Reconcile_spec:
  assumes json: "\<And>p raw. ca_Marshal E p = Inr raw \<Longrightarrow> ca_Unmarshal E raw = Inr p"
  shows "emits (capacity_Reconcile E ns) (\<lambda>x es. x = (capacityPollInterval, None) \<and> run_peak E es)"
  unfolding capacity_Reconcile_def gauge_def
  by (rule emits_bind [OF computeUtilization_quiet], intro emit_rules)
    (simp_all add: run_peak_stopped gauged_def [symmetric] track_peak_spec [OF json])

text \<open>One run over the stored config map, with one writer (the elected leader).\<close>

inductive peak_step :: "cap_env \<Rightarrow> ConfigMap option \<Rightarrow> ConfigMap option \<Rightarrow> bool" for E where
  "es = events (capacity_Reconcile E ns) tr \<Longrightarrow> list_all (seen s) es \<Longrightarrow> peak_step E s (kept s es)"

lemma raise_above: "p \<le> fst (raise r p)"
  using raise_raised(1) [of r p] by (simp add: peak_pair_def raised_def peak_le_iff max_def)

lemma peak_step_rises:
  assumes json: "\<And>p raw. ca_Marshal E p = Inr raw \<Longrightarrow> ca_Unmarshal E raw = Inr p"
    and "peak_step E s s'" "peak_of E s = Inr p"
  shows "\<exists>p'. peak_of E s' = Inr p' \<and> p \<le> p'"
  using assms(2)
proof cases
  case (1 es ns tr)
  have "run_peak E es"
    using emitsD [OF capacity_Reconcile_spec [OF json], of ns tr] 1 by blast
  then show ?thesis
    using 1 assms(3) raise_above by (fastforce simp: run_peak_def split: if_splits)
qed

section \<open>Properties\<close>

text \<open>C35: The requests of a pod that count are, for cpu and memory each, the larger of the sum over
  its containers and the largest init container, as the scheduler reserves them.\<close>

theorem effective_requests:
  "effectivePodRequests pod =
     (max (sum_list (map (request ''cpu'') (cp_Containers pod)))
        (Max (insert 0 (request ''cpu'' ` set (cp_InitContainers pod)))),
      max (sum_list (map (request ''memory'') (cp_Containers pod)))
        (Max (insert 0 (request ''memory'' ` set (cp_InitContainers pod)))))"
  by (simp add: effectivePodRequests_def effective_max)


text \<open>C31: A run always answers to come back in five minutes, without an error. It publishes the peak
  gauges only when everything went well, and then what it publishes is the old peak raised to the
  current ratios, and is what the config map holds afterwards; otherwise the config map is as
  before.\<close>

theorem published_peak_is_stored:
  assumes "\<And>p raw. ca_Marshal E p = Inr raw \<Longrightarrow> ca_Unmarshal E raw = Inr p"
  shows "emits (capacity_Reconcile E ns) (\<lambda>x es. x = (300, None) \<and> run_peak E es)"
  using capacity_Reconcile_spec [OF assms, of ns] by (simp add: capacityPollInterval_def)

text \<open>C30: The high watermark: over any number of runs, whatever the cluster answers and whichever
  writes fail, the stored peak never falls and never becomes unreadable.\<close>

theorem peak_never_falls:
  assumes "\<And>p raw. ca_Marshal E p = Inr raw \<Longrightarrow> ca_Unmarshal E raw = Inr p"
    and "(peak_step E)\<^sup>*\<^sup>* s s'" and "peak_of E s = Inr p"
  shows "\<exists>p'. peak_of E s' = Inr p' \<and> CPURatio p \<le> CPURatio p' \<and> MemoryRatio p \<le> MemoryRatio p'"
proof -
  have "\<exists>p'. peak_of E s' = Inr p' \<and> p \<le> p'"
    using assms(2)
  proof (induction rule: rtranclp_induct)
    case base
    then show ?case using assms(3) by blast
  next
    case (step a b)
    then show ?case using peak_step_rises [OF assms(1) step(2)] by (blast intro: order_trans)
  qed
  then show ?thesis by (simp add: peak_le_iff)
qed

text \<open>A cluster with one worker of two cores and two bytes and one pod that asks for half of it; the
  codec knows the one peak that arises.\<close>

definition sample_peak :: CapacityPeak where
  "sample_peak = \<lparr>CPURatio = Fin (1 / 2), MemoryRatio = Fin (1 / 2)\<rparr>"

definition sample_cap_env :: cap_env where
  "sample_cap_env = \<lparr>
     ca_Nodes = (\<lambda>_. Inr [\<lparr>nd_Taints = [], nd_Labels = Map.empty,
       nd_Allocatable = [''cpu'' \<mapsto> 2000000000, ''memory'' \<mapsto> 2000000000]\<rparr>]),
     ca_Pods = (\<lambda>_. Inr [\<lparr>cp_Phase = ''Running'',
       cp_Containers = [\<lparr>cc_Requests = [''cpu'' \<mapsto> 1000000000, ''memory'' \<mapsto> 1000000000]\<rparr>],
       cp_InitContainers = []\<rparr>]),
     ca_Get = (\<lambda>_ _ _. Inl (GoError NotFound ''not found'')),
     ca_Create = (\<lambda>_ _. None), ca_Update = (\<lambda>_ _. None),
     ca_Marshal = (\<lambda>p. if p = sample_peak then Inr ''peak'' else Inl (Errorf ''unsupported value'')),
     ca_Unmarshal = (\<lambda>s. if s = ''peak'' then Inr sample_peak else Inl (Errorf ''unexpected end'')),
     ca_MilliValue = documented_MilliValue, ca_Value = documented_Value\<rparr>"



lemma sample_json: "ca_Marshal sample_cap_env p = Inr raw \<Longrightarrow> ca_Unmarshal sample_cap_env raw = Inr p"
  by (auto simp: sample_cap_env_def split: if_splits)

definition sample_cap_run :: cap_trace where
  "sample_cap_run = events (capacity_Reconcile sample_cap_env ''operator'') []"

fun unfound :: "cap_event \<Rightarrow> bool" where
  "unfound (CGet _ _ (Inr _)) = False"
| "unfound _ = True"

lemma unfound_seen: "unfound e \<Longrightarrow> seen None e"
  by (cases e rule: unfound.cases) auto

lemma published_peak_is_stored_witness:
  "list_ex published sample_cap_run \<and> run_peak sample_cap_env sample_cap_run"
proof
  show "list_ex published sample_cap_run" by code_simp
  show "run_peak sample_cap_env sample_cap_run"
    unfolding sample_cap_run_def
    using emitsD [OF published_peak_is_stored [OF sample_json], of "''operator''" "[]"] by blast
qed

lemma peak_never_falls_witness:
  "\<exists>p'. peak_of sample_cap_env (kept None sample_cap_run) = Inr p' \<and>
     CPURatio zero_peak \<le> CPURatio p' \<and> MemoryRatio zero_peak \<le> MemoryRatio p'"
proof (rule peak_never_falls [OF sample_json])
  have "list_all unfound sample_cap_run" by code_simp
  then have "list_all (seen None) sample_cap_run"
    by (rule list.pred_mono_strong) (simp add: unfound_seen)
  then have "peak_step sample_cap_env None (kept None sample_cap_run)"
    by (rule peak_step.intros [OF sample_cap_run_def])
  then show "(peak_step sample_cap_env)\<^sup>*\<^sup>* None (kept None sample_cap_run)" by (rule r_into_rtranclp)
  show "peak_of sample_cap_env None = Inr zero_peak" by (simp add: peak_of_def)
qed

end
