(* ===== verification/Metrics.thy ===== *)
theory Metrics
  imports Capacity
begin

text \<open>
  The collectors of \<open>pkg/metrics/metrics.go\<close> and what their registration asks for. A metric is named
  by its namespace, subsystem and name, joined by underscores; \<open>MustRegister\<close> panics when two have
  one name or a name is not valid, and a histogram panics when its buckets do not rise or a label is
  \<open>le\<close>. The lemmas show that the start of the program cannot panic here and that each gauge the
  capacity reconciler sets is one of those that are registered.
\<close>

datatype collector =
    HistogramVec "int list" "string list"  \<comment> \<open>buckets and labels\<close>
  | CounterVec "string list"
  | Gauge

record metric =
  mt_Var :: string  \<comment> \<open>the Go variable\<close>
  mt_Namespace :: string
  mt_Subsystem :: string
  mt_Name :: string
  mt_Help :: string
  mt_Collector :: collector

definition DeploymentDuration :: metric where
  "DeploymentDuration = \<lparr>mt_Var = ''DeploymentDuration'', mt_Namespace = ''itz'', mt_Subsystem = ''deployer'',
     mt_Name = ''deployment_duration_seconds'',
     mt_Help = ''Time in seconds from Deployment CR creation to terminal state.'',
     mt_Collector = HistogramVec [60, 300, 600, 900, 1800, 3600, 7200] [''repo_name'', ''release'', ''phase'']\<rparr>"

definition DeploymentPhaseTransitions :: metric where
  "DeploymentPhaseTransitions = \<lparr>mt_Var = ''DeploymentPhaseTransitions'', mt_Namespace = ''itz'',
     mt_Subsystem = ''deployer'', mt_Name = ''phase_transitions_total'',
     mt_Help = ''Total number of Deployment phase transitions by phase.'',
     mt_Collector = CounterVec [''repo_name'', ''phase'']\<rparr>"

definition PeakRequestedCPURatio :: metric where
  "PeakRequestedCPURatio = \<lparr>mt_Var = ''PeakRequestedCPURatio'', mt_Namespace = ''itz'', mt_Subsystem = ''cluster'',
     mt_Name = ''peak_requested_cpu_ratio'',
     mt_Help = ''Highest observed ratio of pod CPU requests to node allocatable CPU.'', mt_Collector = Gauge\<rparr>"

definition PeakRequestedMemoryRatio :: metric where
  "PeakRequestedMemoryRatio = \<lparr>mt_Var = ''PeakRequestedMemoryRatio'', mt_Namespace = ''itz'',
     mt_Subsystem = ''cluster'', mt_Name = ''peak_requested_memory_ratio'',
     mt_Help = ''Highest observed ratio of pod memory requests to node allocatable memory.'', mt_Collector = Gauge\<rparr>"

definition CurrentRequestedCPURatio :: metric where
  "CurrentRequestedCPURatio = \<lparr>mt_Var = ''CurrentRequestedCPURatio'', mt_Namespace = ''itz'',
     mt_Subsystem = ''cluster'', mt_Name = ''current_requested_cpu_ratio'',
     mt_Help = ''Current ratio of pod CPU requests to node allocatable CPU.'', mt_Collector = Gauge\<rparr>"

definition CurrentRequestedMemoryRatio :: metric where
  "CurrentRequestedMemoryRatio = \<lparr>mt_Var = ''CurrentRequestedMemoryRatio'', mt_Namespace = ''itz'',
     mt_Subsystem = ''cluster'', mt_Name = ''current_requested_memory_ratio'',
     mt_Help = ''Current ratio of pod memory requests to node allocatable memory.'', mt_Collector = Gauge\<rparr>"

text \<open>The arguments of \<open>MustRegister\<close> in \<open>init\<close>.\<close>

definition init_metrics :: "metric list" where
  "init_metrics = [DeploymentDuration, DeploymentPhaseTransitions, PeakRequestedCPURatio,
     PeakRequestedMemoryRatio, CurrentRequestedCPURatio, CurrentRequestedMemoryRatio]"

lemmas metric_defs = DeploymentDuration_def DeploymentPhaseTransitions_def PeakRequestedCPURatio_def
  PeakRequestedMemoryRatio_def CurrentRequestedCPURatio_def CurrentRequestedMemoryRatio_def

section \<open>Registration\<close>

definition fq_name :: "metric \<Rightarrow> string" where
  "fq_name m = mt_Namespace m @ ''_'' @ mt_Subsystem m @ ''_'' @ mt_Name m"

definition name_char :: "char \<Rightarrow> bool" where
  "name_char c \<longleftrightarrow> (let n = of_char c :: nat in
     (97 \<le> n \<and> n \<le> 122) \<or> (65 \<le> n \<and> n \<le> 90) \<or> (48 \<le> n \<and> n \<le> 57) \<or> n = 95)"

definition valid_name :: "string \<Rightarrow> bool" where
  "valid_name s \<longleftrightarrow> s \<noteq> [] \<and> list_all name_char s \<and> \<not> (48 \<le> (of_char (hd s) :: nat) \<and> (of_char (hd s) :: nat) \<le> 57)"

fun collector_ok :: "collector \<Rightarrow> bool" where
  "collector_ok (HistogramVec bs ls) \<longleftrightarrow> sorted_wrt (<) bs \<and> list_all (\<lambda>l. valid_name l \<and> l \<noteq> ''le'') ls \<and> distinct ls"
| "collector_ok (CounterVec ls) \<longleftrightarrow> list_all valid_name ls \<and> distinct ls"
| "collector_ok Gauge \<longleftrightarrow> True"

text \<open>\<open>None\<close> is a panic.\<close>

fun MustRegister :: "string list \<Rightarrow> metric list \<Rightarrow> string list option" where
  "MustRegister names [] = Some names"
| "MustRegister names (m # ms) =
     (if collector_ok (mt_Collector m) \<and> valid_name (fq_name m) \<and> fq_name m \<notin> set names
      then MustRegister (names @ [fq_name m]) ms else None)"

lemma MustRegister_ok:
  "list_all (\<lambda>m. collector_ok (mt_Collector m) \<and> valid_name (fq_name m)) ms \<Longrightarrow> distinct (names @ map fq_name ms) \<Longrightarrow>
     MustRegister names ms = Some (names @ map fq_name ms)"
  by (induction names ms rule: MustRegister.induct) auto

lemma init_metrics_ok:
  "list_all (\<lambda>m. collector_ok (mt_Collector m) \<and> valid_name (fq_name m)) init_metrics"
  "distinct (map fq_name init_metrics)"
  by code_simp+

lemma init_never_panics: "MustRegister [] init_metrics = Some (map fq_name init_metrics)"
  using MustRegister_ok [OF init_metrics_ok(1), of "[]"] init_metrics_ok(2) by simp

section \<open>The gauges that are set\<close>

definition registered_gauge :: "cap_event \<Rightarrow> bool" where
  "registered_gauge e = (case e of
     CGauge n v \<Rightarrow> list_ex (\<lambda>m. mt_Var m = n \<and> mt_Collector m = Gauge) init_metrics
   | _ \<Rightarrow> True)"

lemma registered_gauge_simps [simp]:
  "registered_gauge (CListNodes n)" "registered_gauge (CListPods p)" "registered_gauge (CGet a b g)"
  "registered_gauge (CCreate cm x)" "registered_gauge (CUpdate cm x)"
  "registered_gauge (CGauge ''PeakRequestedCPURatio'' v)" "registered_gauge (CGauge ''PeakRequestedMemoryRatio'' v)"
  "registered_gauge (CGauge ''CurrentRequestedCPURatio'' v)" "registered_gauge (CGauge ''CurrentRequestedMemoryRatio'' v)"
  by (simp_all add: registered_gauge_def init_metrics_def metric_defs)

lemma gauges_registered: "only registered_gauge (capacity_Reconcile E ns)"
proof -
  have "only registered_gauge (computeUtilization E)" "only registered_gauge (loadPeak E ns)"
    "only registered_gauge (savePeak E ns p)" for p
    unfolding computeUtilization_def loadPeak_def savePeak_def Get_Peak_def Let_def by (intro only_rules; simp)+
  then show ?thesis
    unfolding capacity_Reconcile_def track_peak_def gauge_def Let_def case_prod_beta
    by (intro only_rules) simp_all
qed

end
