(* ===== verification/Retry.thy ===== *)
theory Retry
  imports Samples
begin

text \<open>
  Retrying with back-off: the helper \<open>retry\<close> that \<open>pkg/rbac/rbac.go\<close> and \<open>pkg/tasks/sync.go\<close>
  define in the same words, and the retrieval of the GitHub token that both build on it. The
  back-off library is outside the repository (\<open>Retry\<close> in \<open>Effects\<close>); the helper builds its options.
  What the callers rely on is the locale \<open>retrying\<close>.
\<close>

section \<open>Operations\<close>

text \<open>\<open>360 * time.Second\<close>, in nanoseconds.\<close>

definition retryMaxElapsed :: int where "retryMaxElapsed = 360 * 1000000000"

definition retry :: "env \<Rightarrow> (go_error + 'a) op \<Rightarrow> (go_error + 'a) op" where
  "retry E attempt =
     (let b = ExponentialBackOff;
          opts = [WithBackOff b, WithMaxElapsedTime retryMaxElapsed]
      in Retry E opts attempt)"

text \<open>\<open>getGitHubPAT\<close> of \<open>pkg/rbac\<close>.\<close>

definition getGitHubPAT :: "env \<Rightarrow> OperatorConfig \<Rightarrow> (go_error + string) op" where
  "getGitHubPAT E cfg = do {
     k \<leftarrow> retry E (GetIBMAPIKey E);
     case k of
       Inl e \<Rightarrow> ret (Inl (wrapf ''failed to get IBM API key: '' e))
     | Inr apiKey \<Rightarrow> do {
         c \<leftarrow> retry E (CreateSecretsManagerClient E apiKey cfg);
         case c of
           Inl e \<Rightarrow> ret (Inl (wrapf ''failed to create Secrets Manager client: '' e))
         | Inr smClient \<Rightarrow> do {
             p \<leftarrow> retry E (GetGitHubPAT E smClient (oc_SecretsManagerSecretID cfg));
             case p of
               Inl e \<Rightarrow> ret (Inl (wrapf ''failed to get GitHub PAT: '' e))
             | Inr pat \<Rightarrow> ret (Inr pat)
           }
       }
   }"

text \<open>\<open>fetchPAT\<close> of \<open>pkg/tasks\<close>.\<close>

definition fetchPAT :: "env \<Rightarrow> OperatorConfig \<Rightarrow> (go_error + string) op" where
  "fetchPAT E cfg = do {
     k \<leftarrow> retry E (GetIBMAPIKey E);
     case k of
       Inl e \<Rightarrow> ret (Inl (wrapf ''failed to get IBM API key: '' e))
     | Inr apiKey \<Rightarrow> do {
         c \<leftarrow> retry E (CreateSecretsManagerClient E apiKey cfg);
         case c of
           Inl e \<Rightarrow> ret (Inl (wrapf ''failed to create Secrets Manager client: '' e))
         | Inr smClient \<Rightarrow> do {
             p \<leftarrow> retry E (GetGitHubPAT E smClient (oc_SecretsManagerSecretID cfg));
             case p of
               Inl e \<Rightarrow> ret (Inl (wrapf ''failed to get GitHub PAT: '' e))
             | Inr pat \<Rightarrow> ret (Inr pat)
           }
       }
   }"

lemma fetchPAT_eq: "fetchPAT E cfg = getGitHubPAT E cfg"
  by (simp add: fetchPAT_def getGitHubPAT_def)

section \<open>What callers rely on\<close>

text \<open>What holds of a successful attempt holds of the last part of the retried run; before it come
  failed attempts and the dealings of the library, which nothing but \<open>ERetry\<close> records.\<close>

locale retrying =
  fixes R :: "(go_error + 'a) op \<Rightarrow> (go_error + 'a) op"
  assumes contract:
    "emits m (\<lambda>r es. case r of Inl _ \<Rightarrow> \<forall>e \<in> set es. P e | Inr v \<Rightarrow> \<Psi> v es) \<Longrightarrow>
     (\<And>opts n. P (ERetry opts n)) \<Longrightarrow>
     emits (R m) (\<lambda>r es. case r of Inl _ \<Rightarrow> \<forall>e \<in> set es. P e | Inr v \<Rightarrow> later P (\<Psi> v) es)"
begin

lemma only_attempts:
  assumes "only P m" and "\<And>opts n. P (ERetry opts n)"
  shows "only P (R m)"
proof (rule onlyI, rule emits_mono [OF contract [where P = P and \<Psi> = "\<lambda>_ es. \<forall>e \<in> set es. P e"]])
  show "emits m (\<lambda>r es. case r of Inl _ \<Rightarrow> \<forall>e \<in> set es. P e | Inr v \<Rightarrow> \<forall>e \<in> set es. P e)"
    by (rule emits_mono [OF only_emits [OF assms(1)]]) (simp split: sum.split)
qed (use assms(2) in \<open>auto simp: later_def split: sum.splits\<close>)

text \<open>A successful result is a result of the attempt.\<close>

lemma result_of_attempt:
  assumes "emits m (\<lambda>r es. case r of Inl _ \<Rightarrow> True | Inr v \<Rightarrow> \<Psi> v es)"
  shows "emits (R m) (\<lambda>r es. case r of Inl _ \<Rightarrow> True | Inr v \<Rightarrow> later (\<lambda>_. True) (\<Psi> v) es)"
  by (rule emits_mono [OF contract [where P = "\<lambda>_. True"]]) (use assms in \<open>auto split: sum.splits\<close>)

end

lemma emits_attempts:
  assumes "emits m (\<lambda>r es. case r of Inl _ \<Rightarrow> \<forall>e \<in> set es. P e | Inr v \<Rightarrow> \<Psi> v es)"
  shows "emits (attempts E opts n m) (\<lambda>r es. case r of Inl _ \<Rightarrow> \<forall>e \<in> set es. P e
     | Inr v \<Rightarrow> later P (\<Psi> v) es)"
proof (induction n)
  case 0
  then show ?case by (simp add: emits_asks_at)
next
  case (Suc n)
  show ?case
    unfolding attempts.simps
    by (intro emits_bind [OF assms] emits_sum emits_mono [OF Suc.IH] emits_ret)
      (auto intro: later_append later_now split: sum.splits)
qed

interpretation backoff: retrying "retry E"
proof
  fix m :: "(go_error + 'a) op" and P \<Psi>
  assume m: "emits m (\<lambda>r es. case r of Inl _ \<Rightarrow> \<forall>e \<in> set es. P e | Inr v \<Rightarrow> \<Psi> v es)"
    and P: "\<And>opts n. P (ERetry opts n)"
  have later: "later P Q (ERetry opts n # es)" if "later P Q es" for Q opts n es
    by (rule later_Cons [OF that]) (rule P)
  show "emits (retry E m) (\<lambda>r es. case r of Inl _ \<Rightarrow> \<forall>e \<in> set es. P e | Inr v \<Rightarrow> later P (\<Psi> v) es)"
    unfolding retry_def Retry_def Let_def
    by (intro emits_bind [OF emits_call [where \<Phi> = "\<lambda>n es. es = [ERetry _ n]"]] emits_mono [OF emits_attempts [OF m]])
      (auto simp: P later split: sum.splits)
qed

lemmas only_retry [only_rules] = backoff.only_attempts

lemmas emits_retry_result = backoff.result_of_attempt

section \<open>Where the token comes from\<close>

text \<open>The interactions tell that \<open>pat\<close> was served for this configuration.\<close>

definition pat_served :: "OperatorConfig \<Rightarrow> string \<Rightarrow> trace \<Rightarrow> bool" where
  "pat_served cfg pat es \<longleftrightarrow> (\<exists>m key payload.
     EGetSecret ''kube-system'' ''ibm-secret'' (Inr m) \<in> set es \<and> m ''apiKey'' = Some key \<and>
     ENewSecretsManager key (oc_SecretsManagerURL cfg) None \<in> set es \<and>
     ESecretsManagerGet (oc_SecretsManagerSecretID cfg) (Inr (ArbitrarySecret (Some payload))) \<in> set es \<and>
     pat = TrimSpace payload)"

lemma pat_served_append [simp]:
  "pat_served cfg pat es \<Longrightarrow> pat_served cfg pat (pre @ es)"
  "pat_served cfg pat es \<Longrightarrow> pat_served cfg pat (es @ post)"
  unfolding pat_served_def by fastforce+

lemma getGitHubPAT_inert: "only inert (getGitHubPAT E cfg)"
  by (auto simp: getGitHubPAT_def interface_defs intro!: only_rules)

lemma GetGitHubPAT_payload:
  "emits (GetGitHubPAT E smc secret) (\<lambda>r es. case r of Inl _ \<Rightarrow> True
     | Inr pat \<Rightarrow> \<exists>payload. pat = TrimSpace payload \<and>
         ESecretsManagerGet secret (Inr (ArbitrarySecret (Some payload))) \<in> set es)"
  by (auto simp: interface_defs intro!: emit_rules)

lemma CreateSecretsManagerClient_address:
  "emits (CreateSecretsManagerClient E key cfg) (\<lambda>r es. case r of Inl _ \<Rightarrow> True
     | Inr smc \<Rightarrow> ENewSecretsManager key (oc_SecretsManagerURL cfg) None \<in> set es)"
  by (auto simp: interface_defs intro!: emit_rules)

lemma GetIBMAPIKey_key:
  "emits (GetIBMAPIKey E) (\<lambda>r es. case r of Inl _ \<Rightarrow> True
     | Inr key \<Rightarrow> \<exists>m. EGetSecret ''kube-system'' ''ibm-secret'' (Inr m) \<in> set es \<and> m ''apiKey'' = Some key)"
  by (auto simp: interface_defs IBMSecretNamespace_def IBMSecretName_def intro!: emit_rules)

lemma getGitHubPAT_served:
  "emits (getGitHubPAT E cfg) (\<lambda>r es. case r of Inl _ \<Rightarrow> True | Inr pat \<Rightarrow> pat_served cfg pat es)"
  unfolding getGitHubPAT_def
proof (rule emits_bind [OF emits_retry_result [OF GetIBMAPIKey_key]], rule emits_sum, goal_cases)
  case (2 r es key)
  then obtain m where m: "EGetSecret ''kube-system'' ''ibm-secret'' (Inr m) \<in> set es" "m ''apiKey'' = Some key"
    by (fastforce simp: later_def)
  show ?case
  proof (rule emits_bind [OF emits_retry_result [OF CreateSecretsManagerClient_address]], rule emits_sum, goal_cases)
    case (2 r es2 smc)
    then have c: "ENewSecretsManager key (oc_SecretsManagerURL cfg) None \<in> set es2"
      by (auto simp: later_def)
    show ?case
    proof (rule emits_bind [OF emits_retry_result [OF GetGitHubPAT_payload]], rule emits_sum, goal_cases)
      case (2 r es3 pat)
      then obtain payload where "pat = TrimSpace payload"
          "ESecretsManagerGet (oc_SecretsManagerSecretID cfg) (Inr (ArbitrarySecret (Some payload))) \<in> set es3"
        by (fastforce simp: later_def)
      with m c have "pat_served cfg pat (es @ es2 @ es3)"
        unfolding pat_served_def set_append by blast
      then show ?case by (simp add: emits_ret)
    qed (simp add: emits_ret)
  qed (simp add: emits_ret)
qed (simp add: emits_ret)

end
