(* ===== verification/Rbac.thy ===== *)
theory Rbac
  imports Retry
begin

text \<open>
  The RBAC bootstrap, \<open>pkg/rbac/rbac.go\<close>: the role binding of the pipeline's service account, the
  secrets that hold the GitHub token and their mounting. Every operation takes the client and the
  services from the environment.
\<close>

definition PipelineNamespace :: string where "PipelineNamespace = ''default''"
definition ArgoCDNamespace :: string where "ArgoCDNamespace = ''openshift-gitops''"
definition ArgoCDSecretName :: string where "ArgoCDSecretName = ''ibm-connection-auth''"

section \<open>Operations\<close>

definition SecretTypeBasicAuth :: string where "SecretTypeBasicAuth = ''kubernetes.io/basic-auth''"

definition argocd_secret :: "string \<Rightarrow> string \<Rightarrow> string \<Rightarrow> string \<Rightarrow> string \<Rightarrow> Secret" where
  "argocd_secret namespace secretName repo username pat =
     \<lparr>sc_Meta = (named secretName namespace)\<lparr>om_Labels := [''argocd.argoproj.io/secret-type'' \<mapsto> ''repository'']\<rparr>,
      sc_Annotations = Map.empty, sc_Type = SecretTypeBasicAuth,
      sc_StringData = [''url'' \<mapsto> repo, ''username'' \<mapsto> username, ''password'' \<mapsto> pat]\<rparr>"

definition create_or_keep :: "env \<Rightarrow> string \<Rightarrow> string \<Rightarrow> Secret \<Rightarrow> (go_error + Secret) op" where
  "create_or_keep E secretName namespace secret = do {
     r \<leftarrow> Create_Secret E secret;
     case r of
       Inr s \<Rightarrow> ret (Inr s)
     | Inl e \<Rightarrow>
         if IsAlreadyExists e then ret (Inr secret)
         else ret (Inl (wrapf (''failed to create secret '' @ secretName @ '' in namespace '' @ namespace @ '': '') e))
   }"

definition createArgoCDSecret ::
  "env \<Rightarrow> string \<Rightarrow> string \<Rightarrow> string \<Rightarrow> string \<Rightarrow> string \<Rightarrow> (go_error + Secret) op" where
  "createArgoCDSecret E namespace secretName repo username pat =
     create_or_keep E secretName namespace (argocd_secret namespace secretName repo username pat)"

definition github_secret :: "string \<Rightarrow> string \<Rightarrow> string \<Rightarrow> string \<Rightarrow> Secret" where
  "github_secret namespace secretName username pat =
     \<lparr>sc_Meta = named secretName namespace,
      sc_Annotations = [''tekton.dev/git-0'' \<mapsto> ''https://github.ibm.com''],
      sc_Type = SecretTypeBasicAuth,
      sc_StringData = [''username'' \<mapsto> username, ''password'' \<mapsto> pat]\<rparr>"

definition createGitHubSecret :: "env \<Rightarrow> string \<Rightarrow> string \<Rightarrow> string \<Rightarrow> string \<Rightarrow> (go_error + Secret) op" where
  "createGitHubSecret E namespace secretName username pat =
     create_or_keep E secretName namespace (github_secret namespace secretName username pat)"

definition CreateArgoCDRBAC :: "lib \<Rightarrow> env \<Rightarrow> (go_error option) op" where
  "CreateArgoCDRBAC L E = do {
     c \<leftarrow> LoadFromConfigMap L E;
     case c of
       Inl e \<Rightarrow> ret (Some e)
     | Inr cfg \<Rightarrow> do {
         p \<leftarrow> getGitHubPAT E cfg;
         case p of
           Inl e \<Rightarrow> ret (Some e)
         | Inr githubPAT \<Rightarrow> do {
             s \<leftarrow> retry E (createArgoCDSecret E ArgoCDNamespace ArgoCDSecretName (oc_ArgoCDRepoURL cfg)
                    GitHubUsername githubPAT);
             case s of
               Inl e \<Rightarrow> ret (Some (wrapf ''failed to create ArgoCD GitHub secret: '' e))
             | Inr _ \<Rightarrow> ret None
           }
       }
   }"

definition pipeline_binding :: ClusterRoleBinding where
  "pipeline_binding = \<lparr>cb_Meta = named ''pipeline-clusteradmin-crb'' [],
     cb_Subjects = [\<lparr>sj_Kind = ''ServiceAccount'', sj_Name = PipelineServiceAccount,
       sj_Namespace = PipelineNamespace\<rparr>],
     cb_RoleRef = \<lparr>rr_Kind = ''ClusterRole'', rr_Name = ''cluster-admin'',
       rr_APIGroup = ''rbac.authorization.k8s.io''\<rparr>\<rparr>"

definition createPipelineRBAC :: "env \<Rightarrow> (go_error option) op" where
  "createPipelineRBAC E = do {
     r \<leftarrow> Get_ClusterRoleBinding E (om_Name (cb_Meta pipeline_binding));
     case r of
       Inl e \<Rightarrow>
         if IsNotFound e
         then do { c \<leftarrow> Create_ClusterRoleBinding E pipeline_binding; ret (error_of c) }
         else ret (Some e)
     | Inr _ \<Rightarrow> do { u \<leftarrow> Update_ClusterRoleBinding E pipeline_binding; ret (error_of u) }
   }"

definition with_secret :: "string \<Rightarrow> ServiceAccount \<Rightarrow> ServiceAccount" where
  "with_secret secretName sa = sa\<lparr>sa_Secrets := sa_Secrets sa @ [secretName],
     sa_ImagePullSecrets := sa_ImagePullSecrets sa @ [secretName]\<rparr>"

definition mountSecretToServiceAccount :: "env \<Rightarrow> string \<Rightarrow> string \<Rightarrow> string \<Rightarrow> (go_error option) op" where
  "mountSecretToServiceAccount E namespace saName secretName = do {
     r \<leftarrow> Get_ServiceAccount E namespace saName;
     case r of
       Inl e \<Rightarrow> ret (Some (wrapf (''failed to get service account '' @ saName @ '': '') e))
     | Inr sa \<Rightarrow>
         if List.member (sa_Secrets sa) secretName then ret None
         else do {
           u \<leftarrow> Update_ServiceAccount E (with_secret secretName sa);
           case u of
             Inl e \<Rightarrow> ret (Some (wrapf (''failed to update service account '' @ saName @ '': '') e))
           | Inr _ \<Rightarrow> ret None
         }
   }"

text \<open>A function that returns only an error, as the operation of \<open>retry\<close>.\<close>

definition no_value :: "(go_error option) op \<Rightarrow> (go_error + unit) op" where
  "no_value m = do { r \<leftarrow> m; ret (case r of None \<Rightarrow> Inr () | Some e \<Rightarrow> Inl e) }"

definition createPipelineSecretAndMount :: "env \<Rightarrow> OperatorConfig \<Rightarrow> (go_error option) op" where
  "createPipelineSecretAndMount E cfg = do {
     p \<leftarrow> getGitHubPAT E cfg;
     case p of
       Inl e \<Rightarrow> ret (Some e)
     | Inr githubPAT \<Rightarrow> do {
         s \<leftarrow> retry E (createGitHubSecret E PipelineNamespace GitHubSecretName GitHubUsername githubPAT);
         case s of
           Inl e \<Rightarrow> ret (Some (wrapf ''failed to create GitHub secret: '' e))
         | Inr _ \<Rightarrow> do {
             m \<leftarrow> retry E (no_value (mountSecretToServiceAccount E PipelineNamespace
                    PipelineServiceAccount GitHubSecretName));
             case m of
               Inl e \<Rightarrow> ret (Some (wrapf ''failed to mount secret to service account: '' e))
             | Inr _ \<Rightarrow> ret None
           }
       }
   }"

definition rbac_Run :: "lib \<Rightarrow> env \<Rightarrow> (go_error option) op" where
  "rbac_Run L E = do {
     b \<leftarrow> createPipelineRBAC E;
     case b of
       Some e \<Rightarrow> ret (Some e)
     | None \<Rightarrow> do {
         c \<leftarrow> LoadFromConfigMap L E;
         case c of
           Inl e \<Rightarrow> ret (Some e)
         | Inr cfg \<Rightarrow> do {
             s \<leftarrow> createPipelineSecretAndMount E cfg;
             case s of Some e \<Rightarrow> ret (Some e) | None \<Rightarrow> ret None
           }
       }
   }"

lemmas rbac_defs = createPipelineRBAC_def create_or_keep_def createArgoCDSecret_def createGitHubSecret_def
  mountSecretToServiceAccount_def no_value_def

section \<open>What a successful bootstrap leaves\<close>

text \<open>An interaction that shows the state of the cluster: the role binding was written, the
  secret was created or found, the service account was read or written with the secret in it.\<close>

fun binds_role :: "event \<Rightarrow> bool" where
  "binds_role (ECreate (OClusterRoleBinding b) (Inr _)) \<longleftrightarrow> b = pipeline_binding"
| "binds_role (EUpdate (OClusterRoleBinding b) (Inr _)) \<longleftrightarrow> b = pipeline_binding"
| "binds_role _ = False"

fun has_secret :: "Secret \<Rightarrow> event \<Rightarrow> bool" where
  "has_secret s (ECreate (OSecret s') r) \<longleftrightarrow>
     s' = s \<and> (case r of Inr _ \<Rightarrow> True | Inl e \<Rightarrow> IsAlreadyExists e)"
| "has_secret s _ = False"

fun shows_mounted :: "string \<Rightarrow> string \<Rightarrow> string \<Rightarrow> event \<Rightarrow> bool" where
  "shows_mounted ns n secret (EGet KServiceAccount ns' n' (Inr (OServiceAccount sa))) \<longleftrightarrow>
     ns' = ns \<and> n' = n \<and> secret \<in> set (sa_Secrets sa)"
| "shows_mounted ns n secret (EUpdate (OServiceAccount sa) (Inr _)) \<longleftrightarrow>
     secret \<in> set (sa_Secrets sa) \<and> secret \<in> set (sa_ImagePullSecrets sa)"
| "shows_mounted ns n secret _ = False"

lemma createPipelineRBAC_binds:
  "emits (createPipelineRBAC E) (\<lambda>r es. case r of Some _ \<Rightarrow> True | None \<Rightarrow> list_ex binds_role es)"
  by (auto simp: createPipelineRBAC_def op_defs intro!: emit_rules split: sum.splits option.splits)

lemma createGitHubSecret_has:
  "emits (createGitHubSecret E ns n u pat) (\<lambda>r es. case r of Inl _ \<Rightarrow> True
     | Inr _ \<Rightarrow> list_ex (has_secret (github_secret ns n u pat)) es)"
  by (auto simp: createGitHubSecret_def create_or_keep_def op_defs intro!: emit_rules)

lemma mountSecret_mounts:
  "emits (no_value (mountSecretToServiceAccount E ns n secret)) (\<lambda>r es. case r of Inl _ \<Rightarrow> True
     | Inr _ \<Rightarrow> list_ex (shows_mounted ns n secret) es)"
proof -
  have "emits (mountSecretToServiceAccount E ns n secret) (\<lambda>r es. case r of Some _ \<Rightarrow> True
      | None \<Rightarrow> list_ex (shows_mounted ns n secret) es)"
    by (auto simp: mountSecretToServiceAccount_def with_secret_def op_defs List.member_iff intro!: emit_rules)
  from emits_bind [OF this] show ?thesis
    unfolding no_value_def by (rule emits_mono) (auto intro!: emits_ret split: option.splits)
qed

lemma list_ex_later: "later P (\<lambda>es. list_ex Q es) es \<Longrightarrow> list_ex Q es"
  by (auto simp: later_def)

lemma secret_and_mount:
  "emits (createPipelineSecretAndMount E cfg) (\<lambda>r es. case r of Some _ \<Rightarrow> True | None \<Rightarrow>
     \<exists>pat es1 es2. es = es1 @ es2 \<and> pat_served cfg pat es1 \<and>
       list_ex (has_secret (github_secret PipelineNamespace GitHubSecretName GitHubUsername pat)) es1 \<and>
       list_ex (shows_mounted PipelineNamespace PipelineServiceAccount GitHubSecretName) es2)"
  unfolding createPipelineSecretAndMount_def
proof (rule emits_bind [OF getGitHubPAT_served], rule emits_sum, goal_cases)
  case (2 r es pat)
  then have pat: "pat_served cfg pat es" by simp
  show ?case
  proof (rule emits_bind [OF emits_retry_result [OF createGitHubSecret_has]], rule emits_sum, goal_cases)
    case (2 r es2 s)
    then have "list_ex (has_secret (github_secret PipelineNamespace GitHubSecretName GitHubUsername pat)) (es @ es2)"
      by (auto dest: list_ex_later)
    note secret = this
    show ?case
    proof (rule emits_bind [OF emits_retry_result [OF mountSecret_mounts]], rule emits_sum, goal_cases)
      case (2 r es3 v)
      then have "list_ex (shows_mounted PipelineNamespace PipelineServiceAccount GitHubSecretName) es3"
        by (auto dest: list_ex_later)
      moreover have "es @ es2 @ es3 @ [] = (es @ es2) @ es3" by simp
      moreover have "pat_served cfg pat (es @ es2)" using pat by simp
      ultimately show ?case using secret by (intro emits_ret) (simp only: option.case, blast)
    qed (simp add: emits_ret)
  qed (simp add: emits_ret)
qed (simp add: emits_ret)

lemma rbac_Run_complete:
  "emits (rbac_Run L E) (\<lambda>r es. case r of Some _ \<Rightarrow> True | None \<Rightarrow>
     (\<exists>cfg pat es1 es2 es3. es = es1 @ es2 @ es3 \<and> list_ex binds_role es1 \<and>
        config_complete cfg \<and> pat_served cfg pat es2 \<and>
        list_ex (has_secret (github_secret PipelineNamespace GitHubSecretName GitHubUsername pat)) es2 \<and>
        list_ex (shows_mounted PipelineNamespace PipelineServiceAccount GitHubSecretName) es3))"
  unfolding rbac_Run_def
proof (rule emits_bind [OF createPipelineRBAC_binds], rule emits_option, goal_cases)
  case (1 r es1)
  then have b: "list_ex binds_role es1" by simp
  show ?case
  proof (rule emits_bind [OF real_loader.load_complete [unfolded realConfigLoader_Load_def]],
      rule emits_sum, goal_cases)
    case (2 r es2 cfg)
    then have c: "config_complete cfg" by simp
    show ?case
    proof (rule emits_bind [OF secret_and_mount], rule emits_option, goal_cases)
      case (1 r es)
      then obtain pat es3 es4 where p: "es = es3 @ es4" "pat_served cfg pat es3"
          "list_ex (has_secret (github_secret PipelineNamespace GitHubSecretName GitHubUsername pat)) es3"
          "list_ex (shows_mounted PipelineNamespace PipelineServiceAccount GitHubSecretName) es4"
        by auto
      then have "es1 @ es2 @ es @ [] = es1 @ (es2 @ es3) @ es4" by simp
      moreover have "pat_served cfg pat (es2 @ es3)"
          "list_ex (has_secret (github_secret PipelineNamespace GitHubSecretName GitHubUsername pat)) (es2 @ es3)"
        using p by simp_all
      ultimately show ?case using b c p(4) by (intro emits_ret) (simp only: option.case, blast)
    qed (simp add: emits_ret)
  qed (simp add: emits_ret)
qed (simp add: emits_ret)

section \<open>Properties\<close>

text \<open>C15: When the bootstrap returns without an error, the interactions show in this order that the
  pipeline's service account was bound to the cluster role, that the token was served under a
  complete configuration and its secret was created or already there, and that the service
  account mounts the secret.\<close>

theorem bootstrap_complete:
  "emits (rbac_Run L E) (\<lambda>r es. case r of Some _ \<Rightarrow> True | None \<Rightarrow>
     (\<exists>cfg pat es1 es2 es3. es = es1 @ es2 @ es3 \<and> list_ex binds_role es1 \<and>
        config_complete cfg \<and> pat_served cfg pat es2 \<and>
        list_ex (has_secret (github_secret PipelineNamespace GitHubSecretName GitHubUsername pat)) es2 \<and>
        list_ex (shows_mounted PipelineNamespace PipelineServiceAccount GitHubSecretName) es3))"
  by (rule rbac_Run_complete)

text \<open>A write that the cluster accepted.\<close>

fun accepted :: "event \<Rightarrow> bool" where
  "accepted (ECreate _ r) \<longleftrightarrow> error_of r = None"
| "accepted (EUpdate _ r) \<longleftrightarrow> error_of r = None"
| "accepted (EStatusUpdate _ r) \<longleftrightarrow> error_of r = None"
| "accepted (EDelete _ _ _ r) \<longleftrightarrow> r = None"
| "accepted (EPatch _ r) \<longleftrightarrow> r = None"
| "accepted _ = False"

text \<open>A cluster that has been through the bootstrap: the secret exists and is mounted.\<close>

definition bootstrapped :: "env \<Rightarrow> bool" where
  "bootstrapped E \<longleftrightarrow>
     (\<forall>tr s. \<exists>e. ks_create_Secret (cluster E) tr s = Inl e \<and> IsAlreadyExists e) \<and>
     (\<forall>tr. case ks_get_ServiceAccount (cluster E) tr PipelineNamespace PipelineServiceAccount of
        Inl _ \<Rightarrow> True | Inr sa \<Rightarrow> GitHubSecretName \<in> set (sa_Secrets sa))"

lemma bootstrapped_Create:
  assumes "bootstrapped E"
  shows "only (\<lambda>e. accepted e \<longrightarrow> binds_role e) (Create_Secret E s)"
  unfolding Create_Secret_def
proof (rule only_call_at)
  fix tr
  from assms obtain e where "ks_create_Secret (cluster E) tr s = Inl e"
    unfolding bootstrapped_def by blast
  then show "accepted (ECreate (OSecret s) (map_sum id OSecret (ks_create_Secret (cluster E) tr s))) \<longrightarrow>
      binds_role (ECreate (OSecret s) (map_sum id OSecret (ks_create_Secret (cluster E) tr s)))"
    by simp
qed

lemma bootstrapped_mount:
  assumes "bootstrapped E"
  shows "only (\<lambda>e. accepted e \<longrightarrow> binds_role e)
    (mountSecretToServiceAccount E PipelineNamespace PipelineServiceAccount GitHubSecretName)"
proof -
  have "emits (Get_ServiceAccount E PipelineNamespace PipelineServiceAccount)
      (\<lambda>r es. (\<forall>e \<in> set es. \<not> accepted e) \<and>
        (case r of Inl _ \<Rightarrow> True | Inr sa \<Rightarrow> GitHubSecretName \<in> set (sa_Secrets sa)))"
    unfolding Get_ServiceAccount_def using assms by (intro emits_call_at) (simp add: bootstrapped_def)
  then show ?thesis
    unfolding mountSecretToServiceAccount_def only_def
    by (rule emits_bind) (auto simp: List.member_iff intro!: emit_rules)
qed

lemma Run_writes_binding:
  assumes "bootstrapped E"
  shows "only (\<lambda>e. accepted e \<longrightarrow> binds_role e) (rbac_Run L E)"
proof -
  have quiet: "inert e \<Longrightarrow> accepted e \<longrightarrow> binds_role e" for e
    by (cases e) (simp_all add: inert_def)
  have "only (\<lambda>e. accepted e \<longrightarrow> binds_role e) (createPipelineRBAC E)"
    by (auto simp: createPipelineRBAC_def op_defs intro!: only_rules elim!: binds_role.elims split: sum.splits)
  moreover have "only (\<lambda>e. accepted e \<longrightarrow> binds_role e) (LoadFromConfigMap L E)"
    by (rule only_mono [OF real_loader.load_inert [unfolded realConfigLoader_Load_def] quiet])
  moreover have "only (\<lambda>e. accepted e \<longrightarrow> binds_role e) (getGitHubPAT E cfg)" for cfg
    by (rule only_mono [OF getGitHubPAT_inert quiet])
  ultimately show ?thesis
    unfolding rbac_Run_def createPipelineSecretAndMount_def createGitHubSecret_def create_or_keep_def
      no_value_def
    by (intro only_rules bootstrapped_Create [OF assms] bootstrapped_mount [OF assms])
      (auto intro: only_rules)
qed

text \<open>C16: On a cluster that has been through it, the bootstrap changes nothing but the role
  binding, which it writes again: no run refreshes the stored token, whatever the Secrets Manager
  serves now.\<close>

theorem rerun_changes_nothing:
  assumes "bootstrapped E"
  shows "emits (rbac_Run L E) (\<lambda>_ es. list_all (\<lambda>e. \<not> accepted e \<or> binds_role e) es)"
  using only_emits [OF Run_writes_binding [OF assms]] by (rule emits_mono) (auto simp: list_all_iff)

definition sample_bootstrapped :: env where
  "sample_bootstrapped = (sample_env sample_deployment)\<lparr>cluster := sample_setup
     \<lparr>ks_create_Secret := (\<lambda>_ _. Inl (GoError AlreadyExists ''exists'')),
      ks_get_ServiceAccount := (\<lambda>_ _ _. Inr (with_secret GitHubSecretName sample_account))\<rparr>\<rparr>"

lemma rerun_changes_nothing_witness:
  "bootstrapped sample_bootstrapped \<and>
   list_all (\<lambda>e. \<not> accepted e \<or> binds_role e) (events (rbac_Run sample_lib sample_bootstrapped) [])"
proof (intro conjI)
  show b: "bootstrapped sample_bootstrapped"
    by (simp add: bootstrapped_def sample_bootstrapped_def IsAlreadyExists_def with_secret_def)
  show "list_all (\<lambda>e. \<not> accepted e \<or> binds_role e) (events (rbac_Run sample_lib sample_bootstrapped) [])"
    by (rule emitsD [OF rerun_changes_nothing [OF b]])
qed

end
