(* ===== verification/Go_Url.thy ===== *)
theory Go_Url
  imports Go_Strings
begin

text \<open>
  \<open>net/url.Parse\<close> of Go's standard library, as far as its result is used: the host and the
  decoded path of an address, or an error. The steps are those of the library: control
  characters, fragment, scheme, query, authority with user information and port, percent
  decoding. The text of an error is shortened, as it is only logged.
\<close>

section \<open>Characters\<close>

definition in_range :: "char \<Rightarrow> char \<Rightarrow> char \<Rightarrow> bool" where
  "in_range a b c \<longleftrightarrow> of_char a \<le> (of_char c :: nat) \<and> (of_char c :: nat) \<le> of_char b"

definition is_letter :: "char \<Rightarrow> bool" where
  "is_letter c \<longleftrightarrow> in_range (CHR ''a'') (CHR ''z'') c \<or> in_range (CHR ''A'') (CHR ''Z'') c"

definition is_digit :: "char \<Rightarrow> bool" where
  "is_digit c \<longleftrightarrow> in_range (CHR ''0'') (CHR ''9'') c"

definition is_control :: "char \<Rightarrow> bool" where
  "is_control c \<longleftrightarrow> (of_char c :: nat) < 32 \<or> (of_char c :: nat) = 127"

definition is_ascii :: "char \<Rightarrow> bool" where
  "is_ascii c \<longleftrightarrow> (of_char c :: nat) < 128"

definition unhex :: "char \<Rightarrow> nat option" where
  "unhex c = (if is_digit c then Some (of_char c - 48)
     else if in_range (CHR ''a'') (CHR ''f'') c then Some (of_char c - 87)
     else if in_range (CHR ''A'') (CHR ''F'') c then Some (of_char c - 55)
     else None)"

text \<open>\<open>shouldEscape\<close> in a host.\<close>

definition host_char :: "char \<Rightarrow> bool" where
  "host_char c \<longleftrightarrow> is_letter c \<or> is_digit c \<or> List.member (''!$&()*+,;=:[]<>-_.~'' @ [CHR 0x22, CHR 0x27]) c"

section \<open>Percent decoding\<close>

datatype mode = HostMode | ZoneMode | OtherMode

definition bad_escape :: "mode \<Rightarrow> char \<Rightarrow> char \<Rightarrow> nat \<Rightarrow> nat \<Rightarrow> bool" where
  "bad_escape m a b x y =
     (let percent = (a = CHR ''2'' \<and> b = CHR ''5'')
      in case m of
           HostMode \<Rightarrow> x < 8 \<and> \<not> percent
         | ZoneMode \<Rightarrow> \<not> percent \<and> 16 * x + y \<noteq> 32 \<and> \<not> host_char (char_of (16 * x + y))
         | OtherMode \<Rightarrow> False)"

fun unescape :: "mode \<Rightarrow> string \<Rightarrow> go_error + string" where
  "unescape m [] = Inr []"
| "unescape m (c # s) =
     (if c = CHR ''%''
      then (case s of
              a # b # t \<Rightarrow>
                (case (unhex a, unhex b) of
                   (Some x, Some y) \<Rightarrow>
                     if bad_escape m a b x y then Inl (Errorf ''invalid URL escape'')
                     else map_sum id (Cons (char_of (16 * x + y))) (unescape m t)
                 | _ \<Rightarrow> Inl (Errorf ''invalid URL escape''))
            | _ \<Rightarrow> Inl (Errorf ''invalid URL escape''))
      else if m \<noteq> OtherMode \<and> is_ascii c \<and> \<not> host_char c
      then Inl (Errorf ''invalid character in host name'')
      else map_sum id (Cons c) (unescape m s))"

section \<open>Authority\<close>

text \<open>The parts before and after the last occurrence of a character.\<close>

definition cut_last :: "char \<Rightarrow> string \<Rightarrow> (string \<times> string) option" where
  "cut_last c s =
     (if List.member s c
      then Some (rev (tl (dropWhile (\<lambda>x. x \<noteq> c) (rev s))), rev (takeWhile (\<lambda>x. x \<noteq> c) (rev s)))
      else None)"

definition validOptionalPort :: "string \<Rightarrow> bool" where
  "validOptionalPort p = (case p of [] \<Rightarrow> True | c # ds \<Rightarrow> c = CHR '':'' \<and> list_all is_digit ds)"

definition parse_ip_literal :: "string \<Rightarrow> string \<Rightarrow> go_error + string" where
  "parse_ip_literal inner colonPort =
     (if \<not> validOptionalPort colonPort then Inl (Errorf ''invalid port after host'')
      else case cut inner ''%25'' of
             None \<Rightarrow> unescape HostMode (inner @ '']'' @ colonPort)
           | Some (a, z) \<Rightarrow>
               (case (unescape HostMode a, unescape ZoneMode (''%25'' @ z), unescape HostMode ('']'' @ colonPort)) of
                  (Inr x, Inr y, Inr v) \<Rightarrow> Inr (x @ y @ v)
                | _ \<Rightarrow> Inl (Errorf ''invalid character in host name'')))"

definition parseHost :: "string \<Rightarrow> go_error + string" where
  "parseHost h =
     (if HasPrefix h ''[''
      then (case cut_last (CHR '']'') h of
              None \<Rightarrow> Inl (Errorf ''missing ] in host'')
            | Some (inner, colonPort) \<Rightarrow> parse_ip_literal inner colonPort)
      else case cut_last (CHR '':'') h of
             Some (_, p) \<Rightarrow>
               if list_all is_digit p then unescape HostMode h else Inl (Errorf ''invalid port after host'')
           | None \<Rightarrow> unescape HostMode h)"

definition userinfo_char :: "char \<Rightarrow> bool" where
  "userinfo_char c \<longleftrightarrow> is_letter c \<or> is_digit c \<or> List.member (''-._:~!$&()*+,;=%@'' @ [CHR 0x27]) c"

definition parseAuthority :: "string \<Rightarrow> go_error + string" where
  "parseAuthority a =
     (case cut_last (CHR ''@'') a of
        None \<Rightarrow> parseHost a
      | Some (userinfo, h) \<Rightarrow>
          (case parseHost h of
             Inl e \<Rightarrow> Inl e
           | Inr host \<Rightarrow>
               if \<not> list_all userinfo_char userinfo then Inl (Errorf ''invalid userinfo'')
               else (case unescape OtherMode userinfo of Inl e \<Rightarrow> Inl e | Inr _ \<Rightarrow> Inr host)))"

section \<open>Parse\<close>

fun getScheme :: "bool \<Rightarrow> string \<Rightarrow> go_error + (string \<times> string) option" where
  "getScheme start [] = Inr None"
| "getScheme start (c # s) =
     (let more = (case getScheme False s of
                    Inr (Some (a, r)) \<Rightarrow> Inr (Some (c # a, r))
                  | r \<Rightarrow> r)
      in if is_letter c then more
         else if is_digit c \<or> List.member ''+-.'' c then (if start then Inr None else more)
         else if c = CHR '':'' then (if start then Inl (Errorf ''missing protocol scheme'') else Inr (Some ([], s)))
         else Inr None)"

record url =
  u_Host :: string
  u_Path :: string

definition with_path :: "string \<Rightarrow> string \<Rightarrow> go_error + url" where
  "with_path host p =
     (case unescape OtherMode p of Inl e \<Rightarrow> Inl e | Inr path \<Rightarrow> Inr \<lparr>u_Host = host, u_Path = path\<rparr>)"

definition parse_rest :: "bool \<Rightarrow> string \<Rightarrow> go_error + url" where
  "parse_rest has_scheme rest =
     (if \<not> HasPrefix rest ''/'' \<and> has_scheme then Inr \<lparr>u_Host = [], u_Path = []\<rparr>
      else if \<not> HasPrefix rest ''/'' \<and> List.member (takeWhile (\<lambda>c. c \<noteq> CHR ''/'') rest) (CHR '':'')
      then Inl (Errorf ''first path segment in URL cannot contain colon'')
      else if HasPrefix rest ''//'' \<and> (has_scheme \<or> \<not> HasPrefix rest ''///'')
      then (case parseAuthority (takeWhile (\<lambda>c. c \<noteq> CHR ''/'') (drop 2 rest)) of
              Inl e \<Rightarrow> Inl e
            | Inr host \<Rightarrow> with_path host (dropWhile (\<lambda>c. c \<noteq> CHR ''/'') (drop 2 rest)))
      else with_path [] rest)"

definition parse_no_fragment :: "string \<Rightarrow> go_error + url" where
  "parse_no_fragment raw =
     (if list_ex is_control raw then Inl (Errorf ''net/url: invalid control character in URL'')
      else if raw = ''*'' then Inr \<lparr>u_Host = [], u_Path = ''*''\<rparr>
      else case getScheme True raw of
             Inl e \<Rightarrow> Inl e
           | Inr None \<Rightarrow> parse_rest False (takeWhile (\<lambda>c. c \<noteq> CHR ''?'') raw)
           | Inr (Some (_, rest)) \<Rightarrow> parse_rest True (takeWhile (\<lambda>c. c \<noteq> CHR ''?'') rest))"

definition url_Parse :: "string \<Rightarrow> go_error + url" where
  "url_Parse raw =
     (case parse_no_fragment (takeWhile (\<lambda>c. c \<noteq> CHR ''#'') raw) of
        Inl e \<Rightarrow> Inl (wrapf ''parse: '' e)
      | Inr u \<Rightarrow>
          (case unescape OtherMode (tl (dropWhile (\<lambda>c. c \<noteq> CHR ''#'') raw)) of
             Inl e \<Rightarrow> Inl (wrapf ''parse: '' e)
           | Inr _ \<Rightarrow> Inr u))"

section \<open>Plain addresses\<close>

text \<open>Letters, digits, dots, hyphens and underscores stand for themselves.\<close>

definition plain_char :: "char \<Rightarrow> bool" where
  "plain_char c \<longleftrightarrow> is_letter c \<or> is_digit c \<or> c \<in> {CHR ''.'', CHR ''-'', CHR ''_''}"

definition plain :: "string \<Rightarrow> bool" where
  "plain s \<longleftrightarrow> (\<forall>c \<in> set s. plain_char c)"

lemma plain_char_not:
  assumes "plain_char c"
  shows "c \<noteq> CHR ''/''" "c \<noteq> CHR '':''" "c \<noteq> CHR ''@''" "c \<noteq> CHR ''#''" "c \<noteq> CHR ''?''"
    "c \<noteq> CHR ''%''" "c \<noteq> CHR ''[''" "\<not> is_control c" "host_char c"
  using assms by (auto simp: plain_char_def host_char_def is_letter_def is_digit_def in_range_def is_control_def)

lemma plain_append [simp]: "plain (s @ t) \<longleftrightarrow> plain s \<and> plain t"
  by (auto simp: plain_def)

lemma plain_Cons [simp]: "plain (c # s) \<longleftrightarrow> plain_char c \<and> plain s"
  by (auto simp: plain_def)

lemma plain_Nil [simp]: "plain []"
  by (simp add: plain_def)

lemma unescape_plain:
  "(\<And>c. c \<in> set s \<Longrightarrow> c \<noteq> CHR ''%'' \<and> (m = OtherMode \<or> host_char c)) \<Longrightarrow> unescape m s = Inr s"
  by (induction s) auto

lemma not_plain [simp]:
  "\<not> plain_char (CHR ''/'')" "\<not> plain_char (CHR '':'')" "\<not> plain_char (CHR ''@'')" "\<not> plain_char (CHR ''#'')"
  "\<not> plain_char (CHR ''?'')" "\<not> plain_char (CHR ''%'')" "\<not> plain_char (CHR ''['')"
  by (simp_all add: plain_char_def is_letter_def is_digit_def in_range_def)

lemma plain_free:
  assumes "plain s"
  shows "CHR ''/'' \<notin> set s" "CHR '':'' \<notin> set s" "CHR ''@'' \<notin> set s" "CHR ''#'' \<notin> set s"
    "CHR ''?'' \<notin> set s" "CHR ''%'' \<notin> set s" "CHR ''['' \<notin> set s"
  using assms by (auto simp: plain_def)

lemma parseHost_plain:
  assumes "plain h"
  shows "parseHost h = Inr h"
proof -
  have "\<not> HasPrefix h ''[''" using plain_free(7) [OF assms] by (auto simp: HasPrefix_singleton)
  moreover have "cut_last (CHR '':'') h = None"
    using plain_free(2) [OF assms] by (simp add: cut_last_def List.member_iff)
  moreover have "unescape HostMode h = Inr h"
    using assms by (intro unescape_plain) (simp add: plain_def plain_char_not)
  ultimately show ?thesis by (simp add: parseHost_def)
qed

lemma parseAuthority_plain: "plain h \<Longrightarrow> parseAuthority h = Inr h"
  by (simp add: parseAuthority_def cut_last_def List.member_iff parseHost_plain plain_free(3))

definition path_char :: "char \<Rightarrow> bool" where
  "path_char c \<longleftrightarrow> plain_char c \<or> c = CHR ''/''"

lemma path_char_not:
  assumes "path_char c"
  shows "c \<noteq> CHR ''#''" "c \<noteq> CHR ''?''" "c \<noteq> CHR ''%''" "\<not> is_control c"
  using assms plain_char_not [of c] by (auto simp: path_char_def is_control_def)

text \<open>An \<open>https\<close> address of plain parts is taken apart as it was put together.\<close>

lemma url_Parse_https:
  assumes "plain h" and "\<forall>c \<in> set p. path_char c"
  shows "url_Parse (''https://'' @ h @ ''/'' @ p) = Inr \<lparr>u_Host = h, u_Path = ''/'' @ p\<rparr>"
proof -
  let ?raw = "''https://'' @ h @ ''/'' @ p"
  have chars: "c \<noteq> CHR ''#'' \<and> c \<noteq> CHR ''?'' \<and> \<not> is_control c" if "c \<in> set ?raw" for c
  proof -
    from that consider "c \<in> set ''https:/''" | "c \<in> set h" | "c \<in> set p" by auto
    then show ?thesis
    proof cases
      case 1
      then show ?thesis by (auto simp: is_control_def)
    next
      case 2
      then have "plain_char c" using assms(1) by (simp add: plain_def)
      then show ?thesis by (simp add: plain_char_not)
    next
      case 3
      then have "path_char c" using assms(2) by simp
      then show ?thesis by (simp add: path_char_not)
    qed
  qed
  have fragment: "takeWhile (\<lambda>c. c \<noteq> CHR ''#'') ?raw = ?raw" "dropWhile (\<lambda>c. c \<noteq> CHR ''#'') ?raw = []"
    using chars by (auto simp only: takeWhile_eq_all_conv dropWhile_eq_Nil_conv)
  have query: "takeWhile (\<lambda>c. c \<noteq> CHR ''?'') (''//'' @ h @ ''/'' @ p) = ''//'' @ h @ ''/'' @ p"
    using chars by (simp add: takeWhile_eq_all_conv)
  have scheme: "getScheme True ?raw = Inr (Some (''https'', ''//'' @ h @ ''/'' @ p))"
    by (simp add: is_letter_def is_digit_def in_range_def List.member_iff)
  have authority: "takeWhile (\<lambda>c. c \<noteq> CHR ''/'') (h @ ''/'' @ p) = h"
      "dropWhile (\<lambda>c. c \<noteq> CHR ''/'') (h @ ''/'' @ p) = ''/'' @ p"
  proof -
    have "\<forall>c \<in> set h. c \<noteq> CHR ''/''" using plain_free(1) [OF assms(1)] by metis
    then show "takeWhile (\<lambda>c. c \<noteq> CHR ''/'') (h @ ''/'' @ p) = h"
      "dropWhile (\<lambda>c. c \<noteq> CHR ''/'') (h @ ''/'' @ p) = ''/'' @ p"
      by (simp_all add: takeWhile_append2 dropWhile_append2)
  qed
  have path: "with_path h (''/'' @ p) = Inr \<lparr>u_Host = h, u_Path = ''/'' @ p\<rparr>"
  proof -
    have "unescape OtherMode (''/'' @ p) = Inr (''/'' @ p)"
      using assms(2) path_char_not(3) by (intro unescape_plain) auto
    then show ?thesis by (simp only: with_path_def sum.case)
  qed
  have "parse_rest True (''//'' @ h @ ''/'' @ p) = Inr \<lparr>u_Host = h, u_Path = ''/'' @ p\<rparr>"
    using authority path parseAuthority_plain [OF assms(1)] by (simp add: parse_rest_def HasPrefix_def)
  moreover have "\<not> list_ex is_control ?raw" using chars by (simp only: list_ex_iff) blast
  ultimately have "parse_no_fragment ?raw = Inr \<lparr>u_Host = h, u_Path = ''/'' @ p\<rparr>"
    unfolding parse_no_fragment_def scheme using query by (simp only: sum.case option.case prod.case) simp
  then show ?thesis
    unfolding url_Parse_def fragment by simp
qed

end
