(* ===== verification/Json_Roundtrip.thy ===== *)
theory Json_Roundtrip
  imports Go_Strings Api_Types Float64
begin

text \<open>
  The detour of a decoded document through JSON in \<open>pkg/tasks/sync.go\<close>: the value that the YAML
  decoder makes of it is marshalled with \<open>encoding/json\<close>, and the text is unmarshalled into the
  content of an unstructured object. What the detour changes is written out: every number comes
  back as a \<open>float64\<close>, a time as a string, and bytes that are no UTF-8 as the replacement character;
  some values do not get through.
\<close>

section \<open>What the YAML decoder makes\<close>

text \<open>
  The dynamic type of the decoded \<open>interface{}\<close>. A float that is a number is the rational it stands
  for (so minus zero is zero); a time is its text in RFC 3339. A mapping is a \<open>map[string]interface{}\<close>
  when all its keys are strings, and else a \<open>map[interface{}]interface{}\<close>.
\<close>

datatype yaml_value =
    YNull
  | YBool bool
  | YInt int
  | YFloat rat
  | YNotANumber  \<comment> \<open>\<open>NaN\<close> and the infinities\<close>
  | YTime string
  | YString string
  | YSeq "yaml_value list"
  | YMap "(string \<times> yaml_value) list"
  | YAnyMap "(yaml_value \<times> yaml_value) list"

section \<open>Text\<close>

definition byte_in :: "nat \<Rightarrow> nat \<Rightarrow> char \<Rightarrow> bool" where
  "byte_in a b c \<longleftrightarrow> a \<le> (of_char c :: nat) \<and> (of_char c :: nat) \<le> b"

text \<open>\<open>utf8.DecodeRune\<close>: the width of the rune at the head of a text, 0 when there is no valid one.\<close>

definition continued :: "char \<Rightarrow> (nat \<times> nat) list \<Rightarrow> string \<Rightarrow> nat" where
  "continued c bounds s =
     (if length bounds \<le> length s \<and> list_all2 (\<lambda>(a, b). byte_in a b) bounds (take (length bounds) s)
      then Suc (length bounds) else 0)"

fun rune_width :: "string \<Rightarrow> nat" where
  "rune_width [] = 0"
| "rune_width (c # s) =
     (if byte_in 0 127 c then 1
      else if byte_in 194 223 c then continued c [(128, 191)] s
      else if byte_in 224 224 c then continued c [(160, 191), (128, 191)] s
      else if byte_in 237 237 c then continued c [(128, 159), (128, 191)] s
      else if byte_in 225 239 c then continued c [(128, 191), (128, 191)] s
      else if byte_in 240 240 c then continued c [(144, 191), (128, 191), (128, 191)] s
      else if byte_in 241 243 c then continued c [(128, 191), (128, 191), (128, 191)] s
      else if byte_in 244 244 c then continued c [(128, 143), (128, 191), (128, 191)] s
      else 0)"

text \<open>U+FFFD.\<close>

definition replacement :: string where
  "replacement = [CHR 0xEF, CHR 0xBF, CHR 0xBD]"

function utf8_text :: "string \<Rightarrow> string" where
  "utf8_text [] = []"
| "utf8_text (c # s) =
     (let w = rune_width (c # s)
      in if w = 0 then replacement @ utf8_text s
         else take w (c # s) @ utf8_text (drop (w - 1) s))"
  by pat_completeness auto

termination
  by (relation "measure length") auto

lemma utf8_text_ascii: "list_all (byte_in 0 127) s \<Longrightarrow> utf8_text s = s"
  by (induction s) (auto simp: Let_def)

section \<open>Marshal and unmarshal\<close>

text \<open>A map whose keys are not all strings and a float that is no number have no JSON.\<close>

fun unencodable :: "yaml_value \<Rightarrow> bool" where
  "unencodable YNotANumber = True"
| "unencodable (YAnyMap _) = True"
| "unencodable (YSeq vs) = list_ex unencodable vs"
| "unencodable (YMap m) = list_ex (\<lambda>p. unencodable (snd p)) m"
| "unencodable _ = False"

text \<open>
  What comes back of the others. An integer is written in decimal and read as a \<open>float64\<close>, the
  nearest one; a float is written so that it reads as itself.
\<close>

fun json_value :: "yaml_value \<Rightarrow> any" where
  "json_value (YBool b) = Bool_any b"
| "json_value (YInt n) = Number_any (float64 n)"
| "json_value (YFloat q) = Number_any q"
| "json_value (YTime t) = String_any t"
| "json_value (YString s) = String_any (utf8_text s)"
| "json_value (YSeq vs) = Slice_any (map json_value vs)"
| "json_value (YMap m) = Map_any (map (\<lambda>p. (utf8_text (fst p), json_value (snd p))) m)"
| "json_value _ = Nil_any"

text \<open>\<open>null\<close> leaves the content empty; anything but a map cannot be read into it.\<close>

definition json_object :: "yaml_value \<Rightarrow> go_error + unstructured" where
  "json_object v =
     (if unencodable v then Inl (wrapf ''json marshal: '' (Errorf ''json: unsupported type or value''))
      else case json_value v of
             Map_any m \<Rightarrow> Inr m
           | Nil_any \<Rightarrow> Inr []
           | _ \<Rightarrow> Inl (wrapf ''json unmarshal: '' (Errorf ''json: cannot unmarshal value into Go value'')))"

text \<open>Integers of up to 53 bits come back as they were, and the next one does not.\<close>

lemma json_small_int: "\<bar>n\<bar> < 2 ^ 53 \<Longrightarrow> json_value (YInt n) = Number_any (of_int n)"
  using float64_exact [of n] float64_exact [of "- n"] by (cases "n < 0") (auto simp: float64_def)

lemma json_large_int: "json_value (YInt (2 ^ 53 + 1)) = Number_any (2 ^ 53)"
  by code_simp

text \<open>The value of a key of a document whose keys are ASCII.\<close>

lemma json_object_key:
  assumes "json_object (YMap m) = Inr u" and "\<forall>p \<in> set m. list_all (byte_in 0 127) (fst p)"
  shows "map_of u k = map_option json_value (map_of m k)"
proof -
  have u: "u = map (\<lambda>p. (utf8_text (fst p), json_value (snd p))) m"
    using assms(1) by (simp add: json_object_def split: if_splits)
  have "u = map (\<lambda>(k, v). (k, json_value v)) m"
    unfolding u using assms(2) by (auto simp: utf8_text_ascii)
  then show ?thesis by (simp only: map_of_map o_def)
qed

end
