(* ===== verification/Task_Sync.thy ===== *)
theory Task_Sync
  imports Retry Go_Url Json_Roundtrip
begin

text \<open>
  The synchronisation of the Tekton tasks, \<open>pkg/tasks/sync.go\<close>: the tree of a repository is
  listed over HTTP, and every YAML file in it is fetched, decoded and applied to the cluster.
\<close>

section \<open>Data and third-party helpers\<close>

record treeEntry =
  tn_Path :: string
  tn_Type :: string  \<comment> \<open>\<open>blob\<close> or \<open>tree\<close>\<close>
  tn_URL :: string

text \<open>
  What the package calls outside the repository. \<open>sl_documents n body\<close> is the document decoder of
  \<open>k8s.io/apimachinery\<close> on a stream: what the successive reads into a buffer of \<open>n\<close> bytes give, and
  the error that ends them, if it is not \<open>io.EOF\<close> (\<open>io.ErrShortBuffer\<close> for a document that is longer
  than the buffer, an error of the scanner). The others are the YAML decoder, the decoder of the
  tree response, and the accessors of unstructured objects.
\<close>

record setup_lib =
  sl_documents :: "int \<Rightarrow> string \<Rightarrow> string list \<times> go_error option"
  sl_yaml_Unmarshal :: "string \<Rightarrow> go_error + yaml_value"
  sl_decode_tree :: "string \<Rightarrow> go_error + treeEntry list"
  sl_GetNamespace :: "unstructured \<Rightarrow> string"
  sl_SetNamespace :: "string \<Rightarrow> unstructured \<Rightarrow> unstructured"
  sl_GetName :: "unstructured \<Rightarrow> string"

text \<open>The documented behaviour of the accessors: the namespace and the name are strings under
  \<open>metadata\<close>; setting the namespace sets it when \<open>metadata\<close> is a map or absent, and changes nothing
  when it is something else.\<close>

fun metadata_settable :: "unstructured \<Rightarrow> bool" where
  "metadata_settable u = (case map_of u ''metadata'' of None \<Rightarrow> True | Some (Map_any _) \<Rightarrow> True | Some _ \<Rightarrow> False)"

locale unstructured_lib =
  fixes U :: setup_lib
  assumes get_namespace: "sl_GetNamespace U u = as_string (map_of (as_map (map_of u ''metadata'')) ''namespace'')"
    and get_name: "sl_GetName U u = as_string (map_of (as_map (map_of u ''metadata'')) ''name'')"
    and set_namespace: "metadata_settable u \<Longrightarrow> sl_GetNamespace U (sl_SetNamespace U ns u) = ns"
    and set_namespace_other: "k \<noteq> ''metadata'' \<Longrightarrow> map_of (sl_SetNamespace U ns u) k = map_of u k"
    and set_namespace_refused: "\<not> metadata_settable u \<Longrightarrow> sl_SetNamespace U ns u = u"

section \<open>Operations\<close>

definition parseRepoURL :: "string \<Rightarrow> go_error + (string \<times> string \<times> string)" where
  "parseRepoURL repoURL0 =
     (let repoURL = TrimSuffix repoURL0 ''.git'' in
      case url_Parse repoURL of
        Inl e \<Rightarrow> Inl e
      | Inr u \<Rightarrow>
          (case split_char (CHR ''/'') (TrimPrefix (u_Path u) ''/'') of
             owner # repo # _ \<Rightarrow> Inr (owner, repo, u_Host u)
           | _ \<Rightarrow> Inl (Errorf (''unexpected repo URL format: '' @ repoURL))))"

definition StatusOK :: nat where "StatusOK = 200"

text \<open>
  \<open>http.NewRequestWithContext\<close> with the method \<open>GET\<close> and a context: it fails exactly when the
  address cannot be parsed, and then nothing is sent.
\<close>

definition NewRequest :: "string \<Rightarrow> go_error option" where
  "NewRequest url = (case url_Parse url of Inl e \<Rightarrow> Some e | Inr _ \<Rightarrow> None)"

definition fetchTree :: "setup_lib \<Rightarrow> env \<Rightarrow> string \<Rightarrow> string \<Rightarrow> (go_error + treeEntry list) op" where
  "fetchTree U E treeURL pat =
     (case NewRequest treeURL of
        Some e \<Rightarrow> ret (Inl e)
      | None \<Rightarrow> do {
          r \<leftarrow> HttpGet E treeURL pat;
          case r of
            Inl e \<Rightarrow> ret (Inl e)
          | Inr resp \<Rightarrow>
              if hr_StatusCode resp \<noteq> StatusOK
              then ret (Inl (Errorf (''tree API returned '' @ nat_digits (hr_StatusCode resp))))
              else ret (case hr_Body resp of Inl e \<Rightarrow> Inl e | Inr body \<Rightarrow> sl_decode_tree U body)
        })"

definition with_default_namespace :: "setup_lib \<Rightarrow> unstructured \<Rightarrow> unstructured" where
  "with_default_namespace U u = (if sl_GetNamespace U u = [] then sl_SetNamespace U ''default'' u else u)"

definition decode_document :: "setup_lib \<Rightarrow> string \<Rightarrow> go_error + unstructured" where
  "decode_document U chunk =
     (case sl_yaml_Unmarshal U chunk of
        Inl e \<Rightarrow> Inl (wrapf ''decode error: '' e)
      | Inr v \<Rightarrow> json_object v)"

text \<open>The loop over the documents of a file, and the whole of \<open>applyFile\<close>.\<close>

fun apply_documents :: "setup_lib \<Rightarrow> env \<Rightarrow> go_error option \<Rightarrow> string list \<Rightarrow> (go_error option) op" where
  "apply_documents U E err [] = ret (map_option (wrapf ''reading document: '') err)"
| "apply_documents U E err (doc # docs) =
     (let chunk = TrimSpace doc in
      if chunk = [] then apply_documents U E err docs
      else case decode_document U chunk of
             Inl e \<Rightarrow> ret (Some e)
           | Inr obj \<Rightarrow>
               if obj = [] then apply_documents U E err docs
               else do {
                 let obj = with_default_namespace U obj;
                 p \<leftarrow> Patch_Apply E obj;
                 case p of
                   Some e \<Rightarrow> ret (Some (wrapf (''apply failed for '' @ sl_GetName U obj @ '': '') e))
                 | None \<Rightarrow> apply_documents U E err docs
               })"

text \<open>\<open>make([]byte, 1024*1024)\<close>.\<close>

definition buf_size :: int where "buf_size = 1024 * 1024"

definition applyFile :: "setup_lib \<Rightarrow> env \<Rightarrow> string \<Rightarrow> string \<Rightarrow> (go_error option) op" where
  "applyFile U E rawURL pat =
     (case NewRequest rawURL of
        Some e \<Rightarrow> ret (Some e)
      | None \<Rightarrow> do {
          r \<leftarrow> HttpGet E rawURL pat;
          case r of
            Inl e \<Rightarrow> ret (Some e)
          | Inr resp \<Rightarrow>
              if hr_StatusCode resp \<noteq> StatusOK
              then ret (Some (Errorf (''fetching '' @ rawURL @ '' returned '' @ nat_digits (hr_StatusCode resp))))
              else (case hr_Body resp of
                      Inl e \<Rightarrow> ret (Some (wrapf ''reading response: '' e))
                    | Inr body \<Rightarrow> (case sl_documents U buf_size body of
                        (docs, err) \<Rightarrow> apply_documents U E err docs))
        })"

definition is_task_file :: "treeEntry \<Rightarrow> bool" where
  "is_task_file entry \<longleftrightarrow> tn_Type entry = ''blob'' \<and> HasSuffix (tn_Path entry) ''.yaml''"

text \<open>The loop of \<open>Sync\<close>; the result is \<open>applied\<close>.\<close>

fun sync_entries :: "setup_lib \<Rightarrow> env \<Rightarrow> string \<Rightarrow> string \<Rightarrow> nat \<Rightarrow> treeEntry list \<Rightarrow> nat op" where
  "sync_entries U E rawBase pat applied [] = ret applied"
| "sync_entries U E rawBase pat applied (entry # entries) =
     (if \<not> is_task_file entry then sync_entries U E rawBase pat applied entries
      else do {
        r \<leftarrow> applyFile U E (rawBase @ ''/'' @ tn_Path entry) pat;
        case r of
          Some _ \<Rightarrow> sync_entries U E rawBase pat applied entries
        | None \<Rightarrow> sync_entries U E rawBase pat (applied + 1) entries
      })"

definition tree_url :: "string \<Rightarrow> string \<Rightarrow> string \<Rightarrow> string" where
  "tree_url hostname owner repo =
     (''https://'' @ hostname @ ''/api/v3'') @ ''/repos/'' @ owner @ ''/'' @ repo @ ''/git/trees/main?recursive=1''"

definition raw_base :: "string \<Rightarrow> string \<Rightarrow> string \<Rightarrow> string" where
  "raw_base hostname owner repo = ''https://raw.'' @ hostname @ ''/'' @ owner @ ''/'' @ repo @ ''/main''"

definition Sync :: "setup_lib \<Rightarrow> env \<Rightarrow> OperatorConfig \<Rightarrow> (go_error option) op" where
  "Sync U E cfg = do {
     p \<leftarrow> fetchPAT E cfg;
     case p of
       Inl e \<Rightarrow> ret (Some (wrapf ''failed to fetch PAT: '' e))
     | Inr pat \<Rightarrow>
         (case parseRepoURL (oc_ArgoCDRepoURL cfg) of
            Inl e \<Rightarrow> ret (Some (wrapf ''failed to parse repo URL: '' e))
          | Inr (owner, repo, hostname) \<Rightarrow> do {
              t \<leftarrow> fetchTree U E (tree_url hostname owner repo) pat;
              case t of
                Inl e \<Rightarrow> ret (Some (wrapf ''failed to fetch repo tree: '' e))
              | Inr entries \<Rightarrow> do {
                  sync_entries U E (raw_base hostname owner repo) pat 0 entries;
                  ret None
                }
            })
   }"

section \<open>The accessors as documented\<close>

fun put :: "'k \<Rightarrow> 'v \<Rightarrow> ('k \<times> 'v) list \<Rightarrow> ('k \<times> 'v) list" where
  "put k v [] = [(k, v)]"
| "put k v ((k', v') # m) = (if k' = k then (k, v) # m else (k', v') # put k v m)"

lemma map_of_put [simp]: "map_of (put k v m) k' = (if k' = k then Some v else map_of m k')"
  by (induction m) auto

definition documented_SetNamespace :: "string \<Rightarrow> unstructured \<Rightarrow> unstructured" where
  "documented_SetNamespace ns u =
     (if metadata_settable u
      then put ''metadata'' (Map_any (put ''namespace'' (String_any ns) (as_map (map_of u ''metadata'')))) u
      else u)"

definition documented_setup ::
  "(int \<Rightarrow> string \<Rightarrow> string list \<times> go_error option) \<Rightarrow> (string \<Rightarrow> go_error + yaml_value) \<Rightarrow>
   (string \<Rightarrow> go_error + treeEntry list) \<Rightarrow> setup_lib" where
  "documented_setup ds un tree = \<lparr>sl_documents = ds, sl_yaml_Unmarshal = un, sl_decode_tree = tree,
     sl_GetNamespace = (\<lambda>u. as_string (map_of (as_map (map_of u ''metadata'')) ''namespace'')),
     sl_SetNamespace = documented_SetNamespace,
     sl_GetName = (\<lambda>u. as_string (map_of (as_map (map_of u ''metadata'')) ''name''))\<rparr>"

interpretation documented_setup: unstructured_lib "documented_setup ds un tree"
  by standard (auto simp: documented_setup_def documented_SetNamespace_def split: option.splits any.splits)

context unstructured_lib
begin

lemma default_namespace:
  assumes "metadata_settable u" and "sl_GetNamespace U u = []"
  shows "sl_GetNamespace U (with_default_namespace U u) = ''default''"
  using assms set_namespace [of u "''default''"] by (simp add: with_default_namespace_def)

lemma default_namespace_kept:
  "sl_GetNamespace U u \<noteq> [] \<Longrightarrow> with_default_namespace U u = u"
  by (simp add: with_default_namespace_def)

lemma default_namespace_content:
  "k \<noteq> ''metadata'' \<Longrightarrow> map_of (with_default_namespace U u) k = map_of u k"
  by (simp add: with_default_namespace_def set_namespace_other)

end

section \<open>What a synchronisation requests and applies\<close>

text \<open>A document that decodes to some content is a map from strings that JSON can express.\<close>

lemma decoded_document:
  assumes "decode_document U chunk = Inr u" and "u \<noteq> []"
  shows "\<exists>m. sl_yaml_Unmarshal U chunk = Inr (YMap m) \<and> json_value (YMap m) = Map_any u"
  using assms by (auto simp: decode_document_def json_object_def split: sum.splits if_splits any.splits
      elim: json_value.elims)

definition http_gets :: "trace \<Rightarrow> string list" where
  "http_gets es = [url. EHttpGet url _ \<leftarrow> es]"

lemma http_gets_simps [simp]:
  "http_gets [] = []" "http_gets (es @ es') = http_gets es @ http_gets es'"
  "http_gets (EHttpGet url r # es) = url # http_gets es" "http_gets (EPatch u pr # es) = http_gets es"
  by (simp_all add: http_gets_def)

fun is_http :: "event \<Rightarrow> bool" where
  "is_http (EHttpGet _ _) = True"
| "is_http _ = False"

lemma http_gets_none: "\<forall>e \<in> set es. \<not> is_http e \<Longrightarrow> http_gets es = []"
  unfolding http_gets_def by (induction es) (auto split: event.splits)

text \<open>A document of a file that was served.\<close>

definition served_document :: "setup_lib \<Rightarrow> trace \<Rightarrow> string \<Rightarrow> bool" where
  "served_document U es doc \<longleftrightarrow> (\<exists>url resp body. EHttpGet url (Inr resp) \<in> set es \<and>
     hr_StatusCode resp = StatusOK \<and> hr_Body resp = Inr body \<and> doc \<in> set (fst (sl_documents U buf_size body)))"

definition object_of :: "setup_lib \<Rightarrow> string \<Rightarrow> unstructured \<Rightarrow> bool" where
  "object_of U doc u \<longleftrightarrow> (\<exists>u0. decode_document U (TrimSpace doc) = Inr u0 \<and> u0 \<noteq> [] \<and> u = with_default_namespace U u0)"

definition applies_served :: "setup_lib \<Rightarrow> trace \<Rightarrow> bool" where
  "applies_served U es \<longleftrightarrow>
     (\<forall>u r. EPatch u r \<in> set es \<longrightarrow> (\<exists>doc. served_document U es doc \<and> object_of U doc u))"

lemma served_document_append:
  "served_document U es doc \<Longrightarrow> served_document U (es @ es') doc"
  "served_document U es' doc \<Longrightarrow> served_document U (es @ es') doc"
  unfolding served_document_def by auto

lemma applies_served_append:
  "applies_served U es \<Longrightarrow> applies_served U es' \<Longrightarrow> applies_served U (es @ es')"
  unfolding applies_served_def by (simp; blast intro: served_document_append)

lemma applies_served_none: "\<forall>e \<in> set es. inert e \<Longrightarrow> applies_served U es"
  by (auto simp: applies_served_def inert_def)

lemma apply_documents_patches:
  "only (\<lambda>e. \<exists>u r doc. e = EPatch u r \<and> doc \<in> set docs \<and> object_of U doc u) (apply_documents U E err docs)"
proof (induction docs)
  case Nil
  then show ?case by (simp add: only_ret)
next
  case (Cons doc docs)
  have more: "only (\<lambda>e. \<exists>u r d. e = EPatch u r \<and> d \<in> set (doc # docs) \<and> object_of U d u)
      (apply_documents U E err docs)"
    by (rule only_mono [OF Cons.IH]) auto
  show ?case
    unfolding apply_documents.simps Let_def Patch_Apply_def
    by (intro only_rules more) (auto simp: object_of_def)
qed

lemma applyFile_requests:
  "emits (applyFile U E rawURL pat) (\<lambda>_ es. http_gets es = (if NewRequest rawURL = None then [rawURL] else []) \<and>
     applies_served U es)"
  unfolding applyFile_def HttpGet_def
proof (intro emit_rules emits_prod, goal_cases)
  case (4 r resp body docs err)
  show ?case
  proof (rule emits_mono [OF only_emits [OF apply_documents_patches]])
    fix a es
    assume es: "\<forall>e \<in> set es. \<exists>u r doc. e = EPatch u r \<and> doc \<in> set docs \<and> object_of U doc u"
    then have "http_gets es = []" by (intro http_gets_none) auto
    moreover have "served_document U (EHttpGet rawURL r # es) doc" if "doc \<in> set docs" for doc
      unfolding served_document_def
      by (rule exI [of _ rawURL], rule exI [of _ resp], rule exI [of _ body]) (use 4 that in simp)
    ultimately show "http_gets (EHttpGet rawURL r # es) = (if NewRequest rawURL = None then [rawURL] else []) \<and>
        applies_served U (EHttpGet rawURL r # es)"
      using es 4 by (fastforce simp: applies_served_def)
  qed
qed (auto simp: applies_served_def)

text \<open>The files that are requested: the YAML files whose address can be parsed.\<close>

abbreviation (input) requested :: "string \<Rightarrow> treeEntry \<Rightarrow> bool" where
  "requested rawBase entry \<equiv>
     is_task_file entry \<and> NewRequest (rawBase @ ''/'' @ tn_Path entry) = None"

lemma sync_entries_requests:
  "emits (sync_entries U E rawBase pat n entries) (\<lambda>_ es. applies_served U es \<and>
     http_gets es = [rawBase @ ''/'' @ tn_Path entry. entry \<leftarrow> entries, requested rawBase entry])"
proof (induction entries arbitrary: n)
  case Nil
  then show ?case by (simp add: emits_ret applies_served_none)
next
  case (Cons entry entries)
  show ?case
    unfolding sync_entries.simps
  proof (rule emits_if)
    assume "\<not> is_task_file entry"
    then show "emits (sync_entries U E rawBase pat n entries) (\<lambda>_ es. applies_served U es \<and>
        http_gets es = [rawBase @ ''/'' @ tn_Path entry. entry \<leftarrow> entry # entries, requested rawBase entry])"
      by (intro emits_mono [OF Cons.IH]) simp
  next
    assume "\<not> \<not> is_task_file entry"
    then show "emits (do {
        r \<leftarrow> applyFile U E (rawBase @ ''/'' @ tn_Path entry) pat;
        case r of
          None \<Rightarrow> sync_entries U E rawBase pat (n + 1) entries
        | Some _ \<Rightarrow> sync_entries U E rawBase pat n entries
      }) (\<lambda>_ es. applies_served U es \<and>
        http_gets es = [rawBase @ ''/'' @ tn_Path entry. entry \<leftarrow> entry # entries, requested rawBase entry])"
      by (intro emits_bind [OF applyFile_requests] emits_option emits_mono [OF Cons.IH])
        (auto intro: applies_served_append)
  qed
qed

lemma getGitHubPAT_no_http: "only (\<lambda>e. inert e \<and> \<not> is_http e) (getGitHubPAT E cfg)"
  by (auto simp: getGitHubPAT_def interface_defs intro!: only_rules)

lemma fetchTree_reads: "only (\<lambda>e. \<not> api_write e) (fetchTree U E url pat)"
  by (auto simp: fetchTree_def HttpGet_def intro!: only_rules)

lemma fetchTree_requests:
  "emits (fetchTree U E url pat) (\<lambda>r es. applies_served U es \<and>
     (case r of Inl _ \<Rightarrow> True | Inr entries \<Rightarrow> http_gets es = [url] \<and>
        (\<exists>resp body. EHttpGet url (Inr resp) \<in> set es \<and>
        hr_StatusCode resp = StatusOK \<and> hr_Body resp = Inr body \<and> sl_decode_tree U body = Inr entries)))"
  unfolding fetchTree_def HttpGet_def
  by (intro emit_rules) (auto simp: applies_served_def split: sum.splits)

lemma Sync_requests:
  "emits (Sync U E cfg) (\<lambda>r es. case r of
     Some _ \<Rightarrow> list_all (\<lambda>e. \<not> api_write e) es
   | None \<Rightarrow> \<exists>owner repo hostname entries resp body.
       parseRepoURL (oc_ArgoCDRepoURL cfg) = Inr (owner, repo, hostname) \<and>
       EHttpGet (tree_url hostname owner repo) (Inr resp) \<in> set es \<and> hr_StatusCode resp = StatusOK \<and>
       hr_Body resp = Inr body \<and> sl_decode_tree U body = Inr entries \<and>
       http_gets es = tree_url hostname owner repo #
         [raw_base hostname owner repo @ ''/'' @ tn_Path entry. entry \<leftarrow> entries, requested (raw_base hostname owner repo) entry])"
  unfolding Sync_def fetchPAT_eq
proof (rule emits_bind [OF only_emits [OF getGitHubPAT_no_http]], goal_cases)
  case (1 p es)
  then have quiet: "list_all (\<lambda>e. \<not> api_write e) es" "http_gets es = []"
    by (auto simp: list_all_iff inert_def quiet_def intro: http_gets_none)
  show ?case
  proof (intro emits_sum emits_prod emits_bind [OF emits_conj [OF fetchTree_requests only_emits [OF fetchTree_reads]]], goal_cases)
    case (4 pat p owner q repo hostname t es2 entries)
    then obtain resp body where tree: "EHttpGet (tree_url hostname owner repo) (Inr resp) \<in> set es2"
        "hr_StatusCode resp = StatusOK" "hr_Body resp = Inr body" "sl_decode_tree U body = Inr entries"
        "http_gets es2 = [tree_url hostname owner repo]"
      by auto
    have url: "parseRepoURL (oc_ArgoCDRepoURL cfg) = Inr (owner, repo, hostname)" using 4 by simp
    show ?case
      by (rule emits_bind [OF sync_entries_requests], intro emits_ret, simp only: option.case,
          rule exI [of _ owner], rule exI [of _ repo], rule exI [of _ hostname], rule exI [of _ entries],
          rule exI [of _ resp], rule exI [of _ body])
        (use tree url quiet(2) in auto)
  qed (use quiet in \<open>auto simp: list_all_iff intro!: emits_ret\<close>)
qed

section \<open>Properties\<close>

lemma no_slash_suffix:
  assumes "HasSuffix (p @ ''/'' @ r) x" and "CHR ''/'' \<notin> set x"
  shows "HasSuffix r x"
proof -
  from assms(1) obtain a where "(p @ ''/'') @ r = a @ x" by (auto simp: HasSuffix_iff)
  then obtain us where "p @ ''/'' = a @ us \<and> us @ r = x \<or> (p @ ''/'') @ us = a \<and> r = us @ x"
    using append_eq_append_conv2 [of "p @ ''/''" r a x] by blast
  then show ?thesis
  proof
    assume a: "p @ ''/'' = a @ us \<and> us @ r = x"
    have "us = []"
    proof (rule ccontr)
      assume "us \<noteq> []"
      then have "last us = last (p @ ''/'')" using a by simp
      then have "CHR ''/'' \<in> set us" using \<open>us \<noteq> []\<close> last_in_set [of us] by simp
      then show False using a assms(2) by auto
    qed
    with a show ?thesis by (auto simp: HasSuffix_iff)
  qed (auto simp: HasSuffix_iff)
qed

text \<open>C19: The address of a repository is taken apart as it is put together: an \<open>https\<close> address of
  plain host, owner and name, with or without \<open>.git\<close>, gives back the three.\<close>

theorem parseRepoURL_roundtrip:
  assumes "plain host_name" "plain owner" "plain repo"
    and "ext = ''.git'' \<or> ext = [] \<and> \<not> HasSuffix repo ''.git''"
  shows "parseRepoURL (''https://'' @ host_name @ ''/'' @ owner @ ''/'' @ repo @ ext) = Inr (owner, repo, host_name)"
proof -
  let ?raw = "''https://'' @ host_name @ ''/'' @ owner @ ''/'' @ repo"
  have "TrimSuffix (?raw @ ext) ''.git'' = ?raw"
  proof (cases "ext = []")
    case True
    have "\<not> HasSuffix ?raw ''.git''"
      using assms(4) True no_slash_suffix [of "''https://'' @ host_name @ ''/'' @ owner" repo "''.git''"] by auto
    with True show ?thesis by (simp only: append_Nil2 TrimSuffix_no not_False_eq_True)
  next
    case False
    with assms(4) show ?thesis by (metis TrimSuffix_append)
  qed
  moreover have "url_Parse ?raw = Inr \<lparr>u_Host = host_name, u_Path = ''/'' @ owner @ ''/'' @ repo\<rparr>"
    using assms(1-3) by (intro url_Parse_https) (auto simp: plain_def path_char_def)
  moreover have "split_char (CHR ''/'') (TrimPrefix (''/'' @ owner @ ''/'' @ repo) ''/'') = [owner, repo]"
    using plain_free(1) [OF assms(2)] plain_free(1) [OF assms(3)]
    by (simp only: TrimPrefix_append) (simp add: split_char_append split_char_plain)
  ultimately show ?thesis
    unfolding parseRepoURL_def Let_def by (simp only: append_assoc sum.case url.simps) simp
qed

lemma parseRepoURL_roundtrip_witness:
  "parseRepoURL ''https://github.ibm.com/itz-content/deployer-tekton-tasks.git'' =
     Inr (''itz-content'', ''deployer-tekton-tasks'', ''github.ibm.com'')"
proof -
  have "plain ''github.ibm.com''" "plain ''itz-content''" "plain ''deployer-tekton-tasks''"
    by code_simp+
  from parseRepoURL_roundtrip [OF this, of "''.git''"] show ?thesis by simp
qed

text \<open>C13: A synchronisation that returns an error has applied nothing. Otherwise the tree of the
  configured repository was fetched and decoded, and after it every blob in it whose path ends in
  \<open>.yaml\<close> was requested once, in the order of the tree, whatever became of the others; nothing else
  was requested. The exception is a file whose address, with the path put in as it is, is none that
  \<open>net/url\<close> parses: it fails before a request is made, and is skipped like any other failure.\<close>

theorem sync_attempts_every_file:
  "emits (Sync U E cfg) (\<lambda>r es. case r of
     Some _ \<Rightarrow> list_all (\<lambda>e. \<not> api_write e) es
   | None \<Rightarrow> \<exists>owner repo hostname entries resp body.
       parseRepoURL (oc_ArgoCDRepoURL cfg) = Inr (owner, repo, hostname) \<and>
       EHttpGet (tree_url hostname owner repo) (Inr resp) \<in> set es \<and> hr_StatusCode resp = StatusOK \<and>
       hr_Body resp = Inr body \<and> sl_decode_tree U body = Inr entries \<and>
       http_gets es = tree_url hostname owner repo #
         [raw_base hostname owner repo @ ''/'' @ tn_Path entry. entry \<leftarrow> entries,
            tn_Type entry = ''blob'' \<and> (\<exists>p. tn_Path entry = p @ ''.yaml'') \<and>
            (\<exists>u. url_Parse (raw_base hostname owner repo @ ''/'' @ tn_Path entry) = Inr u)])"
proof -
  have eq: "tn_Type entry = ''blob'' \<and> (\<exists>p. tn_Path entry = p @ ''.yaml'') \<and>
      (\<exists>u. url_Parse (base @ ''/'' @ tn_Path entry) = Inr u) \<longleftrightarrow> requested base entry" for base entry
    by (auto simp: is_task_file_def HasSuffix_iff NewRequest_def split: sum.splits)
  show ?thesis unfolding eq by (rule Sync_requests)
qed

text \<open>C14: Every object that a synchronisation applies comes from a document of a file that was
  served, one that decodes to a map, whose values went through JSON. It is the object of that
  document if this names a namespace. If not, only its metadata differ, and it lies in the namespace
  \<open>default\<close>, unless \<open>metadata\<close> is present and no map: then there is nowhere to put a namespace.\<close>

theorem applied_objects_served:
  assumes "unstructured_lib U"
  shows "emits (Sync U E cfg) (\<lambda>_ es. \<forall>u r. EPatch u r \<in> set es \<longrightarrow>
    (\<exists>doc m u0. served_document U es doc \<and> sl_yaml_Unmarshal U (TrimSpace doc) = Inr (YMap m) \<and>
       json_value (YMap m) = Map_any u0 \<and>
       (if sl_GetNamespace U u0 \<noteq> [] then u = u0
        else (\<forall>k. k \<noteq> ''metadata'' \<longrightarrow> map_of u k = map_of u0 k) \<and>
          (metadata_settable u0 \<longrightarrow> sl_GetNamespace U u = ''default''))))"
proof -
  have "emits (Sync U E cfg) (\<lambda>_ es. applies_served U es)"
    unfolding Sync_def fetchPAT_eq
    by (rule emits_bind [OF only_emits [OF getGitHubPAT_inert]])
      (intro emits_sum emits_prod emits_bind [OF fetchTree_requests] emits_bind [OF sync_entries_requests]
        emits_ret; auto intro!: applies_served_append intro: applies_served_none)
  then show ?thesis
  proof (rule emits_mono, intro allI impI)
    fix es u r
    assume "applies_served U es" and "EPatch u r \<in> set es"
    then obtain doc u0 where doc: "served_document U es doc" "decode_document U (TrimSpace doc) = Inr u0"
        "u0 \<noteq> []" and u: "u = with_default_namespace U u0"
      unfolding applies_served_def object_of_def by blast
    obtain m where m: "sl_yaml_Unmarshal U (TrimSpace doc) = Inr (YMap m)" "json_value (YMap m) = Map_any u0"
      using decoded_document [OF doc(2,3)] by blast
    note lib = unstructured_lib.default_namespace [OF assms, of u0]
      unstructured_lib.default_namespace_kept [OF assms, of u0]
      unstructured_lib.default_namespace_content [OF assms, of _ u0]
    show "\<exists>doc m u0. served_document U es doc \<and> sl_yaml_Unmarshal U (TrimSpace doc) = Inr (YMap m) \<and>
       json_value (YMap m) = Map_any u0 \<and>
       (if sl_GetNamespace U u0 \<noteq> [] then u = u0
        else (\<forall>k. k \<noteq> ''metadata'' \<longrightarrow> map_of u k = map_of u0 k) \<and>
          (metadata_settable u0 \<longrightarrow> sl_GetNamespace U u = ''default''))"
      by (intro exI conjI, rule doc(1), rule m(1), rule m(2)) (use lib u in simp)
  qed
qed

text \<open>A repository with one task, which names no namespace, and a number that JSON rounds.\<close>

definition sample_task_file :: yaml_value where
  "sample_task_file = YMap [(''kind'', YString ''Task''), (''spec'', YInt (2 ^ 53 + 1)),
     (''metadata'', YMap [(''name'', YString ''build'')])]"

definition sample_setup_lib :: setup_lib where
  "sample_setup_lib = documented_setup (\<lambda>_ body. ([body], None)) (\<lambda>_. Inr sample_task_file)
     (\<lambda>_. Inr [\<lparr>tn_Path = ''tasks/build.yaml'', tn_Type = ''blob'', tn_URL = []\<rparr>])"

definition sample_repo_config :: OperatorConfig where
  "sample_repo_config = config_of
     (\<lambda>k. Some (if k = ''argoCDRepoURL'' then ''https://git.example.com/itz/tasks.git'' else ''x''))"

definition sample_sync :: trace where
  "sample_sync = events (Sync sample_setup_lib (sample_env sample_deployment) sample_repo_config) []"

fun is_patch :: "event \<Rightarrow> bool" where
  "is_patch (EPatch _ _) = True"
| "is_patch _ = False"

lemma sample_task_file_json: "json_value sample_task_file = Map_any [(''kind'', String_any ''Task''),
    (''spec'', Number_any (2 ^ 53)), (''metadata'', Map_any [(''name'', String_any ''build'')])]"
  by code_simp

lemma applied_objects_served_witness:
  "unstructured_lib sample_setup_lib \<and>
   (\<exists>u r doc. EPatch u r \<in> set sample_sync \<and> served_document sample_setup_lib sample_sync doc \<and>
      map_of u ''kind'' = Some (String_any ''Task'') \<and> map_of u ''spec'' = Some (Number_any (2 ^ 53)) \<and>
      sl_GetNamespace sample_setup_lib u = ''default'')"
proof
  show U: "unstructured_lib sample_setup_lib"
    unfolding sample_setup_lib_def by (rule documented_setup.unstructured_lib_axioms)
  have "list_ex is_patch sample_sync" by code_simp
  then obtain u r where ur: "EPatch u r \<in> set sample_sync"
    by (auto simp: list_ex_iff elim!: is_patch.elims)
  from emitsD [OF applied_objects_served [OF U], rule_format, OF ur [unfolded sample_sync_def], folded sample_sync_def]
  obtain doc m u0 where doc: "served_document sample_setup_lib sample_sync doc"
      "sl_yaml_Unmarshal sample_setup_lib (TrimSpace doc) = Inr (YMap m)" "json_value (YMap m) = Map_any u0"
    and u: "if sl_GetNamespace sample_setup_lib u0 \<noteq> [] then u = u0
        else (\<forall>k. k \<noteq> ''metadata'' \<longrightarrow> map_of u k = map_of u0 k) \<and>
          (metadata_settable u0 \<longrightarrow> sl_GetNamespace sample_setup_lib u = ''default'')"
    by blast
  have "YMap m = sample_task_file"
    using doc(2) by (simp add: sample_setup_lib_def documented_setup_def)
  then have u0: "u0 = [(''kind'', String_any ''Task''), (''spec'', Number_any (2 ^ 53)),
      (''metadata'', Map_any [(''name'', String_any ''build'')])]"
    using doc(3) sample_task_file_json by simp
  then have none: "sl_GetNamespace sample_setup_lib u0 = []"
    by (simp add: sample_setup_lib_def documented_setup_def)
  then have rest: "\<And>k. k \<noteq> ''metadata'' \<Longrightarrow> map_of u k = map_of u0 k"
      and ns: "metadata_settable u0 \<Longrightarrow> sl_GetNamespace sample_setup_lib u = ''default''"
    using u by (simp_all only: if_False simp_thms)
  have "map_of u ''kind'' = map_of u0 ''kind''" "map_of u ''spec'' = map_of u0 ''spec''"
    by (rule rest, simp)+
  moreover have "sl_GetNamespace sample_setup_lib u = ''default''"
    by (rule ns) (simp add: u0)
  ultimately show "\<exists>u r doc. EPatch u r \<in> set sample_sync \<and>
      served_document sample_setup_lib sample_sync doc \<and> map_of u ''kind'' = Some (String_any ''Task'') \<and>
      map_of u ''spec'' = Some (Number_any (2 ^ 53)) \<and> sl_GetNamespace sample_setup_lib u = ''default''"
    unfolding u0 using ur doc(1) by (intro exI [of _ u] exI [of _ r] exI [of _ doc]) simp
qed

end
