(* ===== verification/Argo_Types.thy ===== *)
theory Argo_Types
  imports Api_Types
begin

text \<open>
  The API types of the Argo CD operator, \<open>pkg/argocd/argocd_types.go\<close>, struct by struct, each with
  its zero value, from which the literals of the package start. A field of type \<open>T\<close> in the struct
  \<open>ArgoCDServerSpec\<close> is the field \<open>Server_T\<close> of the record. Of a volume the name is kept, of a volume
  mount its name and path; a foreign type of which no value is ever set is \<open>any\<close>.
\<close>

section \<open>Pointers to literals\<close>

text \<open>\<open>pkg/utils.go\<close>: an optional field is a pointer; these make one to a fresh copy of a value.\<close>

definition Int32 :: "32 word \<Rightarrow> 32 word option" where "Int32 v = Some v"

definition StrPrt :: "string \<Rightarrow> string option" where "StrPrt s = Some s"

section \<open>Kubernetes and OpenShift types\<close>

record TypeMeta =
  tm_Kind :: string
  tm_APIVersion :: string

definition TypeMeta0 :: TypeMeta where
  "TypeMeta0 = \<lparr>tm_Kind = [], tm_APIVersion = []\<rparr>"

record ListMeta =
  lm_ResourceVersion :: string
  lm_Continue :: string

text \<open>\<open>corev1.ResourceRequirements\<close>: a quantity, in nano-units, for each named resource.\<close>

record ResourceRequirements =
  rq_Limits :: "string \<rightharpoonup> int"
  rq_Requests :: "string \<rightharpoonup> int"

record TLSConfig =
  tc_InsecureEdgeTerminationPolicy :: string
  tc_Termination :: string

section \<open>Argo CD\<close>

definition SSOProviderTypeKeycloak :: string where "SSOProviderTypeKeycloak = ''keycloak''"
definition SSOProviderTypeDex :: string where "SSOProviderTypeDex = ''dex''"

record ArgoCDIngressSpec =
  Ingress_Annotations :: "string \<rightharpoonup> string"
  Ingress_Enabled :: bool
  Ingress_IngressClassName :: "string option"
  Ingress_Path :: string
  Ingress_TLS :: "any list"

definition ArgoCDIngressSpec0 :: ArgoCDIngressSpec where
  "ArgoCDIngressSpec0 = \<lparr>Ingress_Annotations = Map.empty, Ingress_Enabled = False,
     Ingress_IngressClassName = None, Ingress_Path = [], Ingress_TLS = []\<rparr>"

record ArgoCDRouteSpec =
  Route_Annotations :: "string \<rightharpoonup> string"
  Route_Labels :: "string \<rightharpoonup> string"
  Route_Enabled :: bool
  Route_Path :: string
  Route_TLS :: "TLSConfig option"
  Route_WildcardPolicy :: "string option"

definition ArgoCDRouteSpec0 :: ArgoCDRouteSpec where
  "ArgoCDRouteSpec0 = \<lparr>Route_Annotations = Map.empty, Route_Labels = Map.empty,
     Route_Enabled = False, Route_Path = [], Route_TLS = None, Route_WildcardPolicy = None\<rparr>"

record WebhookServerSpec =
  WebhookServer_Host :: string
  WebhookServer_Ingress :: ArgoCDIngressSpec
  WebhookServer_Route :: ArgoCDRouteSpec

definition WebhookServerSpec0 :: WebhookServerSpec where
  "WebhookServerSpec0 = \<lparr>WebhookServer_Host = [], WebhookServer_Ingress = ArgoCDIngressSpec0,
     WebhookServer_Route = ArgoCDRouteSpec0\<rparr>"

record ArgoCDApplicationSet =
  ApplicationSet_Env :: "EnvVar list"
  ApplicationSet_ExtraCommandArgs :: "string list"
  ApplicationSet_Image :: string
  ApplicationSet_Version :: string
  ApplicationSet_Resources :: "ResourceRequirements option"
  ApplicationSet_LogLevel :: string
  ApplicationSet_WebhookServer :: WebhookServerSpec

definition ArgoCDApplicationSet0 :: ArgoCDApplicationSet where
  "ArgoCDApplicationSet0 = \<lparr>ApplicationSet_Env = [], ApplicationSet_ExtraCommandArgs = [],
     ApplicationSet_Image = [], ApplicationSet_Version = [], ApplicationSet_Resources = None,
     ApplicationSet_LogLevel = [], ApplicationSet_WebhookServer = WebhookServerSpec0\<rparr>"

record ArgoCDApplicationControllerProcessorsSpec =
  ControllerProcessors_Operation :: "32 word"
  ControllerProcessors_Status :: "32 word"

definition ArgoCDApplicationControllerProcessorsSpec0 :: ArgoCDApplicationControllerProcessorsSpec where
  "ArgoCDApplicationControllerProcessorsSpec0 = \<lparr>ControllerProcessors_Operation = 0,
     ControllerProcessors_Status = 0\<rparr>"

record ArgoCDApplicationControllerShardSpec =
  ControllerShard_Enabled :: bool
  ControllerShard_Replicas :: "32 word"
  ControllerShard_DynamicScalingEnabled :: "bool option"
  ControllerShard_MinShards :: "32 word"
  ControllerShard_MaxShards :: "32 word"
  ControllerShard_ClustersPerShard :: "32 word"

definition ArgoCDApplicationControllerShardSpec0 :: ArgoCDApplicationControllerShardSpec where
  "ArgoCDApplicationControllerShardSpec0 = \<lparr>ControllerShard_Enabled = False,
     ControllerShard_Replicas = 0, ControllerShard_DynamicScalingEnabled = None,
     ControllerShard_MinShards = 0, ControllerShard_MaxShards = 0,
     ControllerShard_ClustersPerShard = 0\<rparr>"

record ArgoCDApplicationControllerSpec =
  Controller_Processors :: ArgoCDApplicationControllerProcessorsSpec
  Controller_LogLevel :: string
  Controller_LogFormat :: string
  Controller_Resources :: "ResourceRequirements option"
  Controller_ParallelismLimit :: "32 word"
  Controller_AppSync :: "int option"
  Controller_Sharding :: ArgoCDApplicationControllerShardSpec
  Controller_Env :: "EnvVar list"

definition ArgoCDApplicationControllerSpec0 :: ArgoCDApplicationControllerSpec where
  "ArgoCDApplicationControllerSpec0 = \<lparr>Controller_Processors = ArgoCDApplicationControllerProcessorsSpec0,
     Controller_LogLevel = [], Controller_LogFormat = [], Controller_Resources = None,
     Controller_ParallelismLimit = 0, Controller_AppSync = None,
     Controller_Sharding = ArgoCDApplicationControllerShardSpec0, Controller_Env = []\<rparr>"

record ArgoCDGrafanaSpec =
  Grafana_Enabled :: bool
  Grafana_Host :: string
  Grafana_Image :: string
  Grafana_Ingress :: ArgoCDIngressSpec
  Grafana_Resources :: "ResourceRequirements option"
  Grafana_Route :: ArgoCDRouteSpec
  Grafana_Size :: "(32 word) option"
  Grafana_Version :: string

definition ArgoCDGrafanaSpec0 :: ArgoCDGrafanaSpec where
  "ArgoCDGrafanaSpec0 = \<lparr>Grafana_Enabled = False, Grafana_Host = [], Grafana_Image = [],
     Grafana_Ingress = ArgoCDIngressSpec0, Grafana_Resources = None,
     Grafana_Route = ArgoCDRouteSpec0, Grafana_Size = None, Grafana_Version = []\<rparr>"

record ArgoCDHASpec =
  HA_Enabled :: bool
  HA_RedisProxyImage :: string
  HA_RedisProxyVersion :: string
  HA_Resources :: "ResourceRequirements option"

definition ArgoCDHASpec0 :: ArgoCDHASpec where
  "ArgoCDHASpec0 = \<lparr>HA_Enabled = False, HA_RedisProxyImage = [], HA_RedisProxyVersion = [],
     HA_Resources = None\<rparr>"

record ArgoCDImportSpec =
  Import_Name :: string
  Import_Namespace :: "string option"

record SSHHostsSpec =
  SSHHosts_ExcludeDefaultHosts :: bool
  SSHHosts_Keys :: string

definition SSHHostsSpec0 :: SSHHostsSpec where
  "SSHHostsSpec0 = \<lparr>SSHHosts_ExcludeDefaultHosts = False, SSHHosts_Keys = []\<rparr>"

record KustomizeVersionSpec =
  KustomizeVersion_Version :: string
  KustomizeVersion_Path :: string

record ArgoCDMonitoringSpec =
  Monitoring_Enabled :: bool

definition ArgoCDMonitoringSpec0 :: ArgoCDMonitoringSpec where
  "ArgoCDMonitoringSpec0 = \<lparr>Monitoring_Enabled = False\<rparr>"

record ArgoCDNodePlacementSpec =
  NodePlacement_NodeSelector :: "string \<rightharpoonup> string"
  NodePlacement_Tolerations :: "any list"

record ArgoCDNotifications =
  Notifications_Replicas :: "(32 word) option"
  Notifications_Enabled :: bool
  Notifications_Env :: "EnvVar list"
  Notifications_Image :: string
  Notifications_Version :: string
  Notifications_Resources :: "ResourceRequirements option"
  Notifications_LogLevel :: string

definition ArgoCDNotifications0 :: ArgoCDNotifications where
  "ArgoCDNotifications0 = \<lparr>Notifications_Replicas = None, Notifications_Enabled = False,
     Notifications_Env = [], Notifications_Image = [], Notifications_Version = [],
     Notifications_Resources = None, Notifications_LogLevel = []\<rparr>"

record ArgoCDPrometheusSpec =
  Prometheus_Enabled :: bool
  Prometheus_Host :: string
  Prometheus_Ingress :: ArgoCDIngressSpec
  Prometheus_Route :: ArgoCDRouteSpec
  Prometheus_Size :: "(32 word) option"

definition ArgoCDPrometheusSpec0 :: ArgoCDPrometheusSpec where
  "ArgoCDPrometheusSpec0 = \<lparr>Prometheus_Enabled = False, Prometheus_Host = [],
     Prometheus_Ingress = ArgoCDIngressSpec0, Prometheus_Route = ArgoCDRouteSpec0,
     Prometheus_Size = None\<rparr>"

record ArgoCDRBACSpec =
  RBAC_DefaultPolicy :: "string option"
  RBAC_Policy :: "string option"
  RBAC_Scopes :: "string option"
  RBAC_PolicyMatcherMode :: "string option"

definition ArgoCDRBACSpec0 :: ArgoCDRBACSpec where
  "ArgoCDRBACSpec0 = \<lparr>RBAC_DefaultPolicy = None, RBAC_Policy = None, RBAC_Scopes = None,
     RBAC_PolicyMatcherMode = None\<rparr>"

record ArgoCDRedisSpec =
  Redis_Image :: string
  Redis_Resources :: "ResourceRequirements option"
  Redis_Version :: string
  Redis_DisableTLSVerification :: bool
  Redis_AutoTLS :: string

definition ArgoCDRedisSpec0 :: ArgoCDRedisSpec where
  "ArgoCDRedisSpec0 = \<lparr>Redis_Image = [], Redis_Resources = None, Redis_Version = [],
     Redis_DisableTLSVerification = False, Redis_AutoTLS = []\<rparr>"

record ArgoCDRepoSpec =
  Repo_ExtraRepoCommandArgs :: "string list"
  Repo_LogLevel :: string
  Repo_LogFormat :: string
  Repo_MountSAToken :: bool
  Repo_Replicas :: "(32 word) option"
  Repo_Resources :: "ResourceRequirements option"
  Repo_ServiceAccount :: string
  Repo_VerifyTLS :: bool
  Repo_AutoTLS :: string
  Repo_Image :: string
  Repo_Version :: string
  Repo_ExecTimeout :: "int option"
  Repo_Env :: "EnvVar list"
  Repo_Volumes :: "string list"
  Repo_VolumeMounts :: "(string \<times> string) list"
  Repo_InitContainers :: "Container list"
  Repo_SidecarContainers :: "Container list"

definition ArgoCDRepoSpec0 :: ArgoCDRepoSpec where
  "ArgoCDRepoSpec0 = \<lparr>Repo_ExtraRepoCommandArgs = [], Repo_LogLevel = [], Repo_LogFormat = [],
     Repo_MountSAToken = False, Repo_Replicas = None, Repo_Resources = None,
     Repo_ServiceAccount = [], Repo_VerifyTLS = False, Repo_AutoTLS = [], Repo_Image = [],
     Repo_Version = [], Repo_ExecTimeout = None, Repo_Env = [], Repo_Volumes = [],
     Repo_VolumeMounts = [], Repo_InitContainers = [], Repo_SidecarContainers = []\<rparr>"

record ResourceHealthCheck =
  ResourceHealthCheck_Group :: string
  ResourceHealthCheck_Kind :: string
  ResourceHealthCheck_Check :: string

record IgnoreDifferenceCustomization =
  IgnoreDifferenceCustomization_JqPathExpressions :: "string list"
  IgnoreDifferenceCustomization_JsonPointers :: "string list"
  IgnoreDifferenceCustomization_ManagedFieldsManagers :: "string list"

record ResourceIdentifiers =
  ResourceIdentifiers_Group :: string
  ResourceIdentifiers_Kind :: string
  ResourceIdentifiers_Customization :: IgnoreDifferenceCustomization

record ResourceIgnoreDifference =
  ResourceIgnoreDifference_All :: "IgnoreDifferenceCustomization option"
  ResourceIgnoreDifference_ResourceIdentifiers :: "ResourceIdentifiers list"

record ResourceAction =
  ResourceAction_Group :: string
  ResourceAction_Kind :: string
  ResourceAction_Action :: string

record ArgoCDServerAutoscaleSpec =
  ServerAutoscale_Enabled :: bool
  ServerAutoscale_HPA :: "any option"

definition ArgoCDServerAutoscaleSpec0 :: ArgoCDServerAutoscaleSpec where
  "ArgoCDServerAutoscaleSpec0 = \<lparr>ServerAutoscale_Enabled = False,
     ServerAutoscale_HPA = None\<rparr>"

record ArgoCDServerGRPCSpec =
  ServerGRPC_Host :: string
  ServerGRPC_Ingress :: ArgoCDIngressSpec

definition ArgoCDServerGRPCSpec0 :: ArgoCDServerGRPCSpec where
  "ArgoCDServerGRPCSpec0 = \<lparr>ServerGRPC_Host = [],
     ServerGRPC_Ingress = ArgoCDIngressSpec0\<rparr>"

record ArgoCDServerServiceSpec =
  ServerService_Type :: string

definition ArgoCDServerServiceSpec0 :: ArgoCDServerServiceSpec where
  "ArgoCDServerServiceSpec0 = \<lparr>ServerService_Type = []\<rparr>"

record ArgoCDServerSpec =
  Server_Autoscale :: ArgoCDServerAutoscaleSpec
  Server_GRPC :: ArgoCDServerGRPCSpec
  Server_Host :: string
  Server_Ingress :: ArgoCDIngressSpec
  Server_Insecure :: bool
  Server_LogLevel :: string
  Server_LogFormat :: string
  Server_Replicas :: "(32 word) option"
  Server_Resources :: "ResourceRequirements option"
  Server_Route :: ArgoCDRouteSpec
  Server_Service :: ArgoCDServerServiceSpec
  Server_Env :: "EnvVar list"
  Server_ExtraCommandArgs :: "string list"

definition ArgoCDServerSpec0 :: ArgoCDServerSpec where
  "ArgoCDServerSpec0 = \<lparr>Server_Autoscale = ArgoCDServerAutoscaleSpec0,
     Server_GRPC = ArgoCDServerGRPCSpec0, Server_Host = [], Server_Ingress = ArgoCDIngressSpec0,
     Server_Insecure = False, Server_LogLevel = [], Server_LogFormat = [], Server_Replicas = None,
     Server_Resources = None, Server_Route = ArgoCDRouteSpec0,
     Server_Service = ArgoCDServerServiceSpec0, Server_Env = [],
     Server_ExtraCommandArgs = []\<rparr>"

record ArgoCDDexSpec =
  Dex_Config :: string
  Dex_Groups :: "string list"
  Dex_Image :: string
  Dex_OpenShiftOAuth :: bool
  Dex_Resources :: "ResourceRequirements option"
  Dex_Version :: string

definition ArgoCDDexSpec0 :: ArgoCDDexSpec where
  "ArgoCDDexSpec0 = \<lparr>Dex_Config = [], Dex_Groups = [], Dex_Image = [],
     Dex_OpenShiftOAuth = False, Dex_Resources = None, Dex_Version = []\<rparr>"

record ArgoCDKeycloakSpec =
  Keycloak_Image :: string
  Keycloak_Resources :: "ResourceRequirements option"
  Keycloak_RootCA :: string
  Keycloak_Version :: string
  Keycloak_VerifyTLS :: "bool option"

record ArgoCDSSOSpec =
  SSO_Provider :: string
  SSO_Dex :: "ArgoCDDexSpec option"
  SSO_Keycloak :: "ArgoCDKeycloakSpec option"
  SSO_Image :: string
  SSO_Resources :: "ResourceRequirements option"
  SSO_VerifyTLS :: "bool option"
  SSO_Version :: string

definition ArgoCDSSOSpec0 :: ArgoCDSSOSpec where
  "ArgoCDSSOSpec0 = \<lparr>SSO_Provider = [], SSO_Dex = None, SSO_Keycloak = None, SSO_Image = [],
     SSO_Resources = None, SSO_VerifyTLS = None, SSO_Version = []\<rparr>"

record ArgoCDCASpec =
  CA_ConfigMapName :: string
  CA_SecretName :: string

definition ArgoCDCASpec0 :: ArgoCDCASpec where
  "ArgoCDCASpec0 = \<lparr>CA_ConfigMapName = [], CA_SecretName = []\<rparr>"

record ArgoCDTLSSpec =
  TLS_CA :: ArgoCDCASpec
  TLS_InitialCerts :: "string \<rightharpoonup> string"

definition ArgoCDTLSSpec0 :: ArgoCDTLSSpec where
  "ArgoCDTLSSpec0 = \<lparr>TLS_CA = ArgoCDCASpec0, TLS_InitialCerts = Map.empty\<rparr>"

record Banner =
  Banner_Content :: string
  Banner_URL :: string

record ArgoCDSpec =
  Spec_ApplicationSet :: "ArgoCDApplicationSet option"
  Spec_ApplicationInstanceLabelKey :: string
  Spec_ConfigManagementPlugins :: string
  Spec_Controller :: ArgoCDApplicationControllerSpec
  Spec_DisableAdmin :: bool
  Spec_ExtraConfig :: "string \<rightharpoonup> string"
  Spec_GATrackingID :: string
  Spec_GAAnonymizeUsers :: bool
  Spec_Grafana :: ArgoCDGrafanaSpec
  Spec_HA :: ArgoCDHASpec
  Spec_HelpChatURL :: string
  Spec_HelpChatText :: string
  Spec_Image :: string
  Spec_Import :: "ArgoCDImportSpec option"
  Spec_InitialRepositories :: string
  Spec_InitialSSHKnownHosts :: SSHHostsSpec
  Spec_KustomizeBuildOptions :: string
  Spec_KustomizeVersions :: "KustomizeVersionSpec list"
  Spec_OIDCConfig :: string
  Spec_Monitoring :: ArgoCDMonitoringSpec
  Spec_NodePlacement :: "ArgoCDNodePlacementSpec option"
  Spec_Notifications :: ArgoCDNotifications
  Spec_Prometheus :: ArgoCDPrometheusSpec
  Spec_RBAC :: ArgoCDRBACSpec
  Spec_Redis :: ArgoCDRedisSpec
  Spec_Repo :: ArgoCDRepoSpec
  Spec_RepositoryCredentials :: string
  Spec_ResourceCustomizations :: string
  Spec_ResourceHealthChecks :: "ResourceHealthCheck list"
  Spec_ResourceIgnoreDifferences :: "ResourceIgnoreDifference option"
  Spec_ResourceActions :: "ResourceAction list"
  Spec_ResourceExclusions :: string
  Spec_ResourceInclusions :: string
  Spec_ResourceTrackingMethod :: string
  Spec_Server :: ArgoCDServerSpec
  Spec_SourceNamespaces :: "string list"
  Spec_SSO :: "ArgoCDSSOSpec option"
  Spec_StatusBadgeEnabled :: bool
  Spec_TLS :: ArgoCDTLSSpec
  Spec_UsersAnonymousEnabled :: bool
  Spec_Version :: string
  Spec_Banner :: "Banner option"
  Spec_Dex :: "ArgoCDDexSpec option"

definition ArgoCDSpec0 :: ArgoCDSpec where
  "ArgoCDSpec0 = \<lparr>Spec_ApplicationSet = None, Spec_ApplicationInstanceLabelKey = [],
     Spec_ConfigManagementPlugins = [], Spec_Controller = ArgoCDApplicationControllerSpec0,
     Spec_DisableAdmin = False, Spec_ExtraConfig = Map.empty, Spec_GATrackingID = [],
     Spec_GAAnonymizeUsers = False, Spec_Grafana = ArgoCDGrafanaSpec0, Spec_HA = ArgoCDHASpec0,
     Spec_HelpChatURL = [], Spec_HelpChatText = [], Spec_Image = [], Spec_Import = None,
     Spec_InitialRepositories = [], Spec_InitialSSHKnownHosts = SSHHostsSpec0,
     Spec_KustomizeBuildOptions = [], Spec_KustomizeVersions = [], Spec_OIDCConfig = [],
     Spec_Monitoring = ArgoCDMonitoringSpec0, Spec_NodePlacement = None,
     Spec_Notifications = ArgoCDNotifications0, Spec_Prometheus = ArgoCDPrometheusSpec0,
     Spec_RBAC = ArgoCDRBACSpec0, Spec_Redis = ArgoCDRedisSpec0, Spec_Repo = ArgoCDRepoSpec0,
     Spec_RepositoryCredentials = [], Spec_ResourceCustomizations = [],
     Spec_ResourceHealthChecks = [], Spec_ResourceIgnoreDifferences = None,
     Spec_ResourceActions = [], Spec_ResourceExclusions = [], Spec_ResourceInclusions = [],
     Spec_ResourceTrackingMethod = [], Spec_Server = ArgoCDServerSpec0, Spec_SourceNamespaces = [],
     Spec_SSO = None, Spec_StatusBadgeEnabled = False, Spec_TLS = ArgoCDTLSSpec0,
     Spec_UsersAnonymousEnabled = False, Spec_Version = [], Spec_Banner = None,
     Spec_Dex = None\<rparr>"

record ArgoCDStatus =
  Status_ApplicationController :: string
  Status_ApplicationSetController :: string
  Status_SSO :: string
  Status_NotificationsController :: string
  Status_Phase :: string
  Status_Redis :: string
  Status_Repo :: string
  Status_Server :: string
  Status_RepoTLSChecksum :: string
  Status_RedisTLSChecksum :: string
  Status_Host :: string

definition ArgoCDStatus0 :: ArgoCDStatus where
  "ArgoCDStatus0 = \<lparr>Status_ApplicationController = [], Status_ApplicationSetController = [],
     Status_SSO = [], Status_NotificationsController = [], Status_Phase = [], Status_Redis = [],
     Status_Repo = [], Status_Server = [], Status_RepoTLSChecksum = [], Status_RedisTLSChecksum = [],
     Status_Host = []\<rparr>"

record ArgoCD =
  ArgoCD_TypeMeta :: TypeMeta
  ArgoCD_ObjectMeta :: ObjectMeta
  ArgoCD_Spec :: ArgoCDSpec
  ArgoCD_Status :: ArgoCDStatus

definition ArgoCD0 :: ArgoCD where
  "ArgoCD0 = \<lparr>ArgoCD_TypeMeta = TypeMeta0, ArgoCD_ObjectMeta = named [] [],
     ArgoCD_Spec = ArgoCDSpec0, ArgoCD_Status = ArgoCDStatus0\<rparr>"

record ArgoCDCertificateSpec =
  Certificate_SecretName :: string

record ArgoCDList =
  List_TypeMeta :: TypeMeta
  List_ListMeta :: ListMeta
  List_Items :: "ArgoCD list"

end
