(* ===== verification/Select_Loop.thy ===== *)
theory Select_Loop
  imports Retry
begin

text \<open>
  The waiting loops \<open>for { select { ... } }\<close> of \<open>pkg/argocd\<close>, with the timer and the tickers that
  they create before they start. A loop has no bound of its own: it ends when a case returns, at the
  latest when its timer is found to have fired. It is written with fuel, one unit for each
  \<open>select\<close>; the result \<open>None\<close> means that the fuel was not enough. How much is enough, and that more of
  it changes nothing, is proved here once for all bodies.
\<close>

section \<open>Timers and tickers\<close>

definition second :: int where "second = 1000000000"

text \<open>
  A ticker sends at every multiple of its period after its start. Its channel holds one tick, and
  a tick that finds it full is dropped: so there is one to receive when a tick has passed since the
  last one that was received, whose number is \<open>tk_Taken\<close>.
\<close>

record ticker =
  tk_Channel :: channel
  tk_Period :: int
  tk_Start :: int
  tk_Taken :: int

definition NewTicker :: "channel \<Rightarrow> int \<Rightarrow> int \<Rightarrow> ticker" where
  "NewTicker ch period now = \<lparr>tk_Channel = ch, tk_Period = period, tk_Start = now, tk_Taken = 0\<rparr>"

text \<open>\<open>time.After(d)\<close>: when it is due.\<close>

definition After :: "int \<Rightarrow> int \<Rightarrow> int" where
  "After d now = now + d"

definition ticked :: "int \<Rightarrow> ticker \<Rightarrow> int" where
  "ticked now t = (now - tk_Start t) div tk_Period t"

definition tick_ready :: "int \<Rightarrow> ticker \<Rightarrow> bool" where
  "tick_ready now t \<longleftrightarrow> tk_Taken t < ticked now t"

definition next_tick :: "ticker \<Rightarrow> int" where
  "next_tick t = tk_Start t + (tk_Taken t + 1) * tk_Period t"

definition receive_tick :: "int \<Rightarrow> channel \<Rightarrow> ticker \<Rightarrow> ticker" where
  "receive_tick now ch t =
     (if tk_Channel t = ch \<and> tick_ready now t then t\<lparr>tk_Taken := ticked now t\<rparr> else t)"

text \<open>The channels of a loop: whether it listens to the context, when its \<open>time.After\<close> is due (it
  sends once), its tickers, and the time of the last look.\<close>

record channels =
  cs_Ctx :: bool
  cs_Timeout :: "int option"
  cs_Tickers :: "ticker list"
  cs_Now :: int

definition wake_times :: "channels \<Rightarrow> int list" where
  "wake_times cs = (case cs_Timeout cs of None \<Rightarrow> [] | Some d \<Rightarrow> [d]) @ map next_tick (cs_Tickers cs)"

definition ready_at :: "int \<Rightarrow> go_error option \<Rightarrow> channels \<Rightarrow> channel list" where
  "ready_at now ctx cs =
     (case ctx of None \<Rightarrow> [] | Some e \<Rightarrow> [CtxDone e]) @
     (case cs_Timeout cs of None \<Rightarrow> [] | Some d \<Rightarrow> if d \<le> now then [TimeoutC] else []) @
     map tk_Channel (filter (tick_ready now) (cs_Tickers cs))"

definition receive :: "int \<Rightarrow> channel \<Rightarrow> channels \<Rightarrow> channels" where
  "receive now ch cs = cs
     \<lparr>cs_Timeout := (if ch = TimeoutC then None else cs_Timeout cs),
      cs_Tickers := map (receive_tick now ch) (cs_Tickers cs), cs_Now := now\<rparr>"

section \<open>Select\<close>

text \<open>
  A \<open>select\<close> looks at the clock, which does not run backwards; unless the context is done it waits
  until some channel is ready. Of several ready channels Go picks one at random: the environment
  does.
\<close>

definition select_time :: "env \<Rightarrow> channels \<Rightarrow> go_error option \<Rightarrow> trace \<Rightarrow> int" where
  "select_time E cs ctx tr =
     (let now = max (cs_Now cs) (ho_Clock (host E) tr 0)
      in case ctx of
           Some _ \<Rightarrow> now
         | None \<Rightarrow> (case wake_times cs of [] \<Rightarrow> now | w # ws \<Rightarrow> max now (fold min ws w)))"

definition pick :: "env \<Rightarrow> trace \<Rightarrow> channel list \<Rightarrow> channel" where
  "pick E tr ready = ready ! (ho_Pick (host E) tr ready mod length ready)"

definition Select :: "env \<Rightarrow> channels \<Rightarrow> (int \<times> channel list \<times> channel) op" where
  "Select E cs =
     call (\<lambda>tr. let ctx = (if cs_Ctx cs then ho_CtxErr (host E) tr else None);
                    now = select_time E cs ctx tr;
                    ready = ready_at now ctx cs
                in (now, ready, pick E tr ready))
          (\<lambda>(now, ready, ch). ESelect now ready ch)"

text \<open>The body of a loop gets the channel that was received from; \<open>None\<close> is to go on, \<open>Some v\<close> to
  return \<open>v\<close>.\<close>

fun select_loop :: "nat \<Rightarrow> env \<Rightarrow> channels \<Rightarrow> (channel \<Rightarrow> 'a option op) \<Rightarrow> 'a option op" where
  "select_loop 0 E cs body = ret None"
| "select_loop (Suc fuel) E cs body = do {
     (now, ready, ch) \<leftarrow> Select E cs;
     r \<leftarrow> body ch;
     case r of
       Some v \<Rightarrow> ret (Some v)
     | None \<Rightarrow> select_loop fuel E (receive now ch cs) body
   }"

section \<open>Rules\<close>

lemma only_select_loop [only_rules]:
  assumes "\<And>ch. only P (body ch)" and "\<And>now ready ch. P (ESelect now ready ch)"
  shows "only P (select_loop fuel E cs body)"
  by (induction fuel arbitrary: cs) (auto simp: Select_def intro!: only_rules assms)

text \<open>What a returning case establishes holds at the end of the loop.\<close>

lemma emits_select_loop:
  assumes "\<And>now ready ch. emits (body ch)
    (\<lambda>r es. case r of None \<Rightarrow> True | Some v \<Rightarrow> \<Phi> v (ESelect now ready ch # es))"
  shows "emits (select_loop fuel E cs body)
    (\<lambda>r es. case r of None \<Rightarrow> True | Some v \<Rightarrow> later (\<lambda>_. True) (\<Phi> v) es)"
proof (induction fuel arbitrary: cs)
  case 0
  then show ?case by (simp add: emits_ret)
next
  case (Suc fuel)
  have select: "emits (Select E cs) (\<lambda>p es. es = [case p of (now, ready, ch) \<Rightarrow> ESelect now ready ch])"
    by (simp add: Select_def emits_call)
  show ?case
    unfolding select_loop.simps
    by (intro emits_bind [OF select] emits_prod emits_bind [OF assms] emits_option
        emits_mono [OF Suc.IH] emits_ret)
      (auto intro: later_now later_append [of _ _ _ "ESelect now ready ch # es" for now ready ch es, simplified]
        split: option.splits)
qed

section \<open>Fuel\<close>

text \<open>More fuel than needed changes nothing.\<close>

lemma select_loop_more:
  "fst (run_state (select_loop n E cs body) tr) = Some v \<Longrightarrow>
   run_state (select_loop (n + k) E cs body) tr = run_state (select_loop n E cs body) tr"
  by (induction n arbitrary: tr cs) (auto simp: Select_def split: prod.splits option.splits)

section \<open>Termination\<close>

text \<open>
  The timer of a loop is due once and for all, so the tickers tick only so often before; after that
  every \<open>select\<close> finds the timer ready. Go makes a random choice among the ready channels, with equal
  chances: that the timer is passed over at most \<open>K\<close> times is all that is needed of it.
\<close>

fun passes_over :: "event \<Rightarrow> bool" where
  "passes_over (ESelect now ready ch) \<longleftrightarrow> List.member ready TimeoutC \<and> ch \<noteq> TimeoutC"
| "passes_over _ = False"

definition passed_over :: "trace \<Rightarrow> nat" where
  "passed_over es = length (filter passes_over es)"

lemma passed_over_simps [simp]:
  "passed_over [] = 0" "passed_over (es @ es') = passed_over es + passed_over es'"
  "passed_over (e # es) = (if passes_over e then Suc (passed_over es) else passed_over es)"
  by (simp_all add: passed_over_def)

definition fair_select :: "nat \<Rightarrow> env \<Rightarrow> trace \<Rightarrow> bool" where
  "fair_select K E tr \<longleftrightarrow> (\<forall>es ready. K \<le> passed_over es \<longrightarrow> TimeoutC \<in> set ready \<longrightarrow>
     pick E (tr @ es) ready = TimeoutC)"

fun stops :: "channels \<Rightarrow> channel \<Rightarrow> bool" where
  "stops cs (CtxDone _) = cs_Ctx cs"
| "stops cs TimeoutC = True"
| "stops cs _ = False"

definition remaining :: "int \<Rightarrow> ticker \<Rightarrow> nat" where
  "remaining d t = nat (ticked d t - tk_Taken t)"

definition turns :: "int \<Rightarrow> channels \<Rightarrow> nat" where
  "turns d cs = sum_list (map (remaining d) (cs_Tickers cs))"

definition waiting :: "int \<Rightarrow> channels \<Rightarrow> bool" where
  "waiting d cs \<longleftrightarrow> cs_Timeout cs = Some d \<and>
     (\<forall>t \<in> set (cs_Tickers cs). 0 < tk_Period t \<and> (tk_Channel t = CheckTick \<or> tk_Channel t = DeleteTick))"

lemma ticked_mono: "0 < tk_Period t \<Longrightarrow> now \<le> d \<Longrightarrow> ticked now t \<le> ticked d t"
  by (simp add: ticked_def zdiv_mono1)

lemma next_tick_ready: "0 < tk_Period t \<Longrightarrow> next_tick t \<le> now \<Longrightarrow> tick_ready now t"
proof -
  assume "0 < tk_Period t" "next_tick t \<le> now"
  then have "(tk_Taken t + 1) * tk_Period t div tk_Period t \<le> ticked now t"
    unfolding ticked_def by (intro zdiv_mono1) (simp_all add: next_tick_def)
  then show "tick_ready now t" using \<open>0 < tk_Period t\<close> by (simp add: tick_ready_def)
qed

lemma receive_remaining: "remaining d (receive_tick now ch t) \<le> remaining d t"
  by (auto simp: receive_tick_def remaining_def tick_ready_def ticked_def)

lemma receive_remaining_less:
  assumes "tk_Channel t = ch" "tick_ready now t" "0 < tk_Period t" "now \<le> d"
  shows "remaining d (receive_tick now ch t) < remaining d t"
  using assms ticked_mono [of t now d]
  by (simp add: receive_tick_def remaining_def tick_ready_def) (simp add: ticked_def)

lemma receive_turns:
  "turns d (receive now ch cs) \<le> turns d cs"
  unfolding turns_def receive_def by (simp add: receive_remaining sum_list_mono)

lemma sum_list_less:
  fixes f g :: "'a \<Rightarrow> nat"
  assumes "\<And>x. x \<in> set xs \<Longrightarrow> f x \<le> g x" and "x \<in> set xs" and "f x < g x"
  shows "sum_list (map f xs) < sum_list (map g xs)"
  using assms
proof (induction xs)
  case (Cons y ys)
  have "sum_list (map f ys) \<le> sum_list (map g ys)" by (rule sum_list_mono) (use Cons.prems in simp)
  moreover have "f y \<le> g y" using Cons.prems by simp
  moreover have "f y < g y \<or> sum_list (map f ys) < sum_list (map g ys)" using Cons by auto
  ultimately show ?case by simp linarith
qed simp

lemma receive_turns_less:
  assumes "waiting d cs" "t \<in> set (cs_Tickers cs)" "tick_ready now t" "now \<le> d"
  shows "turns d (receive now (tk_Channel t) cs) < turns d cs"
  unfolding turns_def receive_def
  using assms receive_remaining_less [of t "tk_Channel t" now d]
  by (auto simp: waiting_def receive_remaining o_def intro!: sum_list_less [of _ _ _ t])

lemma waiting_receive: "waiting d cs \<Longrightarrow> ch \<noteq> TimeoutC \<Longrightarrow> waiting d (receive now ch cs)"
  by (auto simp: waiting_def receive_def receive_tick_def)

lemma stops_receive [simp]: "stops (receive now ch cs) = stops cs"
proof
  show "stops (receive now ch cs) ch' = stops cs ch'" for ch'
    by (cases ch') (simp_all add: receive_def)
qed

lemma fold_min_in: "fold min ws w \<in> insert w (set ws)"
proof (induction ws arbitrary: w)
  case (Cons v ws)
  then show ?case using Cons [of "min v w"] by (auto simp: min_def split: if_splits)
qed simp

text \<open>What a \<open>select\<close> gives: one of the ready channels, and there is one.\<close>

lemma select_ready:
  assumes "waiting d cs" and "run_state (Select E cs) tr = ((now, ready, ch), tr')"
  shows "ch \<in> set ready" and "ch = pick E tr ready" and "tr' = tr @ [ESelect now ready ch]"
    and "TimeoutC \<in> set ready \<longleftrightarrow> d \<le> now"
    and "stops cs ch \<or> (\<exists>t \<in> set (cs_Tickers cs). ch = tk_Channel t \<and> tick_ready now t)"
proof -
  define ctx where "ctx = (if cs_Ctx cs then ho_CtxErr (host E) tr else None)"
  have now: "now = select_time E cs ctx tr" and ready: "ready = ready_at now ctx cs"
    and ch: "ch = pick E tr ready" and tr': "tr' = tr @ [ESelect now ready ch]"
    using assms(2) by (auto simp: Select_def ctx_def Let_def)
  show "ch = pick E tr ready" "tr' = tr @ [ESelect now ready ch]" by fact+
  have "ready \<noteq> []"
  proof (cases ctx)
    case (Some e)
    then show ?thesis by (simp add: ready ready_at_def)
  next
    case None
    obtain w ws where ws: "wake_times cs = w # ws"
      using assms(1) by (cases "wake_times cs") (auto simp: wake_times_def waiting_def)
    define v where "v = fold min ws w"
    have "v \<le> now" unfolding now select_time_def v_def by (simp add: None ws Let_def)
    moreover have "v \<in> set (wake_times cs)" using fold_min_in [of ws w] by (simp add: ws v_def)
    ultimately have "d \<le> now \<or> (\<exists>t \<in> set (cs_Tickers cs). next_tick t \<le> now)"
      using assms(1) by (auto simp: wake_times_def waiting_def)
    then show ?thesis
      using assms(1) next_tick_ready
      by (auto simp: ready ready_at_def waiting_def filter_empty_conv)
  qed
  then show in_ready: "ch \<in> set ready" by (simp add: ch pick_def)
  show "TimeoutC \<in> set ready \<longleftrightarrow> d \<le> now"
    using assms(1) by (auto simp: ready ready_at_def waiting_def split: option.splits)
  show "stops cs ch \<or> (\<exists>t \<in> set (cs_Tickers cs). ch = tk_Channel t \<and> tick_ready now t)"
    using in_ready by (auto simp: ready ready_at_def ctx_def split: option.splits if_splits)
qed

text \<open>Every \<open>select\<close> that does not stop the loop brings its end nearer.\<close>

lemma select_progress:
  assumes "waiting d cs" and "fair_select K E tr"
    and "run_state (Select E cs) (tr @ es) = ((now, ready, ch), tr')" and "\<not> stops cs ch"
  shows "turns d (receive now ch cs) + (K - passed_over (es @ ESelect now ready ch # es'))
    < turns d cs + (K - passed_over es)"
proof (cases "d \<le> now")
  case True
  then have timeout: "TimeoutC \<in> set ready" using select_ready(4) [OF assms(1,3)] by simp
  have "ch \<noteq> TimeoutC" using assms(4) by auto
  then have "passed_over es < K"
    using assms(2) timeout select_ready(2) [OF assms(1,3)] unfolding fair_select_def by (meson not_le)
  moreover have "passes_over (ESelect now ready ch)"
    using timeout \<open>ch \<noteq> TimeoutC\<close> by (simp add: List.member_iff)
  ultimately show ?thesis using receive_turns [of d now ch cs] by simp
next
  case False
  obtain t where "t \<in> set (cs_Tickers cs)" "ch = tk_Channel t" "tick_ready now t"
    using select_ready(5) [OF assms(1,3)] assms(4) by blast
  then have "turns d (receive now ch cs) < turns d cs"
    using receive_turns_less [OF assms(1), of t now] False by simp
  then show ?thesis by simp
qed

lemma select_loop_returns:
  fixes body :: "channel \<Rightarrow> 'a option op"
  assumes final: "\<And>ch tr. stops cs ch \<Longrightarrow> result (body ch) tr \<noteq> None"
    and body: "\<And>ch. emits (body ch) (\<lambda>_ _. True)"
    and fair: "fair_select K E tr"
  shows "waiting d cs \<Longrightarrow> turns d cs + (K - passed_over es) \<le> n \<Longrightarrow>
    result (select_loop (Suc n) E cs body) (tr @ es) \<noteq> None"
  using final
proof (induction n arbitrary: es cs)
  case (0 es cs)
  obtain now ready ch tr' where run: "run_state (Select E cs) (tr @ es) = ((now, ready, ch), tr')"
    by (metis prod.exhaust)
  have "stops cs ch" using select_progress [OF 0(1) fair run] 0(2) by fastforce
  then show ?case
    using 0(3) [of ch tr'] run by (cases "run_state (body ch) tr'") (auto simp: result_def split: option.splits)
next
  case (Suc n es cs)
  obtain now ready ch tr' where run: "run_state (Select E cs) (tr @ es) = ((now, ready, ch), tr')"
    by (metis prod.exhaust)
  note tr' = select_ready(3) [OF Suc.prems(1) run]
  show ?case
  proof (cases "result (body ch) tr'")
    case (Some v)
    then show ?thesis using run by (cases "run_state (body ch) tr'") (simp add: result_def)
  next
    case None
    then have go: "\<not> stops cs ch" using Suc.prems(3) by blast
    let ?es = "es @ ESelect now ready ch # events (body ch) tr'"
    have body_run: "run_state (body ch) tr' = (None, tr @ ?es)"
      using emits_run [OF body, of ch tr'] None by (simp add: tr')
    have "result (select_loop (Suc n) E (receive now ch cs) body) (tr @ ?es) \<noteq> None"
    proof (rule Suc.IH)
      show "waiting d (receive now ch cs)" using Suc.prems(1) go by (intro waiting_receive) auto
      show "turns d (receive now ch cs) + (K - passed_over ?es) \<le> n"
        using select_progress [OF Suc.prems(1) fair run go, of "events (body ch) tr'"] Suc.prems(2) by linarith
    qed (use Suc.prems(3) in simp)
    then show ?thesis
      unfolding result_def select_loop.simps(2) [of "Suc n"] by (simp add: run body_run del: select_loop.simps)
  qed
qed

lemma remaining_new:
  assumes "0 < p" and "t0 \<le> now"
  shows "remaining (After (n * p) t0) (NewTicker ch p now) \<le> nat n"
proof -
  have "(t0 + n * p - now) div p \<le> n * p div p" using assms by (intro zdiv_mono1) simp_all
  then show ?thesis using assms by (simp add: remaining_def ticked_def NewTicker_def After_def)
qed

text \<open>Enough fuel, and then always the same result.\<close>

lemma select_loop_enough:
  fixes body :: "channel \<Rightarrow> 'a option op"
  assumes "\<And>ch tr. stops cs ch \<Longrightarrow> result (body ch) tr \<noteq> None"
    and "\<And>ch. emits (body ch) (\<lambda>_ _. True)"
    and "fair_select K E tr" and "waiting d cs" and "turns d cs \<le> n"
  shows "\<exists>v. \<forall>k. result (select_loop (Suc (n + K) + k) E cs body) tr = Some v"
proof -
  have "result (select_loop (Suc (n + K)) E cs body) (tr @ []) \<noteq> None"
    by (rule select_loop_returns [OF assms(1-4)]) (use assms(5) in simp_all)
  then obtain v where v: "fst (run_state (select_loop (Suc (n + K)) E cs body) tr) = Some v"
    by (auto simp: result_def simp del: select_loop.simps)
  have "result (select_loop (Suc (n + K) + k) E cs body) tr = Some v" for k
    using select_loop_more [OF v, of k] v by (simp add: result_def del: select_loop.simps)
  then show ?thesis by blast
qed

end
