(* ===== verification/Argo_Instance.thy ===== *)
theory Argo_Instance
  imports Argo_Types Task_Sync Rbac Select_Loop
begin

text \<open>
  The Argo CD instance, \<open>pkg/argocd/deployment.go\<close>: the object that the bootstrap creates, field by
  field, its creation and the wait until it runs. Quantities are parsed, marshalled and converted
  outside the repository, by \<open>argo_lib\<close>.
\<close>

definition ArgoCDInstanceName :: string where "ArgoCDInstanceName = ''openshift-gitops''"

section \<open>Third-party helpers\<close>

record ArgoCDResource =
  ar_APIGroups :: "string list"
  ar_Kinds :: "string list"
  ar_Clusters :: "string list"

record argo_lib =
  al_MustParse :: "string \<Rightarrow> int"
  al_Marshal :: "ArgoCDResource list \<Rightarrow> go_error + string"
  al_ToUnstructured :: "ArgoCD \<Rightarrow> go_error + unstructured"

text \<open>\<open>resource.MustParse\<close> as documented: a decimal number, of thousandths after \<open>m\<close> and of powers
  of 1024 after \<open>Mi\<close> and \<open>Gi\<close>; in nano-units.\<close>

locale quantity_syntax =
  fixes parse :: "string \<Rightarrow> int"
  assumes units: "parse (nat_digits n) = int n * 10 ^ 9"
    and milli: "parse (nat_digits n @ ''m'') = int n * 10 ^ 6"
    and mebi: "parse (nat_digits n @ ''Mi'') = int n * 2 ^ 20 * 10 ^ 9"
    and gibi: "parse (nat_digits n @ ''Gi'') = int n * 2 ^ 30 * 10 ^ 9"

fun digits_value :: "int \<Rightarrow> string \<Rightarrow> int" where
  "digits_value acc [] = acc"
| "digits_value acc (c # s) = digits_value (10 * acc + (of_char c - 48)) s"

definition documented_MustParse :: "string \<Rightarrow> int" where
  "documented_MustParse s =
     (let n = digits_value 0 (takeWhile is_digit s); u = dropWhile is_digit s
      in if u = [] then n * 10 ^ 9 else if u = ''m'' then n * 10 ^ 6
         else if u = ''Mi'' then n * 2 ^ 20 * 10 ^ 9 else n * 2 ^ 30 * 10 ^ 9)"

lemma digits_value_append: "digits_value a (s @ t) = digits_value (digits_value a s) t"
  by (induction a s rule: digits_value.induct) auto

lemma digit_char:
  assumes "n < 10"
  shows "of_char (char_of (48 + n)) = 48 + int n" and "is_digit (char_of (48 + n))"
proof -
  have code: "(of_char (char_of (48 + n)) :: nat) = 48 + n" using assms by simp
  then show "of_char (char_of (48 + n)) = 48 + int n"
    by (metis of_nat_of_char of_nat_add of_nat_numeral)
  from code assms show "is_digit (char_of (48 + n))" by (simp add: is_digit_def in_range_def)
qed

lemma nat_digits_value: "digits_value 0 (nat_digits n) = int n"
proof (induction n rule: nat_digits.induct)
  case (1 n)
  show ?case
  proof (cases "n < 10")
    case False
    then have "int (n mod 10) + 10 * int (n div 10) = int n" by presburger
    with 1 False show ?thesis
      by (subst nat_digits.simps) (simp add: digits_value_append digit_char)
  qed (subst nat_digits.simps, simp add: digit_char)
qed

lemma nat_digits_digits: "c \<in> set (nat_digits n) \<Longrightarrow> is_digit c"
proof (induction n rule: nat_digits.induct)
  case (1 n)
  then show ?case by (subst (asm) (2) nat_digits.simps) (auto simp: digit_char split: if_splits)
qed

lemma split_quantity:
  assumes "u = [] \<or> \<not> is_digit (hd u)"
  shows "takeWhile is_digit (nat_digits n @ u) = nat_digits n" "dropWhile is_digit (nat_digits n @ u) = u"
proof -
  have "\<forall>c \<in> set (nat_digits n). is_digit c" using nat_digits_digits by blast
  moreover have "takeWhile is_digit u = []" "dropWhile is_digit u = u" using assms by (cases u; simp)+
  ultimately show "takeWhile is_digit (nat_digits n @ u) = nat_digits n" "dropWhile is_digit (nat_digits n @ u) = u"
    by (simp_all add: takeWhile_append2 dropWhile_append2)
qed

lemma digits_only: "takeWhile is_digit (nat_digits n) = nat_digits n" "dropWhile is_digit (nat_digits n) = []"
  by (simp_all add: takeWhile_eq_all_conv dropWhile_eq_Nil_conv nat_digits_digits)

lemma not_digit [simp]: "\<not> is_digit (CHR ''m'')" "\<not> is_digit (CHR ''M'')" "\<not> is_digit (CHR ''G'')"
  by (simp_all add: is_digit_def in_range_def)

interpretation documented_quantity: quantity_syntax documented_MustParse
proof
  fix n
  show "documented_MustParse (nat_digits n) = int n * 10 ^ 9"
    by (simp add: documented_MustParse_def digits_only nat_digits_value)
  show "documented_MustParse (nat_digits n @ ''m'') = int n * 10 ^ 6"
    by (simp add: documented_MustParse_def split_quantity nat_digits_value)
  show "documented_MustParse (nat_digits n @ ''Mi'') = int n * 2 ^ 20 * 10 ^ 9"
    by (simp add: documented_MustParse_def split_quantity nat_digits_value)
  show "documented_MustParse (nat_digits n @ ''Gi'') = int n * 2 ^ 30 * 10 ^ 9"
    by (simp add: documented_MustParse_def split_quantity nat_digits_value)
qed

section \<open>The instance\<close>

definition quota :: "argo_lib \<Rightarrow> string \<Rightarrow> string \<Rightarrow> string \<Rightarrow> string \<Rightarrow> ResourceRequirements" where
  "quota A limit_mem limit_cpu request_mem request_cpu =
     \<lparr>rq_Limits = [''memory'' \<mapsto> al_MustParse A limit_mem, ''cpu'' \<mapsto> al_MustParse A limit_cpu],
      rq_Requests = [''memory'' \<mapsto> al_MustParse A request_mem, ''cpu'' \<mapsto> al_MustParse A request_cpu]\<rparr>"

definition exclusions :: "ArgoCDResource list" where
  "exclusions =
     [\<lparr>ar_APIGroups = [''internal.open-cluster-management.io''], ar_Kinds = [''ManagedClusterInfo''],
       ar_Clusters = [''*'']\<rparr>,
      \<lparr>ar_APIGroups = [''clusterview.open-cluster-management.io''], ar_Kinds = [''ManagedClusterInfo''],
       ar_Clusters = [''*'']\<rparr>,
      \<lparr>ar_APIGroups = [''view.open-cluster-management.io''], ar_Kinds = [''ManagedClusterView''],
       ar_Clusters = [''*'']\<rparr>,
      \<lparr>ar_APIGroups = [''tekton.dev''], ar_Kinds = [''TaskRun'', ''PipelineRun''], ar_Clusters = [''*'']\<rparr>]"

definition edge_tls :: TLSConfig where
  "edge_tls = \<lparr>tc_InsecureEdgeTerminationPolicy = ''Redirect'', tc_Termination = ''edge''\<rparr>"

definition policy_installer :: Container where
  "policy_installer = \<lparr>co_Name = ''policy-generator-install'',
     co_Image = ''registry.redhat.io/rhacm2/multicluster-operators-subscription-rhel8:v2.7'',
     co_Command = [''/bin/bash''],
     co_Args = [''-c'', ''cp /etc/kustomize/plugin/policy.open-cluster-management.io/v1/policygenerator/PolicyGenerator /policy-generator/PolicyGenerator''],
     co_WorkingDir = [], co_ImagePullPolicy = [],
     co_VolumeMounts = [(''policy-generator'', ''/policy-generator'')],
     co_Env = [], co_Privileged = False, co_RunAsUser = None\<rparr>"

definition instance_repo :: "argo_lib \<Rightarrow> ArgoCDRepoSpec" where
  "instance_repo A = ArgoCDRepoSpec0\<lparr>
     Repo_Env := [\<lparr>ev_Name = ''KUSTOMIZE_PLUGIN_HOME'', ev_Value = ''/etc/kustomize/plugin'', ev_SecretKeyRef = None\<rparr>],
     Repo_InitContainers := [policy_installer],
     Repo_Resources := Some (quota A ''1Gi'' ''1000m'' ''256Mi'' ''250m''),
     Repo_VolumeMounts := [(''policy-generator'',
       ''/etc/kustomize/plugin/policy.open-cluster-management.io/v1/policygenerator'')],
     Repo_Volumes := [''policy-generator'']\<rparr>"

definition instance_server :: "argo_lib \<Rightarrow> ArgoCDServerSpec" where
  "instance_server A = ArgoCDServerSpec0\<lparr>
     Server_Insecure := True, Server_Replicas := Int32 1,
     Server_Resources := Some (quota A ''256Mi'' ''500m'' ''128Mi'' ''125m''),
     Server_Route := ArgoCDRouteSpec0\<lparr>Route_Enabled := True, Route_TLS := Some edge_tls\<rparr>\<rparr>"

definition instance_grafana :: "argo_lib \<Rightarrow> ArgoCDGrafanaSpec" where
  "instance_grafana A = ArgoCDGrafanaSpec0\<lparr>
     Grafana_Resources := Some (quota A ''256Mi'' ''500m'' ''128Mi'' ''250m''),
     Grafana_Route := ArgoCDRouteSpec0\<lparr>Route_TLS := Some edge_tls\<rparr>,
     Grafana_Size := Int32 1\<rparr>"

definition instance_sso :: "argo_lib \<Rightarrow> ArgoCDSSOSpec" where
  "instance_sso A = ArgoCDSSOSpec0\<lparr>
     SSO_Dex := Some (ArgoCDDexSpec0\<lparr>Dex_OpenShiftOAuth := True,
       Dex_Resources := Some (quota A ''256Mi'' ''500m'' ''128Mi'' ''250m'')\<rparr>),
     SSO_Provider := SSOProviderTypeDex\<rparr>"

definition instance_spec :: "argo_lib \<Rightarrow> string \<Rightarrow> ArgoCDSpec" where
  "instance_spec A resources = ArgoCDSpec0\<lparr>
     Spec_ApplicationSet := Some (ArgoCDApplicationSet0\<lparr>
       ApplicationSet_Resources := Some (quota A ''1Gi'' ''2'' ''512Mi'' ''250m'')\<rparr>),
     Spec_Controller := ArgoCDApplicationControllerSpec0\<lparr>
       Controller_Resources := Some (quota A ''2048Mi'' ''2000m'' ''1024Mi'' ''250m'')\<rparr>,
     Spec_Grafana := instance_grafana A,
     Spec_HA := ArgoCDHASpec0\<lparr>HA_Resources := Some (quota A ''256Mi'' ''500m'' ''128Mi'' ''250m'')\<rparr>,
     Spec_KustomizeBuildOptions := ''--enable-alpha-plugins'',
     Spec_Prometheus := ArgoCDPrometheusSpec0\<lparr>
       Prometheus_Route := ArgoCDRouteSpec0\<lparr>Route_TLS := Some edge_tls\<rparr>\<rparr>,
     Spec_RBAC := ArgoCDRBACSpec0\<lparr>RBAC_DefaultPolicy := StrPrt ''role:admin'',
       RBAC_Policy := StrPrt ''g, system:cluster-admins, role:admin'', RBAC_Scopes := StrPrt ''[groups]''\<rparr>,
     Spec_Redis := ArgoCDRedisSpec0\<lparr>Redis_Resources := Some (quota A ''256Mi'' ''500m'' ''128Mi'' ''250m'')\<rparr>,
     Spec_Repo := instance_repo A,
     Spec_ResourceExclusions := resources,
     Spec_Server := instance_server A,
     Spec_SSO := Some (instance_sso A)\<rparr>"

definition argo_instance :: "argo_lib \<Rightarrow> string \<Rightarrow> ArgoCD" where
  "argo_instance A resources = ArgoCD0\<lparr>
     ArgoCD_TypeMeta := \<lparr>tm_Kind = ''ArgoCD'', tm_APIVersion = ''argoproj.io/v1beta1''\<rparr>,
     ArgoCD_ObjectMeta := named ''openshift-gitops'' ''openshift-gitops'',
     ArgoCD_Spec := instance_spec A resources\<rparr>"

section \<open>Operations\<close>

text \<open>After an error the object is still the empty one of its kind.\<close>

definition getDeployment :: "env \<Rightarrow> string \<Rightarrow> string \<Rightarrow> (unstructured \<times> go_error option) op" where
  "getDeployment E name namespace = do {
     r \<leftarrow> Get_ArgoCD E namespace name;
     case r of
       Inl e \<Rightarrow> ret ([(''apiVersion'', String_any ''argoproj.io/v1beta1''), (''kind'', String_any ''ArgoCD'')], Some e)
     | Inr u \<Rightarrow> ret (u, None)
   }"

definition createDeployment :: "argo_lib \<Rightarrow> env \<Rightarrow> (go_error option) op" where
  "createDeployment A E =
     (case al_Marshal A exclusions of
        Inl e \<Rightarrow> ret (Some (wrapf ''failed to marshal ArgoCDResource slice to YAML: '' e))
      | Inr resources \<Rightarrow>
          (case al_ToUnstructured A (argo_instance A resources) of
             Inl e \<Rightarrow> ret (Some (wrapf ''failed to convert ArgoCD struct to unstructured: '' e))
           | Inr u \<Rightarrow> do {
               c \<leftarrow> Create_Unstructured E u;
               case c of
                 Inl e \<Rightarrow> ret (Some (wrapf ''failed to create ArgoCD resource: '' e))
               | Inr _ \<Rightarrow> ret None
             }))"

definition server_running :: "unstructured \<Rightarrow> bool" where
  "server_running u \<longleftrightarrow>
     list_ex (\<lambda>(key, v). key = ''server'' \<and> as_string (Some v) = ''Running'') (as_map (map_of u ''status''))"

text \<open>One turn of the loop of \<open>waitForDeployment\<close>. It has two channels: all but the timeout is the tick.
  The timer and the ticker are created once, before the loop; the clock does not run backwards.\<close>

definition deployment_turn :: "env \<Rightarrow> channel \<Rightarrow> (go_error option) option op" where
  "deployment_turn E ch =
     (case ch of
        TimeoutC \<Rightarrow> ret (Some (Some (Errorf ''deployment took too long to become ready'')))
      | _ \<Rightarrow> do {
          r \<leftarrow> getDeployment E ArgoCDInstanceName ArgoCDNamespace;
          case r of (u, err) \<Rightarrow>
            if err \<noteq> None then ret None
            else if server_running u then ret (Some None)
            else ret None
        })"

definition waitForDeployment :: "nat \<Rightarrow> env \<Rightarrow> (go_error option) option op" where
  "waitForDeployment fuel E = do {
     t0 \<leftarrow> Clock E 0;
     let timeout = After (600 * second) t0;
     t1 \<leftarrow> Clock E 1;
     let now = max t0 t1;
     let ticker = NewTicker CheckTick (15 * second) now;
     select_loop fuel E
       \<lparr>cs_Ctx = False, cs_Timeout = Some timeout, cs_Tickers = [ticker], cs_Now = now\<rparr> (deployment_turn E)
   }"

definition argoDeployment :: "nat \<Rightarrow> setup_lib \<Rightarrow> argo_lib \<Rightarrow> env \<Rightarrow> (go_error option) option op" where
  "argoDeployment fuel U A E = do {
     r \<leftarrow> getDeployment E ArgoCDInstanceName ArgoCDNamespace;
     case r of (u, err) \<Rightarrow>
       if (case err of None \<Rightarrow> False | Some e \<Rightarrow> \<not> IsNotFound e)
       then ret (Some (map_option (wrapf ''failed to check for existing ArgoCD deployment: '') err))
       else do {
         c \<leftarrow> (if sl_GetName U u \<noteq> ArgoCDInstanceName then createDeployment A E else ret None);
         case c of
           Some e \<Rightarrow> ret (Some (Some e))
         | None \<Rightarrow> waitForDeployment fuel E
       }
   }"

section \<open>The resources that the instance asks for\<close>

text \<open>The resource requirements of the instance, one for each workload.\<close>

definition instance_resources :: "ArgoCD \<Rightarrow> ResourceRequirements option list" where
  "instance_resources a = (let s = ArgoCD_Spec a in
     [Option.bind (Spec_ApplicationSet s) ApplicationSet_Resources, Controller_Resources (Spec_Controller s),
      Grafana_Resources (Spec_Grafana s), HA_Resources (Spec_HA s), Redis_Resources (Spec_Redis s),
      Repo_Resources (Spec_Repo s), Server_Resources (Spec_Server s),
      Option.bind (Option.bind (Spec_SSO s) SSO_Dex) Dex_Resources])"

fun requests_within_limits :: "ResourceRequirements option \<Rightarrow> bool" where
  "requests_within_limits None = False"
| "requests_within_limits (Some r) =
     list_all (\<lambda>k. case (rq_Requests r k, rq_Limits r k) of
        (Some q, Some l) \<Rightarrow> 0 < q \<and> q \<le> l
      | _ \<Rightarrow> False) [''cpu'', ''memory'']"

context quantity_syntax
begin

lemma numerals:
  "nat_digits (Suc 0) = ''1''" "nat_digits 2 = ''2''" "nat_digits 125 = ''125''" "nat_digits 128 = ''128''"
  "nat_digits 250 = ''250''" "nat_digits 256 = ''256''" "nat_digits 500 = ''500''" "nat_digits 512 = ''512''"
  "nat_digits 1000 = ''1000''" "nat_digits 1024 = ''1024''" "nat_digits 2000 = ''2000''" "nat_digits 2048 = ''2048''"
  by code_simp+

lemma parsed:
  "parse ''2'' = 2 * 10 ^ 9" "parse ''125m'' = 125 * 10 ^ 6" "parse ''250m'' = 250 * 10 ^ 6"
  "parse ''500m'' = 500 * 10 ^ 6" "parse ''1000m'' = 1000 * 10 ^ 6" "parse ''2000m'' = 2000 * 10 ^ 6"
  "parse ''128Mi'' = 128 * 2 ^ 20 * 10 ^ 9" "parse ''256Mi'' = 256 * 2 ^ 20 * 10 ^ 9"
  "parse ''512Mi'' = 512 * 2 ^ 20 * 10 ^ 9" "parse ''1024Mi'' = 1024 * 2 ^ 20 * 10 ^ 9"
  "parse ''2048Mi'' = 2048 * 2 ^ 20 * 10 ^ 9" "parse ''1Gi'' = 2 ^ 30 * 10 ^ 9"
  using units [of 2] milli [of 125] milli [of 250] milli [of 500] milli [of 1000] milli [of 2000]
    mebi [of 128] mebi [of 256] mebi [of 512] mebi [of 1024] mebi [of 2048] gibi [of 1]
  by (simp_all add: numerals)

end

lemmas instance_defs = argo_instance_def instance_spec_def instance_repo_def instance_server_def
  instance_grafana_def instance_sso_def quota_def

text \<open>Every workload of the created instance asks for processor time and memory, and for no more
  of either than its limit.\<close>

lemma instance_requests_within_limits:
  assumes "quantity_syntax (al_MustParse A)"
  shows "list_all requests_within_limits (instance_resources (argo_instance A resources))"
  by (simp add: instance_resources_def Let_def instance_defs quantity_syntax.parsed [OF assms])

definition sample_argo_lib :: argo_lib where
  "sample_argo_lib = \<lparr>al_MustParse = documented_MustParse, al_Marshal = (\<lambda>_. Inr ''exclusions''),
     al_ToUnstructured = (\<lambda>a. Inr [(''kind'', String_any (tm_Kind (ArgoCD_TypeMeta a)))])\<rparr>"

end
