(* ===== verification/Argo_Bootstrap.thy ===== *)
theory Argo_Bootstrap
  imports Argo_Instance
begin

text \<open>
  The Argo CD bootstrap, \<open>pkg/argocd/application.go\<close> and \<open>pkg/argocd/core.go\<close>: the application that
  delivers the Tekton tasks, the wait until it is synchronised and healthy, and the whole run.
\<close>

definition ArgoCDApplicationName :: string where "ArgoCDApplicationName = ''deployer-tekton-tasks''"

section \<open>Operations\<close>


definition application_spec :: "OperatorConfig \<Rightarrow> any" where
  "application_spec cfg = Map_any
     [(''project'', String_any ''default''),
      (''destination'', Map_any [(''server'', String_any ''https://kubernetes.default.svc''),
         (''namespace'', String_any ''default'')]),
      (''source'', Map_any
        [(''directory'', Map_any [(''recurse'', Bool_any True),
            (''exclude'', String_any ''{**/*/catalog-info.yaml,**/*/tests/**}'')]),
         (''repoURL'', String_any (oc_ArgoCDRepoURL cfg)),
         (''targetRevision'', String_any ''main''),
         (''path'', String_any ''tasks'')]),
      (''syncPolicy'', Map_any
        [(''automated'', Map_any [(''prune'', Bool_any True), (''selfHeal'', Bool_any True)]),
         (''syncOptions'', Slice_any [String_any ''CreateNamespace=true''])])]"

definition application_object :: "OperatorConfig \<Rightarrow> unstructured" where
  "application_object cfg =
     [(''metadata'', Map_any [(''name'', String_any ArgoCDApplicationName),
        (''namespace'', String_any ArgoCDNamespace)]),
      (''spec'', application_spec cfg),
      (''apiVersion'', String_any ''argoproj.io/v1alpha1''),
      (''kind'', String_any ''Application'')]"

definition createApplication :: "lib \<Rightarrow> env \<Rightarrow> OperatorConfig \<Rightarrow> (go_error option) op" where
  "createApplication L E cfg = do {
     b \<leftarrow> CreateArgoCDRBAC L E;
     case b of
       Some e \<Rightarrow> ret (Some e)
     | None \<Rightarrow> do {
         c \<leftarrow> Create_Unstructured E (application_object cfg);
         case c of Inl e \<Rightarrow> ret (Some e) | Inr _ \<Rightarrow> ret None
       }
   }"

definition synced_and_healthy :: "unstructured \<Rightarrow> bool" where
  "synced_and_healthy u =
     (let status = as_map (map_of u ''status'');
          syncCode = as_string (map_of (as_map (map_of status ''sync'')) ''status'');
          healthCode = as_string (map_of (as_map (map_of status ''health'')) ''status'')
      in syncCode = ''Synced'' \<and> healthCode = ''Healthy'')"

text \<open>One turn of the loop of \<open>waitForTasks\<close>. Its timer and its two tickers are created before the loop.\<close>

definition tasks_turn :: "lib \<Rightarrow> env \<Rightarrow> OperatorConfig \<Rightarrow> channel \<Rightarrow> (go_error option) option op" where
  "tasks_turn L E cfg ch =
     (case ch of
        CtxDone e \<Rightarrow> ret (Some (Some e))
      | TimeoutC \<Rightarrow> ret (Some (Some (Errorf ''tasks creation took too long to install'')))
      | DeleteTick \<Rightarrow> do {
          Delete_Application E ArgoCDNamespace ArgoCDApplicationName;
          createApplication L E cfg;
          ret None
        }
      | CheckTick \<Rightarrow> do {
          r \<leftarrow> Get_Application E ArgoCDNamespace ArgoCDApplicationName;
          case r of
            Inl e \<Rightarrow> ret None
          | Inr u \<Rightarrow> if synced_and_healthy u then ret (Some None) else ret None
        })"

definition waitForTasks :: "nat \<Rightarrow> lib \<Rightarrow> env \<Rightarrow> OperatorConfig \<Rightarrow> (go_error option) option op" where
  "waitForTasks fuel L E cfg = do {
     t0 \<leftarrow> Clock E 0;
     let timeout = After (600 * second) t0;
     t1 \<leftarrow> Clock E 1;
     let now1 = max t0 t1;
     let checkTicker = NewTicker CheckTick (10 * second) now1;
     t2 \<leftarrow> Clock E 2;
     let now2 = max now1 t2;
     let deleteTicker = NewTicker DeleteTick (60 * second) now2;
     select_loop fuel E
       \<lparr>cs_Ctx = True, cs_Timeout = Some timeout, cs_Tickers = [checkTicker, deleteTicker], cs_Now = now2\<rparr>
       (tasks_turn L E cfg)
   }"



section \<open>What the waits establish\<close>

lemma emits_channel [emit_rules]:
  "(\<And>e. ch = CtxDone e \<Longrightarrow> emits (m e) \<Phi>) \<Longrightarrow> (ch = TimeoutC \<Longrightarrow> emits t \<Phi>) \<Longrightarrow>
   (ch = DeleteTick \<Longrightarrow> emits d \<Phi>) \<Longrightarrow> (ch = CheckTick \<Longrightarrow> emits c \<Phi>) \<Longrightarrow>
   emits (case ch of CtxDone e \<Rightarrow> m e | TimeoutC \<Rightarrow> t | DeleteTick \<Rightarrow> d | CheckTick \<Rightarrow> c) \<Phi>"
  by (cases ch) simp_all

fun shows_running :: "event \<Rightarrow> bool" where
  "shows_running (EGet KArgoCD ns n (Inr (OUnstructured u))) \<longleftrightarrow>
     ns = ArgoCDNamespace \<and> n = ArgoCDInstanceName \<and> server_running u"
| "shows_running _ = False"

fun shows_synced :: "event \<Rightarrow> bool" where
  "shows_synced (EGet KApplication ns n (Inr (OUnstructured u))) \<longleftrightarrow>
     ns = ArgoCDNamespace \<and> n = ArgoCDApplicationName \<and> synced_and_healthy u"
| "shows_synced _ = False"

definition ends_in :: "(event \<Rightarrow> bool) \<Rightarrow> go_error option \<Rightarrow> trace \<Rightarrow> bool" where
  "ends_in P v es \<longleftrightarrow> (case v of Some _ \<Rightarrow> True | None \<Rightarrow> es \<noteq> [] \<and> P (last es))"


lemma getDeployment_reads:
  "emits (getDeployment E name ns) (\<lambda>r es. case r of (u, err) \<Rightarrow> err = None \<longrightarrow>
     es = [EGet KArgoCD ns name (Inr (OUnstructured u))])"
  unfolding getDeployment_def Get_ArgoCD_def by (intro emit_rules) auto

lemma deployment_turn_running:
  "emits (deployment_turn E ch) (\<lambda>r es. case r of None \<Rightarrow> True | Some v \<Rightarrow> ends_in shows_running v (ESelect now ready ch # es))"
  unfolding deployment_turn_def
  by (intro emits_channel emits_bind [OF getDeployment_reads] emits_prod emits_if emits_ret)
    (auto simp: ends_in_def)

lemma tasks_turn_synced:
  "emits (tasks_turn L E cfg ch) (\<lambda>r es. case r of None \<Rightarrow> True | Some v \<Rightarrow> ends_in shows_synced v (ESelect now ready ch # es))"
proof -
  have any: "emits (createApplication L E cfg) (\<lambda>_ _. True)"
    by (rule emits_mono [OF only_emits [where P = "\<lambda>_. True"]])
      (auto simp: createApplication_def CreateArgoCDRBAC_def interface_defs getGitHubPAT_def
        createArgoCDSecret_def create_or_keep_def intro!: only_rules)
  show ?thesis
    unfolding tasks_turn_def Delete_Application_def Get_Application_def
    by (intro emit_rules emits_bind [OF any]) (auto simp: ends_in_def)
qed









section \<open>Properties\<close>


text \<open>C17: Both waits of the bootstrap return, whatever the cluster answers and however long it takes:
  the timer is set once, so at most 70 ticks of the two tickers (40 of the one of the deployment) are
  received before it is due, and after that it is among the ready channels of every \<open>select\<close>. If the
  random choice of \<open>select\<close> passes it over at most \<open>K\<close> times, 71 + \<open>K\<close> turns (41 + \<open>K\<close>) are enough.\<close>

theorem waits_return:
  assumes "fair_select K E tr"
  shows "(\<exists>v. \<forall>k. result (waitForTasks (Suc (70 + K) + k) L E cfg) tr = Some v) \<and>
    (\<exists>v. \<forall>k. result (waitForDeployment (Suc (40 + K) + k) E) tr = Some v)"
proof
  let ?t = "\<lambda>i. ho_Clock (host E) tr i"
  define now1 now2 where "now1 = max (?t 0) (?t 1)" and "now2 = max now1 (?t 2)"
  let ?d = "After (600 * second) (?t 0)"
  let ?cs = "\<lparr>cs_Ctx = True, cs_Timeout = Some ?d, cs_Tickers = [NewTicker CheckTick (10 * second) now1,
    NewTicker DeleteTick (60 * second) now2], cs_Now = now2\<rparr>"
  let ?ds = "\<lparr>cs_Ctx = False, cs_Timeout = Some ?d, cs_Tickers = [NewTicker CheckTick (15 * second) now1],
    cs_Now = now1\<rparr>"
  have wait: "waiting ?d ?cs" "waiting ?d ?ds"
    by (simp_all add: waiting_def NewTicker_def second_def)
  have "remaining ?d (NewTicker CheckTick (10 * second) now1) \<le> 60"
      "remaining ?d (NewTicker DeleteTick (60 * second) now2) \<le> 10"
      "remaining ?d (NewTicker CheckTick (15 * second) now1) \<le> 40"
    using remaining_new [of "10 * second" "?t 0" now1 60 CheckTick] remaining_new [of "60 * second" "?t 0" now2 10 DeleteTick]
      remaining_new [of "15 * second" "?t 0" now1 40 CheckTick]
    by (simp_all add: now1_def now2_def second_def)
  then have few: "turns ?d ?cs \<le> 70" "turns ?d ?ds \<le> 40"
    by (simp_all add: turns_def)
  have quiet: "emits (tasks_turn L E cfg ch) (\<lambda>_ _. True)" "emits (deployment_turn E ch) (\<lambda>_ _. True)" for ch
    by (rule emits_mono [OF tasks_turn_synced], simp) (rule emits_mono [OF deployment_turn_running], simp)
  have final: "stops ?cs ch \<Longrightarrow> result (tasks_turn L E cfg ch) t \<noteq> None"
      "stops ?ds ch \<Longrightarrow> result (deployment_turn E ch) t \<noteq> None" for ch t
    by (cases ch; simp add: tasks_turn_def deployment_turn_def)+
  have run: "result (waitForTasks n L E cfg) tr = result (select_loop n E ?cs (tasks_turn L E cfg)) tr"
      "result (waitForDeployment n E) tr = result (select_loop n E ?ds (deployment_turn E)) tr" for n
    by (simp_all only: waitForTasks_def waitForDeployment_def Clock_def result_def Let_def now1_def now2_def
        run_state_bind run_asks prod.case One_nat_def)
  show "\<exists>v. \<forall>k. result (waitForTasks (Suc (70 + K) + k) L E cfg) tr = Some v"
    unfolding run by (rule select_loop_enough [OF final(1) quiet(1) assms wait(1) few(1)])
  show "\<exists>v. \<forall>k. result (waitForDeployment (Suc (40 + K) + k) E) tr = Some v"
    unfolding run by (rule select_loop_enough [OF final(2) quiet(2) assms wait(2) few(2)])
qed

text \<open>An application that never gets healthy; the choice falls on the timer whenever it is ready.\<close>

definition sample_waiting :: env where
  "sample_waiting = (sample_env sample_deployment)
     \<lparr>cluster := sample_setup\<lparr>ks_get_Unstructured := (\<lambda>_ _ _ _. Inl missing)\<rparr>,
      host := (host (sample_env sample_deployment))
        \<lparr>ho_Pick := (\<lambda>_ ready. length (takeWhile (\<lambda>ch. ch \<noteq> TimeoutC) ready))\<rparr>\<rparr>"

lemma sample_waiting_fair: "fair_select 3 sample_waiting []"
proof -
  have "pick sample_waiting tr ready = TimeoutC" if "TimeoutC \<in> set ready" for tr ready
  proof -
    have "length (takeWhile (\<lambda>ch. ch \<noteq> TimeoutC) ready) < length ready"
      using that by (induction ready) auto
    then show ?thesis
      using nth_length_takeWhile [of "\<lambda>ch. ch \<noteq> TimeoutC" ready] by (simp add: pick_def sample_waiting_def)
  qed
  then show ?thesis by (simp add: fair_select_def)
qed

lemma waits_return_witness:
  "(\<exists>v. \<forall>k. result (waitForTasks (Suc (70 + 3) + k) sample_lib sample_waiting (config_of (\<lambda>_. None))) [] = Some v) \<and>
   (\<exists>v. \<forall>k. result (waitForDeployment (Suc (40 + 3) + k) sample_waiting) [] = Some v)"
  by (rule waits_return [OF sample_waiting_fair])

end
