(* ===== verification/Startup.thy ===== *)
theory Startup
  imports Rbac Task_Sync Argo_Bootstrap
begin

text \<open>
  The start of the operator, \<open>cmd/main.go\<close>: the options of the manager from the command line, and
  the steps of \<open>main\<close> in their order. A step that fails ends the process with exit code 1; the
  Argo CD bootstrap is commented out in the source and is no step.
\<close>

section \<open>Command line\<close>

record flags =
  fl_metricsAddr :: string
  fl_metricsCertPath :: string
  fl_metricsCertName :: string
  fl_metricsCertKey :: string
  fl_webhookCertPath :: string
  fl_webhookCertName :: string
  fl_webhookCertKey :: string
  fl_enableLeaderElection :: bool
  fl_probeAddr :: string
  fl_secureMetrics :: bool
  fl_enableHTTP2 :: bool

definition default_flags :: flags where
  "default_flags = \<lparr>fl_metricsAddr = ''0'',
     fl_metricsCertPath = [], fl_metricsCertName = ''tls.crt'', fl_metricsCertKey = ''tls.key'',
     fl_webhookCertPath = [], fl_webhookCertName = ''tls.crt'', fl_webhookCertKey = ''tls.key'',
     fl_enableLeaderElection = False, fl_probeAddr = '':8081'', fl_secureMetrics = True,
     fl_enableHTTP2 = False\<rparr>"

definition tlsOpts :: "flags \<Rightarrow> tls_option list" where
  "tlsOpts f = (if \<not> fl_enableHTTP2 f then [DisableHTTP2] else [])"

text \<open>The files of a certificate watcher, where a path is given.\<close>

definition webhookCert :: "flags \<Rightarrow> (string \<times> string) option" where
  "webhookCert f =
     (if fl_webhookCertPath f \<noteq> []
      then Some (filepath_Join (fl_webhookCertPath f) (fl_webhookCertName f),
                 filepath_Join (fl_webhookCertPath f) (fl_webhookCertKey f))
      else None)"

definition metricsCert :: "flags \<Rightarrow> (string \<times> string) option" where
  "metricsCert f =
     (if fl_metricsCertPath f \<noteq> []
      then Some (filepath_Join (fl_metricsCertPath f) (fl_metricsCertName f),
                 filepath_Join (fl_metricsCertPath f) (fl_metricsCertKey f))
      else None)"

definition with_certificate :: "(string \<times> string) option \<Rightarrow> tls_option list \<Rightarrow> tls_option list" where
  "with_certificate cert opts = (case cert of None \<Rightarrow> opts | Some (c, k) \<Rightarrow> opts @ [WatchCertificate c k])"

definition managerOptions :: "flags \<Rightarrow> manager_options" where
  "managerOptions f = \<lparr>mo_MetricsBindAddress = fl_metricsAddr f,
     mo_MetricsSecureServing = fl_secureMetrics f,
     mo_MetricsTLSOpts = with_certificate (metricsCert f) (tlsOpts f),
     mo_MetricsFilterProvider = fl_secureMetrics f,
     mo_WebhookTLSOpts = with_certificate (webhookCert f) (tlsOpts f),
     mo_HealthProbeBindAddress = fl_probeAddr f,
     mo_LeaderElection = fl_enableLeaderElection f,
     mo_LeaderElectionID = ''20eb548c.techzone.ibm.com'',
     mo_Uncached = [''Pod'', ''Node'']\<rparr>"

section \<open>The process\<close>

definition OperatorNamespace :: "env \<Rightarrow> (go_error + string) op" where
  "OperatorNamespace E = do {
     r \<leftarrow> ReadFile E ''/var/run/secrets/kubernetes.io/serviceaccount/namespace'';
     case r of
       Inl e \<Rightarrow> ret (Inl (wrapf ''failed to read operator namespace: '' e))
     | Inr data \<Rightarrow> ret (Inr (TrimSpace data))
   }"

text \<open>\<open>if err := ...; err != nil { os.Exit(1) }\<close>, and what follows; the result is the exit code.\<close>

definition or_exit :: "(go_error option) op \<Rightarrow> nat op \<Rightarrow> nat op" where
  "or_exit step rest = do { r \<leftarrow> step; case r of Some e \<Rightarrow> ret 1 | None \<Rightarrow> rest }"

definition when_cert :: "(string \<times> string) option \<Rightarrow> (string \<Rightarrow> string \<Rightarrow> start_step) \<Rightarrow> env \<Rightarrow> (go_error option) op" where
  "when_cert cert mk E = (case cert of None \<Rightarrow> ret None | Some (c, k) \<Rightarrow> Start E (mk c k))"

text \<open>The last steps, from the client that works before the manager runs.\<close>

definition run_manager :: "lib \<Rightarrow> setup_lib \<Rightarrow> env \<Rightarrow> nat op" where
  "run_manager L U E =
     or_exit (Start E SPreClient) (
     or_exit (rbac_Run L E) (do {
       c \<leftarrow> LoadFromConfigMap L E;
       case c of
         Inl e \<Rightarrow> ret 1
       | Inr cfg \<Rightarrow>
           or_exit (Sync U E cfg) (
           or_exit (Start E SHealthz) (
           or_exit (Start E SReadyz) (
           or_exit (Start E SStart) (ret 0))))
     }))"

definition main :: "lib \<Rightarrow> setup_lib \<Rightarrow> env \<Rightarrow> flags \<Rightarrow> nat op" where
  "main L U E f =
     or_exit (when_cert (webhookCert f) SCertWatcher E) (
     or_exit (when_cert (metricsCert f) SCertWatcher E) (
     or_exit (Start E (SNewManager (managerOptions f))) (
     or_exit (Start E SDeploymentController) (
     or_exit (Start E SWebhook) (do {
       n \<leftarrow> OperatorNamespace E;
       case n of
         Inl e \<Rightarrow> ret 1
       | Inr operatorNS \<Rightarrow>
           or_exit (Start E (SCapacityController operatorNS)) (
           or_exit (when_cert (metricsCert f) SAddCertWatcher E) (
           or_exit (when_cert (webhookCert f) SAddCertWatcher E) (
           run_manager L U E)))
     })))))"

section \<open>What a run of \<open>main\<close> does\<close>

fun starts :: "event \<Rightarrow> bool" where
  "starts (EStart SStart _) = True"
| "starts _ = False"

fun step_succeeded :: "event \<Rightarrow> bool" where
  "step_succeeded (EStart _ r) \<longleftrightarrow> r = None"
| "step_succeeded _ = True"

fun is_step :: "event \<Rightarrow> bool" where
  "is_step (EStart _ _) = True"
| "is_step _ = False"

text \<open>The run stops before the manager starts, or ends with its start after steps that all succeeded
  and satisfy \<open>P\<close>.\<close>

definition outcome :: "(trace \<Rightarrow> bool) \<Rightarrow> nat \<Rightarrow> trace \<Rightarrow> bool" where
  "outcome P code es \<longleftrightarrow>
     code = 1 \<and> list_all (\<lambda>e. \<not> starts e) es \<or>
     (\<exists>pre r. es = pre @ [EStart SStart r] \<and> list_all step_succeeded pre \<and> P pre \<and>
        code = (case r of None \<Rightarrow> 0 | Some _ \<Rightarrow> 1))"

lemma or_exit_outcome:
  assumes step: "emits step (\<lambda>r es. list_all (\<lambda>e. \<not> starts e) es \<and>
      (case r of Some _ \<Rightarrow> True | None \<Rightarrow> list_all step_succeeded es \<and> Q es))"
    and rest: "\<And>es. Q es \<Longrightarrow> emits rest (outcome (\<lambda>pre. P (es @ pre)))"
  shows "emits (or_exit step rest) (outcome P)"
  unfolding or_exit_def
proof (rule emits_bind [OF step], rule emits_option, goal_cases)
  case (1 r es)
  then have es: "list_all (\<lambda>e. \<not> starts e) es" "list_all step_succeeded es" "Q es" by simp_all
  show ?case
  proof (rule emits_mono [OF rest [OF es(3)]])
    fix code es'
    assume "outcome (\<lambda>pre. P (es @ pre)) code es'"
    then consider "code = 1" "list_all (\<lambda>e. \<not> starts e) es'"
      | pre r where "es' = pre @ [EStart SStart r]" "list_all step_succeeded pre" "P (es @ pre)"
          "code = (case r of None \<Rightarrow> 0 | Some _ \<Rightarrow> 1)"
      unfolding outcome_def by blast
    then show "outcome P code (es @ es')"
    proof cases
      case 2
      then have "es @ es' = (es @ pre) @ [EStart SStart r]" "list_all step_succeeded (es @ pre)"
        using es by simp_all
      with 2 show ?thesis unfolding outcome_def by blast
    qed (use es in \<open>simp add: outcome_def\<close>)
  qed
qed (simp add: emits_ret outcome_def)

lemma Start_step:
  "s \<noteq> SStart \<Longrightarrow> emits (Start E s) (\<lambda>r es. list_all (\<lambda>e. \<not> starts e) es \<and>
     (case r of Some _ \<Rightarrow> True | None \<Rightarrow> list_all step_succeeded es \<and> es = [EStart s None]))"
  unfolding Start_def by (intro emits_call) (cases s; simp split: option.split)

lemma when_cert_step:
  "(\<And>c k. mk c k \<noteq> SStart) \<Longrightarrow> emits (when_cert cert mk E) (\<lambda>r es. list_all (\<lambda>e. \<not> starts e) es \<and>
     (case r of Some _ \<Rightarrow> True | None \<Rightarrow> list_all step_succeeded es \<and> True))"
  unfolding when_cert_def
  by (intro emits_option emits_prod emits_ret emits_mono [OF Start_step]) (auto split: option.splits)

lemma no_step: "\<forall>e \<in> set es. \<not> is_step e \<Longrightarrow> list_all (\<lambda>e. \<not> starts e) es \<and> list_all step_succeeded es"
  unfolding list_all_iff by (metis is_step.simps(1) starts.elims(2) step_succeeded.elims(3))

lemma other_step:
  assumes "only (\<lambda>e. \<not> is_step e) m"
    and "emits m (\<lambda>r es. case r of Some _ \<Rightarrow> True | None \<Rightarrow> Q es)"
  shows "emits m (\<lambda>r es. list_all (\<lambda>e. \<not> starts e) es \<and>
     (case r of Some _ \<Rightarrow> True | None \<Rightarrow> list_all step_succeeded es \<and> Q es))"
  by (rule emits_mono [OF emits_conj [OF only_emits [OF assms(1)] assms(2)]])
    (auto dest: no_step split: option.splits)

lemma no_step_LoadFromConfigMap: "only (\<lambda>e. \<not> is_step e) (LoadFromConfigMap L E)"
  by (auto simp: interface_defs intro!: only_rules)

lemma no_step_getGitHubPAT: "only (\<lambda>e. \<not> is_step e) (getGitHubPAT E cfg)"
  by (auto simp: getGitHubPAT_def interface_defs intro!: only_rules)

lemma no_step_rbac: "only (\<lambda>e. \<not> is_step e) (rbac_Run L E)"
  unfolding rbac_Run_def createPipelineSecretAndMount_def rbac_defs op_defs
  by (auto intro!: only_rules no_step_LoadFromConfigMap no_step_getGitHubPAT)

lemma no_step_documents: "only (\<lambda>e. \<not> is_step e) (apply_documents U E err docs)"
  by (rule only_mono [OF apply_documents_patches]) auto

lemma no_step_entries: "only (\<lambda>e. \<not> is_step e) (sync_entries U E base pat n entries)"
  by (induction entries arbitrary: n)
    (auto simp: applyFile_def HttpGet_def intro!: only_rules no_step_documents)

lemma no_step_Sync: "only (\<lambda>e. \<not> is_step e) (Sync U E cfg)"
  unfolding Sync_def fetchPAT_eq fetchTree_def HttpGet_def
  by (intro only_rules no_step_getGitHubPAT no_step_entries) auto

lemma load_outcome:
  assumes "only (\<lambda>e. \<not> is_step e) m"
    and m: "emits m (\<lambda>r es. case r of Inl _ \<Rightarrow> True | Inr v \<Rightarrow> Q v)"
    and rest: "\<And>v es. Q v \<Longrightarrow> emits (rest v) (outcome (\<lambda>pre. P (es @ pre)))"
  shows "emits (do { r \<leftarrow> m; case r of Inl e \<Rightarrow> ret 1 | Inr v \<Rightarrow> rest v }) (outcome P)"
proof (rule emits_bind [OF emits_conj [OF only_emits [OF assms(1)] m]], rule emits_sum, goal_cases)
  case (1 r es e)
  then have "list_all (\<lambda>e. \<not> starts e) es" using no_step by blast
  then show ?case by (intro emits_ret) (simp add: outcome_def)
next
  case (2 r es v)
  then have "Q v" "list_all (\<lambda>e. \<not> starts e) es" "list_all step_succeeded es"
    using no_step [of es] by auto
  note facts = this
  have "emits (or_exit (ret None) (rest v)) (outcome (\<lambda>pre. P (es @ pre)))"
    by (rule or_exit_outcome [where Q = "\<lambda>es. es = []"]) (use facts rest in \<open>auto intro!: emits_ret\<close>)
  then have "emits (rest v) (outcome (\<lambda>pre. P (es @ pre)))" by (simp add: or_exit_def ret_def)
  then show ?case
  proof (rule emits_mono)
    fix code es'
    assume "outcome (\<lambda>pre. P (es @ pre)) code es'"
    then consider "code = 1" "list_all (\<lambda>e. \<not> starts e) es'"
      | pre r where "es @ es' = (es @ pre) @ [EStart SStart r]" "list_all step_succeeded (es @ pre)" "P (es @ pre)"
          "code = (case r of None \<Rightarrow> 0 | Some _ \<Rightarrow> 1)"
      unfolding outcome_def using facts by auto
    then show "outcome P code (es @ es')"
      unfolding outcome_def using facts by cases auto
  qed
qed

text \<open>What the stretches of a successful start show.\<close>

definition shows_bootstrap :: "trace \<Rightarrow> bool" where
  "shows_bootstrap es \<longleftrightarrow>
     (\<exists>cfg pat es1 es2 es3. es = es1 @ es2 @ es3 \<and> list_ex binds_role es1 \<and>
        config_complete cfg \<and> pat_served cfg pat es2 \<and>
        list_ex (has_secret (github_secret PipelineNamespace GitHubSecretName GitHubUsername pat)) es2 \<and>
        list_ex (shows_mounted PipelineNamespace PipelineServiceAccount GitHubSecretName) es3)"

definition shows_sync :: "setup_lib \<Rightarrow> trace \<Rightarrow> bool" where
  "shows_sync U es \<longleftrightarrow>
     (\<exists>cfg owner repo hostname entries resp body. config_complete cfg \<and>
       parseRepoURL (oc_ArgoCDRepoURL cfg) = Inr (owner, repo, hostname) \<and>
       EHttpGet (tree_url hostname owner repo) (Inr resp) \<in> set es \<and> hr_StatusCode resp = StatusOK \<and>
       hr_Body resp = Inr body \<and> sl_decode_tree U body = Inr entries \<and>
       http_gets es = tree_url hostname owner repo #
         [raw_base hostname owner repo @ ''/'' @ tn_Path entry. entry \<leftarrow> entries,
            requested (raw_base hostname owner repo) entry])"

definition prepared :: "setup_lib \<Rightarrow> trace \<Rightarrow> bool" where
  "prepared U pre \<longleftrightarrow> (\<exists>a b c d e. pre = a @ b @ c @ d @ e \<and> shows_bootstrap b \<and> shows_sync U d)"

lemma prepared_append: "prepared U pre \<Longrightarrow> prepared U (es @ pre)"
  unfolding prepared_def by (metis append_assoc)

lemma rbac_step:
  "emits (rbac_Run L E) (\<lambda>r es. list_all (\<lambda>e. \<not> starts e) es \<and>
     (case r of Some _ \<Rightarrow> True | None \<Rightarrow> list_all step_succeeded es \<and> shows_bootstrap es))"
  unfolding shows_bootstrap_def by (rule other_step [OF no_step_rbac rbac_Run_complete])

lemma sync_step:
  assumes "config_complete cfg"
  shows "emits (Sync U E cfg) (\<lambda>r es. list_all (\<lambda>e. \<not> starts e) es \<and>
     (case r of Some _ \<Rightarrow> True | None \<Rightarrow> list_all step_succeeded es \<and> shows_sync U es))"
proof (rule other_step [OF no_step_Sync], rule emits_mono [OF Sync_requests])
  fix r es
  assume "case r of Some _ \<Rightarrow> list_all (\<lambda>e. \<not> api_write e) es
    | None \<Rightarrow> \<exists>owner repo hostname entries resp body.
       parseRepoURL (oc_ArgoCDRepoURL cfg) = Inr (owner, repo, hostname) \<and>
       EHttpGet (tree_url hostname owner repo) (Inr resp) \<in> set es \<and> hr_StatusCode resp = StatusOK \<and>
       hr_Body resp = Inr body \<and> sl_decode_tree U body = Inr entries \<and>
       http_gets es = tree_url hostname owner repo #
         [raw_base hostname owner repo @ ''/'' @ tn_Path entry. entry \<leftarrow> entries,
            requested (raw_base hostname owner repo) entry]"
  then show "case r of Some _ \<Rightarrow> True | None \<Rightarrow> shows_sync U es"
    unfolding shows_sync_def using assms by (cases r) (simp_all, blast)
qed

lemma start_manager:
  "P [] \<Longrightarrow> emits (or_exit (Start E SStart) (ret 0)) (outcome P)"
  unfolding or_exit_def Start_def
  by (intro emit_rules) (auto simp: outcome_def)

lemma run_manager_outcome: "emits (run_manager L U E) (outcome (prepared U))"
  unfolding run_manager_def
proof (rule or_exit_outcome [OF Start_step], simp, rule or_exit_outcome [OF rbac_step],
    rule load_outcome [OF no_step_LoadFromConfigMap real_loader.load_complete [unfolded realConfigLoader_Load_def]],
    rule or_exit_outcome [OF sync_step], assumption, goal_cases)
  case (1 es1 es2 cfg es3 es4)
  have "prepared U (es1 @ es2 @ es3 @ es4 @ es5)" for es5
    unfolding prepared_def using 1 by blast
  then show ?case
    by (intro or_exit_outcome [OF Start_step] start_manager) simp_all
qed

section \<open>Properties\<close>

text \<open>C12: The manager is the last thing that \<open>main\<close> starts: a run either exits with code 1 without
  having started it, or ends with its start after steps that all succeeded, the role binding, the
  secret and its mounting before the synchronisation of the tasks; the exit code is then that of
  the manager. Unless asked for, HTTP/2 is disabled on both servers of the manager.\<close>

theorem manager_starts_last:
  "emits (main L U E f) (outcome (\<lambda>pre. prepared U pre \<and>
     (\<exists>opts. EStart (SNewManager opts) None \<in> set pre \<and> mo_LeaderElection opts = fl_enableLeaderElection f \<and>
        list_all (\<lambda>tls. (DisableHTTP2 \<in> set tls) = (\<not> fl_enableHTTP2 f))
          [mo_MetricsTLSOpts opts, mo_WebhookTLSOpts opts])))"
proof -
  have opts: "mo_LeaderElection (managerOptions f) = fl_enableLeaderElection f \<and>
      list_all (\<lambda>tls. (DisableHTTP2 \<in> set tls) = (\<not> fl_enableHTTP2 f))
        [mo_MetricsTLSOpts (managerOptions f), mo_WebhookTLSOpts (managerOptions f)]"
    by (auto simp: managerOptions_def with_certificate_def tlsOpts_def split: option.splits)
  have namespace: "only (\<lambda>e. \<not> is_step e) (OperatorNamespace E)"
      "emits (OperatorNamespace E) (\<lambda>r es. case r of Inl _ \<Rightarrow> True | Inr _ \<Rightarrow> True)"
    by (auto simp: OperatorNamespace_def ReadFile_def intro!: only_rules emit_rules)
  show ?thesis
    unfolding main_def
  proof (rule or_exit_outcome [OF when_cert_step], simp, rule or_exit_outcome [OF when_cert_step], simp,
      rule or_exit_outcome [OF Start_step], simp, rule or_exit_outcome [OF Start_step], simp,
      rule or_exit_outcome [OF Start_step], simp, rule load_outcome [OF namespace],
      rule or_exit_outcome [OF Start_step], simp, rule or_exit_outcome [OF when_cert_step], simp,
      rule or_exit_outcome [OF when_cert_step], simp, rule emits_mono [OF run_manager_outcome], goal_cases)
    case (1 es1 es2 es3 es4 es5 v es6 es7 es8 es9 code es)
    then have "EStart (SNewManager (managerOptions f)) None \<in> set es3" by simp
    with opts have "prepared U pre \<Longrightarrow> prepared U (es1 @ es2 @ es3 @ es4 @ es5 @ es6 @ es7 @ es8 @ es9 @ pre) \<and>
        (\<exists>opts. EStart (SNewManager opts) None \<in> set (es1 @ es2 @ es3 @ es4 @ es5 @ es6 @ es7 @ es8 @ es9 @ pre) \<and>
          mo_LeaderElection opts = fl_enableLeaderElection f \<and>
          list_all (\<lambda>tls. (DisableHTTP2 \<in> set tls) = (\<not> fl_enableHTTP2 f))
            [mo_MetricsTLSOpts opts, mo_WebhookTLSOpts opts])" for pre
      by (auto intro!: prepared_append)
    with 1(10) show ?case unfolding outcome_def by blast
  qed
qed

end
