(* ===== verification/Deep_Copy.thy ===== *)
theory Deep_Copy
  imports Api_Types
begin

text \<open>
  The deep copies of \<open>api/v1alpha1/zz_generated.deepcopy.go\<close> over an explicit memory. Everywhere
  else in this library an object is a value; here it is what it is in Go, a struct whose pointers
  and slices are addresses, so that two objects may share memory. The lemmas show when the value
  view is right: a copy has the value of its original and shares no address with it.

  A memory gives the contents of the addresses below a limit, where the next allocation is made. A
  slice is nil or the address of its elements. \<open>x.DeepCopyInto(out)\<close> is the function from the
  struct \<open>x\<close> to the one it leaves in \<open>out\<close>, which it always overwrites first (\<open>*out = *in\<close>). The
  copies of the metadata types and of a condition belong to the apimachinery library; they are
  parameters.
\<close>

section \<open>Structs in memory\<close>

text \<open>Group and version of the API, from \<open>groupversion_info.go\<close>, and how \<open>apiVersion\<close> writes them.\<close>

definition GroupVersion :: "string \<times> string" where
  "GroupVersion = (''techzone.techzone.ibm.com'', ''v1alpha1'')"

definition api_version :: "string \<times> string \<Rightarrow> string" where
  "api_version gv = fst gv @ ''/'' @ snd gv"

type_synonym address = nat

record GoTypeMeta =
  gt_Kind :: string
  gt_APIVersion :: string

record GoObjectMeta =
  gm_Name :: string
  gm_Namespace :: string
  gm_Labels :: "address option"
  gm_Finalizers :: "address option"
  gm_DeletionTimestamp :: "address option"
  gm_CreationTimestamp :: int
  gm_Generation :: int
  gm_OwnerReferences :: "address option"

record GoListMeta =
  gl_ResourceVersion :: string
  gl_Continue :: string
  gl_RemainingItemCount :: "address option"

record GoDiagnosticEntry =
  ge_Component :: string
  ge_TaskName :: string
  ge_StepName :: string
  ge_ExitCode :: "address option"
  ge_Reason :: string
  ge_Message :: string
  ge_LogTail :: string
  ge_RemediationHint :: string

record GoDeploymentStatus =
  gs_Conditions :: "address option"
  gs_Phase :: string
  gs_Message :: string
  gs_PipelineRunName :: string
  gs_FailureCategory :: string
  gs_Diagnostics :: "address option"

record GoDeployment =
  gd_TypeMeta :: GoTypeMeta
  gd_ObjectMeta :: GoObjectMeta
  gd_Spec :: DeploymentSpec
  gd_Status :: GoDeploymentStatus

record GoDeploymentList =
  gi_TypeMeta :: GoTypeMeta
  gi_ListMeta :: GoListMeta
  gi_Items :: "address option"

text \<open>What an address may hold: a struct, the elements of a slice, or a map or number of the library.\<close>

datatype cell =
    CInt32 "32 word"
  | CConditions "Condition list"
  | CDiagnostics "GoDiagnosticEntry list"
  | CDeployments "GoDeployment list"
  | CAnsible Ansible
  | CPostDeployment PostDeployment
  | CDeploymentSpec DeploymentSpec
  | CDeploymentStatus GoDeploymentStatus
  | CDiagnosticEntry GoDiagnosticEntry
  | CDeployment GoDeployment
  | CDeploymentList GoDeploymentList
  | CDeploymentValidator unit
  | CLabels "string \<rightharpoonup> string"
  | CStrings "string list"
  | COwners "OwnerReference list"
  | CInt64 int

record memory =
  cells :: "address \<Rightarrow> cell option"
  limit :: address

definition write_cell :: "address \<Rightarrow> cell \<Rightarrow> memory \<Rightarrow> memory" where
  "write_cell a c h = h\<lparr>cells := (cells h)(a := Some c)\<rparr>"

text \<open>\<open>new\<close> and \<open>make\<close> take the address at the limit; what is there is written before it is read.\<close>

definition reserve :: "memory \<Rightarrow> memory" where
  "reserve h = h\<lparr>limit := Suc (limit h)\<rparr>"

section \<open>Copies\<close>

type_synonym 'a copier = "memory \<Rightarrow> 'a \<Rightarrow> memory \<times> 'a"

text \<open>\<open>*out = *in\<close>, all there is for a struct without pointers.\<close>

definition copy_flat :: "'a copier" where
  "copy_flat h x = (h, x)"

text \<open>\<open>if in == nil { return nil }; out := new(T); in.DeepCopyInto(out); return out\<close>, for the cells
  that hold a \<open>T\<close>.\<close>

definition deref :: "(cell \<Rightarrow> 'a option) \<Rightarrow> memory \<Rightarrow> address \<Rightarrow> 'a option" where
  "deref get h a = (case cells h a of None \<Rightarrow> None | Some c \<Rightarrow> get c)"

definition copy_pointer :: "(cell \<Rightarrow> 'a option) \<Rightarrow> ('a \<Rightarrow> cell) \<Rightarrow> 'a copier \<Rightarrow> address option copier" where
  "copy_pointer get put into h p =
     (case p of None \<Rightarrow> (h, None)
      | Some a \<Rightarrow>
          (case deref get h a of None \<Rightarrow> (h, None)
           | Some x \<Rightarrow> let (h', y) = into (reserve h) x in (write_cell (limit h) (put y) h', Some (limit h))))"

text \<open>\<open>if in.S != nil { *out = make([]T, len(*in)); for i := range *in { (*in)[i].DeepCopyInto(&(*out)[i]) } }\<close>\<close>

fun copy_elements :: "'a copier \<Rightarrow> 'a list copier" where
  "copy_elements into h [] = (h, [])"
| "copy_elements into h (x # xs) =
     (let (h1, y) = into h x; (h2, ys) = copy_elements into h1 xs in (h2, y # ys))"

definition elements :: "(cell \<Rightarrow> 'a list option) \<Rightarrow> memory \<Rightarrow> address \<Rightarrow> 'a list" where
  "elements get h a = (case deref get h a of None \<Rightarrow> [] | Some xs \<Rightarrow> xs)"

definition copy_slice :: "(cell \<Rightarrow> 'a list option) \<Rightarrow> ('a list \<Rightarrow> cell) \<Rightarrow> 'a copier \<Rightarrow> address option copier" where
  "copy_slice get put into h p =
     (case p of None \<Rightarrow> (h, None)
      | Some a \<Rightarrow> let (h', ys) = copy_elements into (reserve h) (elements get h a)
                 in (write_cell (limit h) (put ys) h', Some (limit h)))"

fun get_Int32 where
  "get_Int32 (CInt32 x) = Some x"
| "get_Int32 _ = None"

fun get_Conditions where
  "get_Conditions (CConditions x) = Some x"
| "get_Conditions _ = None"

fun get_Diagnostics where
  "get_Diagnostics (CDiagnostics x) = Some x"
| "get_Diagnostics _ = None"

fun get_Deployments where
  "get_Deployments (CDeployments x) = Some x"
| "get_Deployments _ = None"

fun get_Ansible where
  "get_Ansible (CAnsible x) = Some x"
| "get_Ansible _ = None"

fun get_PostDeployment where
  "get_PostDeployment (CPostDeployment x) = Some x"
| "get_PostDeployment _ = None"

fun get_DeploymentSpec where
  "get_DeploymentSpec (CDeploymentSpec x) = Some x"
| "get_DeploymentSpec _ = None"

fun get_DeploymentStatus where
  "get_DeploymentStatus (CDeploymentStatus x) = Some x"
| "get_DeploymentStatus _ = None"

fun get_DiagnosticEntry where
  "get_DiagnosticEntry (CDiagnosticEntry x) = Some x"
| "get_DiagnosticEntry _ = None"

fun get_Deployment where
  "get_Deployment (CDeployment x) = Some x"
| "get_Deployment _ = None"

fun get_DeploymentList where
  "get_DeploymentList (CDeploymentList x) = Some x"
| "get_DeploymentList _ = None"

fun get_DeploymentValidator where
  "get_DeploymentValidator (CDeploymentValidator x) = Some x"
| "get_DeploymentValidator _ = None"

fun get_Labels where
  "get_Labels (CLabels x) = Some x"
| "get_Labels _ = None"

fun get_Strings where
  "get_Strings (CStrings x) = Some x"
| "get_Strings _ = None"

fun get_Owners where
  "get_Owners (COwners x) = Some x"
| "get_Owners _ = None"

fun get_Int64 where
  "get_Int64 (CInt64 x) = Some x"
| "get_Int64 _ = None"


section \<open>The generated functions\<close>

record copy_lib =
  cl_ObjectMeta :: "GoObjectMeta copier"
  cl_ListMeta :: "GoListMeta copier"
  cl_Condition :: "Condition copier"

definition Ansible_DeepCopyInto :: "Ansible copier" where
  "Ansible_DeepCopyInto = copy_flat"

definition Ansible_DeepCopy :: "address option copier" where
  "Ansible_DeepCopy = copy_pointer get_Ansible CAnsible Ansible_DeepCopyInto"

definition PostDeployment_DeepCopyInto :: "PostDeployment copier" where
  "PostDeployment_DeepCopyInto h x = (let out = x; out = out\<lparr>pd_Ansible := pd_Ansible x\<rparr> in (h, out))"

definition PostDeployment_DeepCopy :: "address option copier" where
  "PostDeployment_DeepCopy = copy_pointer get_PostDeployment CPostDeployment PostDeployment_DeepCopyInto"

definition DeploymentSpec_DeepCopyInto :: "DeploymentSpec copier" where
  "DeploymentSpec_DeepCopyInto h x =
     (let out = x; out = out\<lparr>ds_Ansible := ds_Ansible x\<rparr>; out = out\<lparr>ds_PostDeployment := ds_PostDeployment x\<rparr>
      in (h, out))"

definition DeploymentSpec_DeepCopy :: "address option copier" where
  "DeploymentSpec_DeepCopy = copy_pointer get_DeploymentSpec CDeploymentSpec DeploymentSpec_DeepCopyInto"

definition DeploymentValidator_DeepCopyInto :: "unit copier" where
  "DeploymentValidator_DeepCopyInto = copy_flat"

definition DeploymentValidator_DeepCopy :: "address option copier" where
  "DeploymentValidator_DeepCopy =
     copy_pointer get_DeploymentValidator CDeploymentValidator DeploymentValidator_DeepCopyInto"

definition DiagnosticEntry_DeepCopyInto :: "GoDiagnosticEntry copier" where
  "DiagnosticEntry_DeepCopyInto h x =
     (let (h1, p) = copy_pointer get_Int32 CInt32 copy_flat h (ge_ExitCode x)
      in (h1, x\<lparr>ge_ExitCode := p\<rparr>))"

definition DiagnosticEntry_DeepCopy :: "address option copier" where
  "DiagnosticEntry_DeepCopy = copy_pointer get_DiagnosticEntry CDiagnosticEntry DiagnosticEntry_DeepCopyInto"

definition DeploymentStatus_DeepCopyInto :: "copy_lib \<Rightarrow> GoDeploymentStatus copier" where
  "DeploymentStatus_DeepCopyInto L h x =
     (let (h1, cs) = copy_slice get_Conditions CConditions (cl_Condition L) h (gs_Conditions x);
          (h2, es) = copy_slice get_Diagnostics CDiagnostics DiagnosticEntry_DeepCopyInto h1 (gs_Diagnostics x)
      in (h2, x\<lparr>gs_Conditions := cs, gs_Diagnostics := es\<rparr>))"

definition DeploymentStatus_DeepCopy :: "copy_lib \<Rightarrow> address option copier" where
  "DeploymentStatus_DeepCopy L = copy_pointer get_DeploymentStatus CDeploymentStatus (DeploymentStatus_DeepCopyInto L)"

definition Deployment_DeepCopyInto :: "copy_lib \<Rightarrow> GoDeployment copier" where
  "Deployment_DeepCopyInto L h x =
     (let out = x; out = out\<lparr>gd_TypeMeta := gd_TypeMeta x\<rparr>;
          (h1, m) = cl_ObjectMeta L h (gd_ObjectMeta x); out = out\<lparr>gd_ObjectMeta := m\<rparr>;
          out = out\<lparr>gd_Spec := gd_Spec x\<rparr>;
          (h2, s) = DeploymentStatus_DeepCopyInto L h1 (gd_Status x)
      in (h2, out\<lparr>gd_Status := s\<rparr>))"

definition Deployment_DeepCopy :: "copy_lib \<Rightarrow> address option copier" where
  "Deployment_DeepCopy L = copy_pointer get_Deployment CDeployment (Deployment_DeepCopyInto L)"

definition DeploymentList_DeepCopyInto :: "copy_lib \<Rightarrow> GoDeploymentList copier" where
  "DeploymentList_DeepCopyInto L h x =
     (let out = x; out = out\<lparr>gi_TypeMeta := gi_TypeMeta x\<rparr>;
          (h1, m) = cl_ListMeta L h (gi_ListMeta x); out = out\<lparr>gi_ListMeta := m\<rparr>;
          (h2, xs) = copy_slice get_Deployments CDeployments (Deployment_DeepCopyInto L) h1 (gi_Items x)
      in (h2, out\<lparr>gi_Items := xs\<rparr>))"

definition DeploymentList_DeepCopy :: "copy_lib \<Rightarrow> address option copier" where
  "DeploymentList_DeepCopy L = copy_pointer get_DeploymentList CDeploymentList (DeploymentList_DeepCopyInto L)"

text \<open>A \<open>runtime.Object\<close> is nil or one of the two registered types with its pointer.\<close>

datatype runtime_object = ObjDeployment address | ObjDeploymentList address

definition Deployment_DeepCopyObject :: "copy_lib \<Rightarrow> memory \<Rightarrow> address option \<Rightarrow> memory \<times> runtime_object option" where
  "Deployment_DeepCopyObject L h p =
     (let (h', c) = Deployment_DeepCopy L h p
      in (h', case c of None \<Rightarrow> None | Some a \<Rightarrow> Some (ObjDeployment a)))"

definition DeploymentList_DeepCopyObject :: "copy_lib \<Rightarrow> memory \<Rightarrow> address option \<Rightarrow> memory \<times> runtime_object option" where
  "DeploymentList_DeepCopyObject L h p =
     (let (h', c) = DeploymentList_DeepCopy L h p
      in (h', case c of None \<Rightarrow> None | Some a \<Rightarrow> Some (ObjDeploymentList a)))"

section \<open>Values, types and footprints\<close>

text \<open>The value that a struct stands for, whether its addresses hold what their types say, and the
  addresses it is read from.\<close>

type_synonym 'a foot = "memory \<Rightarrow> 'a \<Rightarrow> address set"
type_synonym 'a typed = "memory \<Rightarrow> 'a \<Rightarrow> bool"

definition pointer_value :: "(cell \<Rightarrow> 'a option) \<Rightarrow> (memory \<Rightarrow> 'a \<Rightarrow> 'v) \<Rightarrow> memory \<Rightarrow> address option \<Rightarrow> 'v option" where
  "pointer_value get val h p =
     (case p of None \<Rightarrow> None | Some a \<Rightarrow> map_option (val h) (deref get h a))"

definition pointer_typed :: "(cell \<Rightarrow> 'a option) \<Rightarrow> 'a typed \<Rightarrow> address option typed" where
  "pointer_typed get ok h p =
     (case p of None \<Rightarrow> True
      | Some a \<Rightarrow> (case deref get h a of None \<Rightarrow> False | Some x \<Rightarrow> ok h x))"

definition pointer_foot :: "(cell \<Rightarrow> 'a option) \<Rightarrow> 'a foot \<Rightarrow> address option foot" where
  "pointer_foot get foot h p =
     (case p of None \<Rightarrow> {}
      | Some a \<Rightarrow> insert a (case deref get h a of None \<Rightarrow> {} | Some x \<Rightarrow> foot h x))"

definition slice_value :: "(cell \<Rightarrow> 'a list option) \<Rightarrow> (memory \<Rightarrow> 'a \<Rightarrow> 'v) \<Rightarrow> memory \<Rightarrow> address option \<Rightarrow> 'v list" where
  "slice_value get val h p = (case p of None \<Rightarrow> [] | Some a \<Rightarrow> map (val h) (elements get h a))"

definition slice_typed :: "(cell \<Rightarrow> 'a list option) \<Rightarrow> 'a typed \<Rightarrow> address option typed" where
  "slice_typed get ok h p =
     (case p of None \<Rightarrow> True | Some a \<Rightarrow> deref get h a \<noteq> None \<and> list_all (ok h) (elements get h a))"

definition slice_foot :: "(cell \<Rightarrow> 'a list option) \<Rightarrow> 'a foot \<Rightarrow> address option foot" where
  "slice_foot get foot h p = (case p of None \<Rightarrow> {} | Some a \<Rightarrow> insert a (\<Union>x\<in>set (elements get h a). foot h x))"

definition flat_value :: "memory \<Rightarrow> 'a \<Rightarrow> 'a" where
  "flat_value h x = x"

definition flat_typed :: "'a typed" where
  "flat_typed h x = True"

definition flat_foot :: "'a foot" where
  "flat_foot h x = {}"

lemmas flat_defs = flat_value_def flat_typed_def flat_foot_def
lemmas pointer_defs = pointer_value_def pointer_typed_def pointer_foot_def
lemmas slice_defs = slice_value_def slice_typed_def slice_foot_def

text \<open>What is read depends on the footprint only.\<close>

definition framed :: "'a foot \<Rightarrow> 'a typed \<Rightarrow> (memory \<Rightarrow> 'a \<Rightarrow> 'v) \<Rightarrow> bool" where
  "framed foot ok val \<longleftrightarrow> (\<forall>h h' x. (\<forall>a\<in>foot h x. cells h' a = cells h a) \<longrightarrow>
     foot h' x = foot h x \<and> ok h' x = ok h x \<and> val h' x = val h x)"

definition extends :: "memory \<Rightarrow> memory \<Rightarrow> bool" where
  "extends h h' \<longleftrightarrow> limit h \<le> limit h' \<and> (\<forall>a<limit h. cells h' a = cells h a)"

text \<open>An object whose addresses are allocated and hold what their types say.\<close>

definition sound :: "'a foot \<Rightarrow> 'a typed \<Rightarrow> memory \<Rightarrow> 'a \<Rightarrow> bool" where
  "sound foot ok h x \<longleftrightarrow> ok h x \<and> foot h x \<subseteq> {..<limit h}"

text \<open>The contract of a deep copy: a well-typed object with the value of the original, in newly
  allocated memory only, and nothing that was there is changed.\<close>

definition fresh_copy :: "'a foot \<Rightarrow> 'a typed \<Rightarrow> (memory \<Rightarrow> 'a \<Rightarrow> 'v) \<Rightarrow> memory \<Rightarrow> 'a \<Rightarrow> memory \<Rightarrow> 'a \<Rightarrow> bool" where
  "fresh_copy foot ok val h x h' y \<longleftrightarrow>
     extends h h' \<and> foot h' y \<subseteq> {limit h..<limit h'} \<and> ok h' y \<and> val h' y = val h x"

definition deep :: "'a foot \<Rightarrow> 'a typed \<Rightarrow> (memory \<Rightarrow> 'a \<Rightarrow> 'v) \<Rightarrow> 'a copier \<Rightarrow> bool" where
  "deep foot ok val copy \<longleftrightarrow>
     (\<forall>h x. sound foot ok h x \<longrightarrow> (case copy h x of (h', y) \<Rightarrow> fresh_copy foot ok val h x h' y))"

lemma framedD:
  "framed foot ok val \<Longrightarrow> (\<And>a. a \<in> foot h x \<Longrightarrow> cells h' a = cells h a) \<Longrightarrow>
     foot h' x = foot h x \<and> ok h' x = ok h x \<and> val h' x = val h x"
  unfolding framed_def by blast

lemma framed_extends:
  "framed foot ok val \<Longrightarrow> extends h h' \<Longrightarrow> foot h x \<subseteq> {..<limit h} \<Longrightarrow>
     foot h' x = foot h x \<and> ok h' x = ok h x \<and> val h' x = val h x"
  by (rule framedD) (auto simp: extends_def)

lemma deepD:
  assumes "deep foot ok val copy" "copy h x = (h', y)" "sound foot ok h x"
  shows "extends h h'" "foot h' y \<subseteq> {limit h..<limit h'}" "ok h' y" "val h' y = val h x"
  using assms unfolding deep_def fresh_copy_def by fastforce+

lemma deepI:
  assumes "\<And>h x h' y. copy h x = (h', y) \<Longrightarrow> ok h x \<Longrightarrow> foot h x \<subseteq> {..<limit h} \<Longrightarrow>
    fresh_copy foot ok val h x h' y"
  shows "deep foot ok val copy"
  using assms unfolding deep_def sound_def by fastforce

lemma extends_refl [simp]: "extends h h"
  by (simp add: extends_def)

lemma extends_trans: "extends h h' \<Longrightarrow> extends h' h'' \<Longrightarrow> extends h h''"
  by (auto simp: extends_def)

lemma extends_below: "extends h h' \<Longrightarrow> limit h \<le> limit h'"
  by (simp add: extends_def)

lemma limit_store [simp]: "limit (write_cell a c h) = limit h"
  by (simp add: write_cell_def)

lemma cells_store: "cells (write_cell a c h) b = (if b = a then Some c else cells h b)"
  by (simp add: write_cell_def)

lemma deref_store [simp]: "deref get (write_cell a c h) b = (if b = a then get c else deref get h b)"
  by (simp add: deref_def cells_store)

lemma reserve_simps [simp]: "limit (reserve h) = Suc (limit h)" "cells (reserve h) = cells h" "extends h (reserve h)"
  by (simp_all add: reserve_def extends_def)

lemma framed_reserve:
  "framed foot ok val \<Longrightarrow> foot (reserve h) x = foot h x \<and> ok (reserve h) x = ok h x \<and> val (reserve h) x = val h x"
  by (rule framedD) simp_all

lemma framed_flat: "framed flat_foot flat_typed flat_value"
  by (simp add: framed_def flat_defs)

lemma deep_flat: "deep flat_foot flat_typed flat_value copy_flat"
  by (rule deepI) (simp add: fresh_copy_def flat_defs copy_flat_def)

lemma framed_pointer:
  assumes "framed foot ok val"
  shows "framed (pointer_foot get foot) (pointer_typed get ok) (pointer_value get val)"
  unfolding framed_def
proof (intro allI impI)
  fix h h' :: memory and p assume same: "\<forall>a\<in>pointer_foot get foot h p. cells h' a = cells h a"
  show "pointer_foot get foot h' p = pointer_foot get foot h p \<and> pointer_typed get ok h' p = pointer_typed get ok h p \<and>
    pointer_value get val h' p = pointer_value get val h p"
  proof (cases p)
    case (Some a)
    then have "deref get h' a = deref get h a" using same by (simp add: pointer_foot_def deref_def)
    moreover have "foot h' x = foot h x \<and> ok h' x = ok h x \<and> val h' x = val h x" if "deref get h a = Some x" for x
      using same that Some by (intro framedD [OF assms]) (simp add: pointer_foot_def)
    ultimately show ?thesis by (simp add: Some pointer_defs split: option.split)
  qed (simp add: pointer_defs)
qed

lemma framed_slice:
  assumes "framed foot ok val"
  shows "framed (slice_foot get foot) (slice_typed get ok) (slice_value get val)"
  unfolding framed_def
proof (intro allI impI)
  fix h h' :: memory and p assume same: "\<forall>a\<in>slice_foot get foot h p. cells h' a = cells h a"
  show "slice_foot get foot h' p = slice_foot get foot h p \<and> slice_typed get ok h' p = slice_typed get ok h p \<and>
    slice_value get val h' p = slice_value get val h p"
  proof (cases p)
    case (Some a)
    then have "deref get h' a = deref get h a" using same by (simp add: slice_foot_def deref_def)
    moreover from this have "elements get h' a = elements get h a" by (simp add: elements_def)
    moreover have "foot h' x = foot h x \<and> ok h' x = ok h x \<and> val h' x = val h x" if "x \<in> set (elements get h a)" for x
      using same that Some by (intro framedD [OF assms]) (auto simp: slice_foot_def)
    ultimately show ?thesis by (simp add: Some slice_defs list_all_iff)
  qed (simp add: slice_defs)
qed

section \<open>The combinators keep the contract\<close>

text \<open>Two copies after each other: neither disturbs the other.\<close>

lemma deep_two:
  assumes c1: "deep foot1 ok1 val1 copy1" and c2: "deep foot2 ok2 val2 copy2"
    and f1: "framed foot1 ok1 val1" and f2: "framed foot2 ok2 val2"
    and run: "copy1 h x = (h1, x')" "copy2 h1 y = (h2, y')"
    and sound: "sound foot1 ok1 h x" "sound foot2 ok2 h y"
  shows "fresh_copy foot1 ok1 val1 h x h2 x'" "fresh_copy foot2 ok2 val2 h y h2 y'"
proof -
  note one = deepD [OF c1 run(1) sound(1)]
  have still: "foot2 h1 y = foot2 h y \<and> ok2 h1 y = ok2 h y \<and> val2 h1 y = val2 h y"
    using sound(2) by (intro framed_extends [OF f2 one(1)]) (simp add: sound_def)
  then have "sound foot2 ok2 h1 y"
    using sound(2) extends_below [OF one(1)] by (auto simp: sound_def)
  note two = deepD [OF c2 run(2) this]
  have "foot1 h1 x' \<subseteq> {..<limit h1}" using one(2) by auto
  note kept = framed_extends [OF f1 two(1) this]
  have "extends h h2" by (rule extends_trans [OF one(1) two(1)])
  moreover have "foot1 h2 x' \<subseteq> {limit h..<limit h2}" using kept one(2) extends_below [OF two(1)] by auto
  moreover have "foot2 h2 y' \<subseteq> {limit h..<limit h2}" using two(2) extends_below [OF one(1)] by auto
  ultimately show "fresh_copy foot1 ok1 val1 h x h2 x'" "fresh_copy foot2 ok2 val2 h y h2 y'"
    using kept still one(3,4) two(3,4) by (simp_all add: fresh_copy_def)
qed

lemma sound_reserve: "framed foot ok val \<Longrightarrow> sound foot ok h x \<Longrightarrow> sound foot ok (reserve h) x"
  by (auto simp: sound_def framed_reserve)

lemma deep_elements:
  assumes c: "deep foot ok val copy" and f: "framed foot ok val"
    and "copy_elements copy h xs = (h', ys)" "list_all (sound foot ok h) xs"
  shows "extends h h' \<and> list_all2 (\<lambda>x y. fresh_copy foot ok val h x h' y) xs ys"
  using assms(3,4)
proof (induction xs arbitrary: h ys)
  case Nil
  then show ?case by simp
next
  case (Cons x xs)
  obtain h1 y where one: "copy h x = (h1, y)" by fastforce
  obtain ys' where rest: "copy_elements copy h1 xs = (h', ys')" and ys: "ys = y # ys'"
    using Cons.prems(1) one by (auto split: prod.splits)
  have x: "sound foot ok h x" and xs: "\<And>z. z \<in> set xs \<Longrightarrow> sound foot ok h z"
    using Cons.prems(2) by (simp_all add: list_all_iff)
  note d = deepD [OF c one x]
  have still: "foot h1 z = foot h z \<and> ok h1 z = ok h z \<and> val h1 z = val h z" if "z \<in> set xs" for z
    using xs [OF that] by (intro framed_extends [OF f d(1)]) (simp add: sound_def)
  then have "list_all (sound foot ok h1) xs"
    using xs extends_below [OF d(1)] by (fastforce simp: list_all_iff sound_def)
  note ih = Cons.IH [OF rest this]
  then have ext: "extends h h'" using extends_trans [OF d(1)] by blast
  have "foot h1 y \<subseteq> {..<limit h1}" using d(2) by auto
  with ih have "foot h' y = foot h1 y \<and> ok h' y = ok h1 y \<and> val h' y = val h1 y"
    by (intro framed_extends [OF f]) simp_all
  then have "fresh_copy foot ok val h x h' y"
    using d ext ih by (fastforce simp: fresh_copy_def extends_def)
  moreover have "list_all2 (\<lambda>x y. fresh_copy foot ok val h x h' y) xs ys'"
  proof (rule list.rel_mono_strong)
    show "list_all2 (\<lambda>x y. fresh_copy foot ok val h1 x h' y) xs ys'" using ih by blast
    show "fresh_copy foot ok val h z h' w" if "z \<in> set xs" "fresh_copy foot ok val h1 z h' w" for z w
      using that still ext extends_below [OF d(1)] by (fastforce simp: fresh_copy_def)
  qed
  ultimately show ?case using ext by (simp add: ys)
qed

text \<open>The reserved address is written last, when the contents are complete.\<close>

lemma extends_store_new: "extends (reserve h) h' \<Longrightarrow> extends h (write_cell (limit h) c h')"
  by (auto simp: extends_def cells_store)

lemma fresh_copy_store:
  assumes f: "framed foot ok val" and "fresh_copy foot ok val (reserve h) x h' y"
  shows "fresh_copy foot ok val h x (write_cell (limit h) c h') y"
proof -
  have "foot (write_cell (limit h) c h') y = foot h' y \<and> ok (write_cell (limit h) c h') y = ok h' y \<and>
      val (write_cell (limit h) c h') y = val h' y"
    using assms(2) by (intro framedD [OF f]) (auto simp: cells_store fresh_copy_def)
  then show ?thesis
    using assms(2) extends_store_new [of h h' c]
    by (fastforce simp: fresh_copy_def framed_reserve [OF f])
qed

lemma deep_pointer:
  assumes c: "deep foot ok val copy" and f: "framed foot ok val" and gp: "\<And>x. get (put x) = Some x"
  shows "deep (pointer_foot get foot) (pointer_typed get ok) (pointer_value get val) (copy_pointer get put copy)"
proof (rule deepI)
  fix h p h' q
  assume run: "copy_pointer get put copy h p = (h', q)"
    and typed: "pointer_typed get ok h p" "pointer_foot get foot h p \<subseteq> {..<limit h}"
  show "fresh_copy (pointer_foot get foot) (pointer_typed get ok) (pointer_value get val) h p h' q"
  proof (cases p)
    case None
    then show ?thesis using run by (simp add: copy_pointer_def fresh_copy_def pointer_defs)
  next
    case (Some a)
    then obtain x where x: "deref get h a = Some x" and sound: "sound foot ok h x"
      using typed by (auto simp: pointer_defs sound_def split: option.splits)
    obtain h1 y where one: "copy (reserve h) x = (h1, y)" by fastforce
    have q: "h' = write_cell (limit h) (put y) h1" "q = Some (limit h)"
      using run by (simp_all add: copy_pointer_def Some x one)
    note d = deepD [OF c one sound_reserve [OF f sound]]
    then have "fresh_copy foot ok val h x h' y"
      unfolding q(1) by (intro fresh_copy_store [OF f]) (simp add: fresh_copy_def)
    moreover have "limit h < limit h'" using extends_below [OF d(1)] by (simp add: q)
    ultimately show ?thesis by (auto simp: fresh_copy_def pointer_defs Some x q(2) q(1) gp)
  qed
qed

lemma deep_slice:
  assumes c: "deep foot ok val copy" and f: "framed foot ok val" and gp: "\<And>xs. get (put xs) = Some xs"
  shows "deep (slice_foot get foot) (slice_typed get ok) (slice_value get val) (copy_slice get put copy)"
proof (rule deepI)
  fix h p h' q
  assume run: "copy_slice get put copy h p = (h', q)"
    and typed: "slice_typed get ok h p" "slice_foot get foot h p \<subseteq> {..<limit h}"
  show "fresh_copy (slice_foot get foot) (slice_typed get ok) (slice_value get val) h p h' q"
  proof (cases p)
    case None
    then show ?thesis using run by (simp add: copy_slice_def fresh_copy_def slice_defs)
  next
    case (Some a)
    let ?xs = "elements get h a"
    obtain h1 ys where all: "copy_elements copy (reserve h) ?xs = (h1, ys)" by fastforce
    have q: "h' = write_cell (limit h) (put ys) h1" "q = Some (limit h)"
      using run by (simp_all add: copy_slice_def Some all)
    have "list_all (sound foot ok h) ?xs"
      using typed by (auto simp: Some slice_defs list_all_iff sound_def)
    then have "list_all (sound foot ok (reserve h)) ?xs"
      by (rule list.pred_mono_strong) (rule sound_reserve [OF f])
    note els = deep_elements [OF c f all this]
    have copies: "list_all2 (\<lambda>x y. fresh_copy foot ok val h x h' y) ?xs ys"
      unfolding q(1) using els by (auto intro: list.rel_mono_strong fresh_copy_store [OF f])
    have "extends h h'" "limit h < limit h'"
      using els extends_store_new extends_below [of "reserve h" h1] by (auto simp: q)
    moreover have "foot h' y \<subseteq> {limit h..<limit h'} \<and> ok h' y" if "y \<in> set ys" for y
      using copies that by (auto simp: list_all2_conv_all_nth in_set_conv_nth fresh_copy_def)
    moreover have "map (val h') ys = map (val h) ?xs"
      using copies by (auto simp: list_all2_conv_all_nth fresh_copy_def intro: nth_equalityI)
    moreover have "deref get h' (limit h) = Some ys" by (simp add: q gp)
    ultimately show ?thesis
      by (auto simp: fresh_copy_def slice_defs Some q(2) elements_def list_all_iff)
  qed
qed

section \<open>The types of the API\<close>

text \<open>Footprint, typing and value of each struct, along its fields.\<close>

definition meta_foot :: "GoObjectMeta foot" where
  "meta_foot h m =
     (pointer_foot get_Labels flat_foot h (gm_Labels m) \<union> slice_foot get_Strings flat_foot h (gm_Finalizers m)) \<union>
     (pointer_foot get_Int64 flat_foot h (gm_DeletionTimestamp m) \<union> slice_foot get_Owners flat_foot h (gm_OwnerReferences m))"

definition meta_typed :: "GoObjectMeta typed" where
  "meta_typed h m \<longleftrightarrow>
     (pointer_typed get_Labels flat_typed h (gm_Labels m) \<and> slice_typed get_Strings flat_typed h (gm_Finalizers m)) \<and>
     (pointer_typed get_Int64 flat_typed h (gm_DeletionTimestamp m) \<and> slice_typed get_Owners flat_typed h (gm_OwnerReferences m))"

definition meta_value :: "memory \<Rightarrow> GoObjectMeta \<Rightarrow> ObjectMeta" where
  "meta_value h m = \<lparr>om_Name = gm_Name m, om_Namespace = gm_Namespace m,
     om_Labels = (case pointer_value get_Labels flat_value h (gm_Labels m) of None \<Rightarrow> Map.empty | Some l \<Rightarrow> l),
     om_Finalizers = slice_value get_Strings flat_value h (gm_Finalizers m),
     om_DeletionTimestamp = pointer_value get_Int64 flat_value h (gm_DeletionTimestamp m),
     om_CreationTimestamp = gm_CreationTimestamp m, om_Generation = gm_Generation m,
     om_OwnerReferences = slice_value get_Owners flat_value h (gm_OwnerReferences m)\<rparr>"

definition list_meta_foot :: "GoListMeta foot" where
  "list_meta_foot h m = pointer_foot get_Int64 flat_foot h (gl_RemainingItemCount m)"

definition list_meta_typed :: "GoListMeta typed" where
  "list_meta_typed h m \<longleftrightarrow> pointer_typed get_Int64 flat_typed h (gl_RemainingItemCount m)"

definition list_meta_value :: "memory \<Rightarrow> GoListMeta \<Rightarrow> string \<times> string \<times> int option" where
  "list_meta_value h m = (gl_ResourceVersion m, gl_Continue m,
     pointer_value get_Int64 flat_value h (gl_RemainingItemCount m))"

definition entry_foot :: "GoDiagnosticEntry foot" where
  "entry_foot h x = pointer_foot get_Int32 flat_foot h (ge_ExitCode x)"

definition entry_typed :: "GoDiagnosticEntry typed" where
  "entry_typed h x = pointer_typed get_Int32 flat_typed h (ge_ExitCode x)"

definition entry_value :: "memory \<Rightarrow> GoDiagnosticEntry \<Rightarrow> DiagnosticEntry" where
  "entry_value h x = \<lparr>de_Component = ge_Component x, de_TaskName = ge_TaskName x, de_StepName = ge_StepName x,
     de_ExitCode = pointer_value get_Int32 flat_value h (ge_ExitCode x), de_Reason = ge_Reason x,
     de_Message = ge_Message x, de_LogTail = ge_LogTail x, de_RemediationHint = ge_RemediationHint x\<rparr>"

definition status_foot :: "GoDeploymentStatus foot" where
  "status_foot h x = slice_foot get_Conditions flat_foot h (gs_Conditions x) \<union>
     slice_foot get_Diagnostics entry_foot h (gs_Diagnostics x)"

definition status_typed :: "GoDeploymentStatus typed" where
  "status_typed h x \<longleftrightarrow> slice_typed get_Conditions flat_typed h (gs_Conditions x) \<and>
     slice_typed get_Diagnostics entry_typed h (gs_Diagnostics x)"

definition status_value :: "memory \<Rightarrow> GoDeploymentStatus \<Rightarrow> DeploymentStatus" where
  "status_value h x = \<lparr>st_Conditions = slice_value get_Conditions flat_value h (gs_Conditions x),
     st_Phase = gs_Phase x, st_Message = gs_Message x, st_PipelineRunName = gs_PipelineRunName x,
     st_FailureCategory = gs_FailureCategory x,
     st_Diagnostics = slice_value get_Diagnostics entry_value h (gs_Diagnostics x)\<rparr>"

definition deployment_foot :: "GoDeployment foot" where
  "deployment_foot h x = meta_foot h (gd_ObjectMeta x) \<union> status_foot h (gd_Status x)"

definition deployment_typed :: "GoDeployment typed" where
  "deployment_typed h x \<longleftrightarrow> meta_typed h (gd_ObjectMeta x) \<and> status_typed h (gd_Status x)"

definition deployment_value :: "memory \<Rightarrow> GoDeployment \<Rightarrow> GoTypeMeta \<times> Deployment" where
  "deployment_value h x = (gd_TypeMeta x, \<lparr>d_Meta = meta_value h (gd_ObjectMeta x), d_Spec = gd_Spec x,
     d_Status = status_value h (gd_Status x)\<rparr>)"

definition list_foot :: "GoDeploymentList foot" where
  "list_foot h x = list_meta_foot h (gi_ListMeta x) \<union> slice_foot get_Deployments deployment_foot h (gi_Items x)"

definition list_typed :: "GoDeploymentList typed" where
  "list_typed h x \<longleftrightarrow> list_meta_typed h (gi_ListMeta x) \<and> slice_typed get_Deployments deployment_typed h (gi_Items x)"

definition list_value :: "memory \<Rightarrow> GoDeploymentList \<Rightarrow> GoTypeMeta \<times> (string \<times> string \<times> int option) \<times> (GoTypeMeta \<times> Deployment) list" where
  "list_value h x = (gi_TypeMeta x, list_meta_value h (gi_ListMeta x),
     slice_value get_Deployments deployment_value h (gi_Items x))"

text \<open>A struct with one field that holds addresses, and with two.\<close>

lemma framed_one:
  assumes "framed foot1 ok1 val1"
    and "\<And>h x. foot h x = foot1 h (f x)" "\<And>h x. ok h x \<longleftrightarrow> ok1 h (f x)" "\<And>h x. val h x = mk (val1 h (f x)) x"
  shows "framed foot ok val"
  unfolding framed_def
proof (intro allI impI)
  fix h h' :: memory and x assume "\<forall>a\<in>foot h x. cells h' a = cells h a"
  then have "foot1 h' (f x) = foot1 h (f x) \<and> ok1 h' (f x) = ok1 h (f x) \<and> val1 h' (f x) = val1 h (f x)"
    by (intro framedD [OF assms(1)], simp add: assms(2))
  then show "foot h' x = foot h x \<and> ok h' x = ok h x \<and> val h' x = val h x"
    by (simp add: assms(2-4))
qed

lemma framed_two:
  assumes "framed foot1 ok1 val1" "framed foot2 ok2 val2"
    and "\<And>h x. foot h x = foot1 h (f x) \<union> foot2 h (g x)"
    and "\<And>h x. ok h x \<longleftrightarrow> ok1 h (f x) \<and> ok2 h (g x)"
    and "\<And>h x. val h x = mk (val1 h (f x)) (val2 h (g x)) x"
  shows "framed foot ok val"
  unfolding framed_def
proof (intro allI impI)
  fix h h' :: memory and x assume "\<forall>a\<in>foot h x. cells h' a = cells h a"
  then have "foot1 h' (f x) = foot1 h (f x) \<and> ok1 h' (f x) = ok1 h (f x) \<and> val1 h' (f x) = val1 h (f x)"
    "foot2 h' (g x) = foot2 h (g x) \<and> ok2 h' (g x) = ok2 h (g x) \<and> val2 h' (g x) = val2 h (g x)"
    by (intro framedD [OF assms(1)] framedD [OF assms(2)], simp add: assms(3))+
  then show "foot h' x = foot h x \<and> ok h' x = ok h x \<and> val h' x = val h x"
    by (simp add: assms(3-5))
qed

lemmas framed_flat_pointer = framed_pointer [OF framed_flat]
lemmas framed_flat_slice = framed_slice [OF framed_flat]

lemma framed_pair:
  "framed foot1 ok1 val1 \<Longrightarrow> framed foot2 ok2 val2 \<Longrightarrow>
     framed (\<lambda>h x. foot1 h (f x) \<union> foot2 h (g x)) (\<lambda>h x. ok1 h (f x) \<and> ok2 h (g x)) (\<lambda>h x. (val1 h (f x), val2 h (g x)))"
  by (erule (1) framed_two) simp_all

lemma framed_meta: "framed meta_foot meta_typed meta_value"
proof (rule framed_one)
  show "framed
    (\<lambda>h m. (pointer_foot get_Labels flat_foot h (gm_Labels m) \<union> slice_foot get_Strings flat_foot h (gm_Finalizers m)) \<union>
       (pointer_foot get_Int64 flat_foot h (gm_DeletionTimestamp m) \<union> slice_foot get_Owners flat_foot h (gm_OwnerReferences m)))
    (\<lambda>h m. (pointer_typed get_Labels flat_typed h (gm_Labels m) \<and> slice_typed get_Strings flat_typed h (gm_Finalizers m)) \<and>
       (pointer_typed get_Int64 flat_typed h (gm_DeletionTimestamp m) \<and> slice_typed get_Owners flat_typed h (gm_OwnerReferences m)))
    (\<lambda>h m. ((pointer_value get_Labels flat_value h (gm_Labels m), slice_value get_Strings flat_value h (gm_Finalizers m)),
       (pointer_value get_Int64 flat_value h (gm_DeletionTimestamp m), slice_value get_Owners flat_value h (gm_OwnerReferences m))))"
    by (intro framed_pair [where f = "\<lambda>m. m" and g = "\<lambda>m. m"] framed_pair
        framed_flat_pointer framed_flat_slice)
  show "meta_value h m = (\<lambda>((l, fs), d, os) m. \<lparr>om_Name = gm_Name m, om_Namespace = gm_Namespace m,
      om_Labels = (case l of None \<Rightarrow> Map.empty | Some l \<Rightarrow> l), om_Finalizers = fs, om_DeletionTimestamp = d,
      om_CreationTimestamp = gm_CreationTimestamp m, om_Generation = gm_Generation m, om_OwnerReferences = os\<rparr>)
    ((pointer_value get_Labels flat_value h (gm_Labels m), slice_value get_Strings flat_value h (gm_Finalizers m)),
     (pointer_value get_Int64 flat_value h (gm_DeletionTimestamp m), slice_value get_Owners flat_value h (gm_OwnerReferences m))) m" for h m
    by (simp add: meta_value_def)
qed (simp_all add: meta_foot_def meta_typed_def)

lemma framed_list_meta: "framed list_meta_foot list_meta_typed list_meta_value"
  by (rule framed_one [OF framed_flat_pointer list_meta_foot_def list_meta_typed_def,
      where mk = "\<lambda>n m. (gl_ResourceVersion m, gl_Continue m, n)"])
    (simp add: list_meta_value_def)

lemma framed_entry: "framed entry_foot entry_typed entry_value"
  by (rule framed_one [OF framed_flat_pointer entry_foot_def entry_typed_def,
      where mk = "\<lambda>n x. \<lparr>de_Component = ge_Component x, de_TaskName = ge_TaskName x, de_StepName = ge_StepName x,
        de_ExitCode = n, de_Reason = ge_Reason x, de_Message = ge_Message x, de_LogTail = ge_LogTail x,
        de_RemediationHint = ge_RemediationHint x\<rparr>"])
    (simp add: entry_value_def)

lemma framed_status: "framed status_foot status_typed status_value"
  by (rule framed_two [OF framed_slice [OF framed_flat] framed_slice [OF framed_entry] status_foot_def status_typed_def,
      where mk = "\<lambda>cs es x. \<lparr>st_Conditions = cs, st_Phase = gs_Phase x, st_Message = gs_Message x,
        st_PipelineRunName = gs_PipelineRunName x, st_FailureCategory = gs_FailureCategory x, st_Diagnostics = es\<rparr>"])
    (simp add: status_value_def)

lemma framed_deployment: "framed deployment_foot deployment_typed deployment_value"
  by (rule framed_two [OF framed_meta framed_status deployment_foot_def deployment_typed_def,
      where mk = "\<lambda>m s x. (gd_TypeMeta x, \<lparr>d_Meta = m, d_Spec = gd_Spec x, d_Status = s\<rparr>)"])
    (simp add: deployment_value_def)

lemma framed_list: "framed list_foot list_typed list_value"
  by (rule framed_two [OF framed_list_meta framed_slice [OF framed_deployment] list_foot_def list_typed_def,
      where mk = "\<lambda>m xs x. (gi_TypeMeta x, m, xs)"])
    (simp add: list_value_def)

section \<open>The generated functions meet the contract\<close>

text \<open>What the library promises of its three copies: they are deep copies, too.\<close>

locale deep_copy_lib =
  fixes L :: copy_lib
  assumes deep_meta: "deep meta_foot meta_typed meta_value (cl_ObjectMeta L)"
    and deep_list_meta: "deep list_meta_foot list_meta_typed list_meta_value (cl_ListMeta L)"
    and deep_condition: "deep flat_foot flat_typed flat_value (cl_Condition L)"

lemma deep_one:
  assumes "deep foot1 ok1 val1 copy1"
    and "\<And>h x. foot h x = foot1 h (f x)" "\<And>h x. ok h x \<longleftrightarrow> ok1 h (f x)" "\<And>h x. val h x = mk (val1 h (f x)) x"
    and "\<And>h x. copy h x = (case copy1 h (f x) of (h', y) \<Rightarrow> (h', put y x))"
    and "\<And>x y. f (put y x) = y" "\<And>v x y. mk v (put y x) = mk v x"
  shows "deep foot ok val copy"
proof (rule deepI)
  fix h x h' y assume "copy h x = (h', y)" "ok h x" "foot h x \<subseteq> {..<limit h}"
  moreover obtain h1 y1 where one: "copy1 h (f x) = (h1, y1)" by fastforce
  ultimately have "h' = h1" "y = put y1 x" "sound foot1 ok1 h (f x)" by (simp_all add: assms sound_def)
  then show "fresh_copy foot ok val h x h' y"
    using deepD [OF assms(1) one] by (simp add: fresh_copy_def assms)
qed

lemma deep_both:
  assumes "deep foot1 ok1 val1 copy1" "deep foot2 ok2 val2 copy2" "framed foot1 ok1 val1" "framed foot2 ok2 val2"
    and "\<And>h x. foot h x = foot1 h (f x) \<union> foot2 h (g x)"
    and "\<And>h x. ok h x \<longleftrightarrow> ok1 h (f x) \<and> ok2 h (g x)"
    and "\<And>h x. val h x = mk (val1 h (f x)) (val2 h (g x)) x"
    and "\<And>h x. copy h x = (case copy1 h (f x) of (h1, y) \<Rightarrow> case copy2 h1 (g x) of (h2, z) \<Rightarrow> (h2, put y z x))"
    and "\<And>x y z. f (put y z x) = y" "\<And>x y z. g (put y z x) = z" "\<And>v w x y z. mk v w (put y z x) = mk v w x"
  shows "deep foot ok val copy"
proof (rule deepI)
  fix h x h' c assume run: "copy h x = (h', c)" and "ok h x" "foot h x \<subseteq> {..<limit h}"
  then have sound: "sound foot1 ok1 h (f x)" "sound foot2 ok2 h (g x)" by (simp_all add: assms sound_def)
  obtain h1 y where one: "copy1 h (f x) = (h1, y)" by fastforce
  obtain h2 z where two: "copy2 h1 (g x) = (h2, z)" by fastforce
  have "h' = h2" "c = put y z x" using run by (simp_all add: assms one two)
  then show "fresh_copy foot ok val h x h' c"
    using deep_two [OF assms(1-4) one two sound] by (simp add: fresh_copy_def assms)
qed

lemma deep_entry: "deep entry_foot entry_typed entry_value DiagnosticEntry_DeepCopyInto"
  by (rule deep_one [OF deep_pointer [OF deep_flat framed_flat get_Int32.simps(1)] entry_foot_def entry_typed_def,
      where put = "\<lambda>p x. x\<lparr>ge_ExitCode := p\<rparr>" and
        mk = "\<lambda>n x. \<lparr>de_Component = ge_Component x, de_TaskName = ge_TaskName x, de_StepName = ge_StepName x,
        de_ExitCode = n, de_Reason = ge_Reason x, de_Message = ge_Message x, de_LogTail = ge_LogTail x,
        de_RemediationHint = ge_RemediationHint x\<rparr>"])
    (simp_all add: entry_value_def DiagnosticEntry_DeepCopyInto_def)

context deep_copy_lib
begin

lemma deep_status: "deep status_foot status_typed status_value (DeploymentStatus_DeepCopyInto L)"
  by (rule deep_both [OF deep_slice [OF deep_condition framed_flat get_Conditions.simps(1)]
      deep_slice [OF deep_entry framed_entry get_Diagnostics.simps(1)] framed_flat_slice framed_slice [OF framed_entry]
      status_foot_def status_typed_def,
      where put = "\<lambda>cs es x. x\<lparr>gs_Conditions := cs, gs_Diagnostics := es\<rparr>" and
        mk = "\<lambda>cs es x. \<lparr>st_Conditions = cs, st_Phase = gs_Phase x, st_Message = gs_Message x,
        st_PipelineRunName = gs_PipelineRunName x, st_FailureCategory = gs_FailureCategory x, st_Diagnostics = es\<rparr>"])
    (simp_all add: status_value_def DeploymentStatus_DeepCopyInto_def)

lemma deep_deployment: "deep deployment_foot deployment_typed deployment_value (Deployment_DeepCopyInto L)"
  by (rule deep_both [OF deep_meta deep_status framed_meta framed_status deployment_foot_def deployment_typed_def,
      where put = "\<lambda>m s x. x\<lparr>gd_ObjectMeta := m, gd_Status := s\<rparr>" and
        mk = "\<lambda>m s x. (gd_TypeMeta x, \<lparr>d_Meta = m, d_Spec = gd_Spec x, d_Status = s\<rparr>)"])
    (simp_all add: deployment_value_def Deployment_DeepCopyInto_def Let_def split: prod.split)

lemma deep_list: "deep list_foot list_typed list_value (DeploymentList_DeepCopyInto L)"
  by (rule deep_both [OF deep_list_meta deep_slice [OF deep_deployment framed_deployment get_Deployments.simps(1)]
      framed_list_meta framed_slice [OF framed_deployment] list_foot_def list_typed_def,
      where put = "\<lambda>m xs x. x\<lparr>gi_ListMeta := m, gi_Items := xs\<rparr>" and
        mk = "\<lambda>m xs x. (gi_TypeMeta x, m, xs)"])
    (simp_all add: list_value_def DeploymentList_DeepCopyInto_def Let_def split: prod.split)

lemma deep_deployment_pointer:
  "deep (pointer_foot get_Deployment deployment_foot) (pointer_typed get_Deployment deployment_typed)
     (pointer_value get_Deployment deployment_value) (Deployment_DeepCopy L)"
  unfolding Deployment_DeepCopy_def
  by (rule deep_pointer [OF deep_deployment framed_deployment get_Deployment.simps(1)])

lemma deep_list_pointer:
  "deep (pointer_foot get_DeploymentList list_foot) (pointer_typed get_DeploymentList list_typed)
     (pointer_value get_DeploymentList list_value) (DeploymentList_DeepCopy L)"
  unfolding DeploymentList_DeepCopy_def
  by (rule deep_pointer [OF deep_list framed_list get_DeploymentList.simps(1)])

end

text \<open>The structs without addresses: the assignments of fields after \<open>*out = *in\<close> change nothing.\<close>

lemma deep_flat_structs:
  "deep flat_foot flat_typed flat_value Ansible_DeepCopyInto"
  "deep flat_foot flat_typed flat_value PostDeployment_DeepCopyInto"
  "deep flat_foot flat_typed flat_value DeploymentSpec_DeepCopyInto"
  "deep flat_foot flat_typed flat_value DeploymentValidator_DeepCopyInto"
proof -
  have "PostDeployment_DeepCopyInto = copy_flat" "DeploymentSpec_DeepCopyInto = copy_flat"
    by (simp_all add: fun_eq_iff PostDeployment_DeepCopyInto_def DeploymentSpec_DeepCopyInto_def copy_flat_def)
  then show "deep flat_foot flat_typed flat_value Ansible_DeepCopyInto"
    "deep flat_foot flat_typed flat_value PostDeployment_DeepCopyInto"
    "deep flat_foot flat_typed flat_value DeploymentSpec_DeepCopyInto"
    "deep flat_foot flat_typed flat_value DeploymentValidator_DeepCopyInto"
    by (simp_all only: Ansible_DeepCopyInto_def DeploymentValidator_DeepCopyInto_def deep_flat)
qed

lemmas deep_struct_pointers =
  deep_flat_structs(1) [THEN deep_pointer, OF framed_flat get_Ansible.simps(1), folded Ansible_DeepCopy_def]
  deep_flat_structs(2) [THEN deep_pointer, OF framed_flat get_PostDeployment.simps(1), folded PostDeployment_DeepCopy_def]
  deep_flat_structs(3) [THEN deep_pointer, OF framed_flat get_DeploymentSpec.simps(1), folded DeploymentSpec_DeepCopy_def]
  deep_flat_structs(4) [THEN deep_pointer, OF framed_flat get_DeploymentValidator.simps(1), folded DeploymentValidator_DeepCopy_def]
  deep_entry [THEN deep_pointer, OF framed_entry get_DiagnosticEntry.simps(1), folded DiagnosticEntry_DeepCopy_def]

section \<open>The library as documented\<close>

text \<open>Copies of the metadata field by field, which show that the contract of the library can be met.\<close>

definition copy_pair :: "'a copier \<Rightarrow> 'b copier \<Rightarrow> ('a \<times> 'b) copier" where
  "copy_pair c1 c2 h p = (let (h1, y) = c1 h (fst p); (h2, z) = c2 h1 (snd p) in (h2, (y, z)))"

definition documented_meta :: "GoObjectMeta copier" where
  "documented_meta h m =
     (let (h1, l, fs) = copy_pair (copy_pointer get_Labels CLabels copy_flat) (copy_slice get_Strings CStrings copy_flat)
            h (gm_Labels m, gm_Finalizers m);
          (h2, d, os) = copy_pair (copy_pointer get_Int64 CInt64 copy_flat) (copy_slice get_Owners COwners copy_flat)
            h1 (gm_DeletionTimestamp m, gm_OwnerReferences m)
      in (h2, m\<lparr>gm_Labels := l, gm_Finalizers := fs, gm_DeletionTimestamp := d, gm_OwnerReferences := os\<rparr>))"

definition documented_list_meta :: "GoListMeta copier" where
  "documented_list_meta h m =
     (let (h1, n) = copy_pointer get_Int64 CInt64 copy_flat h (gl_RemainingItemCount m)
      in (h1, m\<lparr>gl_RemainingItemCount := n\<rparr>))"

definition documented_copies :: copy_lib where
  "documented_copies = \<lparr>cl_ObjectMeta = documented_meta, cl_ListMeta = documented_list_meta, cl_Condition = copy_flat\<rparr>"

lemma deep_pair:
  assumes "deep foot1 ok1 val1 c1" "deep foot2 ok2 val2 c2" "framed foot1 ok1 val1" "framed foot2 ok2 val2"
  shows "deep (\<lambda>h p. foot1 h (fst p) \<union> foot2 h (snd p)) (\<lambda>h p. ok1 h (fst p) \<and> ok2 h (snd p))
     (\<lambda>h p. (val1 h (fst p), val2 h (snd p))) (copy_pair c1 c2)"
  by (rule deep_both [OF assms, where f = fst and g = snd and put = "\<lambda>y z x. (y, z)" and
      mk = "\<lambda>v w x. (v, w)"])
    (simp_all add: copy_pair_def)

lemma deep_documented_meta: "deep meta_foot meta_typed meta_value documented_meta"
  by (rule deep_both [OF
      deep_pair [OF deep_pointer [OF deep_flat framed_flat get_Labels.simps(1)]
        deep_slice [OF deep_flat framed_flat get_Strings.simps(1)] framed_flat_pointer framed_flat_slice]
      deep_pair [OF deep_pointer [OF deep_flat framed_flat get_Int64.simps(1)]
        deep_slice [OF deep_flat framed_flat get_Owners.simps(1)] framed_flat_pointer framed_flat_slice]
      framed_pair [OF framed_flat_pointer framed_flat_slice] framed_pair [OF framed_flat_pointer framed_flat_slice],
      where f = "\<lambda>m. (gm_Labels m, gm_Finalizers m)" and g = "\<lambda>m. (gm_DeletionTimestamp m, gm_OwnerReferences m)" and
        put = "\<lambda>(l, fs) (d, os) m. m\<lparr>gm_Labels := l, gm_Finalizers := fs, gm_DeletionTimestamp := d, gm_OwnerReferences := os\<rparr>" and
        mk = "\<lambda>(l, fs) (d, os) m. \<lparr>om_Name = gm_Name m, om_Namespace = gm_Namespace m,
          om_Labels = (case l of None \<Rightarrow> Map.empty | Some l \<Rightarrow> l), om_Finalizers = fs, om_DeletionTimestamp = d,
          om_CreationTimestamp = gm_CreationTimestamp m, om_Generation = gm_Generation m, om_OwnerReferences = os\<rparr>"])
    (auto simp: meta_foot_def meta_typed_def meta_value_def documented_meta_def split: prod.split)

lemma deep_documented_list_meta: "deep list_meta_foot list_meta_typed list_meta_value documented_list_meta"
  by (rule deep_one [OF deep_pointer [OF deep_flat framed_flat get_Int64.simps(1)] list_meta_foot_def list_meta_typed_def,
      where put = "\<lambda>n m. m\<lparr>gl_RemainingItemCount := n\<rparr>" and mk = "\<lambda>n m. (gl_ResourceVersion m, gl_Continue m, n)"])
    (simp_all add: list_meta_value_def documented_list_meta_def)

interpretation documented_copies: deep_copy_lib documented_copies
  by unfold_locales
    (simp_all add: documented_copies_def deep_documented_meta deep_documented_list_meta deep_flat)

section \<open>Properties\<close>

text \<open>A pointer to a deployment and one to a list: the object it stands for, its memory, and whether
  it is well typed in allocated memory.\<close>

definition deployment_at :: "memory \<Rightarrow> address option \<Rightarrow> (GoTypeMeta \<times> Deployment) option" where
  "deployment_at = pointer_value get_Deployment deployment_value"

definition deployment_memory :: "address option foot" where
  "deployment_memory = pointer_foot get_Deployment deployment_foot"

definition deployment_ok :: "address option typed" where
  "deployment_ok = sound deployment_memory (pointer_typed get_Deployment deployment_typed)"

definition list_at :: "memory \<Rightarrow> address option \<Rightarrow> (GoTypeMeta \<times> (string \<times> string \<times> int option) \<times> (GoTypeMeta \<times> Deployment) list) option" where
  "list_at = pointer_value get_DeploymentList list_value"

definition list_ok :: "address option typed" where
  "list_ok = sound (pointer_foot get_DeploymentList list_foot) (pointer_typed get_DeploymentList list_typed)"

lemma framed_deployment_pointer:
  "framed deployment_memory (pointer_typed get_Deployment deployment_typed) deployment_at"
  unfolding deployment_memory_def deployment_at_def by (rule framed_pointer [OF framed_deployment])

text \<open>Two objects without a common address do not see what is written to each other.\<close>

lemma unseen_write:
  assumes "framed foot ok val" "foot h p \<inter> A = {}" "\<And>a. a \<notin> A \<Longrightarrow> cells h' a = cells h a"
  shows "val h' p = val h p"
  using framedD [OF assms(1), of h p h'] assms(2,3) by blast

text \<open>C33: A deep copy of a deployment equals its original and is separate from it: whatever is
  written later to the memory of the one, the other keeps its value. The original itself is as
  before. So a controller that changes the copy it was given never changes the cache.\<close>

theorem deep_copy_separate:
  assumes "deep_copy_lib L" "deployment_ok h p" "Deployment_DeepCopy L h p = (h', q)"
  shows "deployment_at h' q = deployment_at h p \<and> deployment_at h' p = deployment_at h p \<and>
     (\<forall>h''. (\<forall>a. a \<notin> deployment_memory h p \<longrightarrow> cells h'' a = cells h' a) \<longrightarrow> deployment_at h'' q = deployment_at h p) \<and>
     (\<forall>h''. (\<forall>a. a \<notin> deployment_memory h' q \<longrightarrow> cells h'' a = cells h' a) \<longrightarrow> deployment_at h'' p = deployment_at h p)"
proof -
  note d = deepD [OF deep_copy_lib.deep_deployment_pointer [OF assms(1)] assms(3)
      assms(2) [unfolded deployment_ok_def deployment_memory_def], folded deployment_at_def deployment_memory_def]
  have closed: "deployment_memory h p \<subseteq> {..<limit h}" using assms(2) by (simp add: deployment_ok_def sound_def)
  note still = framed_extends [OF framed_deployment_pointer d(1) closed]
  have apart: "deployment_memory h' q \<inter> deployment_memory h p = {}" using d(2) closed by fastforce
  have "deployment_at h'' q = deployment_at h p"
    if "\<forall>a. a \<notin> deployment_memory h p \<longrightarrow> cells h'' a = cells h' a" for h'' :: memory
    unfolding d(4) [symmetric] using that by (intro unseen_write [OF framed_deployment_pointer apart]) blast
  moreover have "deployment_at h'' p = deployment_at h p"
    if "\<forall>a. a \<notin> deployment_memory h' q \<longrightarrow> cells h'' a = cells h' a" for h'' :: memory
  proof -
    have "deployment_memory h' p \<inter> deployment_memory h' q = {}" using apart still by (simp add: Int_commute)
    then have "deployment_at h'' p = deployment_at h' p"
      using that by (intro unseen_write [OF framed_deployment_pointer]) blast+
    then show ?thesis using still by simp
  qed
  ultimately show ?thesis using d(4) still by blast
qed

text \<open>C34: The deep copy of a list as a \<open>runtime.Object\<close> has the dynamic type of its original, is nil
  exactly for nil, never a typed nil, and in a memory in which every address holds what its type says
  the copy is again well typed and equal to its original.\<close>

theorem deep_copy_typed:
  assumes "deep_copy_lib L" "list_ok h p" "DeploymentList_DeepCopyObject L h p = (h', obj)"
  shows "case obj of
     None \<Rightarrow> p = None
   | Some (ObjDeployment _) \<Rightarrow> False
   | Some (ObjDeploymentList a) \<Rightarrow> p \<noteq> None \<and> list_ok h' (Some a) \<and> list_at h' (Some a) = list_at h p"
proof -
  obtain q where run: "DeploymentList_DeepCopy L h p = (h', q)"
    and obj: "obj = (case q of None \<Rightarrow> None | Some a \<Rightarrow> Some (ObjDeploymentList a))"
    using assms(3) by (auto simp: DeploymentList_DeepCopyObject_def split: prod.splits)
  note d = deepD [OF deep_copy_lib.deep_list_pointer [OF assms(1)] run assms(2) [unfolded list_ok_def]]
  have "p = None \<longleftrightarrow> q = None"
    using assms(2) run
    by (auto simp: DeploymentList_DeepCopy_def copy_pointer_def list_ok_def sound_def pointer_typed_def
      split: option.splits prod.splits)
  then show ?thesis
    using d(2-4) by (auto simp: obj list_ok_def list_at_def sound_def split: option.splits)
qed

text \<open>A list of one deployment with a label and a failed step that ended with exit code 2.\<close>

definition sample_go_deployment :: GoDeployment where
  "sample_go_deployment = \<lparr>gd_TypeMeta = \<lparr>gt_Kind = ''Deployment'', gt_APIVersion = api_version GroupVersion\<rparr>,
     gd_ObjectMeta = \<lparr>gm_Name = ''demo'', gm_Namespace = ''default'', gm_Labels = Some 0, gm_Finalizers = None,
       gm_DeletionTimestamp = None, gm_CreationTimestamp = 0, gm_Generation = 1, gm_OwnerReferences = None\<rparr>,
     gd_Spec = \<lparr>ds_RepoName = ''repo'', ds_Release = ''v1'', ds_Parameters = [],
       ds_Ansible = \<lparr>an_AnsiblePlaybook = [], an_Requirements = []\<rparr>,
       ds_PostDeployment = \<lparr>pd_RepoName = [], pd_Release = [], pd_Parameters = [],
         pd_Ansible = \<lparr>an_AnsiblePlaybook = [], an_Requirements = []\<rparr>\<rparr>\<rparr>,
     gd_Status = \<lparr>gs_Conditions = None, gs_Phase = ''Failed'', gs_Message = [], gs_PipelineRunName = [],
       gs_FailureCategory = ''StepFailed'', gs_Diagnostics = Some 1\<rparr>\<rparr>"

definition sample_memory :: memory where
  "sample_memory = \<lparr>cells = (\<lambda>_. None)
     (0 := Some (CLabels [''team'' \<mapsto> ''itz'']),
      1 := Some (CDiagnostics [\<lparr>ge_Component = ''pod'', ge_TaskName = ''build'', ge_StepName = ''run'',
        ge_ExitCode = Some 2, ge_Reason = ''Error'', ge_Message = [], ge_LogTail = [], ge_RemediationHint = []\<rparr>]),
      2 := Some (CInt32 2),
      3 := Some (CDeployment sample_go_deployment),
      4 := Some (CDeployments [sample_go_deployment]),
      5 := Some (CDeploymentList \<lparr>gi_TypeMeta = \<lparr>gt_Kind = ''DeploymentList'', gt_APIVersion = api_version GroupVersion\<rparr>,
        gi_ListMeta = \<lparr>gl_ResourceVersion = ''7'', gl_Continue = [], gl_RemainingItemCount = None\<rparr>,
        gi_Items = Some 4\<rparr>)), limit = 6\<rparr>"

lemmas sample_copy_defs = sample_memory_def sample_go_deployment_def sound_def deref_def elements_def
  pointer_defs slice_defs flat_defs deployment_foot_def deployment_typed_def meta_foot_def meta_typed_def
  status_foot_def status_typed_def entry_foot_def entry_typed_def list_foot_def list_typed_def
  list_meta_foot_def list_meta_typed_def deployment_memory_def

lemma sample_ok: "deployment_ok sample_memory (Some 3)" "list_ok sample_memory (Some 5)"
  by (simp_all add: deployment_ok_def list_ok_def sample_copy_defs)

text \<open>The exit code of the original is overwritten; the copy keeps the old one.\<close>

lemma deep_copy_separate_witness:
  "case Deployment_DeepCopy documented_copies sample_memory (Some 3) of
     (h', q) \<Rightarrow> deployment_at (write_cell 2 (CInt32 137) h') q = deployment_at sample_memory (Some 3)"
proof -
  obtain h' q where run: "Deployment_DeepCopy documented_copies sample_memory (Some 3) = (h', q)" by fastforce
  have "2 \<in> deployment_memory sample_memory (Some 3)" by (simp add: sample_copy_defs)
  then show ?thesis
    using deep_copy_separate [OF documented_copies.deep_copy_lib_axioms sample_ok(1) run]
    by (auto simp: run cells_store)
qed

lemma deep_copy_typed_witness:
  "case DeploymentList_DeepCopyObject documented_copies sample_memory (Some 5) of
     (h', Some (ObjDeploymentList a)) \<Rightarrow> list_ok h' (Some a) \<and> list_at h' (Some a) = list_at sample_memory (Some 5)
   | _ \<Rightarrow> False"
proof -
  obtain h' obj where run: "DeploymentList_DeepCopyObject documented_copies sample_memory (Some 5) = (h', obj)" by fastforce
  show ?thesis
    using deep_copy_typed [OF documented_copies.deep_copy_lib_axioms sample_ok(2) run]
    by (auto simp: run split: option.splits runtime_object.splits)
qed

end
