(* ===== verification/Spec2Isabelle.thy ===== *)
theory Spec2Isabelle
  imports Admission Workers Metrics Startup Deep_Copy
begin

text \<open>
  A verification library for the ITZ deployer operator, a Kubernetes operator written in Go. It
  watches \<open>Deployment\<close> resources, clones the repository that a resource names, runs it as a Tekton
  pipeline or an Ansible job, reports phase, conditions and diagnostics in the status and on a
  console banner, and creates a follow-up resource after a success. A webhook guards the
  resources, a second controller measures the capacity of the cluster, and a bootstrap prepares
  roles, secrets and Tekton tasks before the manager starts.

  \<^bold>\<open>How the code is modelled.\<close> A Go function without effects is a HOL function of the same name.
  A function with effects is a value of type \<open>'a op\<close> (\<open>Effects\<close>): a state monad over the list of the
  interactions made so far. A call of the API server, the file system, git, HTTP, an IBM service
  or the clock asks the environment \<open>E\<close>, whose answer may depend on the whole history, and records
  the call with its answer; so the theorems hold for every server, with other actors in between
  and with any call failing. A field of \<open>E\<close> stands for a service, a field of \<open>L\<close> (\<open>lib\<close>), \<open>U\<close>
  (\<open>setup_lib\<close>) or \<open>A\<close> (\<open>argo_lib\<close>) for a function of a third-party package. Errors are values: a
  \<open>go_error\<close> in a sum or an option; a nil dereference is the error \<open>nil_deref\<close>. An object that a Go
  function mutates is taken and returned. The theorems have the form \<open>emits m \<Phi>\<close>: in every run of
  \<open>m\<close>, result and interactions satisfy \<open>\<Phi>\<close>.

  \<^bold>\<open>Theories.\<close>
  \<^item> \<open>Operator_Prelude\<close>: errors, the monad, the rules \<open>emit_rules\<close> and \<open>only_rules\<close> that the proofs
    apply backwards over the program text. \<open>Go_Strings\<close>, \<open>Go_Url\<close>: what the code uses of \<open>strings\<close>,
    \<open>fmt\<close>, \<open>path/filepath\<close> and \<open>net/url\<close>. \<open>Api_Types\<close>: \<open>api/v1alpha1/deployment_types.go\<close> and the
    Kubernetes and Tekton objects. \<open>Effects\<close>: environment, interactions, helpers with their laws
    (\<open>kube_lib\<close>). \<open>Samples\<close>: concrete inputs for the witnesses.
  \<^item> \<open>Interfaces\<close>: \<open>pkg/config/config.go\<close>, \<open>pkg/ibm/secret_manager.go\<close>,
    \<open>internal/controller/interfaces.go\<close>. The four Go interfaces are the locales \<open>config_loader\<close>,
    \<open>credential_provider\<close>, \<open>repo_cloner\<close> and \<open>route_resolver\<close>, interpreted on the implementations
    that \<open>cmd/main.go\<close> wires in.
  \<^item> \<open>Webhook\<close>: \<open>api/v1alpha1/deployment_webhook.go\<close>.
  \<^item> \<open>Diagnostics\<close>: \<open>internal/controller/deployment_diagnostics.go\<close>. \<open>Status_Update\<close>, \<open>Ansible_Job\<close>,
    \<open>Tekton_Run\<close>, \<open>Notification\<close>, \<open>Deployment_Reconciler\<close>: \<open>deployment_controller.go\<close>, from the
    status operations over the two backends (locale \<open>backend\<close>) and the banner to \<open>Reconcile\<close>
    (locale \<open>deployment_reconciler\<close>). \<open>Lifecycle\<close>: what any number of reconciliations, interleaved
    with writes of others and cut short anywhere, does to the status of a resource. \<open>Workers\<close>: the
    five workers of \<open>SetupWithManager\<close>, whose runs on different resources interleave. \<open>Admission\<close>:
    webhook and reconciler together over the life of a resource.
  \<^item> \<open>Capacity\<close>: \<open>internal/controller/capacity_controller.go\<close>, with its own interactions;
    \<open>Float64\<close>: the rounding of its ratios. \<open>Metrics\<close>: \<open>pkg/metrics/metrics.go\<close>.
  \<^item> \<open>Deep_Copy\<close>: \<open>api/v1alpha1/zz_generated.deepcopy.go\<close> over an explicit memory, with the copies of
    the apimachinery types as the locale \<open>deep_copy_lib\<close>. It is where the view of objects as values,
    taken everywhere else, is justified.
  \<^item> \<open>Retry\<close>, \<open>Rbac\<close>: \<open>pkg/rbac/rbac.go\<close>; what its callers rely on of the retries is the locale
    \<open>retrying\<close>. \<open>Task_Sync\<close>: \<open>pkg/tasks/sync.go\<close>, with the detour of a document through JSON in
    \<open>Json_Roundtrip\<close>. \<open>Select_Loop\<close> (the loops around a \<open>select\<close>, with timer, tickers and clock),
    \<open>Argo_Types\<close>, \<open>Argo_Instance\<close>, \<open>Argo_Bootstrap\<close>: \<open>pkg/argocd\<close>. \<open>Startup\<close>: \<open>cmd/main.go\<close>.

  \<^bold>\<open>What is shown.\<close> Status: phase, conditions and diagnostics of the stored status stay consistent,
  a final phase stays final, and each backend writes the status that the condition of its run
  calls for. Safety: only living resources with the finalizer get objects, these are owned by
  them and created once; the finalizer goes only after the banner; no clone directory stays.
  Errors: which failures are recorded, returned or both. Webhook: exactly the well-formed
  specifications are admitted and every violation is reported. Diagnostics and parameters: nothing
  is lost or repeated. Capacity: the loops compute the scheduler's formula, rounding never hides or
  feigns an overload, and the stored peak never falls. Memory: a deep copy is well typed, equal to
  its original and separate from it. Bootstrap: what a success guarantees, that a second one changes nothing, that
  its waits end; the manager starts after all of it.

  \<^bold>\<open>Loops and fuel.\<close> Loops over lists are structural recursion. How many attempts the back-off
  library grants a retried operation is the environment's answer. The waits of \<open>pkg/argocd\<close> have
  fuel, one unit for each \<open>select\<close>: \<open>waits_return\<close> shows that 71 + \<open>K\<close> units are enough for the wait
  with the tickers of 10 and 60 seconds and 41 + \<open>K\<close> for that of 15 seconds, under a timer of 600
  seconds that is set once before the loop, if the random choice of \<open>select\<close> passes the timer over at
  most \<open>K\<close> times once it is ready; and that more fuel changes nothing.

  \<^bold>\<open>Not modelled.\<close> Logging; the text of errors of the standard library; the
  text format of the metrics; the registration of controllers, webhook and schemes; manifests and
  tests. YAML and JSON decoders, Kubernetes
  helper packages, quantities and their conversions, the back-off library and the IBM SDK are outside the
  repository and are parameters, with the documented behaviour that a theorem relies on as a locale. Of
  controller-runtime it is taken that no key is with two workers and that no more of them work than
  were asked for (\<open>workers_step\<close>); interleaving with other
  actors is in the environment's answers and in \<open>status_step\<close> of \<open>Lifecycle\<close>.
\<close>

section \<open>Properties\<close>

text \<open>C28: The follow-up resource that the controller creates is admitted by the webhook exactly when the
  repository named for it is more than white space; the controller itself asks only that the name
  is not empty. Everything else the webhook requires follows from the parent having been admitted.\<close>

theorem follow_up_admitted:
  assumes "spec_ok (d_Spec d)" and "post_child d c"
  shows "snd (ValidateCreate L (RDeployment c)) = None \<longleftrightarrow>
    TrimSpace (pd_RepoName (ds_PostDeployment (d_Spec d))) \<noteq> []"
  using assms
  by (auto simp: ValidateCreate_admits post_child_def post_deployment_spec_def PostDeployment0_def spec_ok_def Let_def)

text \<open>A parent whose follow-up repository is a blank.\<close>

definition sample_blank :: Deployment where
  "sample_blank = sample_deployment\<lparr>d_Spec := sample_spec\<lparr>ds_PostDeployment :=
     PostDeployment0\<lparr>pd_RepoName := '' ''\<rparr>\<rparr>\<rparr>"

lemma follow_up_admitted_witness:
  "\<exists>c. post_child sample_blank c \<and> snd (ValidateCreate sample_lib (RDeployment sample_blank)) = None \<and>
     snd (ValidateCreate sample_lib (RDeployment c)) \<noteq> None"
proof -
  define c where "c = (post_deployment sample_blank)\<lparr>d_Meta := (named ''demo-post-deploy'' ''apps'')
     \<lparr>om_OwnerReferences := [\<lparr>or_Kind = ''Deployment'', or_Name = ''demo'', or_Controller = True\<rparr>]\<rparr>\<rparr>"
  have ok: "snd (ValidateCreate sample_lib (RDeployment sample_blank)) = None" by code_simp
  then have "spec_ok (d_Spec sample_blank)" by (simp add: ValidateCreate_admits)
  moreover have "post_child sample_blank c"
    by (simp add: c_def post_child_def post_deployment_def owned_def sample_blank_def sample_deployment_def
        sample_meta_def)
  moreover have "TrimSpace (pd_RepoName (ds_PostDeployment (d_Spec sample_blank))) = []" by code_simp
  ultimately show ?thesis using ok follow_up_admitted [of sample_blank c sample_lib] by blast
qed

end
